(* ===== verification/Json.thy ===== *)
theory Json
  imports Prelude
begin

text \<open>
  JSON values as \<open>serde_json\<close> represents them (with \<open>preserve_order\<close>: an
  object is an insertion-ordered map, here an association list), the accessors
  the engine calls on them, and the record \<open>extern\<close> of the third-party
  functions the engine only calls: their behaviour is a parameter of every
  definition that uses them.
\<close>

section \<open>Values\<close>

text \<open>
  A number is an unsigned 64-bit integer, a negative integer, or a double given
  by its bit pattern.
\<close>

datatype jnum = PosInt u64 | NegInt int | Float u64

datatype json =
    JNull
  | JBool bool
  | JNumber jnum
  | JString string
  | JArray "json list"
  | JObject "(string \<times> json) list"

type_synonym jmap = "(string \<times> json) list"

section \<open>Accessors\<close>

fun as_str :: "json \<Rightarrow> string option" where
  "as_str (JString s) = Some s"
| "as_str _ = None"

fun as_bool :: "json \<Rightarrow> bool option" where
  "as_bool (JBool b) = Some b"
| "as_bool _ = None"

fun as_u64 :: "json \<Rightarrow> u64 option" where
  "as_u64 (JNumber (PosInt n)) = Some n"
| "as_u64 _ = None"

fun as_array :: "json \<Rightarrow> json list option" where
  "as_array (JArray xs) = Some xs"
| "as_array _ = None"

fun as_object :: "json \<Rightarrow> jmap option" where
  "as_object (JObject m) = Some m"
| "as_object _ = None"

fun is_null :: "json \<Rightarrow> bool" where
  "is_null JNull = True"
| "is_null _ = False"

fun is_object :: "json \<Rightarrow> bool" where
  "is_object (JObject _) = True"
| "is_object _ = False"

fun jmap_get :: "jmap \<Rightarrow> string \<Rightarrow> json option" where
  "jmap_get [] k = None"
| "jmap_get ((k', v) # m) k = (if k' = k then Some v else jmap_get m k)"

text \<open>Inserting an existing key keeps its position, a new key goes last.\<close>

fun jmap_insert :: "jmap \<Rightarrow> string \<Rightarrow> json \<Rightarrow> jmap" where
  "jmap_insert [] k v = [(k, v)]"
| "jmap_insert ((k', v') # m) k v = (if k' = k then (k, v) # m else (k', v') # jmap_insert m k v)"

fun json_get :: "json \<Rightarrow> string \<Rightarrow> json option" where
  "json_get (JObject m) k = jmap_get m k"
| "json_get _ k = None"

lemma jmap_get_map_of: "jmap_get m k = map_of m k"
  by (induction m k rule: jmap_get.induct) auto

lemma jmap_get_insert: "jmap_get (jmap_insert m k v) k' = (if k' = k then Some v else jmap_get m k')"
  by (induction m k v rule: jmap_insert.induct) auto

lemma jmap_insert_keys: "set (map fst (jmap_insert m k v)) = insert k (set (map fst m))"
  by (induction m k v rule: jmap_insert.induct) auto

lemma jmap_insert_distinct: "distinct (map fst m) \<Longrightarrow> distinct (map fst (jmap_insert m k v))"
proof (induction m k v rule: jmap_insert.induct)
  case (1 k v)
  show ?case by simp
next
  case (2 k' v' m k v)
  then show ?case using jmap_insert_keys [of m k v] by auto
qed

lemma as_str_Some [simp]: "as_str v = Some s \<longleftrightarrow> v = JString s"
  by (cases v) auto

lemma as_object_Some [simp]: "as_object v = Some m \<longleftrightarrow> v = JObject m"
  by (cases v) auto

lemma as_array_Some [simp]: "as_array v = Some m \<longleftrightarrow> v = JArray m"
  by (cases v) auto

lemma as_u64_Some [simp]: "as_u64 v = Some n \<longleftrightarrow> v = JNumber (PosInt n)"
  by (cases v rule: as_u64.cases) auto

lemma size_json_member: "(k, v) \<in> set m \<Longrightarrow> size v < size (JObject m)"
  by (induction m) auto

lemma size_json_get: "json_get v k = Some w \<Longrightarrow> size w < size v"
  by (cases v) (auto simp: jmap_get_map_of dest!: map_of_SomeD dest: size_json_member simp del: json.size)

lemma size_json_element: "w \<in> set vs \<Longrightarrow> size w < size (JArray vs)"
  by (induction vs) auto

section \<open>Third-party functions\<close>

text \<open>
  \<open>json_display\<close> is \<open>Value::to_string\<close>, \<open>num_display\<close> is the
  \<open>Display\<close> of \<open>serde_json::Number\<close>, \<open>json_parse\<close> is
  \<open>serde_json::from_str::<Value>(..).ok()\<close>, \<open>b64_decode\<close> is the standard
  base64 decoder (\<open>.decode(..).ok()\<close>), \<open>str_debug\<close> is the \<open>{:?}\<close>
  rendering of a string, \<open>table_error\<close> the message of serde when a value
  is no \<open>QualifiedTable\<close>.
\<close>

record extern =
  json_display :: "json \<Rightarrow> string"
  num_display :: "jnum \<Rightarrow> string"
  json_parse :: "string \<Rightarrow> json option"
  b64_decode :: "string \<Rightarrow> string option"
  str_debug :: "string \<Rightarrow> string"
  table_error :: string

end
