(* ===== verification/Ir.thy ===== *)
theory Ir
  imports Json
begin

text \<open>
  The intermediate representation of \<open>crates/ir/src/lib.rs\<close>: the boundary
  between the planner and SQL generation. The non-recursive structs are records;
  the recursive ones are datatypes with one selector per field.
\<close>

record ir_table =
  it_schema :: string
  it_name :: string

datatype scalar = Scalar json

fun scalar_json :: "scalar \<Rightarrow> json" where
  "scalar_json (Scalar v) = v"

type_synonym join_pairs = "(string \<times> string) list"

section \<open>Predicates\<close>

datatype row_function_arg =
    Row
  | SessionJson string
  | ArgValue scalar string

datatype compare_op =
    Eq scalar | Neq scalar | Gt scalar | Lt scalar | Gte scalar | Lte scalar
  | In "scalar list" | Nin "scalar list"
  | Like scalar | Nlike scalar | Ilike scalar | Nilike scalar
  | Similar scalar | Nsimilar scalar
  | Regex scalar | Iregex scalar | Nregex scalar | Niregex scalar
  | IsNull bool
  | CompareColumn (cc_sql_op: string) (cc_column: string) (cc_root: bool)
  | CompareColumnRel (ccr_sql_op: string) (ccr_table: ir_table) (ccr_join: join_pairs) (ccr_column: string)
  | HasKey scalar
  | HasKeysAny "string list" | HasKeysAll "string list"
  | Contains scalar | ContainedIn scalar
  | StOp string scalar
  | StDWithin (std_distance: scalar) (std_from: scalar) (std_three_d: bool)

datatype bool_exp =
    And "bool_exp list"
  | Or "bool_exp list"
  | Not bool_exp
  | Compare string string compare_op
  | Relationship ir_table join_pairs bool_exp
  | ComputedCompare string string "row_function_arg list" string compare_op
  | RowFunctionExists string string "row_function_arg list" bool_exp
  | Exists ir_table bool_exp

section \<open>Queries\<close>

record function_arg_value =
  fav_name :: "string option"
  fav_value :: scalar
  fav_pg_type :: string

datatype from_source =
    FromTable ir_table
  | FromFunction string string "function_arg_value list"
  | FromRowFunction string string "row_function_arg list"

datatype order_direction = Asc | Desc

datatype nulls_order = NullsFirst | NullsLast

datatype order_by_target =
    OrderColumn string
  | OrderRelationship ir_table join_pairs string "bool_exp option"
  | OrderRelationshipAggregate ir_table join_pairs string "string option" "bool_exp option"

record order_by =
  ob_target :: order_by_target
  ob_direction :: order_direction
  ob_nulls :: nulls_order

record aggregate_column =
  ac_alias :: string
  ac_column :: string
  ac_pg_type :: string
  ac_guard :: "bool_exp option"

datatype aggregate_op =
    Count bool "string list"
  | ColumnOp string "aggregate_column list"

record aggregate_field =
  af_alias :: string
  af_op :: aggregate_op

record relay_page =
  rp_size :: u64
  rp_backward :: bool
  rp_has_other_side :: bool

datatype edge_field =
    EdgeCursor string
  | EdgeNode string
  | EdgeTypename string string

datatype connection_field =
    ConnPageInfo string "(string \<times> string) list"
  | ConnEdges string "edge_field list"
  | ConnTypename string string

record remote_join_spec =
  rj_schema :: string
  rj_query :: string
  rj_variables :: "(string \<times> string) list"
  rj_root_field :: string

datatype select_query = SelectQuery
    (sq_from: from_source)
    (sq_fields: "output_field list")
    (sq_predicate: "bool_exp option")
    (sq_order_by: "order_by list")
    (sq_limit: "u64 option")
    (sq_nodes_limit: "u64 option")
    (sq_offset: "u64 option")
    (sq_distinct_on: "string list")
    (sq_single: bool)
and output_field = OutputField (of_alias: string) (of_value: field_value)
and field_value =
    FColumn string string
  | FColumnGuarded string string bool_exp
  | FTypename string
  | FObject select_query join_pairs
  | FArray select_query join_pairs bool
  | FAggregate "aggregate_field list"
  | FNodes "output_field list"
  | FRelayGlobalId string string "(string \<times> string) list"
  | FNestedConnection connection
  | FRemoteJoin remote_join_spec
  | FComputedScalar string string "row_function_arg list" "bool_exp option"
and connection = Connection
    (cn_query: select_query)
    (cn_join: join_pairs)
    (cn_pk: "(string \<times> string) list")
    (cn_schema: string)
    (cn_table: string)
    (cn_fields: "connection_field list")
    (cn_page: "relay_page option")

datatype root_field =
    RSelect string select_query
  | RConnection string connection
  | RTypename string string

section \<open>Mutations\<close>

datatype set_op = SetOp string string scalar | IncOp string string scalar

datatype mutation_response_field =
    AffectedRows string
  | Returning string "output_field list"
  | MTypename string string

datatype mutation_output =
    Response "mutation_response_field list"
  | SingleRow "output_field list"

record on_conflict =
  oc_constraint :: string
  oc_update_columns :: "string list"
  oc_predicate :: "bool_exp option"
  oc_set_ops :: "set_op list"

record insert_mutation =
  im_table :: ir_table
  im_columns :: "(string \<times> string) list"
  im_rows :: "scalar option list list"
  im_on_conflict :: "on_conflict option"
  im_check :: "bool_exp option"
  im_check_path :: string
  im_output :: mutation_output

record update_mutation =
  um_table :: ir_table
  um_sets :: "set_op list"
  um_predicate :: "bool_exp option"
  um_check :: "bool_exp option"
  um_check_path :: string
  um_output :: mutation_output

record delete_mutation =
  dm_table :: ir_table
  dm_predicate :: "bool_exp option"
  dm_output :: mutation_output

datatype mutation_root =
    FunctionCall string select_query
  | Insert string insert_mutation
  | Update string update_mutation
  | Delete string delete_mutation
  | MutTypename string string

lemma sq_fields_size: "size_list size (sq_fields q) < size q"
  by (cases q) simp

lemma cn_query_size: "size (cn_query c) < size c"
  by (cases c) simp

lemma cn_fields_size: "Suc (3 * size_list size (sq_fields (cn_query c))) < 3 * size c"
  using sq_fields_size [of "cn_query c"] cn_query_size [of c] by linarith

end
