(* ===== verification/Sqlgen.thy ===== *)
theory Sqlgen
  imports Ir
begin

text \<open>
  SQL generation, \<open>crates/sqlgen/src/lib.rs\<close>: IR to one Postgres statement.
  The counter \<open>Ctx::next_alias\<close> is threaded explicitly, the flag
  \<open>stringify_numerics\<close> and the external functions are arguments, and each
  \<open>panic!\<close>/\<open>expect\<close> is an \<open>Inl\<close>. \<open>sq\<close> and \<open>dq\<close> are the single
  and the double quote.
\<close>

abbreviation sq :: char where "sq \<equiv> CHR 0x27"
abbreviation dq :: char where "dq \<equiv> CHR 0x22"

definition empty_array :: string where
  "empty_array = [sq] @ ''[]'' @ [sq] @ ''::json''"

section \<open>Quoting and scalars\<close>

definition quote_ident :: "string \<Rightarrow> string" where
  "quote_ident ident = [dq] @ replace_char dq [dq, dq] ident @ [dq]"

definition quote_lit :: "string \<Rightarrow> string" where
  "quote_lit s = [sq] @ replace_char sq [sq, sq] s @ [sq]"

definition qualified_col :: "string \<Rightarrow> string \<Rightarrow> string" where
  "qualified_col alias column = quote_ident alias @ ''.'' @ quote_ident column"

definition b64 :: "string \<Rightarrow> string" where
  "b64 expr = ''replace(encode(convert_to('' @ expr @ '', '' @ [sq] @ ''UTF8'' @ [sq] @ ''), ''
     @ [sq] @ ''base64'' @ [sq] @ ''), chr(10), '' @ [sq, sq] @ '')''"

definition text_array :: "string list \<Rightarrow> string" where
  "text_array items = ''array['' @ join_with '', '' (map quote_lit items) @ '']::text[]''"

definition geometry_sql :: "extern \<Rightarrow> scalar \<Rightarrow> string \<Rightarrow> string" where
  "geometry_sql x value pg_type =
     (let cast = quote_ident pg_type; geo = (\<lambda>s. ''(ST_GeomFromGeoJSON('' @ quote_lit s @ ''))::'' @ cast) in
      case scalar_json value of
        JObject m \<Rightarrow> geo (json_display x (JObject m))
      | JString s \<Rightarrow>
          (if starts_with (trim_start s) ''{'' then geo s
           else ''('' @ quote_lit s @ '')::'' @ cast)
      | other \<Rightarrow> ''('' @ quote_lit (json_display x other) @ '')::'' @ cast)"

definition scalar_sql :: "extern \<Rightarrow> scalar \<Rightarrow> string \<Rightarrow> string" where
  "scalar_sql x scalar pg_type =
     (if pg_type \<in> {''geometry'', ''geography''} \<and> is_object (scalar_json scalar)
      then geometry_sql x scalar pg_type
      else let ty = quote_ident pg_type in
        case scalar_json scalar of
          JNull \<Rightarrow> ''NULL''
        | JBool b \<Rightarrow> (if b then ''TRUE'' else ''FALSE'')
        | JNumber n \<Rightarrow> ''('' @ num_display x n @ '')::'' @ ty
        | JString s \<Rightarrow> ''('' @ quote_lit s @ '')::'' @ ty
        | other \<Rightarrow> ''('' @ quote_lit (json_display x other) @ '')::'' @ ty)"

definition row_function_arg_sql :: "extern \<Rightarrow> row_function_arg \<Rightarrow> string \<Rightarrow> string" where
  "row_function_arg_sql x arg outer_alias =
     (case arg of
        Row \<Rightarrow> quote_ident outer_alias
      | SessionJson json \<Rightarrow> ''('' @ quote_lit json @ '')::json''
      | ArgValue value pg_type \<Rightarrow> scalar_sql x value pg_type)"

definition distinct_clause :: "string list \<Rightarrow> string \<Rightarrow> string" where
  "distinct_clause cols alias =
     (if cols = [] then []
      else ''DISTINCT ON ('' @ join_with '', '' (map (qualified_col alias) cols) @ '') '')"

definition alias_name :: "nat \<Rightarrow> string" where
  "alias_name n = ''_t'' @ nat_str n"

definition table_sql :: "ir_table \<Rightarrow> string" where
  "table_sql t = quote_ident (it_schema t) @ ''.'' @ quote_ident (it_name t)"

definition function_call_sql :: "string \<Rightarrow> string \<Rightarrow> string list \<Rightarrow> string" where
  "function_call_sql schema name rendered =
     quote_ident schema @ ''.'' @ quote_ident name @ ''('' @ join_with '', '' rendered @ '')''"

definition join_conds :: "string \<Rightarrow> string \<Rightarrow> join_pairs \<Rightarrow> string list" where
  "join_conds inner outer join = map (\<lambda>(local, remote). qualified_col inner remote @ '' = '' @ qualified_col outer local) join"

section \<open>Predicates\<close>

definition compare_sql ::
  "extern \<Rightarrow> string \<Rightarrow> string \<Rightarrow> compare_op \<Rightarrow> string \<Rightarrow> string \<Rightarrow> nat \<Rightarrow> string \<times> nat" where
  "compare_sql x col pg_type op alias root n =
     (let lit = (\<lambda>s. scalar_sql x s pg_type);
          bin = (\<lambda>sym v. (col @ sym @ lit v, n))
      in case op of
        Eq v \<Rightarrow> bin '' = '' v
      | Neq v \<Rightarrow> bin '' <> '' v
      | Gt v \<Rightarrow> bin '' > '' v
      | Lt v \<Rightarrow> bin '' < '' v
      | Gte v \<Rightarrow> bin '' >= '' v
      | Lte v \<Rightarrow> bin '' <= '' v
      | In vs \<Rightarrow> (if vs = [] then ''FALSE'' else col @ '' IN ('' @ join_with '', '' (map lit vs) @ '')'', n)
      | Nin vs \<Rightarrow> (if vs = [] then ''TRUE'' else col @ '' NOT IN ('' @ join_with '', '' (map lit vs) @ '')'', n)
      | Like v \<Rightarrow> bin '' LIKE '' v
      | Nlike v \<Rightarrow> bin '' NOT LIKE '' v
      | Ilike v \<Rightarrow> bin '' ILIKE '' v
      | Nilike v \<Rightarrow> bin '' NOT ILIKE '' v
      | Similar v \<Rightarrow> bin '' SIMILAR TO '' v
      | Nsimilar v \<Rightarrow> bin '' NOT SIMILAR TO '' v
      | Regex v \<Rightarrow> bin '' ~ '' v
      | Iregex v \<Rightarrow> bin '' ~* '' v
      | Nregex v \<Rightarrow> bin '' !~ '' v
      | Niregex v \<Rightarrow> bin '' !~* '' v
      | IsNull b \<Rightarrow> (if b then col @ '' IS NULL'' else col @ '' IS NOT NULL'', n)
      | CompareColumn sql_op column use_root \<Rightarrow>
          (col @ '' '' @ sql_op @ '' '' @ qualified_col (if use_root then root else alias) column, n)
      | CompareColumnRel sql_op table join column \<Rightarrow>
          (let ra = alias_name n in
           (col @ '' '' @ sql_op @ '' (SELECT '' @ qualified_col ra column @ '' FROM '' @ table_sql table
              @ '' AS '' @ quote_ident ra @ '' WHERE '' @ join_with '' AND '' (join_conds ra alias join)
              @ '' LIMIT 1)'', Suc n))
      | HasKey v \<Rightarrow> (col @ '' ? '' @ scalar_sql x v ''text'', n)
      | HasKeysAny keys \<Rightarrow> (col @ '' ?| '' @ text_array keys, n)
      | HasKeysAll keys \<Rightarrow> (col @ '' ?& '' @ text_array keys, n)
      | Contains v \<Rightarrow> (col @ '' @> '' @ scalar_sql x v ''jsonb'', n)
      | ContainedIn v \<Rightarrow> (col @ '' <@ '' @ scalar_sql x v ''jsonb'', n)
      | StOp function value \<Rightarrow> (function @ ''('' @ col @ '', '' @ geometry_sql x value pg_type @ '')'', n)
      | StDWithin distance from three_d \<Rightarrow>
          ((if three_d then ''ST_3DDWithin'' else ''ST_DWithin'') @ ''('' @ col @ '', ''
             @ geometry_sql x from pg_type @ '', '' @ scalar_sql x distance ''float8'' @ '')'', n))"

fun bool_exp_sql :: "extern \<Rightarrow> bool_exp \<Rightarrow> string \<Rightarrow> string \<Rightarrow> nat \<Rightarrow> string \<times> nat"
and bool_exps_sql :: "extern \<Rightarrow> bool_exp list \<Rightarrow> string \<Rightarrow> string \<Rightarrow> nat \<Rightarrow> string list \<times> nat" where
  "bool_exp_sql x (And exps) alias root n =
     (if exps = [] then (''TRUE'', n)
      else let (parts, n) = bool_exps_sql x exps alias root n
           in (''('' @ join_with '' AND '' parts @ '')'', n))"
| "bool_exp_sql x (Or exps) alias root n =
     (if exps = [] then (''FALSE'', n)
      else let (parts, n) = bool_exps_sql x exps alias root n
           in (''('' @ join_with '' OR '' parts @ '')'', n))"
| "bool_exp_sql x (Not inner) alias root n =
     (let (s, n) = bool_exp_sql x inner alias root n in (''(NOT '' @ s @ '')'', n))"
| "bool_exp_sql x (Compare column pg_type op) alias root n =
     compare_sql x (qualified_col alias column) pg_type op alias root n"
| "bool_exp_sql x (Relationship table join predicate) alias root n =
     (let ra = alias_name n;
          (p, n) = bool_exp_sql x predicate ra root (Suc n)
      in (''EXISTS (SELECT 1 FROM '' @ table_sql table @ '' AS '' @ quote_ident ra @ '' WHERE ''
            @ join_with '' AND '' (join_conds ra alias join @ [p]) @ '')'', n))"
| "bool_exp_sql x (ComputedCompare schema name args pg_type op) alias root n =
     compare_sql x (function_call_sql schema name (map (\<lambda>a. row_function_arg_sql x a alias) args))
       pg_type op alias root n"
| "bool_exp_sql x (Exists table predicate) alias root n =
     (let ra = alias_name n;
          (p, n) = bool_exp_sql x predicate ra ra (Suc n)
      in (''EXISTS (SELECT 1 FROM '' @ table_sql table @ '' AS '' @ quote_ident ra @ '' WHERE '' @ p @ '')'', n))"
| "bool_exp_sql x (RowFunctionExists schema name args predicate) alias root n =
     (let ra = alias_name n;
          (p, n) = bool_exp_sql x predicate ra root (Suc n)
      in (''EXISTS (SELECT 1 FROM ''
            @ function_call_sql schema name (map (\<lambda>a. row_function_arg_sql x a alias) args)
            @ '' AS '' @ quote_ident ra @ '' WHERE '' @ p @ '')'', n))"
| "bool_exps_sql x [] alias root n = ([], n)"
| "bool_exps_sql x (e # es) alias root n =
     (let (s, n) = bool_exp_sql x e alias root n;
          (ss, n) = bool_exps_sql x es alias root n
      in (s # ss, n))"

section \<open>Selects\<close>

datatype sql_panic = NoEnclosingRow | NonAggregateField | AggregateField

type_synonym outer_join = "join_pairs \<times> string"

definition column_output :: "bool \<Rightarrow> string \<Rightarrow> string \<Rightarrow> string \<Rightarrow> string" where
  "column_output stringify table_alias column pg_type =
     (let col = qualified_col table_alias column in
      if pg_type \<in> {''geometry'', ''geography''} then ''ST_AsGeoJSON('' @ col @ '', 15, 4)::json''
      else if pg_type \<in> {''int8'', ''numeric''} \<and> stringify then ''('' @ col @ '')::text''
      else col)"

definition guarded_sql :: "extern \<Rightarrow> bool_exp option \<Rightarrow> string \<Rightarrow> string \<Rightarrow> nat \<Rightarrow> string \<times> nat" where
  "guarded_sql x guard table_alias expr n =
     (case guard of
        Some g \<Rightarrow> (let (cond, n) = bool_exp_sql x g table_alias table_alias n
                   in (''CASE WHEN '' @ cond @ '' THEN '' @ expr @ '' ELSE NULL END'', n))
      | None \<Rightarrow> (expr, n))"

definition cursor_expr :: "string \<Rightarrow> (string \<times> string) list \<Rightarrow> string" where
  "cursor_expr alias pk =
     (let pairs = map (\<lambda>(col, _). quote_lit ([dq] @ col @ [dq] @ '' : '') @ '' || to_json(''
                        @ qualified_col alias col @ '')::text'') pk;
          body = join_with ('' || '' @ [sq] @ '', '' @ [sq] @ '' || '') pairs
      in b64 ([sq] @ ''{'' @ [sq] @ '' || '' @ body @ '' || '' @ [sq] @ ''}'' @ [sq]))"

definition global_id_expr :: "string \<Rightarrow> string \<Rightarrow> string \<Rightarrow> (string \<times> string) list \<Rightarrow> string" where
  "global_id_expr alias schema table pk =
     (let first = [sq] @ ''[1, '' @ [dq] @ schema @ [dq] @ '', '' @ [dq] @ table @ [dq] @ [sq];
          parts = first # map (\<lambda>(col, _). [sq] @ '', '' @ [sq] @ '' || to_json('' @ qualified_col alias col @ '')::text'') pk
      in b64 (join_with '' || '' parts @ '' || '' @ [sq] @ '']'' @ [sq]))"

definition aggregate_column_sql :: "extern \<Rightarrow> string \<Rightarrow> string \<Rightarrow> aggregate_column \<Rightarrow> nat \<Rightarrow> string \<times> nat" where
  "aggregate_column_sql x op table_alias c n =
     (let (expr, n) = guarded_sql x (ac_guard c) table_alias (qualified_col table_alias (ac_column c)) n
      in (quote_lit (ac_alias c) @ '', '' @ op @ ''('' @ expr @ '')'', n))"

definition aggregate_field_sql :: "extern \<Rightarrow> string \<Rightarrow> aggregate_field \<Rightarrow> nat \<Rightarrow> string \<times> nat" where
  "aggregate_field_sql x table_alias f n =
     (let (value, n) =
        (case af_op f of
           Count dist columns \<Rightarrow>
             (if columns = [] then ''COUNT(*)''
              else let cols = map (qualified_col table_alias) columns;
                       d = (if dist then ''DISTINCT '' else []);
                       expr = (if length cols = 1 then join_with '', '' cols
                               else ''('' @ join_with '', '' cols @ '')'')
                   in ''COUNT('' @ d @ expr @ '')'', n)
         | ColumnOp op columns \<Rightarrow>
             (let (inner, n) = map_count (aggregate_column_sql x op table_alias) columns n
              in (''json_build_object('' @ join_with '', '' inner @ '')'', n)))
      in (quote_lit (af_alias f) @ '', '' @ value, n))"

definition aggregate_json :: "extern \<Rightarrow> aggregate_field list \<Rightarrow> string \<Rightarrow> nat \<Rightarrow> string \<times> nat" where
  "aggregate_json x flds table_alias n =
     (let (pairs, n) = map_count (aggregate_field_sql x table_alias) flds n
      in (''json_build_object('' @ join_with '', '' pairs @ '')'', n))"

definition relationship_conds ::
  "extern \<Rightarrow> string \<Rightarrow> string \<Rightarrow> join_pairs \<Rightarrow> bool_exp option \<Rightarrow> nat \<Rightarrow> string list \<times> nat" where
  "relationship_conds x ra alias join predicate n =
     (case predicate of
        Some pred \<Rightarrow> (let (p, n) = bool_exp_sql x pred ra ra n in (join_conds ra alias join @ [p], n))
      | None \<Rightarrow> (join_conds ra alias join, n))"

definition order_by_sql :: "extern \<Rightarrow> string \<Rightarrow> order_by \<Rightarrow> nat \<Rightarrow> string \<times> nat" where
  "order_by_sql x alias ob n =
     (let (target, n) =
        (case ob_target ob of
           OrderColumn c \<Rightarrow> (qualified_col alias c, n)
         | OrderRelationship table join column predicate \<Rightarrow>
             (let ra = alias_name n; (conds, n) = relationship_conds x ra alias join predicate (Suc n)
              in (''(SELECT '' @ qualified_col ra column @ '' FROM '' @ table_sql table @ '' AS ''
                    @ quote_ident ra @ '' WHERE '' @ join_with '' AND '' conds @ '' LIMIT 1)'', n))
         | OrderRelationshipAggregate table join function column predicate \<Rightarrow>
             (let ra = alias_name n; (conds, n) = relationship_conds x ra alias join predicate (Suc n);
                  agg = (case column of Some c \<Rightarrow> function @ ''('' @ qualified_col ra c @ '')''
                                      | None \<Rightarrow> ''count(*)'')
              in (''(SELECT '' @ agg @ '' FROM '' @ table_sql table @ '' AS ''
                    @ quote_ident ra @ '' WHERE '' @ join_with '' AND '' conds @ '')'', n)));
          dir = (case ob_direction ob of Asc \<Rightarrow> ''ASC'' | Desc \<Rightarrow> ''DESC'');
          nulls = (case ob_nulls ob of NullsFirst \<Rightarrow> ''NULLS FIRST'' | NullsLast \<Rightarrow> ''NULLS LAST'')
      in (target @ '' '' @ dir @ '' '' @ nulls, n))"

definition function_arg_value_sql :: "extern \<Rightarrow> function_arg_value \<Rightarrow> string" where
  "function_arg_value_sql x a =
     (let value = scalar_sql x (fav_value a) (fav_pg_type a) in
      case fav_name a of Some arg_name \<Rightarrow> quote_ident arg_name @ '' => '' @ value | None \<Rightarrow> value)"

definition from_item_sql :: "extern \<Rightarrow> from_source \<Rightarrow> outer_join option \<Rightarrow> sql_panic + string" where
  "from_item_sql x from outer =
     (case from of
        FromTable t \<Rightarrow> Inr (table_sql t)
      | FromFunction schema name args \<Rightarrow>
          Inr (function_call_sql schema name (map (function_arg_value_sql x) args))
      | FromRowFunction schema name args \<Rightarrow>
          (case outer of
             None \<Rightarrow> Inl NoEnclosingRow
           | Some (_, outer_alias) \<Rightarrow>
               Inr (function_call_sql schema name (map (\<lambda>a. row_function_arg_sql x a outer_alias) args))))"

definition where_sql :: "extern \<Rightarrow> bool_exp option \<Rightarrow> string \<Rightarrow> outer_join option \<Rightarrow> nat \<Rightarrow> string \<times> nat" where
  "where_sql x predicate alias outer n =
     (let joins = (case outer of Some (join, outer_alias) \<Rightarrow> join_conds alias outer_alias join | None \<Rightarrow> []);
          (conds, n) = (case predicate of
             Some pred \<Rightarrow> (let (p, n) = bool_exp_sql x pred alias alias n in (joins @ [p], n))
           | None \<Rightarrow> (joins, n))
      in (if conds = [] then [] else '' WHERE '' @ join_with '' AND '' conds, n))"

definition order_sql :: "extern \<Rightarrow> order_by list \<Rightarrow> string \<Rightarrow> nat \<Rightarrow> string \<times> nat" where
  "order_sql x obs alias n =
     (if obs = [] then ([], n)
      else let (items, n) = map_count (order_by_sql x alias) obs n
           in ('' ORDER BY '' @ join_with '', '' items, n))"

definition bound_sql :: "string \<Rightarrow> u64 option \<Rightarrow> string" where
  "bound_sql keyword v = (case v of Some k \<Rightarrow> keyword @ u64_str k | None \<Rightarrow> [])"

definition from_where_order ::
  "extern \<Rightarrow> select_query \<Rightarrow> string \<Rightarrow> outer_join option \<Rightarrow> nat \<Rightarrow> sql_panic + string \<times> nat" where
  "from_where_order x q alias outer n =
     bindR (from_item_sql x (sq_from q) outer) (\<lambda>from_item.
     (let (wh, n) = where_sql x (sq_predicate q) alias outer n;
          (ord, n) = order_sql x (sq_order_by q) alias n
      in Inr (''FROM '' @ from_item @ '' AS '' @ quote_ident alias @ wh @ ord
                @ bound_sql '' LIMIT '' (sq_limit q) @ bound_sql '' OFFSET '' (sq_offset q), n)))"

end
