(* ===== verification/Sqlgen_Select.thy ===== *)
theory Sqlgen_Select
  imports Sqlgen
begin

text \<open>
  The recursive part of SQL generation: row objects, selects, aggregates and
  Relay connections call one another through the nested queries of the IR, and
  a mutation wraps its statement around them.
\<close>

section \<open>Row objects, selects, connections\<close>

fun is_aggregate_value :: "field_value \<Rightarrow> bool" where
  "is_aggregate_value (FAggregate _) = True"
| "is_aggregate_value (FNodes _) = True"
| "is_aggregate_value _ = False"

definition has_aggregate :: "select_query \<Rightarrow> bool" where
  "has_aggregate q \<longleftrightarrow> list_ex (\<lambda>f. is_aggregate_value (of_value f)) (sq_fields q)"

text \<open>The select behind \<open>nodes\<close> when the role has a row limit.\<close>

definition nodes_query :: "select_query \<Rightarrow> u64 \<Rightarrow> output_field list \<Rightarrow> select_query" where
  "nodes_query q nodes_limit flds =
     SelectQuery (sq_from q) flds (sq_predicate q) (sq_order_by q)
       (Some (case sq_limit q of None \<Rightarrow> nodes_limit | Some l \<Rightarrow> min l nodes_limit))
       None (sq_offset q) (sq_distinct_on q) False"

text \<open>
  The row source of a connection: the primary key completes the order, and a
  page fetches one row more than its size.
\<close>

definition orders_column :: "order_by list \<Rightarrow> string \<Rightarrow> bool" where
  "orders_column obs col \<longleftrightarrow> list_ex (\<lambda>ob. ob_target ob = OrderColumn col) obs"

fun complete_order :: "bool \<Rightarrow> (string \<times> string) list \<Rightarrow> order_by list \<Rightarrow> order_by list" where
  "complete_order backward [] obs = obs"
| "complete_order backward ((col, _) # pk) obs =
     complete_order backward pk
       (if orders_column obs col then obs
        else obs @ [\<lparr>ob_target = OrderColumn col,
                     ob_direction = (if backward then Desc else Asc), ob_nulls = NullsLast\<rparr>])"

definition connection_query :: "connection \<Rightarrow> select_query" where
  "connection_query conn =
     (let q = cn_query conn;
          backward = (case cn_page conn of Some p \<Rightarrow> rp_backward p | None \<Rightarrow> False)
      in SelectQuery (sq_from q) (sq_fields q) (sq_predicate q)
           (complete_order backward (cn_pk conn) (sq_order_by q))
           (case cn_page conn of Some p \<Rightarrow> Some (rp_size p + 1) | None \<Rightarrow> sq_limit q)
           (sq_nodes_limit q) (sq_offset q) (sq_distinct_on q) (sq_single q))"

definition page_array :: "relay_page option \<Rightarrow> string \<Rightarrow> string" where
  "page_array page raw =
     (case page of
        None \<Rightarrow> raw
      | Some p \<Rightarrow>
          ''(SELECT coalesce(json_agg(t.e ORDER BY '' @ (if rp_backward p then ''t.i DESC'' else ''t.i ASC'')
            @ ''), '' @ empty_array @ '') FROM json_array_elements('' @ raw
            @ '') WITH ORDINALITY AS t(e, i) WHERE t.i <= '' @ u64_str (rp_size p) @ '')'')"

definition page_info_value :: "relay_page option \<Rightarrow> string \<Rightarrow> string \<Rightarrow> string \<Rightarrow> string" where
  "page_info_value page a has_more name =
     (if name = ''startCursor'' then ''('' @ a @ ''->0->>'' @ [sq] @ ''cursor'' @ [sq] @ '')''
      else if name = ''endCursor'' then
        ''('' @ a @ ''->(json_array_length('' @ a @ '')-1)->>'' @ [sq] @ ''cursor'' @ [sq] @ '')''
      else if name = ''hasNextPage'' then
        (case page of
           Some p \<Rightarrow> (if \<not> rp_backward p then has_more
                      else if rp_has_other_side p then ''true'' else ''false'')
         | None \<Rightarrow> ''false'')
      else if name = ''hasPreviousPage'' then
        (case page of
           Some p \<Rightarrow> (if rp_backward p then has_more
                      else if rp_has_other_side p then ''true'' else ''false'')
         | None \<Rightarrow> ''false'')
      else ''null'')"

definition edge_field_sql :: "edge_field \<Rightarrow> string" where
  "edge_field_sql ef =
     (case ef of
        EdgeCursor alias \<Rightarrow> quote_lit alias @ '', e.value->'' @ [sq] @ ''cursor'' @ [sq]
      | EdgeNode alias \<Rightarrow> quote_lit alias @ '', e.value->'' @ [sq] @ ''node'' @ [sq]
      | EdgeTypename alias value \<Rightarrow> quote_lit alias @ '', '' @ quote_lit value @ ''::text'')"

definition connection_field_sql :: "relay_page option \<Rightarrow> string \<Rightarrow> string \<Rightarrow> connection_field \<Rightarrow> string" where
  "connection_field_sql page a has_more f =
     (case f of
        ConnTypename alias value \<Rightarrow> quote_lit alias @ '', '' @ quote_lit value @ ''::text''
      | ConnPageInfo alias flds \<Rightarrow>
          quote_lit alias @ '', json_build_object('' @ join_with '', ''
            (map (\<lambda>(fa, name). quote_lit fa @ '', '' @ page_info_value page a has_more name) flds) @ '')''
      | ConnEdges alias flds \<Rightarrow>
          quote_lit alias @ '', coalesce((SELECT json_agg(json_build_object(''
            @ join_with '', '' (map edge_field_sql flds) @ '')) FROM json_array_elements('' @ a
            @ '') AS e), '' @ empty_array @ '')'')"

definition connection_sql :: "connection \<Rightarrow> string \<Rightarrow> string \<Rightarrow> string \<Rightarrow> string \<Rightarrow> string" where
  "connection_sql conn arr cursor row_json tail =
     (let raw = quote_ident arr @ ''.a'';
          a = page_array (cn_page conn) raw;
          has_more = ''(json_array_length('' @ raw @ '') > ''
            @ u64_str (case cn_page conn of Some p \<Rightarrow> rp_size p | None \<Rightarrow> - 1) @ '')'';
          pairs = map (connection_field_sql (cn_page conn) a has_more) (cn_fields conn);
          ed = quote_ident (arr @ ''_e'')
      in ''(SELECT json_build_object('' @ join_with '', '' pairs
           @ '') FROM (SELECT coalesce(json_agg(json_build_object('' @ [sq] @ ''cursor'' @ [sq] @ '', '' @ ed
           @ ''.c, '' @ [sq] @ ''node'' @ [sq] @ '', '' @ ed @ ''.n)), '' @ empty_array @ '') AS a FROM (SELECT ''
           @ cursor @ '' AS c, '' @ row_json @ '' AS n '' @ tail @ '') AS '' @ ed @ '') AS '' @ quote_ident arr @ '')'')"

function (sequential)
  select_expr :: "extern \<Rightarrow> bool \<Rightarrow> select_query \<Rightarrow> outer_join option \<Rightarrow> nat \<Rightarrow> sql_panic + string \<times> nat"
and aggregate_expr :: "extern \<Rightarrow> bool \<Rightarrow> select_query \<Rightarrow> outer_join option \<Rightarrow> nat \<Rightarrow> sql_panic + string \<times> nat"
and aggregate_pairs :: "extern \<Rightarrow> bool \<Rightarrow> select_query \<Rightarrow> output_field list \<Rightarrow> outer_join option \<Rightarrow> string \<Rightarrow> nat
      \<Rightarrow> sql_panic + string list \<times> nat"
and aggregate_value :: "extern \<Rightarrow> bool \<Rightarrow> select_query \<Rightarrow> field_value \<Rightarrow> outer_join option \<Rightarrow> string \<Rightarrow> nat
      \<Rightarrow> sql_panic + string \<times> nat"
and row_json :: "extern \<Rightarrow> bool \<Rightarrow> output_field list \<Rightarrow> string \<Rightarrow> nat \<Rightarrow> sql_panic + string \<times> nat"
and row_pairs :: "extern \<Rightarrow> bool \<Rightarrow> output_field list \<Rightarrow> string \<Rightarrow> nat \<Rightarrow> sql_panic + string list \<times> nat"
and field_sql :: "extern \<Rightarrow> bool \<Rightarrow> field_value \<Rightarrow> string \<Rightarrow> nat \<Rightarrow> sql_panic + string \<times> nat"
and connection_expr :: "extern \<Rightarrow> bool \<Rightarrow> connection \<Rightarrow> outer_join option \<Rightarrow> nat \<Rightarrow> sql_panic + string \<times> nat"
where
  "select_expr x st q outer n =
     (if has_aggregate q then aggregate_expr x st q outer n
      else
        let alias = alias_name n in
        bindR (row_json x st (sq_fields q) alias (Suc n)) (\<lambda>(row, n).
        bindR (from_where_order x q alias outer n) (\<lambda>(tail, n).
          let distinct = distinct_clause (sq_distinct_on q) alias in
          if sq_single q then Inr (''(SELECT '' @ distinct @ row @ '' '' @ tail @ '' LIMIT 1)'', n)
          else let e = quote_ident (alias_name n) in
            Inr (''(SELECT coalesce(json_agg('' @ e @ ''.j), '' @ empty_array @ '') FROM (SELECT ''
                   @ distinct @ row @ '' AS j '' @ tail @ '') AS '' @ e @ '')'', Suc n))))"
| "aggregate_expr x st q outer n =
     (let inner_alias = alias_name n in
      bindR (from_where_order x q inner_alias outer (Suc n)) (\<lambda>(tail, n).
        let distinct = distinct_clause (sq_distinct_on q) inner_alias; outer_alias = alias_name n in
        bindR (aggregate_pairs x st q (sq_fields q) outer outer_alias (Suc n)) (\<lambda>(pairs, n).
          Inr (''(SELECT json_build_object('' @ join_with '', '' pairs @ '') FROM (SELECT '' @ distinct @ ''* ''
                 @ tail @ '') AS '' @ quote_ident outer_alias @ '')'', n))))"
| "aggregate_pairs x st q [] outer outer_alias n = Inr ([], n)"
| "aggregate_pairs x st q (OutputField alias v # fs) outer outer_alias n =
     bindR (aggregate_value x st q v outer outer_alias n) (\<lambda>(value, n).
     bindR (aggregate_pairs x st q fs outer outer_alias n) (\<lambda>(pairs, n).
       Inr ((quote_lit alias @ '', '' @ value) # pairs, n)))"
| "aggregate_value x st q (FAggregate flds) outer outer_alias n = Inr (aggregate_json x flds outer_alias n)"
| "aggregate_value x st q (FNodes flds) outer outer_alias n =
     (case sq_nodes_limit q of
        Some nodes_limit \<Rightarrow> select_expr x st (nodes_query q nodes_limit flds) outer n
      | None \<Rightarrow>
          bindR (row_json x st flds outer_alias n) (\<lambda>(row, n).
            Inr (''coalesce(json_agg('' @ row @ ''), '' @ empty_array @ '')'', n)))"
| "aggregate_value x st q (FTypename value) outer outer_alias n =
     Inr (''to_json('' @ quote_lit value @ ''::text)'', n)"
| "aggregate_value x st q _ outer outer_alias n = Inl NonAggregateField"
| "row_json x st flds table_alias n =
     bindR (row_pairs x st flds table_alias n) (\<lambda>(pairs, n).
       Inr (''json_build_object('' @ join_with '', '' pairs @ '')'', n))"
| "row_pairs x st [] table_alias n = Inr ([], n)"
| "row_pairs x st (OutputField alias v # fs) table_alias n =
     bindR (field_sql x st v table_alias n) (\<lambda>(value, n).
     bindR (row_pairs x st fs table_alias n) (\<lambda>(pairs, n).
       Inr ((quote_lit alias @ '', '' @ value) # pairs, n)))"
| "field_sql x st (FColumnGuarded column pg_type guard) table_alias n =
     Inr (guarded_sql x (Some guard) table_alias (column_output st table_alias column pg_type) n)"
| "field_sql x st (FColumn column pg_type) table_alias n =
     Inr (column_output st table_alias column pg_type, n)"
| "field_sql x st (FTypename value) table_alias n = Inr (quote_lit value @ ''::text'', n)"
| "field_sql x st (FObject query join) table_alias n = select_expr x st query (Some (join, table_alias)) n"
| "field_sql x st (FArray query join aggregate) table_alias n = select_expr x st query (Some (join, table_alias)) n"
| "field_sql x st (FRelayGlobalId schema table pk) table_alias n =
     Inr (global_id_expr table_alias schema table pk, n)"
| "field_sql x st (FNestedConnection conn) table_alias n =
     connection_expr x st conn (Some (cn_join conn, table_alias)) n"
| "field_sql x st (FRemoteJoin spec) table_alias n = Inr (''NULL::json'', n)"
| "field_sql x st (FComputedScalar schema name args guard) table_alias n =
     Inr (guarded_sql x guard table_alias
       (function_call_sql schema name (map (\<lambda>a. row_function_arg_sql x a table_alias) args)) n)"
| "field_sql x st (FAggregate flds) table_alias n = Inl AggregateField"
| "field_sql x st (FNodes flds) table_alias n = Inl AggregateField"
| "connection_expr x st conn outer n =
     (let alias = alias_name n in
      bindR (row_json x st (sq_fields (cn_query conn)) alias (Suc n)) (\<lambda>(row, n).
        let cursor = cursor_expr alias (cn_pk conn) in
        bindR (from_where_order x (connection_query conn) alias outer n) (\<lambda>(tail, n).
          let arr = alias_name n in
          Inr (connection_sql conn arr cursor row tail, Suc n))))"
  by pat_completeness auto
termination
  by (relation "measure (case_sum
        (case_sum
          (case_sum (\<lambda>(x, st, q, outer, n). 3 * size_list size (sq_fields q) + 2)
            (\<lambda>(x, st, q, outer, n). 3 * size_list size (sq_fields q) + 1))
          (case_sum (\<lambda>(x, st, q, fs, outer, a, n). 3 * size_list size fs) (\<lambda>(x, st, q, v, outer, a, n). 3 * size v)))
        (case_sum
          (case_sum (\<lambda>(x, st, fs, a, n). 3 * size_list size fs + 1) (\<lambda>(x, st, fs, a, n). 3 * size_list size fs))
          (case_sum (\<lambda>(x, st, v, a, n). 3 * size v) (\<lambda>(x, st, c, outer, n). 3 * size c))))")
    (use sq_fields_size cn_fields_size in \<open>auto simp: nodes_query_def intro: less_trans\<close>)

section \<open>Operations\<close>

definition root_field_sql :: "extern \<Rightarrow> bool \<Rightarrow> root_field \<Rightarrow> nat \<Rightarrow> sql_panic + string \<times> nat" where
  "root_field_sql x st r n =
     (case r of
        RSelect alias query \<Rightarrow>
          bindR (select_expr x st query None n) (\<lambda>(s, n). Inr (quote_lit alias @ '', '' @ s, n))
      | RConnection alias conn \<Rightarrow>
          bindR (connection_expr x st conn None n) (\<lambda>(s, n). Inr (quote_lit alias @ '', '' @ s, n))
      | RTypename alias value \<Rightarrow> Inr (quote_lit alias @ '', '' @ quote_lit value @ ''::text'', n))"

fun root_fields_sql :: "extern \<Rightarrow> bool \<Rightarrow> root_field list \<Rightarrow> nat \<Rightarrow> sql_panic + string list \<times> nat" where
  "root_fields_sql x st [] n = Inr ([], n)"
| "root_fields_sql x st (r # rs) n =
     bindR (root_field_sql x st r n) (\<lambda>(s, n).
     bindR (root_fields_sql x st rs n) (\<lambda>(ss, n). Inr (s # ss, n)))"

definition operation_to_sql_opts :: "extern \<Rightarrow> root_field list \<Rightarrow> bool \<Rightarrow> sql_panic + string" where
  "operation_to_sql_opts x roots stringify_numerics =
     bindR (root_fields_sql x stringify_numerics roots 0) (\<lambda>(pairs, n).
       Inr (''SELECT json_build_object('' @ join_with '', '' pairs @ '') AS root''))"

section \<open>Mutations\<close>

definition mutation_response_field_sql ::
  "extern \<Rightarrow> bool \<Rightarrow> string \<Rightarrow> mutation_response_field \<Rightarrow> nat \<Rightarrow> sql_panic + string \<times> nat" where
  "mutation_response_field_sql x st cte f n =
     (case f of
        AffectedRows alias \<Rightarrow>
          Inr (quote_lit alias @ '', (SELECT count(*) FROM '' @ quote_ident cte @ '')'', n)
      | MTypename alias value \<Rightarrow> Inr (quote_lit alias @ '', '' @ quote_lit value @ ''::text'', n)
      | Returning alias flds \<Rightarrow>
          bindR (row_json x st flds cte n) (\<lambda>(row, n).
            Inr (quote_lit alias @ '', (SELECT coalesce(json_agg('' @ row @ ''), '' @ empty_array @ '') FROM ''
                   @ quote_ident cte @ '')'', n)))"

fun mutation_response_sql ::
  "extern \<Rightarrow> bool \<Rightarrow> string \<Rightarrow> mutation_response_field list \<Rightarrow> nat \<Rightarrow> sql_panic + string list \<times> nat" where
  "mutation_response_sql x st cte [] n = Inr ([], n)"
| "mutation_response_sql x st cte (f # fs) n =
     bindR (mutation_response_field_sql x st cte f n) (\<lambda>(s, n).
     bindR (mutation_response_sql x st cte fs n) (\<lambda>(ss, n). Inr (s # ss, n)))"

definition mutation_output_sql ::
  "extern \<Rightarrow> bool \<Rightarrow> string \<Rightarrow> mutation_output \<Rightarrow> nat \<Rightarrow> sql_panic + string \<times> nat" where
  "mutation_output_sql x st cte output n =
     (case output of
        Response flds \<Rightarrow>
          bindR (mutation_response_sql x st cte flds n) (\<lambda>(pairs, n).
            Inr (''json_build_object('' @ join_with '', '' pairs @ '')'', n))
      | SingleRow flds \<Rightarrow>
          bindR (row_json x st flds cte n) (\<lambda>(row, n).
            Inr (''(SELECT '' @ row @ '' FROM '' @ quote_ident cte @ '' LIMIT 1)'', n)))"

definition check_message :: string where
  "check_message = ''check constraint of an insert/update permission has failed''"

definition check_payload :: "extern \<Rightarrow> string \<Rightarrow> string" where
  "check_payload x check_path =
     json_display x (JObject [(''path'', JString check_path), (''message'', JString check_message)])"

definition mutation_select ::
  "extern \<Rightarrow> bool \<Rightarrow> string \<Rightarrow> string \<Rightarrow> bool_exp option \<Rightarrow> string \<Rightarrow> mutation_output \<Rightarrow> nat \<Rightarrow> sql_panic + string" where
  "mutation_select x st cte dml check check_path output n =
     bindR (mutation_output_sql x st cte output n) (\<lambda>(result, n).
       let guarded = (case check of
              Some c \<Rightarrow>
                (let (cond, n) = bool_exp_sql x c cte cte n;
                     violated = ''(SELECT count(*) FROM '' @ quote_ident cte @ '' WHERE NOT ('' @ cond @ ''))''
                 in ''CASE WHEN '' @ violated @ '' > 0 THEN dist_api.check_violation(''
                    @ quote_lit (check_payload x check_path) @ '') ELSE '' @ result @ '' END'')
            | None \<Rightarrow> result)
       in Inr (''WITH '' @ quote_ident cte @ '' AS ('' @ dml @ '') SELECT '' @ guarded @ '' AS root''))"

definition set_op_sql :: "extern \<Rightarrow> string \<Rightarrow> set_op \<Rightarrow> string" where
  "set_op_sql x inc_base op =
     (case op of
        SetOp column pg_type value \<Rightarrow> quote_ident column @ '' = '' @ scalar_sql x value pg_type
      | IncOp column pg_type value \<Rightarrow>
          quote_ident column @ '' = '' @ inc_base @ quote_ident column @ '' + '' @ scalar_sql x value pg_type)"

definition insert_value_sql :: "extern \<Rightarrow> scalar option \<Rightarrow> string \<times> string \<Rightarrow> string" where
  "insert_value_sql x v c = (case v of None \<Rightarrow> ''DEFAULT'' | Some s \<Rightarrow> scalar_sql x s (snd c))"

definition insert_row_sql :: "extern \<Rightarrow> (string \<times> string) list \<Rightarrow> scalar option list \<Rightarrow> string" where
  "insert_row_sql x cols row =
     ''('' @ join_with '', '' (map (\<lambda>(v, c). insert_value_sql x v c) (zip row cols)) @ '')''"

definition on_conflict_sql :: "extern \<Rightarrow> ir_table \<Rightarrow> on_conflict \<Rightarrow> nat \<Rightarrow> string \<times> nat" where
  "on_conflict_sql x table oc n =
     (if oc_update_columns oc = [] \<and> oc_set_ops oc = [] then
        ('' ON CONFLICT ON CONSTRAINT '' @ quote_ident (oc_constraint oc) @ '' DO NOTHING'', n)
      else
        let sets = map (\<lambda>c. quote_ident c @ '' = EXCLUDED.'' @ quote_ident c) (oc_update_columns oc)
              @ map (set_op_sql x (quote_ident (it_name table) @ ''.'')) (oc_set_ops oc);
            stmt = '' ON CONFLICT ON CONSTRAINT '' @ quote_ident (oc_constraint oc) @ '' DO UPDATE SET ''
              @ join_with '', '' sets
        in case oc_predicate oc of
             Some pred \<Rightarrow>
               (let (cond, n) = bool_exp_sql x pred (it_name table) (it_name table) n
                in (stmt @ '' WHERE '' @ cond, n))
           | None \<Rightarrow> (stmt, n))"

definition insert_dml :: "extern \<Rightarrow> insert_mutation \<Rightarrow> nat \<Rightarrow> string \<times> nat" where
  "insert_dml x ins n =
     (let cols = map (quote_ident \<circ> fst) (im_columns ins);
          rows = map (insert_row_sql x (im_columns ins)) (im_rows ins);
          stmt = ''INSERT INTO '' @ table_sql (im_table ins) @ '' ('' @ join_with '', '' cols @ '') VALUES ''
            @ join_with '', '' rows;
          (conf, n) = (case im_on_conflict ins of
             Some oc \<Rightarrow> on_conflict_sql x (im_table ins) oc n | None \<Rightarrow> ([], n))
      in (stmt @ conf @ '' RETURNING *'', n))"

definition target_where_sql :: "extern \<Rightarrow> bool_exp option \<Rightarrow> string \<Rightarrow> nat \<Rightarrow> string \<times> nat" where
  "target_where_sql x predicate alias n =
     (case predicate of
        Some pred \<Rightarrow> (let (cond, n) = bool_exp_sql x pred alias alias n in ('' WHERE '' @ cond, n))
      | None \<Rightarrow> ([], n))"

definition update_dml :: "extern \<Rightarrow> update_mutation \<Rightarrow> nat \<Rightarrow> string \<times> nat" where
  "update_dml x upd n =
     (let (wh, n) = target_where_sql x (um_predicate upd) ''_upd_target'' n
      in (''UPDATE '' @ table_sql (um_table upd) @ '' AS '' @ quote_ident ''_upd_target'' @ '' SET ''
            @ join_with '', '' (map (set_op_sql x []) (um_sets upd)) @ wh @ '' RETURNING *'', n))"

definition delete_dml :: "extern \<Rightarrow> delete_mutation \<Rightarrow> nat \<Rightarrow> string \<times> nat" where
  "delete_dml x del n =
     (let (wh, n) = target_where_sql x (dm_predicate del) ''_del_target'' n
      in (''DELETE FROM '' @ table_sql (dm_table del) @ '' AS '' @ quote_ident ''_del_target''
            @ wh @ '' RETURNING *'', n))"

definition mutation_to_sql_opts :: "extern \<Rightarrow> mutation_root \<Rightarrow> bool \<Rightarrow> sql_panic + string" where
  "mutation_to_sql_opts x root st =
     (case root of
        MutTypename _ value \<Rightarrow> Inr (''SELECT '' @ quote_lit value @ ''::text AS root'')
      | FunctionCall _ query \<Rightarrow>
          bindR (select_expr x st query None 0) (\<lambda>(s, n). Inr (''SELECT '' @ s @ '' AS root''))
      | Insert _ ins \<Rightarrow>
          (let (stmt, n) = insert_dml x ins 0
           in mutation_select x st ''ins'' stmt (im_check ins) (im_check_path ins) (im_output ins) n)
      | Update _ upd \<Rightarrow>
          (let (stmt, n) = update_dml x upd 0
           in mutation_select x st ''upd'' stmt (um_check upd) (um_check_path upd) (um_output upd) n)
      | Delete _ del \<Rightarrow>
          (let (stmt, n) = delete_dml x del 0
           in mutation_select x st ''del'' stmt None ''$'' (dm_output del) n))"

end
