(* ===== verification/Sql_Lex.thy ===== *)
theory Sql_Lex
  imports Sqlgen
begin

text \<open>
  The lexical structure of a Postgres statement, as far as it decides where
  code ends and data begins: string literals and quoted identifiers with their
  doubled quotes, and everything else character by character. What would let
  data escape from its quotes (an unterminated quote, a comment, a dollar
  quote, a literal with a prefix such as \<open>E'..'\<close>) is the token \<open>TBad\<close>.

  \<open>emits x a\<close> says that \<open>x\<close> is scanned to the tokens \<open>a\<close> whatever
  follows, as long as no quote follows directly; \<open>shape x y\<close> says that two
  texts are scanned to tokens that differ in quoted contents only.
\<close>

section \<open>Scanner\<close>

datatype sql_tok = TStr string | TIdent string | TChar char | TBad

fun read_quoted :: "char \<Rightarrow> string \<Rightarrow> (string \<times> string) option" where
  "read_quoted q [] = None"
| "read_quoted q [c] = (if c = q then Some ([], []) else None)"
| "read_quoted q (c # d # cs) =
     (if c \<noteq> q then map_option (\<lambda>(b, r). (c # b, r)) (read_quoted q (d # cs))
      else if d = q then map_option (\<lambda>(b, r). (q # b, r)) (read_quoted q cs)
      else Some ([], d # cs))"

lemma read_quoted_length: "read_quoted q s = Some (b, r) \<Longrightarrow> length r < length s"
proof (induction q s arbitrary: b r rule: read_quoted.induct)
  case (3 q c d cs)
  then show ?case by (fastforce split: if_splits)
qed (auto split: if_splits)

definition wordc :: "char \<Rightarrow> bool" where
  "wordc c \<longleftrightarrow> (let n = (of_char c :: nat) in
     (48 \<le> n \<and> n \<le> 57) \<or> (65 \<le> n \<and> n \<le> 90) \<or> (97 \<le> n \<and> n \<le> 122) \<or> n = 95 \<or> n = 38 \<or> 128 \<le> n)"

definition starts_quote :: "string \<Rightarrow> bool" where
  "starts_quote s \<longleftrightarrow> (case s of [] \<Rightarrow> False | c # _ \<Rightarrow> c = sq \<or> c = dq)"

definition char_tok :: "char \<Rightarrow> string \<Rightarrow> sql_tok" where
  "char_tok c cs =
     (if c = CHR ''$'' \<or> (wordc c \<and> starts_quote cs)
         \<or> (c = CHR ''-'' \<and> starts_with cs ''-'') \<or> (c = CHR ''/'' \<and> starts_with cs ''*'')
      then TBad else TChar c)"

function sql_scan :: "string \<Rightarrow> sql_tok list" where
  "sql_scan [] = []"
| "sql_scan (c # cs) =
     (if c = sq then (case read_quoted sq cs of None \<Rightarrow> [TBad] | Some (b, r) \<Rightarrow> TStr b # sql_scan r)
      else if c = dq then (case read_quoted dq cs of None \<Rightarrow> [TBad] | Some (b, r) \<Rightarrow> TIdent b # sql_scan r)
      else char_tok c cs # sql_scan cs)"
  by pat_completeness auto
termination
  by (relation "measure length") (auto dest: read_quoted_length)

section \<open>Quoting\<close>

lemma starts_quote_simps [simp]: "starts_quote [] = False" "starts_quote (c # cs) \<longleftrightarrow> c = sq \<or> c = dq"
  by (simp_all add: starts_quote_def)

lemma starts_quote_append: "x \<noteq> [] \<Longrightarrow> starts_quote (x @ y) = starts_quote x"
  by (cases x) auto

lemma read_quoted_replace:
  assumes "\<not> starts_quote t" "q = sq \<or> q = dq"
  shows "read_quoted q (replace_char q [q, q] s @ q # t) = Some (s, t)"
proof (induction s)
  case Nil
  show ?case using assms by (cases t) auto
next
  case (Cons c s)
  show ?case
  proof (cases "c = q")
    case True
    then show ?thesis using Cons by simp
  next
    case False
    then show ?thesis using Cons by (cases "replace_char q [q, q] s @ q # t") auto
  qed
qed

lemma read_quoted_raw:
  assumes "\<not> starts_quote t" "q = sq \<or> q = dq" "q \<notin> set s"
  shows "read_quoted q (s @ q # t) = Some (s, t)"
proof -
  have "replace_char q [q, q] s = s" using assms(3) by (induction s) auto
  then show ?thesis using read_quoted_replace [OF assms(1,2), of s] by simp
qed

lemma lex_quote_lit: "\<not> starts_quote t \<Longrightarrow> sql_scan (quote_lit s @ t) = TStr s # sql_scan t"
  by (simp add: quote_lit_def read_quoted_replace)

lemma lex_quote_ident: "\<not> starts_quote t \<Longrightarrow> sql_scan (quote_ident s @ t) = TIdent s # sql_scan t"
  by (simp add: quote_ident_def read_quoted_replace)

section \<open>Fragments and how they compose\<close>

definition emits :: "string \<Rightarrow> sql_tok list \<Rightarrow> bool" where
  "emits x a \<longleftrightarrow> TBad \<notin> set a \<and> (\<forall>t. \<not> starts_quote t \<longrightarrow> sql_scan (x @ t) = a @ sql_scan t)"

definition emits_open :: "string \<Rightarrow> sql_tok list \<Rightarrow> bool" where
  "emits_open x a \<longleftrightarrow> TBad \<notin> set a \<and> (\<forall>t. sql_scan (x @ t) = a @ sql_scan t)"

fun plain :: "string \<Rightarrow> bool" where
  "plain [] = True"
| "plain [c] \<longleftrightarrow> c \<notin> {sq, dq, CHR ''$'', CHR ''-'', CHR ''/''}"
| "plain (c # d # cs) \<longleftrightarrow> c \<notin> {sq, dq, CHR ''$''} \<and> \<not> (c = CHR ''-'' \<and> d = CHR ''-'')
     \<and> \<not> (c = CHR ''/'' \<and> d = CHR ''*'') \<and> plain (d # cs)"

definition plain_open :: "string \<Rightarrow> bool" where
  "plain_open s \<longleftrightarrow> plain s \<and> (s = [] \<or> \<not> wordc (last s))"

lemma starts_with_char: "starts_with (c # cs) [d] \<longleftrightarrow> c = d" "starts_with [] [d] = False"
  by (simp_all add: starts_with_def)

lemma plain_head: "plain (c # cs) \<Longrightarrow> c \<noteq> sq \<and> c \<noteq> dq \<and> c \<noteq> CHR ''$''"
  by (cases cs) auto

lemma sql_scan_plain:
  assumes "plain s" "\<not> starts_quote t"
  shows "sql_scan (s @ t) = map TChar s @ sql_scan t"
  using assms(1)
proof (induction s rule: plain.induct)
  case (3 c d cs)
  then have "d \<noteq> sq" "d \<noteq> dq" by (auto dest: plain_head)
  with 3 have "char_tok c (d # cs @ t) = TChar c" by (auto simp: char_tok_def starts_with_char)
  moreover have "sql_scan ((d # cs) @ t) = map TChar (d # cs) @ sql_scan t" using 3 by simp
  ultimately show ?case using 3 by (simp del: sql_scan.simps(2) add: sql_scan.simps(2) [of c])
qed (use assms(2) in \<open>auto simp: char_tok_def\<close>)

lemma sql_scan_plain_open:
  assumes "plain s" "s = [] \<or> \<not> wordc (last s)"
  shows "sql_scan (s @ t) = map TChar s @ sql_scan t"
  using assms
proof (induction s rule: plain.induct)
  case (3 c d cs)
  then have "d \<noteq> sq" "d \<noteq> dq" by (auto dest: plain_head)
  with 3 have "char_tok c (d # cs @ t) = TChar c" by (auto simp: char_tok_def starts_with_char)
  moreover have "sql_scan ((d # cs) @ t) = map TChar (d # cs) @ sql_scan t" using 3 by simp
  ultimately show ?case using 3 by (simp del: sql_scan.simps(2) add: sql_scan.simps(2) [of c])
qed (auto simp: char_tok_def)

lemma plain_emits: "plain s \<Longrightarrow> emits s (map TChar s)"
  by (auto simp: emits_def sql_scan_plain)

lemma plain_open_emits: "plain_open s \<Longrightarrow> emits_open s (map TChar s)"
  by (auto simp: emits_open_def plain_open_def sql_scan_plain_open)

lemma quote_lit_emits: "emits (quote_lit s) [TStr s]"
  by (simp add: emits_def lex_quote_lit)

lemma quote_ident_emits: "emits (quote_ident s) [TIdent s]"
  by (simp add: emits_def lex_quote_ident)

lemma raw_lit_emits: "sq \<notin> set s \<Longrightarrow> emits ([sq] @ s @ [sq]) [TStr s]"
  by (simp add: emits_def read_quoted_raw)

lemma emits_append:
  "emits x a \<Longrightarrow> emits y b \<Longrightarrow> y \<noteq> [] \<Longrightarrow> \<not> starts_quote y \<Longrightarrow> emits (x @ y) (a @ b)"
  by (auto simp: emits_def starts_quote_append)

lemma emits_open_append: "emits_open x a \<Longrightarrow> emits y b \<Longrightarrow> emits (x @ y) (a @ b)"
  by (auto simp: emits_def emits_open_def)

lemma emits_lex: "emits x a \<Longrightarrow> sql_scan x = a"
  by (auto simp: emits_def dest: spec [where x = "[]"])

section \<open>Shape\<close>

fun blank_tok :: "sql_tok \<Rightarrow> sql_tok" where
  "blank_tok (TStr _) = TStr []"
| "blank_tok (TIdent _) = TIdent []"
| "blank_tok t = t"

definition skeleton :: "string \<Rightarrow> sql_tok list" where
  "skeleton s = map blank_tok (sql_scan s)"

definition shape :: "string \<Rightarrow> string \<Rightarrow> bool" where
  "shape x y \<longleftrightarrow> (\<exists>a b. emits x a \<and> emits y b \<and> map blank_tok a = map blank_tok b)"

lemma shape_skeleton: "shape x y \<Longrightarrow> skeleton x = skeleton y"
  by (auto simp: shape_def skeleton_def dest: emits_lex)

lemma shape_no_bad: "shape x y \<Longrightarrow> TBad \<notin> set (sql_scan x)"
  by (auto simp: shape_def emits_def dest: spec [where x = "[]"])

lemma shape_plain [sql_shape]: "plain s \<Longrightarrow> shape s s"
  using plain_emits by (auto simp: shape_def)

lemma shape_lit [sql_shape]: "shape (quote_lit s) (quote_lit s')"
  using quote_lit_emits [of s] quote_lit_emits [of s'] by (fastforce simp: shape_def)

lemma shape_ident [sql_shape]: "shape (quote_ident s) (quote_ident s')"
  using quote_ident_emits [of s] quote_ident_emits [of s'] by (fastforce simp: shape_def)

lemma shape_raw_lit: "sq \<notin> set s \<Longrightarrow> sq \<notin> set s' \<Longrightarrow> shape ([sq] @ s @ [sq]) ([sq] @ s' @ [sq])"
  using raw_lit_emits [of s] raw_lit_emits [of s'] by (fastforce simp: shape_def)

lemma shape_append:
  assumes "shape x x'" "shape y y'" "y \<noteq> []" "\<not> starts_quote y" "y' \<noteq> []" "\<not> starts_quote y'"
  shows "shape (x @ y) (x' @ y')"
proof -
  obtain a b where ab: "emits x a" "emits x' b" "map blank_tok a = map blank_tok b"
    using assms(1) by (auto simp: shape_def)
  obtain c d where cd: "emits y c" "emits y' d" "map blank_tok c = map blank_tok d"
    using assms(2) by (auto simp: shape_def)
  have "emits (x @ y) (a @ c)" "emits (x' @ y') (b @ d)"
    using ab cd assms(3-6) by (auto intro: emits_append)
  moreover have "map blank_tok (a @ c) = map blank_tok (b @ d)" using ab cd by simp
  ultimately show ?thesis unfolding shape_def by blast
qed

lemma shape_const: "plain_open k \<Longrightarrow> shape y y' \<Longrightarrow> shape (k @ y) (k @ y')"
  unfolding shape_def
  by (metis emits_open_append map_append plain_open_emits)

text \<open>
  A fragment followed by constant text: \<open>k\<close> starts with no quote and ends
  where a quote may follow.
\<close>

lemma shape_then_const:
  assumes "shape x x'" "shape y y'" "plain_open k" "k \<noteq> []"
  shows "shape (x @ k @ y) (x' @ k @ y')"
proof -
  have "\<not> starts_quote k" using assms(3,4) by (cases k rule: plain.cases) (auto simp: plain_open_def)
  then show ?thesis
    using assms by (intro shape_append shape_const) (auto simp: starts_quote_append)
qed

lemma shape_then_end:
  assumes "shape x x'" "plain k" "k \<noteq> []"
  shows "shape (x @ k) (x' @ k)"
proof -
  have "\<not> starts_quote k" using assms(2,3) by (cases k rule: plain.cases) auto
  then show ?thesis using assms by (intro shape_append shape_plain) auto
qed

lemma shape_surround:
  "plain_open k \<Longrightarrow> shape x x' \<Longrightarrow> plain k' \<Longrightarrow> k' \<noteq> [] \<Longrightarrow> shape (k @ x @ k') (k @ x' @ k')"
  by (intro shape_const shape_then_end)

lemma shape_join:
  assumes "list_all2 shape xs ys" "plain_open sep" "sep \<noteq> []"
  shows "shape (join_with sep xs) (join_with sep ys)"
  using assms
proof (induction sep xs arbitrary: ys rule: join_with.induct)
  case (1 sep)
  then show ?case by (simp add: shape_plain)
next
  case (2 sep x)
  then show ?case by (cases ys) auto
next
  case (3 sep x y zs)
  then obtain x' y' zs' where ys: "ys = x' # y' # zs'" and xx: "shape x x'"
    and rest: "list_all2 shape (y # zs) (y' # zs')"
    by (auto simp: list_all2_Cons1)
  have "shape (join_with sep (y # zs)) (join_with sep (y' # zs'))"
    using "3.IH" [OF rest] "3.prems" by simp
  then have "shape (x @ sep @ join_with sep (y # zs)) (x' @ sep @ join_with sep (y' # zs'))"
    using xx "3.prems" by (intro shape_then_const)
  then show ?case using ys by simp
qed

lemma list_all2_shape_map: "(\<And>c. c \<in> set xs \<Longrightarrow> shape (f c) (g c)) \<Longrightarrow> list_all2 shape (map f xs) (map g xs)"
  by (induction xs) auto

end
