(* ===== verification/Sql_Shape.thy ===== *)
theory Sql_Shape
  imports Sqlgen_Select Sql_Lex
begin

text \<open>
  Data never becomes code: the SQL of an operation and the SQL of the same
  operation with every literal and every identifier blanked are scanned to the
  same token skeleton. \<open>blank_*\<close> removes the contents of what the generator
  quotes, and keeps what selects a branch of the generator (the Postgres type,
  the leading brace of a GeoJSON string, numbers, booleans); \<open>*_raw_ok\<close>
  names the strings the generator inserts without quoting them.
\<close>

lemmas plain_eval = plain_open_def wordc_def

section \<open>Blanking predicates\<close>

fun blank_json :: "json \<Rightarrow> json" where
  "blank_json (JString s) = JString (if starts_with (trim_start s) ''{'' then ''{'' else [])"
| "blank_json (JArray _) = JArray []"
| "blank_json (JObject _) = JObject []"
| "blank_json v = v"

definition blank_scalar :: "scalar \<Rightarrow> scalar" where
  "blank_scalar s = Scalar (blank_json (scalar_json s))"

definition blank_table :: "ir_table \<Rightarrow> ir_table" where
  "blank_table t = \<lparr>it_schema = [], it_name = []\<rparr>"

definition blank_pairs :: "(string \<times> string) list \<Rightarrow> (string \<times> string) list" where
  "blank_pairs = map (\<lambda>_. ([], []))"

definition blank_strings :: "string list \<Rightarrow> string list" where
  "blank_strings = map (\<lambda>_. [])"

fun blank_row_arg :: "row_function_arg \<Rightarrow> row_function_arg" where
  "blank_row_arg Row = Row"
| "blank_row_arg (SessionJson _) = SessionJson []"
| "blank_row_arg (ArgValue v ty) = ArgValue (blank_scalar v) ty"

fun blank_op :: "compare_op \<Rightarrow> compare_op" where
  "blank_op (CompareColumn sql_op column root) = CompareColumn sql_op [] root"
| "blank_op (CompareColumnRel sql_op table join column) =
     CompareColumnRel sql_op (blank_table table) (blank_pairs join) []"
| "blank_op (HasKeysAny keys) = HasKeysAny (blank_strings keys)"
| "blank_op (HasKeysAll keys) = HasKeysAll (blank_strings keys)"
| "blank_op (In vs) = In (map blank_scalar vs)"
| "blank_op (Nin vs) = Nin (map blank_scalar vs)"
| "blank_op (Eq v) = Eq (blank_scalar v)"
| "blank_op (Neq v) = Neq (blank_scalar v)"
| "blank_op (Gt v) = Gt (blank_scalar v)"
| "blank_op (Lt v) = Lt (blank_scalar v)"
| "blank_op (Gte v) = Gte (blank_scalar v)"
| "blank_op (Lte v) = Lte (blank_scalar v)"
| "blank_op (Like v) = Like (blank_scalar v)"
| "blank_op (Nlike v) = Nlike (blank_scalar v)"
| "blank_op (Ilike v) = Ilike (blank_scalar v)"
| "blank_op (Nilike v) = Nilike (blank_scalar v)"
| "blank_op (Similar v) = Similar (blank_scalar v)"
| "blank_op (Nsimilar v) = Nsimilar (blank_scalar v)"
| "blank_op (Regex v) = Regex (blank_scalar v)"
| "blank_op (Iregex v) = Iregex (blank_scalar v)"
| "blank_op (Nregex v) = Nregex (blank_scalar v)"
| "blank_op (Niregex v) = Niregex (blank_scalar v)"
| "blank_op (IsNull b) = IsNull b"
| "blank_op (HasKey v) = HasKey (blank_scalar v)"
| "blank_op (Contains v) = Contains (blank_scalar v)"
| "blank_op (ContainedIn v) = ContainedIn (blank_scalar v)"
| "blank_op (StOp f v) = StOp f (blank_scalar v)"
| "blank_op (StDWithin d v b) = StDWithin (blank_scalar d) (blank_scalar v) b"

fun blank_exp :: "bool_exp \<Rightarrow> bool_exp" where
  "blank_exp (And es) = And (map blank_exp es)"
| "blank_exp (Or es) = Or (map blank_exp es)"
| "blank_exp (Not e) = Not (blank_exp e)"
| "blank_exp (Compare column ty op) = Compare [] ty (blank_op op)"
| "blank_exp (Relationship t join e) = Relationship (blank_table t) (blank_pairs join) (blank_exp e)"
| "blank_exp (ComputedCompare s n args ty op) = ComputedCompare [] [] (map blank_row_arg args) ty (blank_op op)"
| "blank_exp (RowFunctionExists s n args e) = RowFunctionExists [] [] (map blank_row_arg args) (blank_exp e)"
| "blank_exp (Exists t e) = Exists (blank_table t) (blank_exp e)"

fun op_raw_ok :: "compare_op \<Rightarrow> bool" where
  "op_raw_ok (CompareColumn sql_op _ _) = plain sql_op"
| "op_raw_ok (CompareColumnRel sql_op _ _ _) = plain sql_op"
| "op_raw_ok (StOp function _) = plain function"
| "op_raw_ok _ = True"

fun exp_raw_ok :: "bool_exp \<Rightarrow> bool" where
  "exp_raw_ok (And es) = list_all exp_raw_ok es"
| "exp_raw_ok (Or es) = list_all exp_raw_ok es"
| "exp_raw_ok (Not e) = exp_raw_ok e"
| "exp_raw_ok (Compare _ _ op) = op_raw_ok op"
| "exp_raw_ok (Relationship _ _ e) = exp_raw_ok e"
| "exp_raw_ok (ComputedCompare _ _ _ _ op) = op_raw_ok op"
| "exp_raw_ok (RowFunctionExists _ _ _ e) = exp_raw_ok e"
| "exp_raw_ok (Exists _ e) = exp_raw_ok e"

text \<open>What is relied on: the text of a number has no quotes and no comment in it.\<close>

definition numbers_plain :: "extern \<Rightarrow> bool" where
  "numbers_plain x \<longleftrightarrow> (\<forall>n. plain (num_display x n) \<and> num_display x n \<noteq> [])"

section \<open>Shape of the fragments of a predicate\<close>

lemma shape_qualified [sql_shape]: "shape (qualified_col a c) (qualified_col a' c')"
  unfolding qualified_col_def
  by (intro shape_then_const shape_ident) (simp_all add: plain_eval)

lemma shape_table [sql_shape]: "shape (table_sql t) (table_sql t')"
  unfolding table_sql_def
  by (intro shape_then_const shape_ident) (simp_all add: plain_eval)

lemma shape_cast_lit [sql_shape]: "shape (''('' @ quote_lit s @ '')::'' @ quote_ident ty) (''('' @ quote_lit s' @ '')::'' @ quote_ident ty)"
  by (intro shape_const shape_then_const shape_lit shape_ident) (simp_all add: plain_eval)

lemma shape_geometry [sql_shape]: "shape (geometry_sql x v ty) (geometry_sql x (blank_scalar v) ty)"
proof -
  have geo: "shape (''(ST_GeomFromGeoJSON('' @ quote_lit s @ ''))::'' @ quote_ident ty)
               (''(ST_GeomFromGeoJSON('' @ quote_lit s' @ ''))::'' @ quote_ident ty)" for s s'
    by (intro shape_const shape_then_const shape_lit shape_ident) (simp_all add: plain_eval)
  show ?thesis
    by (cases v; rename_tac j; case_tac j)
      (use geo shape_cast_lit in \<open>auto simp: geometry_sql_def blank_scalar_def Let_def
         starts_with_def trim_start_def is_space_def\<close>)
qed

lemma shape_scalar [sql_shape]:
  assumes "numbers_plain x"
  shows "shape (scalar_sql x v ty) (scalar_sql x (blank_scalar v) ty)"
proof (cases v)
  case (Scalar j)
  have geom: "shape (geometry_sql x (Scalar (JObject m)) ty) (geometry_sql x (Scalar (JObject [])) ty)" for m
    using shape_geometry [of x "Scalar (JObject m)" ty] by (simp add: blank_scalar_def)
  have num: "shape (''('' @ num_display x n @ '')::'' @ quote_ident ty) (''('' @ num_display x n @ '')::'' @ quote_ident ty)" for n
    by (rule shape_const [OF _ shape_then_const [OF shape_plain shape_ident]])
      (use assms in \<open>auto simp: plain_eval numbers_plain_def\<close>)
  show ?thesis
    using Scalar geom num shape_cast_lit
    by (cases j) (auto simp: scalar_sql_def blank_scalar_def Let_def intro: shape_plain)
qed

lemma shape_text_array [sql_shape]: "shape (text_array ks) (text_array (blank_strings ks))"
  unfolding text_array_def blank_strings_def
  by (intro shape_surround shape_join) (auto simp: plain_eval list_all2_map1 list_all2_map2 list.rel_refl shape_lit intro: list_all2_refl)

lemma shape_row_arg [sql_shape]:
  assumes "numbers_plain x"
  shows "shape (row_function_arg_sql x a o1) (row_function_arg_sql x (blank_row_arg a) o2)"
proof (cases a)
  case (SessionJson s)
  have "shape (''('' @ quote_lit s @ '')::json'') (''('' @ quote_lit [] @ '')::json'')"
    by (intro shape_surround shape_lit) (simp_all add: plain_eval)
  then show ?thesis using SessionJson by (simp add: row_function_arg_sql_def)
qed (use assms in \<open>auto simp: row_function_arg_sql_def intro: shape_ident shape_scalar\<close>)

lemma shape_call [sql_shape]:
  "list_all2 shape as bs \<Longrightarrow> shape (function_call_sql s n as) (function_call_sql s' n' bs)"
  unfolding function_call_sql_def
  by (intro shape_then_const shape_then_end shape_join shape_ident) (simp_all add: plain_eval)

lemma shape_row_call [sql_shape]:
  "numbers_plain x \<Longrightarrow>
   shape (function_call_sql s n (map (\<lambda>a. row_function_arg_sql x a o1) args))
     (function_call_sql s' n' (map (\<lambda>a. row_function_arg_sql x a o2) (map blank_row_arg args)))"
  by (intro shape_call) (auto simp: comp_def intro: list_all2_shape_map shape_row_arg)

lemma shape_join_conds [sql_shape]: "list_all2 shape (join_conds i o1 j) (join_conds i' o2 (blank_pairs j))"
proof -
  have "shape (qualified_col i r @ '' = '' @ qualified_col o1 l) (qualified_col i' [] @ '' = '' @ qualified_col o2 [])" for l r
    by (intro shape_then_const shape_qualified) (simp_all add: plain_eval)
  then show ?thesis
    by (auto simp: join_conds_def blank_pairs_def comp_def case_prod_beta intro: list_all2_shape_map)
qed

lemma shape_lits:
  assumes "numbers_plain x"
  shows "list_all2 shape (map (\<lambda>s. scalar_sql x s ty) vs) (map (\<lambda>s. scalar_sql x s ty) (map blank_scalar vs))"
  by (auto simp: comp_def intro: list_all2_shape_map shape_scalar [OF assms])

lemma shape_paren_list:
  assumes "shape c c'" "list_all2 shape xs ys" "plain_open k" "k \<noteq> []"
  shows "shape (c @ k @ join_with '', '' xs @ '')'') (c' @ k @ join_with '', '' ys @ '')'')"
  using assms by (intro shape_then_const shape_then_end shape_join) (simp_all add: plain_eval)

lemma shape_column_ref:
  assumes "shape col col'" "plain sql_op" "shape y y'"
  shows "shape (col @ '' '' @ sql_op @ '' '' @ y) (col' @ '' '' @ sql_op @ '' '' @ y')"
  by (rule shape_then_const [OF assms(1) shape_then_const [OF shape_plain [OF assms(2)] assms(3)]])
    (simp_all add: plain_eval)

lemma shape_column_rel:
  assumes "shape col col'" "plain sql_op"
  shows "shape
    (col @ '' '' @ sql_op @ '' (SELECT '' @ qualified_col r c @ '' FROM '' @ table_sql t
       @ '' AS '' @ quote_ident r @ '' WHERE '' @ join_with '' AND '' (join_conds r a j) @ '' LIMIT 1)'')
    (col' @ '' '' @ sql_op @ '' (SELECT '' @ qualified_col r' [] @ '' FROM '' @ table_sql (blank_table t)
       @ '' AS '' @ quote_ident r' @ '' WHERE '' @ join_with '' AND '' (join_conds r' a' (blank_pairs j)) @ '' LIMIT 1)'')"
proof -
  have "shape (qualified_col r c @ '' FROM '' @ table_sql t @ '' AS '' @ quote_ident r @ '' WHERE ''
           @ join_with '' AND '' (join_conds r a j) @ '' LIMIT 1)'')
         (qualified_col r' [] @ '' FROM '' @ table_sql (blank_table t) @ '' AS '' @ quote_ident r' @ '' WHERE ''
           @ join_with '' AND '' (join_conds r' a' (blank_pairs j)) @ '' LIMIT 1)'')"
    by (intro shape_then_const shape_then_end shape_join shape_join_conds shape_ident shape_table shape_qualified)
      (simp_all add: plain_eval)
  then show ?thesis
    by (intro shape_then_const [OF assms(1) shape_then_const [OF shape_plain [OF assms(2)]]])
      (simp_all add: plain_eval)
qed

lemma shape_st_call:
  assumes "plain f" "shape col col'" "shape y y'"
  shows "shape (f @ ''('' @ col @ '', '' @ y @ '')'') (f @ ''('' @ col' @ '', '' @ y' @ '')'')"
  by (rule shape_then_const [OF shape_plain [OF assms(1)]
        shape_then_const [OF assms(2) shape_then_end [OF assms(3)]]]) (simp_all add: plain_eval)

lemma shape_compare:
  assumes x: "numbers_plain x" and col: "shape col col'" and ok: "op_raw_ok op"
  shows "shape (fst (compare_sql x col ty op a r n)) (fst (compare_sql x col' ty (blank_op op) a' r' n'))"
proof -
  note bin = shape_then_const [OF col shape_scalar [OF x]]
  note keys = shape_then_const [OF col shape_text_array]
  show ?thesis
  proof (cases op)
    case (In vs)
    then show ?thesis
      using shape_paren_list [OF col shape_lits [OF x], of "'' IN (''" ty vs]
      by (auto simp: compare_sql_def plain_eval shape_plain)
  next
    case (Nin vs)
    then show ?thesis
      using shape_paren_list [OF col shape_lits [OF x], of "'' NOT IN (''" ty vs]
      by (auto simp: compare_sql_def plain_eval shape_plain)
  next
    case (IsNull b)
    then show ?thesis
      using shape_then_end [OF col, of "'' IS NULL''"] shape_then_end [OF col, of "'' IS NOT NULL''"]
      by (auto simp: compare_sql_def)
  next
    case (CompareColumn sql_op column root)
    then show ?thesis
      using shape_column_ref [OF col _ shape_qualified] ok by (auto simp: compare_sql_def)
  next
    case (CompareColumnRel sql_op table join column)
    then show ?thesis
      using shape_column_rel [OF col, of sql_op] ok by (auto simp: compare_sql_def Let_def)
  next
    case (StOp f v)
    then show ?thesis
      using shape_st_call [OF _ col shape_geometry, of f] ok by (auto simp: compare_sql_def)
  next
    case (StDWithin d v b)
    have arg: "shape (geometry_sql x v ty @ '', '' @ scalar_sql x d ''float8'')
            (geometry_sql x (blank_scalar v) ty @ '', '' @ scalar_sql x (blank_scalar d) ''float8'')"
      by (intro shape_then_const shape_geometry shape_scalar x) (simp_all add: plain_eval)
    show ?thesis
      using StDWithin shape_st_call [OF _ col arg, of "if b then ''ST_3DDWithin'' else ''ST_DWithin''"]
      by (auto simp: compare_sql_def)
  qed (simp_all only: compare_sql_def Let_def compare_op.case blank_op.simps fst_conv,
       (rule bin keys; simp add: plain_eval)+)
qed

lemma shape_exists:
  assumes "shape f f'" "list_all2 shape conds conds'"
  shows "shape
    (''EXISTS (SELECT 1 FROM '' @ f @ '' AS '' @ quote_ident r @ '' WHERE '' @ join_with '' AND '' conds @ '')'')
    (''EXISTS (SELECT 1 FROM '' @ f' @ '' AS '' @ quote_ident r' @ '' WHERE '' @ join_with '' AND '' conds' @ '')'')"
  using assms
  by (intro shape_const shape_then_const shape_then_end shape_join shape_ident) (simp_all add: plain_eval)

lemma shape_bool_exps:
  assumes "\<And>e a r n a' r' n'. e \<in> set es \<Longrightarrow>
    shape (fst (bool_exp_sql x e a r n)) (fst (bool_exp_sql x (blank_exp e) a' r' n'))"
  shows "list_all2 shape (fst (bool_exps_sql x es a r n)) (fst (bool_exps_sql x (map blank_exp es) a' r' n'))"
  using assms
proof (induction es arbitrary: n n')
  case Nil
  show ?case by simp
next
  case (Cons e es)
  then show ?case by (simp add: Let_def case_prod_beta)
qed

lemma shape_conn:
  assumes "list_all2 shape ps qs" "plain_open k" "k \<noteq> []"
  shows "shape (''('' @ join_with k ps @ '')'') (''('' @ join_with k qs @ '')'')"
  using assms by (intro shape_surround shape_join) (simp_all add: plain_eval)

lemma shape_bool_exp:
  assumes x: "numbers_plain x" and "exp_raw_ok e"
  shows "shape (fst (bool_exp_sql x e a r n)) (fst (bool_exp_sql x (blank_exp e) a' r' n'))"
  using assms(2)
proof (induction e arbitrary: a r n a' r' n')
  case (And es)
  then have "list_all2 shape (fst (bool_exps_sql x es a r n)) (fst (bool_exps_sql x (map blank_exp es) a' r' n'))"
    by (intro shape_bool_exps) (auto simp: list_all_iff)
  from shape_conn [OF this, of "'' AND ''"] show ?case
    by (auto simp: Let_def case_prod_beta plain_eval intro: shape_plain)
next
  case (Or es)
  then have "list_all2 shape (fst (bool_exps_sql x es a r n)) (fst (bool_exps_sql x (map blank_exp es) a' r' n'))"
    by (intro shape_bool_exps) (auto simp: list_all_iff)
  from shape_conn [OF this, of "'' OR ''"] show ?case
    by (auto simp: Let_def case_prod_beta plain_eval intro: shape_plain)
next
  case (Not e)
  then have "shape (''(NOT '' @ fst (bool_exp_sql x e a r n) @ '')'')
      (''(NOT '' @ fst (bool_exp_sql x (blank_exp e) a' r' n') @ '')'')"
    by (intro shape_surround) (simp_all add: plain_eval)
  then show ?case by (simp add: Let_def case_prod_beta)
next
  case (Compare c ty op)
  then show ?case using shape_compare [OF x shape_qualified] by simp
next
  case (Relationship t j e)
  then have "list_all2 shape (join_conds (alias_name n) a j @ [fst (bool_exp_sql x e (alias_name n) r (Suc n))])
    (join_conds (alias_name n') a' (blank_pairs j) @ [fst (bool_exp_sql x (blank_exp e) (alias_name n') r' (Suc n'))])"
    by (intro list_all2_appendI shape_join_conds) auto
  from shape_exists [OF shape_table this] show ?case by (simp add: Let_def case_prod_beta)
next
  case (ComputedCompare s nm args ty op)
  then show ?case using shape_compare [OF x shape_row_call [OF x]] by simp
next
  case (RowFunctionExists s nm args e)
  then have "list_all2 shape [fst (bool_exp_sql x e (alias_name n) r (Suc n))]
     [fst (bool_exp_sql x (blank_exp e) (alias_name n') r' (Suc n'))]" by simp
  from shape_exists [OF shape_row_call [OF x, of s nm a args "[]" "[]" a'] this] show ?case
    by (simp add: Let_def case_prod_beta)
next
  case (Exists t e)
  then have "list_all2 shape [fst (bool_exp_sql x e (alias_name n) (alias_name n) (Suc n))]
     [fst (bool_exp_sql x (blank_exp e) (alias_name n') (alias_name n') (Suc n'))]" by simp
  from shape_exists [OF shape_table this] show ?case by (simp add: Let_def case_prod_beta)
qed

end
