(* ===== verification/Sql_Shape_Select.thy ===== *)
theory Sql_Shape_Select
  imports Sql_Shape
begin

text \<open>
  The skeleton theorem lifted from predicates to whole statements: selects,
  aggregates, Relay connections and mutations. Names the generator compares
  (order-by columns, the primary key of a connection, the names inside
  \<open>pageInfo\<close>) are kept by the blanking.
\<close>

section \<open>Blanking queries\<close>

fun blank_target :: "order_by_target \<Rightarrow> order_by_target" where
  "blank_target (OrderColumn c) = OrderColumn c"
| "blank_target (OrderRelationship t j c p) =
     OrderRelationship (blank_table t) (blank_pairs j) [] (map_option blank_exp p)"
| "blank_target (OrderRelationshipAggregate t j f c p) =
     OrderRelationshipAggregate (blank_table t) (blank_pairs j) f (map_option (\<lambda>_. []) c) (map_option blank_exp p)"

definition blank_order :: "order_by \<Rightarrow> order_by" where
  "blank_order ob = ob\<lparr>ob_target := blank_target (ob_target ob)\<rparr>"

fun blank_from :: "from_source \<Rightarrow> from_source" where
  "blank_from (FromTable t) = FromTable (blank_table t)"
| "blank_from (FromFunction s n args) = FromFunction [] []
     (map (\<lambda>a. \<lparr>fav_name = map_option (\<lambda>_. []) (fav_name a), fav_value = blank_scalar (fav_value a), fav_pg_type = fav_pg_type a\<rparr>) args)"
| "blank_from (FromRowFunction s n args) = FromRowFunction [] [] (map blank_row_arg args)"

definition blank_agg_column :: "aggregate_column \<Rightarrow> aggregate_column" where
  "blank_agg_column c = \<lparr>ac_alias = [], ac_column = [], ac_pg_type = [], ac_guard = map_option blank_exp (ac_guard c)\<rparr>"

fun blank_agg_op :: "aggregate_op \<Rightarrow> aggregate_op" where
  "blank_agg_op (Count d cols) = Count d (blank_strings cols)"
| "blank_agg_op (ColumnOp op cols) = ColumnOp op (map blank_agg_column cols)"

definition blank_agg_field :: "aggregate_field \<Rightarrow> aggregate_field" where
  "blank_agg_field f = \<lparr>af_alias = [], af_op = blank_agg_op (af_op f)\<rparr>"

fun blank_edge :: "edge_field \<Rightarrow> edge_field" where
  "blank_edge (EdgeCursor _) = EdgeCursor []"
| "blank_edge (EdgeNode _) = EdgeNode []"
| "blank_edge (EdgeTypename _ _) = EdgeTypename [] []"

fun blank_conn_field :: "connection_field \<Rightarrow> connection_field" where
  "blank_conn_field (ConnPageInfo _ fs) = ConnPageInfo [] (map (\<lambda>(a, n). ([], n)) fs)"
| "blank_conn_field (ConnEdges _ es) = ConnEdges [] (map blank_edge es)"
| "blank_conn_field (ConnTypename _ _) = ConnTypename [] []"

fun blank_query :: "select_query \<Rightarrow> select_query"
and blank_field :: "output_field \<Rightarrow> output_field"
and blank_value :: "field_value \<Rightarrow> field_value"
and blank_conn :: "connection \<Rightarrow> connection" where
  "blank_query (SelectQuery f fs p obs l nl off d s) =
     SelectQuery (blank_from f) (map blank_field fs) (map_option blank_exp p) (map blank_order obs) l nl off
       (blank_strings d) s"
| "blank_field (OutputField a v) = OutputField [] (blank_value v)"
| "blank_value (FColumn c ty) = FColumn [] ty"
| "blank_value (FColumnGuarded c ty g) = FColumnGuarded [] ty (blank_exp g)"
| "blank_value (FTypename v) = FTypename []"
| "blank_value (FObject q j) = FObject (blank_query q) (blank_pairs j)"
| "blank_value (FArray q j b) = FArray (blank_query q) (blank_pairs j) b"
| "blank_value (FAggregate fs) = FAggregate (map blank_agg_field fs)"
| "blank_value (FNodes fs) = FNodes (map blank_field fs)"
| "blank_value (FRelayGlobalId s t pk) = FRelayGlobalId [] [] (blank_pairs pk)"
| "blank_value (FNestedConnection c) = FNestedConnection (blank_conn c)"
| "blank_value (FRemoteJoin spec) = FRemoteJoin spec"
| "blank_value (FComputedScalar s n args g) = FComputedScalar [] [] (map blank_row_arg args) (map_option blank_exp g)"
| "blank_conn (Connection q j pk s t fs page) =
     Connection (blank_query q) (blank_pairs j) pk [] [] (map blank_conn_field fs) page"

fun blank_root :: "root_field \<Rightarrow> root_field" where
  "blank_root (RSelect a q) = RSelect [] (blank_query q)"
| "blank_root (RConnection a c) = RConnection [] (blank_conn c)"
| "blank_root (RTypename a v) = RTypename [] []"

section \<open>What is inserted raw\<close>

definition opt_raw_ok :: "bool_exp option \<Rightarrow> bool" where
  "opt_raw_ok p \<longleftrightarrow> (case p of None \<Rightarrow> True | Some e \<Rightarrow> exp_raw_ok e)"

fun target_raw_ok :: "order_by_target \<Rightarrow> bool" where
  "target_raw_ok (OrderColumn c) = True"
| "target_raw_ok (OrderRelationship t j c p) = opt_raw_ok p"
| "target_raw_ok (OrderRelationshipAggregate t j f c p) \<longleftrightarrow> plain f \<and> opt_raw_ok p"

fun agg_op_raw_ok :: "aggregate_op \<Rightarrow> bool" where
  "agg_op_raw_ok (Count d cols) = True"
| "agg_op_raw_ok (ColumnOp op cols) \<longleftrightarrow> plain op \<and> list_all (\<lambda>c. opt_raw_ok (ac_guard c)) cols"

fun query_raw_ok :: "select_query \<Rightarrow> bool"
and field_raw_ok :: "output_field \<Rightarrow> bool"
and value_raw_ok :: "field_value \<Rightarrow> bool"
and conn_raw_ok :: "connection \<Rightarrow> bool" where
  "query_raw_ok (SelectQuery f fs p obs l nl off d s) \<longleftrightarrow>
     list_all field_raw_ok fs \<and> opt_raw_ok p \<and> list_all (\<lambda>ob. target_raw_ok (ob_target ob)) obs"
| "field_raw_ok (OutputField a v) = value_raw_ok v"
| "value_raw_ok (FColumnGuarded c ty g) = exp_raw_ok g"
| "value_raw_ok (FObject q j) = query_raw_ok q"
| "value_raw_ok (FArray q j b) = query_raw_ok q"
| "value_raw_ok (FAggregate fs) = list_all (\<lambda>f. agg_op_raw_ok (af_op f)) fs"
| "value_raw_ok (FNodes fs) = list_all field_raw_ok fs"
| "value_raw_ok (FRelayGlobalId s t pk) \<longleftrightarrow> sq \<notin> set s \<and> sq \<notin> set t"
| "value_raw_ok (FNestedConnection c) = conn_raw_ok c"
| "value_raw_ok (FComputedScalar s n args g) = opt_raw_ok g"
| "value_raw_ok v = True"
| "conn_raw_ok (Connection q j pk s t fs page) = query_raw_ok q"

fun root_raw_ok :: "root_field \<Rightarrow> bool" where
  "root_raw_ok (RSelect a q) = query_raw_ok q"
| "root_raw_ok (RConnection a c) = conn_raw_ok c"
| "root_raw_ok (RTypename a v) = True"

section \<open>More composition rules\<close>

text \<open>A clause that may be absent; when present it starts with no quote.\<close>

definition shape_opt :: "string \<Rightarrow> string \<Rightarrow> bool" where
  "shape_opt y y' \<longleftrightarrow> (y = [] \<and> y' = []) \<or>
     (shape y y' \<and> y \<noteq> [] \<and> \<not> starts_quote y \<and> y' \<noteq> [] \<and> \<not> starts_quote y')"

lemma shape_then_opt: "shape x x' \<Longrightarrow> shape_opt y y' \<Longrightarrow> shape (x @ y) (x' @ y')"
  by (auto simp: shape_opt_def intro: shape_append)

lemma shape_opt_append: "shape_opt y y' \<Longrightarrow> shape_opt z z' \<Longrightarrow> shape_opt (y @ z) (y' @ z')"
  by (auto simp: shape_opt_def starts_quote_append intro: shape_append)

lemma plain_open_head: "plain_open k \<Longrightarrow> k \<noteq> [] \<Longrightarrow> \<not> starts_quote k"
  by (cases k rule: plain.cases) (auto simp: plain_open_def)

lemma shape_opt_const: "plain_open k \<Longrightarrow> k \<noteq> [] \<Longrightarrow> shape y y' \<Longrightarrow> shape_opt (k @ y) (k @ y')"
  by (auto simp: shape_opt_def starts_quote_append plain_open_head intro: shape_const)

lemma shape_opt_plain: "plain k \<Longrightarrow> shape_opt k k"
  by (cases k rule: plain.cases) (auto simp: shape_opt_def intro: shape_plain)

lemma shape_raw_then_end:
  "sq \<notin> set s \<Longrightarrow> plain k \<Longrightarrow> k \<noteq> [] \<Longrightarrow> shape ([sq] @ s @ [sq] @ k) ([sq] @ s @ [sq] @ k)"
  using shape_then_end [OF shape_raw_lit [of s s], of k] by simp

lemma shape_raw_then_const:
  "sq \<notin> set s \<Longrightarrow> plain_open k \<Longrightarrow> k \<noteq> [] \<Longrightarrow> shape y y' \<Longrightarrow>
   shape ([sq] @ s @ [sq] @ k @ y) ([sq] @ s @ [sq] @ k @ y')"
  using shape_then_const [OF shape_raw_lit [of s s], of y y' k] by simp

lemma shape_empty_array [sql_shape]: "shape empty_array empty_array"
  unfolding empty_array_def by (rule shape_raw_then_end) simp_all

lemma plain_digits: "(\<And>c. c \<in> set s \<Longrightarrow> 48 \<le> (of_char c :: nat) \<and> (of_char c :: nat) \<le> 57) \<Longrightarrow> plain s"
proof (induction s rule: plain.induct)
  case (2 c)
  then show ?case by force
next
  case (3 c d cs)
  have "48 \<le> (of_char c :: nat) \<and> (of_char c :: nat) \<le> 57" using 3(2) by simp
  then have "c \<notin> {sq, dq, CHR ''$'', CHR ''-'', CHR ''/''}" by force
  with 3 show ?case by auto
qed simp

lemma plain_u64_str [simp]: "plain (u64_str w)"
  unfolding u64_str_def by (rule plain_digits) (rule nat_str_digits)

lemma u64_str_nonempty [simp]: "u64_str w \<noteq> []"
  by (simp add: u64_str_def)

lemma shape_if: "shape x x' \<Longrightarrow> shape y y' \<Longrightarrow> shape (if c then x else y) (if c then x' else y')"
  by simp

text \<open>Results: the same panic, or texts of the same shape.\<close>

definition res_rel :: "('a \<Rightarrow> 'a \<Rightarrow> bool) \<Rightarrow> sql_panic + 'a \<times> nat \<Rightarrow> sql_panic + 'a \<times> nat \<Rightarrow> bool" where
  "res_rel P r r' \<longleftrightarrow> (case (r, r') of
      (Inl e, Inl e') \<Rightarrow> e = e'
    | (Inr (s, _), Inr (s', _)) \<Rightarrow> P s s'
    | _ \<Rightarrow> False)"

lemma res_rel_Inr [simp]: "res_rel P (Inr (s, n)) (Inr (s', n')) = P s s'"
  by (simp add: res_rel_def)

lemma res_rel_Inl [simp]: "res_rel P (Inl e) (Inl e') \<longleftrightarrow> e = e'"
  by (simp add: res_rel_def)

lemma res_rel_fst: "P (fst p) (fst p') \<Longrightarrow> res_rel P (Inr p) (Inr p')"
  by (cases p; cases p') simp

lemma res_rel_bind:
  assumes "res_rel P r r'"
    and "\<And>s n s' n'. r = Inr (s, n) \<Longrightarrow> r' = Inr (s', n') \<Longrightarrow> P s s' \<Longrightarrow> res_rel Q (f (s, n)) (f' (s', n'))"
  shows "res_rel Q (bindR r f) (bindR r' f')"
proof (cases r)
  case (Inl e)
  with assms(1) have "r' = Inl e" by (cases r') (auto simp: res_rel_def)
  with Inl show ?thesis by simp
next
  case (Inr p)
  with assms(1) obtain s n s' n' where "r = Inr (s, n)" "r' = Inr (s', n')" "P s s'"
    by (cases p; cases r') (auto simp: res_rel_def)
  with assms(2) show ?thesis by simp
qed

section \<open>Shape of the clauses\<close>

lemma shape_then_opt_end: "shape x x' \<Longrightarrow> shape_opt y y' \<Longrightarrow> plain k \<Longrightarrow> k \<noteq> [] \<Longrightarrow> shape (x @ y @ k) (x' @ y' @ k)"
  by (intro shape_then_opt shape_opt_append shape_opt_plain)

lemma shape_guarded:
  assumes "numbers_plain x" "opt_raw_ok g" "shape e e'"
  shows "shape (fst (guarded_sql x g a e n)) (fst (guarded_sql x (map_option blank_exp g) a' e' n'))"
proof (cases g)
  case (Some c)
  with assms have "shape (''CASE WHEN '' @ fst (bool_exp_sql x c a a n) @ '' THEN '' @ e @ '' ELSE NULL END'')
     (''CASE WHEN '' @ fst (bool_exp_sql x (blank_exp c) a' a' n') @ '' THEN '' @ e' @ '' ELSE NULL END'')"
    by (intro shape_const shape_then_const shape_then_end shape_bool_exp)
      (simp_all add: plain_eval opt_raw_ok_def)
  then show ?thesis using Some by (simp add: guarded_sql_def case_prod_beta)
qed (use assms in \<open>simp add: guarded_sql_def\<close>)

lemma shape_column_output: "shape (column_output st a c ty) (column_output st a' c' ty)"
proof -
  have "shape (''ST_AsGeoJSON('' @ qualified_col a c @ '', 15, 4)::json'') (''ST_AsGeoJSON('' @ qualified_col a' c' @ '', 15, 4)::json'')"
    by (intro shape_surround shape_qualified) (simp_all add: plain_eval)
  moreover have "shape (''('' @ qualified_col a c @ '')::text'') (''('' @ qualified_col a' c' @ '')::text'')"
    by (intro shape_surround shape_qualified) (simp_all add: plain_eval)
  ultimately show ?thesis by (auto simp: column_output_def Let_def intro: shape_qualified)
qed

lemma shape_distinct:
  assumes "shape y y'"
  shows "shape (distinct_clause cs a @ y) (distinct_clause (blank_strings cs) a' @ y')"
proof -
  have "shape (''DISTINCT ON ('' @ join_with '', '' (map (qualified_col a) cs) @ '') '' @ y)
     (''DISTINCT ON ('' @ join_with '', '' (map (qualified_col a') (blank_strings cs)) @ '') '' @ y')"
    using assms
    by (intro shape_const shape_then_const shape_join)
      (auto simp: plain_eval blank_strings_def comp_def intro: list_all2_shape_map shape_qualified)
  then show ?thesis using assms by (auto simp: distinct_clause_def blank_strings_def)
qed

lemma list_all2_map_count:
  assumes "\<And>y n n'. y \<in> set ys \<Longrightarrow> shape (fst (f y n)) (fst (g (h y) n'))"
  shows "list_all2 shape (fst (map_count f ys n)) (fst (map_count g (map h ys) n'))"
  using assms
proof (induction ys arbitrary: n n')
  case Nil
  show ?case by simp
next
  case (Cons y ys)
  then show ?case by (simp add: Let_def case_prod_beta)
qed

lemma shape_lit_pair:
  assumes "shape v v'"
  shows "shape (quote_lit s @ '', '' @ v) (quote_lit s' @ '', '' @ v')"
  using assms by (intro shape_then_const shape_lit) (simp_all add: plain_eval)

lemma shape_object:
  assumes "list_all2 shape ps ps'"
  shows "shape (''json_build_object('' @ join_with '', '' ps @ '')'') (''json_build_object('' @ join_with '', '' ps' @ '')'')"
  using assms by (intro shape_surround shape_join) (simp_all add: plain_eval)

lemma shape_agg_column:
  assumes "numbers_plain x" "plain op" "opt_raw_ok (ac_guard c)"
  shows "shape (fst (aggregate_column_sql x op a c n)) (fst (aggregate_column_sql x op a' (blank_agg_column c) n'))"
proof -
  have "shape (fst (guarded_sql x (ac_guard c) a (qualified_col a (ac_column c)) n))
     (fst (guarded_sql x (map_option blank_exp (ac_guard c)) a' (qualified_col a' []) n'))"
    using assms by (intro shape_guarded shape_qualified)
  then have "shape (quote_lit (ac_alias c) @ '', '' @ op @ ''('' @ fst (guarded_sql x (ac_guard c) a (qualified_col a (ac_column c)) n) @ '')'')
     (quote_lit [] @ '', '' @ op @ ''('' @ fst (guarded_sql x (map_option blank_exp (ac_guard c)) a' (qualified_col a' []) n') @ '')'')"
    by (intro shape_lit_pair shape_then_const [OF shape_plain [OF assms(2)]] shape_then_end) (simp_all add: plain_eval)
  then show ?thesis by (simp add: aggregate_column_sql_def blank_agg_column_def case_prod_beta)
qed

lemma shape_count:
  "shape (''COUNT('' @ (if d then ''DISTINCT '' else []) @ join_with '', '' (map (qualified_col a) cs) @ '')'')
     (''COUNT('' @ (if d then ''DISTINCT '' else []) @ join_with '', '' (map (qualified_col a') (blank_strings cs)) @ '')'')"
  "shape (''COUNT('' @ (if d then ''DISTINCT '' else []) @ ''('' @ join_with '', '' (map (qualified_col a) cs) @ ''))'')
     (''COUNT('' @ (if d then ''DISTINCT '' else []) @ ''('' @ join_with '', '' (map (qualified_col a') (blank_strings cs)) @ ''))'')"
proof -
  have cols: "shape (join_with '', '' (map (qualified_col a) cs)) (join_with '', '' (map (qualified_col a') (blank_strings cs)))"
    by (intro shape_join) (auto simp: plain_eval blank_strings_def comp_def intro: list_all2_shape_map shape_qualified)
  have d: "plain_open (if d then ''DISTINCT '' else [])" by (simp add: plain_eval)
  show "shape (''COUNT('' @ (if d then ''DISTINCT '' else []) @ join_with '', '' (map (qualified_col a) cs) @ '')'')
     (''COUNT('' @ (if d then ''DISTINCT '' else []) @ join_with '', '' (map (qualified_col a') (blank_strings cs)) @ '')'')"
    by (rule shape_const [OF _ shape_const [OF d shape_then_end [OF cols]]]) (simp_all add: plain_eval)
  show "shape (''COUNT('' @ (if d then ''DISTINCT '' else []) @ ''('' @ join_with '', '' (map (qualified_col a) cs) @ ''))'')
     (''COUNT('' @ (if d then ''DISTINCT '' else []) @ ''('' @ join_with '', '' (map (qualified_col a') (blank_strings cs)) @ ''))'')"
    by (rule shape_const [OF _ shape_const [OF d shape_const [OF _ shape_then_end [OF cols]]]]) (simp_all add: plain_eval)
qed

lemma shape_agg_field:
  assumes x: "numbers_plain x" and ok: "agg_op_raw_ok (af_op f)"
  shows "shape (fst (aggregate_field_sql x a f n)) (fst (aggregate_field_sql x a' (blank_agg_field f) n'))"
proof (cases "af_op f")
  case (Count d cs)
  have star: "shape (quote_lit (af_alias f) @ '', '' @ ''COUNT(*)'') (quote_lit [] @ '', '' @ ''COUNT(*)'')"
    by (rule shape_lit_pair) (rule shape_plain, simp)
  note one = shape_lit_pair [OF shape_count(1), of "af_alias f" d a cs "[]" a']
    and many = shape_lit_pair [OF shape_count(2), of "af_alias f" d a cs "[]" a']
  show ?thesis
  proof (cases "cs = []")
    case True
    then show ?thesis using Count star
      by (simp add: aggregate_field_sql_def blank_agg_field_def blank_strings_def)
  next
    case False
    then show ?thesis using Count one many
      by (auto simp: aggregate_field_sql_def blank_agg_field_def Let_def blank_strings_def split: if_splits)
  qed
next
  case (ColumnOp op cols)
  have "list_all2 shape (fst (map_count (aggregate_column_sql x op a) cols n))
          (fst (map_count (aggregate_column_sql x op a') (map blank_agg_column cols) n'))"
    using ok ColumnOp x by (intro list_all2_map_count shape_agg_column) (auto simp: list_all_iff)
  from shape_lit_pair [OF shape_object [OF this], of "af_alias f" "[]"] show ?thesis
    using ColumnOp by (simp add: aggregate_field_sql_def blank_agg_field_def case_prod_beta)
qed

lemma shape_aggregate_json:
  assumes "numbers_plain x" "list_all (\<lambda>f. agg_op_raw_ok (af_op f)) fs"
  shows "shape (fst (aggregate_json x fs a n)) (fst (aggregate_json x (map blank_agg_field fs) a' n'))"
proof -
  have "list_all2 shape (fst (map_count (aggregate_field_sql x a) fs n))
          (fst (map_count (aggregate_field_sql x a') (map blank_agg_field fs) n'))"
    using assms by (intro list_all2_map_count shape_agg_field) (auto simp: list_all_iff)
  from shape_object [OF this] show ?thesis by (simp add: aggregate_json_def case_prod_beta)
qed

lemma shape_relationship_conds:
  assumes "numbers_plain x" "opt_raw_ok p"
  shows "list_all2 shape (fst (relationship_conds x ra a j p n))
    (fst (relationship_conds x ra' a' (blank_pairs j) (map_option blank_exp p) n'))"
proof (cases p)
  case None
  then show ?thesis by (simp add: relationship_conds_def shape_join_conds)
next
  case (Some e)
  then show ?thesis using assms
    by (auto simp: relationship_conds_def case_prod_beta opt_raw_ok_def
        intro!: list_all2_appendI shape_join_conds shape_bool_exp)
qed

lemma shape_sub_select:
  assumes "shape e e'" "list_all2 shape conds conds'" "plain k" "k \<noteq> []"
  shows "shape (''(SELECT '' @ e @ '' FROM '' @ table_sql t @ '' AS '' @ quote_ident ra @ '' WHERE '' @ join_with '' AND '' conds @ k)
    (''(SELECT '' @ e' @ '' FROM '' @ table_sql t' @ '' AS '' @ quote_ident ra' @ '' WHERE '' @ join_with '' AND '' conds' @ k)"
  using assms
  by (intro shape_const shape_then_const shape_then_end shape_join shape_ident shape_table) (simp_all add: plain_eval)

lemma shape_order_suffix:
  assumes "shape t t'"
  shows "shape (t @ '' '' @ (case d of Asc \<Rightarrow> ''ASC'' | Desc \<Rightarrow> ''DESC'') @ '' '' @ (case u of NullsFirst \<Rightarrow> ''NULLS FIRST'' | NullsLast \<Rightarrow> ''NULLS LAST''))
    (t' @ '' '' @ (case d of Asc \<Rightarrow> ''ASC'' | Desc \<Rightarrow> ''DESC'') @ '' '' @ (case u of NullsFirst \<Rightarrow> ''NULLS FIRST'' | NullsLast \<Rightarrow> ''NULLS LAST''))"
  by (rule shape_then_end [OF assms]) (simp_all split: order_direction.split nulls_order.split)

lemma shape_order_by:
  assumes x: "numbers_plain x" and ok: "target_raw_ok (ob_target ob)"
  shows "shape (fst (order_by_sql x a ob n)) (fst (order_by_sql x a' (blank_order ob) n'))"
proof (cases "ob_target ob")
  case (OrderColumn c)
  then show ?thesis
    using shape_order_suffix [OF shape_qualified [of a c a' c]] by (simp add: order_by_sql_def blank_order_def)
next
  case (OrderRelationship t j c p)
  have "list_all2 shape (fst (relationship_conds x (alias_name n) a j p (Suc n)))
    (fst (relationship_conds x (alias_name n') a' (blank_pairs j) (map_option blank_exp p) (Suc n')))"
    using x ok OrderRelationship by (intro shape_relationship_conds) auto
  from shape_order_suffix [OF shape_sub_select [OF shape_qualified [of "alias_name n" c "alias_name n'" "[]"] this, of "'' LIMIT 1)''"]]
  show ?thesis using OrderRelationship
    by (simp add: order_by_sql_def blank_order_def case_prod_beta Let_def)
next
  case (OrderRelationshipAggregate t j f c p)
  have conds: "list_all2 shape (fst (relationship_conds x (alias_name n) a j p (Suc n)))
    (fst (relationship_conds x (alias_name n') a' (blank_pairs j) (map_option blank_exp p) (Suc n')))"
    using x ok OrderRelationshipAggregate by (intro shape_relationship_conds) auto
  have f: "plain f" using ok OrderRelationshipAggregate by simp
  have col: "shape (f @ ''('' @ qualified_col (alias_name n) c0 @ '')'') (f @ ''('' @ qualified_col (alias_name n') [] @ '')'')" for c0
    by (rule shape_then_const [OF shape_plain [OF f] shape_then_end [OF shape_qualified]]) (simp_all add: plain_eval)
  have star: "shape ''count(*)'' ''count(*)''" by (rule shape_plain) simp
  have agg: "shape (case c of Some c \<Rightarrow> f @ ''('' @ qualified_col (alias_name n) c @ '')'' | None \<Rightarrow> ''count(*)'')
     (case map_option (\<lambda>_. []) c of Some c \<Rightarrow> f @ ''('' @ qualified_col (alias_name n') c @ '')'' | None \<Rightarrow> ''count(*)'')"
    using col star by (cases c) (simp_all only: option.case option.map)
  from shape_order_suffix [OF shape_sub_select [OF agg conds, of "'')''"]]
  show ?thesis using OrderRelationshipAggregate
    by (simp add: order_by_sql_def blank_order_def case_prod_beta Let_def)
qed

text \<open>The enclosing row of a nested select, with its join columns blanked.\<close>

definition outer_rel :: "outer_join option \<Rightarrow> outer_join option \<Rightarrow> bool" where
  "outer_rel u u' \<longleftrightarrow> (case (u, u') of
      (None, None) \<Rightarrow> True
    | (Some (j, a), Some (j', a')) \<Rightarrow> j' = blank_pairs j
    | _ \<Rightarrow> False)"

lemma outer_rel_simps [simp]: "outer_rel None None" "outer_rel (Some (j, a)) (Some (blank_pairs j, a'))"
  by (simp_all add: outer_rel_def)

definition from_rel :: "sql_panic + string \<Rightarrow> sql_panic + string \<Rightarrow> bool" where
  "from_rel r r' \<longleftrightarrow> (case (r, r') of (Inl e, Inl e') \<Rightarrow> e = e' | (Inr s, Inr s') \<Rightarrow> shape s s' | _ \<Rightarrow> False)"

lemma shape_function_arg:
  assumes "numbers_plain x"
  shows "shape (function_arg_value_sql x a)
    (function_arg_value_sql x \<lparr>fav_name = map_option (\<lambda>_. []) (fav_name a), fav_value = blank_scalar (fav_value a), fav_pg_type = fav_pg_type a\<rparr>)"
proof -
  have "shape (quote_ident m @ '' => '' @ scalar_sql x (fav_value a) (fav_pg_type a))
     (quote_ident [] @ '' => '' @ scalar_sql x (blank_scalar (fav_value a)) (fav_pg_type a))" for m
    using assms by (intro shape_then_const shape_ident shape_scalar) (simp_all add: plain_eval)
  then show ?thesis using assms
    by (cases "fav_name a") (auto simp: function_arg_value_sql_def Let_def intro: shape_scalar)
qed

lemma shape_from_item:
  assumes x: "numbers_plain x" and u: "outer_rel u u'"
  shows "from_rel (from_item_sql x f u) (from_item_sql x (blank_from f) u')"
proof (cases f)
  case (FromTable t)
  then show ?thesis by (simp add: from_item_sql_def from_rel_def shape_table)
next
  case (FromFunction s m args)
  then show ?thesis
    by (auto simp: from_item_sql_def from_rel_def comp_def
        intro!: shape_call list_all2_shape_map shape_function_arg [OF x])
next
  case (FromRowFunction s m args)
  then show ?thesis using u shape_row_call [OF x]
    by (auto simp: from_item_sql_def from_rel_def outer_rel_def split: option.splits prod.splits)
qed

lemma shape_where:
  assumes x: "numbers_plain x" and ok: "opt_raw_ok p" and u: "outer_rel u u'"
  shows "shape_opt (fst (where_sql x p a u n)) (fst (where_sql x (map_option blank_exp p) a' u' n'))"
proof -
  define js where "js = (case u of Some (j, o1) \<Rightarrow> join_conds a o1 j | None \<Rightarrow> [])"
  define js' where "js' = (case u' of Some (j, o1) \<Rightarrow> join_conds a' o1 j | None \<Rightarrow> [])"
  have js: "list_all2 shape js js'"
    using u shape_join_conds by (auto simp: js_def js'_def outer_rel_def split: option.splits)
  have opt: "shape_opt (if cs = [] then [] else '' WHERE '' @ join_with '' AND '' cs)
      (if cs' = [] then [] else '' WHERE '' @ join_with '' AND '' cs')" if "list_all2 shape cs cs'" for cs cs'
  proof (cases "cs = []")
    case True
    then show ?thesis using that by (simp add: shape_opt_def)
  next
    case False
    then have "cs' \<noteq> []" using that by auto
    moreover have "shape_opt ('' WHERE '' @ join_with '' AND '' cs) ('' WHERE '' @ join_with '' AND '' cs')"
      using that by (intro shape_opt_const shape_join) (simp_all add: plain_eval)
    ultimately show ?thesis using False by simp
  qed
  show ?thesis
  proof (cases p)
    case None
    show ?thesis using opt [OF js]
      by (simp only: where_sql_def js_def js'_def Let_def None option.case option.map prod.case fst_conv)
  next
    case (Some e)
    have "list_all2 shape (js @ [fst (bool_exp_sql x e a a n)]) (js' @ [fst (bool_exp_sql x (blank_exp e) a' a' n')])"
      using Some ok x js by (auto simp: opt_raw_ok_def intro!: list_all2_appendI shape_bool_exp)
    from opt [OF this] show ?thesis
      using Some by (simp add: where_sql_def js_def js'_def Let_def case_prod_beta)
  qed
qed

lemma shape_order:
  assumes "numbers_plain x" "list_all (\<lambda>ob. target_raw_ok (ob_target ob)) obs"
  shows "shape_opt (fst (order_sql x obs a n)) (fst (order_sql x (map blank_order obs) a' n'))"
proof (cases "obs = []")
  case True
  then show ?thesis by (simp add: order_sql_def shape_opt_def)
next
  case False
  have "list_all2 shape (fst (map_count (order_by_sql x a) obs n)) (fst (map_count (order_by_sql x a') (map blank_order obs) n'))"
    using assms by (intro list_all2_map_count shape_order_by) (auto simp: list_all_iff)
  then have "shape_opt ('' ORDER BY '' @ join_with '', '' (fst (map_count (order_by_sql x a) obs n)))
     ('' ORDER BY '' @ join_with '', '' (fst (map_count (order_by_sql x a') (map blank_order obs) n')))"
    by (intro shape_opt_const shape_join) (simp_all add: plain_eval)
  then show ?thesis using False by (simp add: order_sql_def case_prod_beta)
qed

lemma shape_bound: "plain_open k \<Longrightarrow> k \<noteq> [] \<Longrightarrow> shape_opt (bound_sql k v) (bound_sql k v)"
  using shape_opt_plain [OF plain.simps(1) [THEN iffD2]] shape_opt_const [OF _ _ shape_plain [OF plain_u64_str]]
  by (cases v) (simp_all add: bound_sql_def)

lemma shape_from_where_order:
  assumes x: "numbers_plain x" and ok: "query_raw_ok q" and u: "outer_rel u u'"
  shows "res_rel shape (from_where_order x q a u n) (from_where_order x (blank_query q) a' u' n')"
proof -
  obtain f fs p obs l nl off d s where q: "q = SelectQuery f fs p obs l nl off d s" by (cases q)
  have "from_rel (from_item_sql x f u) (from_item_sql x (blank_from f) u')" by (rule shape_from_item [OF x u])
  moreover have "shape (''FROM '' @ i @ '' AS '' @ quote_ident a @ w @ r @ bound_sql '' LIMIT '' l @ bound_sql '' OFFSET '' off)
       (''FROM '' @ i' @ '' AS '' @ quote_ident a' @ w' @ r' @ bound_sql '' LIMIT '' l @ bound_sql '' OFFSET '' off)"
    if "shape i i'" "shape_opt w w'" "shape_opt r r'" for i i' w w' r r'
    using that
    by (intro shape_const shape_then_const shape_then_opt shape_opt_append shape_bound shape_ident)
      (simp_all add: plain_eval)
  ultimately show ?thesis
    using shape_where [OF x _ u, of p] shape_order [OF x, of obs] ok q
    by (auto simp: from_where_order_def from_rel_def bindR_def Let_def case_prod_beta split: sum.splits intro!: res_rel_fst)
qed

section \<open>Cursors, global ids and connections\<close>

lemma shape_b64:
  assumes "shape e e'"
  shows "shape (b64 e) (b64 e')"
proof -
  have tail: "shape ([sq, sq] @ '')'') ([sq, sq] @ '')'')" using shape_raw_then_end [of "[]" "'')''"] by simp
  show ?thesis
    unfolding b64_def
    by (intro tail shape_raw_then_const shape_const shape_then_const assms) (simp_all add: plain_eval)
qed

lemma shape_join_step:
  assumes step: "\<And>x x' y y'. shape x x' \<Longrightarrow> shape y y' \<Longrightarrow> shape (x @ sep @ y) (x' @ sep @ y')"
    and "list_all2 shape xs ys"
  shows "shape (join_with sep xs) (join_with sep ys)"
  using assms
proof (induction sep xs arbitrary: ys rule: join_with.induct)
  case (3 sep x y zs)
  then obtain x' y' zs' where ys: "ys = x' # y' # zs'" and xx: "shape x x'"
    and rest: "list_all2 shape (y # zs) (y' # zs')"
    by (auto simp: list_all2_Cons1)
  have "shape (join_with sep (y # zs)) (join_with sep (y' # zs'))"
    using "3.IH" [OF "3.prems"(1) rest] .
  then show ?case using "3.prems"(1) [OF xx] ys by simp
qed (auto simp: shape_plain list_all2_Cons1)

lemma shape_cursor: "shape (cursor_expr a pk) (cursor_expr a' pk)"
proof -
  define pairs where "pairs = (\<lambda>a. map (\<lambda>(col, _). quote_lit ([dq] @ col @ [dq] @ '' : '') @ '' || to_json(''
                        @ qualified_col a col @ '')::text'') pk)"
  have pair: "shape (quote_lit s @ '' || to_json('' @ qualified_col a c @ '')::text'')
      (quote_lit s @ '' || to_json('' @ qualified_col a' c @ '')::text'')" for s c
    by (intro shape_then_const shape_then_end shape_lit shape_qualified) (simp_all add: plain_eval)
  have step: "shape (u @ ('' || '' @ [sq] @ '', '' @ [sq] @ '' || '') @ y) (u' @ ('' || '' @ [sq] @ '', '' @ [sq] @ '' || '') @ y')"
    if "shape u u'" "shape y y'" for u u' y y'
    unfolding append_assoc
    by (rule shape_then_const [OF that(1) shape_raw_then_const]) (simp_all add: plain_eval that(2))
  have "list_all2 shape (pairs a) (pairs a')"
    unfolding pairs_def case_prod_beta by (rule list_all2_shape_map) (rule pair)
  from shape_join_step [OF step this]
  have "shape ([sq] @ ''{'' @ [sq] @ '' || '' @ join_with ('' || '' @ [sq] @ '', '' @ [sq] @ '' || '') (pairs a) @ '' || '' @ [sq] @ ''}'' @ [sq])
     ([sq] @ ''{'' @ [sq] @ '' || '' @ join_with ('' || '' @ [sq] @ '', '' @ [sq] @ '' || '') (pairs a') @ '' || '' @ [sq] @ ''}'' @ [sq])"
    by (intro shape_raw_then_const shape_then_const shape_raw_lit) (simp_all add: plain_eval)
  from shape_b64 [OF this] show ?thesis by (simp only: cursor_expr_def Let_def pairs_def)
qed

lemma shape_global_id:
  assumes "sq \<notin> set s" "sq \<notin> set t"
  shows "shape (global_id_expr a s t pk) (global_id_expr a' [] [] (blank_pairs pk))"
proof -
  have first: "shape ([sq] @ (''[1, '' @ [dq] @ s @ [dq] @ '', '' @ [dq] @ t @ [dq]) @ [sq])
      ([sq] @ (''[1, '' @ [dq] @ [] @ [dq] @ '', '' @ [dq] @ [] @ [dq]) @ [sq])"
    using assms by (intro shape_raw_lit) auto
  have part: "shape ([sq] @ '', '' @ [sq] @ '' || to_json('' @ qualified_col a c @ '')::text'')
      ([sq] @ '', '' @ [sq] @ '' || to_json('' @ qualified_col a' [] @ '')::text'')" for c
    by (intro shape_raw_then_const shape_then_end shape_qualified) (simp_all add: plain_eval)
  have tail: "shape ([sq] @ '']'' @ [sq]) ([sq] @ '']'' @ [sq])" by (intro shape_raw_lit) simp_all
  have parts: "list_all2 shape (map (\<lambda>(c, _). [sq] @ '', '' @ [sq] @ '' || to_json('' @ qualified_col a c @ '')::text'') pk)
     (map (\<lambda>(c, _). [sq] @ '', '' @ [sq] @ '' || to_json('' @ qualified_col a' c @ '')::text'') (blank_pairs pk))"
    unfolding blank_pairs_def map_map comp_def case_prod_beta fst_conv
    by (rule list_all2_shape_map) (rule part)
  have "shape (join_with '' || '' (([sq] @ (''[1, '' @ [dq] @ s @ [dq] @ '', '' @ [dq] @ t @ [dq]) @ [sq]) #
       map (\<lambda>(c, _). [sq] @ '', '' @ [sq] @ '' || to_json('' @ qualified_col a c @ '')::text'') pk))
     (join_with '' || '' (([sq] @ (''[1, '' @ [dq] @ [] @ [dq] @ '', '' @ [dq] @ [] @ [dq]) @ [sq]) #
       map (\<lambda>(c, _). [sq] @ '', '' @ [sq] @ '' || to_json('' @ qualified_col a' c @ '')::text'') (blank_pairs pk)))"
    by (rule shape_join [OF list_all2_Cons [THEN iffD2, OF conjI [OF first parts]]]) (simp_all add: plain_eval)
  from shape_b64 [OF shape_then_const [OF this tail, of "'' || ''"]] show ?thesis
    unfolding global_id_expr_def Let_def append_assoc by (simp add: plain_eval)
qed

lemma shape_page_array: "shape r r' \<Longrightarrow> shape (page_array p r) (page_array p r')"
proof (cases p)
  case (Some pg)
  assume r: "shape r r'"
  have dir: "plain (if rp_backward pg then ''t.i DESC'' else ''t.i ASC'')" by simp
  have "shape (''(SELECT coalesce(json_agg(t.e ORDER BY '' @ (if rp_backward pg then ''t.i DESC'' else ''t.i ASC'')
            @ ''), '' @ empty_array @ '') FROM json_array_elements('' @ r
            @ '') WITH ORDINALITY AS t(e, i) WHERE t.i <= '' @ u64_str (rp_size pg) @ '')'')
       (''(SELECT coalesce(json_agg(t.e ORDER BY '' @ (if rp_backward pg then ''t.i DESC'' else ''t.i ASC'')
            @ ''), '' @ empty_array @ '') FROM json_array_elements('' @ r'
            @ '') WITH ORDINALITY AS t(e, i) WHERE t.i <= '' @ u64_str (rp_size pg) @ '')'')"
    by (rule shape_const [OF _ shape_then_const [OF shape_plain [OF dir]
          shape_then_const [OF shape_empty_array shape_then_const [OF r
            shape_then_end [OF shape_plain [OF plain_u64_str]]]]]]) (simp_all add: plain_eval)
  then show ?thesis using Some by (simp only: page_array_def option.case)
qed (simp add: page_array_def)

lemma shape_page_info:
  assumes a: "shape a a'" and h: "shape h h'"
  shows "shape (page_info_value p a h m) (page_info_value p a' h' m)"
proof -
  have start: "shape (''('' @ a @ ''->0->>'' @ [sq] @ ''cursor'' @ [sq] @ '')'') (''('' @ a' @ ''->0->>'' @ [sq] @ ''cursor'' @ [sq] @ '')'')"
    by (rule shape_const [OF _ shape_then_const [OF a shape_raw_then_end]]) (simp_all add: plain_eval)
  have endc: "shape (''('' @ a @ ''->(json_array_length('' @ a @ '')-1)->>'' @ [sq] @ ''cursor'' @ [sq] @ '')'')
     (''('' @ a' @ ''->(json_array_length('' @ a' @ '')-1)->>'' @ [sq] @ ''cursor'' @ [sq] @ '')'')"
    by (rule shape_const [OF _ shape_then_const [OF a shape_then_const [OF a shape_raw_then_end]]]) (simp_all add: plain_eval)
  have kks: "shape ''true'' ''true''" "shape ''false'' ''false''" "shape ''null'' ''null''"
    by (rule shape_plain, simp)+
  show ?thesis
    unfolding page_info_value_def
    by (cases p) (simp_all only: option.case, (intro shape_if start endc kks h)+)
qed

lemma shape_edge: "shape (edge_field_sql e) (edge_field_sql (blank_edge e))"
proof -
  have c: "shape (quote_lit s @ '', e.value->'' @ [sq] @ k @ [sq]) (quote_lit [] @ '', e.value->'' @ [sq] @ k @ [sq])"
    if "sq \<notin> set k" for s k
    by (rule shape_then_const [OF shape_lit shape_raw_lit]) (simp_all add: plain_eval that)
  have t: "shape (quote_lit s @ '', '' @ quote_lit v @ ''::text'') (quote_lit [] @ '', '' @ quote_lit [] @ ''::text'')" for s v
    by (rule shape_lit_pair [OF shape_then_end [OF shape_lit]]) simp_all
  show ?thesis
    using c [of "''cursor''"] c [of "''node''"] t by (cases e) (simp_all add: edge_field_sql_def)
qed

lemma shape_conn_field:
  assumes a: "shape a a'" and h: "shape h h'"
  shows "shape (connection_field_sql p a h f) (connection_field_sql p a' h' (blank_conn_field f))"
proof (cases f)
  case (ConnTypename s v)
  have "shape (quote_lit s @ '', '' @ quote_lit v @ ''::text'') (quote_lit [] @ '', '' @ quote_lit [] @ ''::text'')"
    by (rule shape_lit_pair [OF shape_then_end [OF shape_lit]]) simp_all
  then show ?thesis using ConnTypename by (simp add: connection_field_sql_def)
next
  case (ConnPageInfo s fs)
  have "list_all2 shape (map (\<lambda>(fa, name). quote_lit fa @ '', '' @ page_info_value p a h name) fs)
      (map (\<lambda>(fa, name). quote_lit fa @ '', '' @ page_info_value p a' h' name) (map (\<lambda>(a, n). ([], n)) fs))"
    unfolding map_map comp_def case_prod_beta fst_conv snd_conv
    by (rule list_all2_shape_map) (intro shape_lit_pair shape_page_info a h)
  from shape_lit_pair [OF shape_object [OF this], of s "[]"] show ?thesis
    using ConnPageInfo by (simp add: connection_field_sql_def)
next
  case (ConnEdges s es)
  have es: "list_all2 shape (map edge_field_sql es) (map edge_field_sql (map blank_edge es))"
    unfolding map_map comp_def by (rule list_all2_shape_map) (rule shape_edge)
  have "shape (quote_lit s @ '', coalesce((SELECT json_agg(json_build_object(''
            @ join_with '', '' (map edge_field_sql es) @ '')) FROM json_array_elements('' @ a @ '') AS e), '' @ empty_array @ '')'')
      (quote_lit [] @ '', coalesce((SELECT json_agg(json_build_object(''
            @ join_with '', '' (map edge_field_sql (map blank_edge es)) @ '')) FROM json_array_elements('' @ a' @ '') AS e), '' @ empty_array @ '')'')"
    by (rule shape_then_const [OF shape_lit shape_then_const [OF shape_join [OF es] shape_then_const [OF a
          shape_then_end [OF shape_empty_array]]]]) (simp_all add: plain_eval)
  then show ?thesis using ConnEdges by (simp only: connection_field_sql_def connection_field.case blank_conn_field.simps)
qed

lemma shape_connection_sql:
  assumes cur: "shape cur cur'" and row: "shape row row'" and tail: "shape tl1 tl2"
  shows "shape (connection_sql c arr cur row tl1) (connection_sql (blank_conn c) arr' cur' row' tl2)"
proof -
  obtain q j pk s t fs page where c: "c = Connection q j pk s t fs page" by (cases c)
  define size_str where "size_str = u64_str (case page of Some p \<Rightarrow> rp_size p | None \<Rightarrow> - 1)"
  have raw: "shape (quote_ident arr @ ''.a'') (quote_ident arr' @ ''.a'')"
    by (rule shape_then_end [OF shape_ident]) simp_all
  have more: "shape (''(json_array_length('' @ (quote_ident arr @ ''.a'') @ '') > '' @ size_str @ '')'')
      (''(json_array_length('' @ (quote_ident arr' @ ''.a'') @ '') > '' @ size_str @ '')'')"
    by (rule shape_const [OF _ shape_then_const [OF raw shape_then_end [OF shape_plain]]])
      (simp_all add: plain_eval size_str_def)
  define pairs where "pairs = (\<lambda>arr fs. map (connection_field_sql page (page_array page (quote_ident arr @ ''.a''))
     (''(json_array_length('' @ (quote_ident arr @ ''.a'') @ '') > '' @ size_str @ '')'')) fs)"
  have ps: "list_all2 shape (pairs arr fs) (pairs arr' (map blank_conn_field fs))"
    unfolding pairs_def map_map comp_def
    by (rule list_all2_shape_map) (intro shape_conn_field shape_page_array raw more)
  have "shape (''(SELECT json_build_object('' @ join_with '', '' (pairs arr fs)
           @ '') FROM (SELECT coalesce(json_agg(json_build_object('' @ [sq] @ ''cursor'' @ [sq] @ '', '' @ quote_ident (arr @ ''_e'')
           @ ''.c, '' @ [sq] @ ''node'' @ [sq] @ '', '' @ quote_ident (arr @ ''_e'') @ ''.n)), '' @ empty_array @ '') AS a FROM (SELECT ''
           @ cur @ '' AS c, '' @ row @ '' AS n '' @ tl1 @ '') AS '' @ quote_ident (arr @ ''_e'') @ '') AS '' @ quote_ident arr @ '')'')
      (''(SELECT json_build_object('' @ join_with '', '' (pairs arr' (map blank_conn_field fs))
           @ '') FROM (SELECT coalesce(json_agg(json_build_object('' @ [sq] @ ''cursor'' @ [sq] @ '', '' @ quote_ident (arr' @ ''_e'')
           @ ''.c, '' @ [sq] @ ''node'' @ [sq] @ '', '' @ quote_ident (arr' @ ''_e'') @ ''.n)), '' @ empty_array @ '') AS a FROM (SELECT ''
           @ cur' @ '' AS c, '' @ row' @ '' AS n '' @ tl2 @ '') AS '' @ quote_ident (arr' @ ''_e'') @ '') AS '' @ quote_ident arr' @ '')'')"
    by (rule shape_const [OF _ shape_then_const [OF shape_join [OF ps] shape_raw_then_const [OF _ _ _
          shape_then_const [OF shape_ident shape_raw_then_const [OF _ _ _ shape_then_const [OF shape_ident
            shape_then_const [OF shape_empty_array shape_then_const [OF cur shape_then_const [OF row
              shape_then_const [OF tail shape_then_const [OF shape_ident shape_then_end [OF shape_ident]]]]]]]]]]]])
      (simp_all add: plain_eval)
  then show ?thesis
    by (simp only: connection_sql_def Let_def c blank_conn.simps connection.sel pairs_def size_str_def append_assoc)
qed

section \<open>Blanking commutes with the query rewrites\<close>

lemma blank_query_sel [simp]:
  "sq_fields (blank_query q) = map blank_field (sq_fields q)"
  "sq_distinct_on (blank_query q) = blank_strings (sq_distinct_on q)"
  "sq_nodes_limit (blank_query q) = sq_nodes_limit q"
  "sq_single (blank_query q) = sq_single q"
  by (cases q; simp)+

lemma blank_conn_sel [simp]:
  "cn_query (blank_conn c) = blank_query (cn_query c)" "cn_pk (blank_conn c) = cn_pk c"
  "cn_join (blank_conn c) = blank_pairs (cn_join c)"
  by (cases c; simp)+

lemma blank_value_aggregate [simp]: "is_aggregate_value (blank_value v) = is_aggregate_value v"
  by (cases v) simp_all

lemma blank_has_aggregate [simp]: "has_aggregate (blank_query q) = has_aggregate q"
proof -
  have "is_aggregate_value (of_value (blank_field f)) = is_aggregate_value (of_value f)" for f by (cases f) simp
  then show ?thesis by (simp add: has_aggregate_def list_ex_iff)
qed

lemma blank_nodes_query: "blank_query (nodes_query q l fs) = nodes_query (blank_query q) l (map blank_field fs)"
  by (cases q) (simp add: nodes_query_def)

lemma nodes_query_raw_ok: "query_raw_ok q \<Longrightarrow> list_all field_raw_ok fs \<Longrightarrow> query_raw_ok (nodes_query q l fs)"
  by (cases q) (simp add: nodes_query_def)

lemma orders_column_blank: "orders_column (map blank_order obs) c = orders_column obs c"
proof -
  have "(blank_target t = OrderColumn c) = (t = OrderColumn c)" for t by (cases t) auto
  then show ?thesis by (simp add: orders_column_def list_ex_iff blank_order_def)
qed

lemma complete_order_blank: "complete_order b pk (map blank_order obs) = map blank_order (complete_order b pk obs)"
proof (induction b pk obs rule: complete_order.induct)
  case (2 b col u pk obs)
  show ?case
  proof (cases "orders_column obs col")
    case True
    then show ?thesis using 2 by (simp add: orders_column_blank)
  next
    case False
    define ob where "ob = \<lparr>ob_target = OrderColumn col, ob_direction = (if b then Desc else Asc), ob_nulls = NullsLast\<rparr>"
    have "blank_order ob = ob" by (simp add: ob_def blank_order_def)
    then show ?thesis using False 2 [unfolded ob_def [symmetric]]
      by (simp add: orders_column_blank ob_def [symmetric])
  qed
qed simp

lemma blank_connection_query: "connection_query (blank_conn c) = blank_query (connection_query c)"
proof -
  obtain q j pk s t fs page where c: "c = Connection q j pk s t fs page" by (cases c)
  show ?thesis by (cases q) (simp add: c connection_query_def complete_order_blank split: option.split)
qed

lemma complete_order_raw_ok:
  "list_all (\<lambda>ob. target_raw_ok (ob_target ob)) obs \<Longrightarrow>
   list_all (\<lambda>ob. target_raw_ok (ob_target ob)) (complete_order b pk obs)"
  by (induction b pk obs rule: complete_order.induct) auto

lemma connection_query_raw_ok: "conn_raw_ok c \<Longrightarrow> query_raw_ok (connection_query c)"
proof -
  assume ok: "conn_raw_ok c"
  obtain q j pk s t fs page where c: "c = Connection q j pk s t fs page" by (cases c)
  show ?thesis using ok by (cases q) (simp add: c connection_query_def complete_order_raw_ok)
qed

lemma query_fields_raw_ok: "query_raw_ok q \<Longrightarrow> list_all field_raw_ok (sq_fields q)"
  by (cases q) simp

lemma conn_query_raw_ok: "conn_raw_ok c \<Longrightarrow> query_raw_ok (cn_query c)"
  by (cases c) simp

section \<open>The recursive functions\<close>

lemma shape_select_texts:
  assumes row: "shape row row'" and tail: "shape t t'"
  shows "shape (''(SELECT '' @ distinct_clause d a @ row @ '' '' @ t @ '' LIMIT 1)'')
      (''(SELECT '' @ distinct_clause (blank_strings d) a' @ row' @ '' '' @ t' @ '' LIMIT 1)'')"
    and "shape (''(SELECT coalesce(json_agg('' @ quote_ident e @ ''.j), '' @ empty_array @ '') FROM (SELECT ''
             @ distinct_clause d a @ row @ '' AS j '' @ t @ '') AS '' @ quote_ident e @ '')'')
      (''(SELECT coalesce(json_agg('' @ quote_ident e' @ ''.j), '' @ empty_array @ '') FROM (SELECT ''
             @ distinct_clause (blank_strings d) a' @ row' @ '' AS j '' @ t' @ '') AS '' @ quote_ident e' @ '')'')"
  by (intro shape_distinct shape_const shape_then_const shape_then_end shape_ident shape_empty_array assms;
      simp add: plain_eval)+

lemma shape_aggregate_text:
  assumes "list_all2 shape ps ps'" "shape t t'"
  shows "shape (''(SELECT json_build_object('' @ join_with '', '' ps @ '') FROM (SELECT '' @ distinct_clause d a @ ''* ''
                 @ t @ '') AS '' @ quote_ident e @ '')'')
      (''(SELECT json_build_object('' @ join_with '', '' ps' @ '') FROM (SELECT '' @ distinct_clause (blank_strings d) a' @ ''* ''
                 @ t' @ '') AS '' @ quote_ident e' @ '')'')"
  by (intro shape_distinct shape_join shape_const shape_then_const shape_then_end shape_ident assms;
      simp add: plain_eval)

lemma shape_nodes_text:
  "shape row row' \<Longrightarrow> shape (''coalesce(json_agg('' @ row @ ''), '' @ empty_array @ '')'')
     (''coalesce(json_agg('' @ row' @ ''), '' @ empty_array @ '')'')"
  by (intro shape_const shape_then_const shape_then_end shape_empty_array) (simp_all add: plain_eval)

lemma shape_typename_text: "shape (quote_lit v @ ''::text'') (quote_lit v' @ ''::text'')"
  "shape (''to_json('' @ quote_lit v @ ''::text)'') (''to_json('' @ quote_lit v' @ ''::text)'')"
  by (intro shape_then_end shape_surround shape_lit; simp add: plain_eval)+

lemma list_all2_pair:
  "shape v v' \<Longrightarrow> list_all2 shape ps ps' \<Longrightarrow>
   list_all2 shape ((quote_lit s @ '', '' @ v) # ps) ((quote_lit s' @ '', '' @ v') # ps')"
  using shape_lit_pair by simp

lemma res_rel_fst_bind:
  assumes "res_rel P r r'" "\<And>s s'. P s s' \<Longrightarrow> Q (g s) (g' s')"
  shows "res_rel Q (bindR r (\<lambda>(s, n). Inr (g s, n))) (bindR r' (\<lambda>(s, n). Inr (g' s, n)))"
  by (rule res_rel_bind [OF assms(1)]) (simp add: assms(2))

lemma res_rel_Cons:
  assumes "res_rel shape r r'"
    and "\<And>s m s' m'. r = Inr (s, m) \<Longrightarrow> r' = Inr (s', m') \<Longrightarrow> res_rel (list_all2 shape) (f m) (f' m')"
  shows "res_rel (list_all2 shape)
    (bindR r (\<lambda>(v, n). bindR (f n) (\<lambda>(ps, n). Inr ((quote_lit a @ '', '' @ v) # ps, n))))
    (bindR r' (\<lambda>(v, n). bindR (f' n) (\<lambda>(ps, n). Inr ((quote_lit a' @ '', '' @ v) # ps, n))))"
proof (rule res_rel_bind [OF assms(1)], simp only: prod.case)
  fix s m s' m'
  assume "r = Inr (s, m)" "r' = Inr (s', m')" and s: "shape s s'"
  then have "res_rel (list_all2 shape) (f m) (f' m')" by (intro assms(2))
  then show "res_rel (list_all2 shape) (bindR (f m) (\<lambda>(ps, n). Inr ((quote_lit a @ '', '' @ s) # ps, n)))
      (bindR (f' m') (\<lambda>(ps, n). Inr ((quote_lit a' @ '', '' @ s') # ps, n)))"
    by (rule res_rel_fst_bind) (rule list_all2_pair [OF s])
qed

lemma shape_select:
  "numbers_plain x \<Longrightarrow> query_raw_ok q \<Longrightarrow> outer_rel u u' \<Longrightarrow>
     res_rel shape (select_expr x st q u n) (select_expr x st (blank_query q) u' n')"
  "numbers_plain x \<Longrightarrow> query_raw_ok q \<Longrightarrow> outer_rel u u' \<Longrightarrow>
     res_rel shape (aggregate_expr x st q u n) (aggregate_expr x st (blank_query q) u' n')"
  "numbers_plain x \<Longrightarrow> query_raw_ok q \<Longrightarrow> list_all field_raw_ok fs \<Longrightarrow> outer_rel u u' \<Longrightarrow>
     res_rel (list_all2 shape) (aggregate_pairs x st q fs u oa n)
       (aggregate_pairs x st (blank_query q) (map blank_field fs) u' oa' n')"
  "numbers_plain x \<Longrightarrow> query_raw_ok q \<Longrightarrow> value_raw_ok v \<Longrightarrow> outer_rel u u' \<Longrightarrow>
     res_rel shape (aggregate_value x st q v u oa n)
       (aggregate_value x st (blank_query q) (blank_value v) u' oa' n')"
  "numbers_plain x \<Longrightarrow> list_all field_raw_ok fs \<Longrightarrow>
     res_rel shape (row_json x st fs a n) (row_json x st (map blank_field fs) a' n')"
  "numbers_plain x \<Longrightarrow> list_all field_raw_ok fs \<Longrightarrow>
     res_rel (list_all2 shape) (row_pairs x st fs a n) (row_pairs x st (map blank_field fs) a' n')"
  "numbers_plain x \<Longrightarrow> value_raw_ok v \<Longrightarrow>
     res_rel shape (field_sql x st v a n) (field_sql x st (blank_value v) a' n')"
  "numbers_plain x \<Longrightarrow> conn_raw_ok c \<Longrightarrow> outer_rel u u' \<Longrightarrow>
     res_rel shape (connection_expr x st c u n) (connection_expr x st (blank_conn c) u' n')"
proof (induction x st q u n and x st q u n and x st q fs u oa n and x st q v u oa n and x st fs a n and x st fs a n
    and x st v a n and x st c u n
    arbitrary: u' n' and u' n' and u' oa' n' and u' oa' n' and a' n' and a' n' and a' n' and u' n'
    rule: select_expr_aggregate_expr_aggregate_pairs_aggregate_value_row_json_row_pairs_field_sql_connection_expr.induct)
  case (1 x st q outer n)
  show ?case
  proof (cases "has_aggregate q")
    case True
    then show ?thesis using 1 by simp
  next
    case False
    have row: "res_rel shape (row_json x st (sq_fields q) (alias_name n) (Suc n))
       (row_json x st (map blank_field (sq_fields q)) (alias_name n') (Suc n'))"
      using 1 False query_fields_raw_ok by blast
    note tail = shape_from_where_order [OF "1.prems"]
    show ?thesis
      unfolding select_expr.simps Let_def blank_has_aggregate blank_query_sel if_not_P [OF False]
      by (rule res_rel_bind [OF row], simp only: prod.case, rule res_rel_bind [OF tail])
        (auto simp del: append.simps intro: shape_select_texts)
  qed
next
  case (2 x st q outer n)
  note tail = shape_from_where_order [OF "2.prems"]
  show ?case
    unfolding aggregate_expr.simps Let_def blank_query_sel
    by (rule res_rel_bind [OF tail], simp only: prod.case, rule res_rel_fst_bind [OF "2.IH"])
      (use "2.prems" query_fields_raw_ok in \<open>auto simp del: append.simps intro: shape_aggregate_text\<close>)
next
  case (4 x st q al v fs outer outer_alias n)
  show ?case
    unfolding list.map blank_field.simps aggregate_pairs.simps
    by (rule res_rel_Cons) (use 4 in auto)
next
  case (6 x st q flds outer outer_alias n)
  show ?case
  proof (cases "sq_nodes_limit q")
    case None
    have "res_rel shape (row_json x st flds outer_alias n) (row_json x st (map blank_field flds) oa' n')"
      using 6 None by simp
    then show ?thesis
      unfolding blank_value.simps aggregate_value.simps blank_query_sel None option.case
      by (rule res_rel_fst_bind) (rule shape_nodes_text)
  next
    case (Some l)
    then show ?thesis using 6 by (simp add: blank_nodes_query nodes_query_raw_ok)
  qed
next
  case (9 x st flds table_alias n)
  show ?case
    unfolding row_json.simps
    by (rule res_rel_fst_bind [OF "9.IH" [OF "9.prems"]]) (rule shape_object)
next
  case (11 x st al v fs table_alias n)
  show ?case
    unfolding list.map blank_field.simps row_pairs.simps
    by (rule res_rel_Cons) (use 11 in auto)
next
  case (12 x st column pg_type guard table_alias n)
  then show ?case using shape_guarded [of x "Some guard", OF _ _ shape_column_output]
    by (auto simp: opt_raw_ok_def intro!: res_rel_fst)
next
  case (19 x st spec table_alias n)
  show ?case by (simp add: shape_plain)
next
  case (23 x st conn outer n)
  have row: "res_rel shape (row_json x st (sq_fields (cn_query conn)) (alias_name n) (Suc n))
       (row_json x st (map blank_field (sq_fields (cn_query conn))) (alias_name n') (Suc n'))"
    using 23 query_fields_raw_ok conn_query_raw_ok by blast
  note tail = shape_from_where_order [OF "23.prems"(1) connection_query_raw_ok [OF "23.prems"(2)] "23.prems"(3)]
  show ?case
    unfolding connection_expr.simps Let_def blank_conn_sel blank_query_sel blank_connection_query
    by (rule res_rel_bind [OF row], simp only: prod.case, rule res_rel_bind [OF tail])
      (auto intro: shape_connection_sql shape_cursor)
qed (use shape_guarded shape_aggregate_json shape_column_output shape_typename_text shape_global_id shape_row_call
      in \<open>auto simp del: append.simps simp: opt_raw_ok_def intro!: res_rel_fst\<close>)

section \<open>Whole statements\<close>

lemma shape_root_field:
  assumes "numbers_plain x" "root_raw_ok r"
  shows "res_rel shape (root_field_sql x st r n) (root_field_sql x st (blank_root r) n')"
proof (cases r)
  case (RSelect a q)
  then have "res_rel shape (select_expr x st q None n) (select_expr x st (blank_query q) None n')"
    using assms by (intro shape_select(1)) auto
  then show ?thesis unfolding RSelect root_field_sql_def blank_root.simps root_field.case
    by (rule res_rel_fst_bind) (rule shape_lit_pair)
next
  case (RConnection a c)
  then have "res_rel shape (connection_expr x st c None n) (connection_expr x st (blank_conn c) None n')"
    using assms by (intro shape_select) auto
  then show ?thesis unfolding RConnection root_field_sql_def blank_root.simps root_field.case
    by (rule res_rel_fst_bind) (rule shape_lit_pair)
next
  case (RTypename a v)
  then show ?thesis
    using shape_lit_pair [OF shape_typename_text(1), of a v] by (simp add: root_field_sql_def)
qed

lemma shape_root_fields:
  assumes "numbers_plain x" "list_all root_raw_ok rs"
  shows "res_rel (list_all2 shape) (root_fields_sql x st rs n) (root_fields_sql x st (map blank_root rs) n')"
  using assms(2)
proof (induction rs arbitrary: n n')
  case Nil
  show ?case by simp
next
  case (Cons r rs)
  have r: "res_rel shape (root_field_sql x st r n) (root_field_sql x st (blank_root r) n')"
    using Cons.prems assms(1) by (intro shape_root_field) auto
  show ?case
    unfolding list.map root_fields_sql.simps
  proof (rule res_rel_bind [OF r], simp only: prod.case)
    fix s m s' m' assume s: "shape s s'"
    have "res_rel (list_all2 shape) (root_fields_sql x st rs m) (root_fields_sql x st (map blank_root rs) m')"
      using Cons by simp
    then show "res_rel (list_all2 shape) (bindR (root_fields_sql x st rs m) (\<lambda>(ss, n). Inr (s # ss, n)))
        (bindR (root_fields_sql x st (map blank_root rs) m') (\<lambda>(ss, n). Inr (s' # ss, n)))"
      by (rule res_rel_fst_bind) (simp add: s)
  qed
qed

lemma shape_operation:
  assumes "numbers_plain x" "list_all root_raw_ok rs" "operation_to_sql_opts x rs st = Inr s"
  shows "\<exists>s'. operation_to_sql_opts x (map blank_root rs) st = Inr s' \<and> shape s s'"
proof -
  have rel: "res_rel (list_all2 shape) (root_fields_sql x st rs 0) (root_fields_sql x st (map blank_root rs) 0)"
    using assms by (intro shape_root_fields)
  obtain ps n where ps: "root_fields_sql x st rs 0 = Inr (ps, n)"
    and s: "s = ''SELECT json_build_object('' @ join_with '', '' ps @ '') AS root''"
    using assms(3) by (auto simp: operation_to_sql_opts_def)
  from rel ps obtain ps' n' where ps': "root_fields_sql x st (map blank_root rs) 0 = Inr (ps', n')"
    and sh: "list_all2 shape ps ps'"
    by (cases "root_fields_sql x st (map blank_root rs) 0") (auto simp: res_rel_def)
  have "shape s (''SELECT json_build_object('' @ join_with '', '' ps' @ '') AS root'')"
    unfolding s using sh by (intro shape_surround shape_join) (simp_all add: plain_eval)
  then show ?thesis using ps' by (simp add: operation_to_sql_opts_def)
qed

end
