(* ===== verification/Sql_Shape_Mutation.thy ===== *)
theory Sql_Shape_Mutation
  imports Sql_Shape_Select
begin

text \<open>The skeleton theorem for mutations.\<close>

section \<open>Blanking mutations\<close>

fun blank_set_op :: "set_op \<Rightarrow> set_op" where
  "blank_set_op (SetOp c ty v) = SetOp [] ty (blank_scalar v)"
| "blank_set_op (IncOp c ty v) = IncOp [] ty (blank_scalar v)"

fun blank_response :: "mutation_response_field \<Rightarrow> mutation_response_field" where
  "blank_response (AffectedRows a) = AffectedRows []"
| "blank_response (Returning a fs) = Returning [] (map blank_field fs)"
| "blank_response (MTypename a v) = MTypename [] []"

fun blank_output :: "mutation_output \<Rightarrow> mutation_output" where
  "blank_output (Response fs) = Response (map blank_response fs)"
| "blank_output (SingleRow fs) = SingleRow (map blank_field fs)"

definition blank_conflict :: "on_conflict \<Rightarrow> on_conflict" where
  "blank_conflict oc = \<lparr>oc_constraint = [], oc_update_columns = blank_strings (oc_update_columns oc),
     oc_predicate = map_option blank_exp (oc_predicate oc), oc_set_ops = map blank_set_op (oc_set_ops oc)\<rparr>"

definition blank_insert :: "insert_mutation \<Rightarrow> insert_mutation" where
  "blank_insert i = \<lparr>im_table = blank_table (im_table i), im_columns = map (\<lambda>(c, ty). ([], ty)) (im_columns i),
     im_rows = map (map (map_option blank_scalar)) (im_rows i),
     im_on_conflict = map_option blank_conflict (im_on_conflict i),
     im_check = map_option blank_exp (im_check i), im_check_path = [], im_output = blank_output (im_output i)\<rparr>"

definition blank_update :: "update_mutation \<Rightarrow> update_mutation" where
  "blank_update u = \<lparr>um_table = blank_table (um_table u), um_sets = map blank_set_op (um_sets u),
     um_predicate = map_option blank_exp (um_predicate u), um_check = map_option blank_exp (um_check u),
     um_check_path = [], um_output = blank_output (um_output u)\<rparr>"

definition blank_delete :: "delete_mutation \<Rightarrow> delete_mutation" where
  "blank_delete d = \<lparr>dm_table = blank_table (dm_table d), dm_predicate = map_option blank_exp (dm_predicate d),
     dm_output = blank_output (dm_output d)\<rparr>"

fun blank_mutation :: "mutation_root \<Rightarrow> mutation_root" where
  "blank_mutation (FunctionCall a q) = FunctionCall [] (blank_query q)"
| "blank_mutation (Insert a i) = Insert [] (blank_insert i)"
| "blank_mutation (Update a u) = Update [] (blank_update u)"
| "blank_mutation (Delete a d) = Delete [] (blank_delete d)"
| "blank_mutation (MutTypename a v) = MutTypename [] []"

fun response_raw_ok :: "mutation_response_field \<Rightarrow> bool" where
  "response_raw_ok (Returning a fs) = list_all field_raw_ok fs"
| "response_raw_ok _ = True"

fun output_raw_ok :: "mutation_output \<Rightarrow> bool" where
  "output_raw_ok (Response fs) = list_all response_raw_ok fs"
| "output_raw_ok (SingleRow fs) = list_all field_raw_ok fs"

fun mutation_raw_ok :: "mutation_root \<Rightarrow> bool" where
  "mutation_raw_ok (FunctionCall a q) = query_raw_ok q"
| "mutation_raw_ok (Insert a i) \<longleftrightarrow> opt_raw_ok (im_check i) \<and> output_raw_ok (im_output i)
     \<and> (case im_on_conflict i of None \<Rightarrow> True | Some oc \<Rightarrow> opt_raw_ok (oc_predicate oc))"
| "mutation_raw_ok (Update a u) \<longleftrightarrow> opt_raw_ok (um_predicate u) \<and> opt_raw_ok (um_check u) \<and> output_raw_ok (um_output u)"
| "mutation_raw_ok (Delete a d) \<longleftrightarrow> opt_raw_ok (dm_predicate d) \<and> output_raw_ok (dm_output d)"
| "mutation_raw_ok (MutTypename a v) = True"

section \<open>Shape of the parts\<close>

lemma shape_response:
  assumes "numbers_plain x" "response_raw_ok f"
  shows "res_rel shape (mutation_response_field_sql x st cte f n) (mutation_response_field_sql x st cte (blank_response f) n')"
proof (cases f)
  case (AffectedRows a)
  have "shape (quote_lit a @ '', (SELECT count(*) FROM '' @ quote_ident cte @ '')'') (quote_lit [] @ '', (SELECT count(*) FROM '' @ quote_ident cte @ '')'')"
    by (rule shape_then_const [OF shape_lit shape_then_end [OF shape_ident]]) (simp_all add: plain_eval)
  then show ?thesis using AffectedRows by (simp add: mutation_response_field_sql_def)
next
  case (Returning a fs)
  then have "res_rel shape (row_json x st fs cte n) (row_json x st (map blank_field fs) cte n')"
    using assms by (intro shape_select) auto
  then show ?thesis
    unfolding Returning mutation_response_field_sql_def blank_response.simps mutation_response_field.case
    by (rule res_rel_fst_bind)
      (rule shape_then_const [OF shape_lit shape_then_const [OF _ shape_then_const [OF shape_empty_array shape_then_end [OF shape_ident]]]],
        simp_all add: plain_eval)
next
  case (MTypename a v)
  then show ?thesis
    using shape_lit_pair [OF shape_typename_text(1), of a v] by (simp add: mutation_response_field_sql_def)
qed

lemma shape_responses:
  assumes "numbers_plain x" "list_all response_raw_ok fs"
  shows "res_rel (list_all2 shape) (mutation_response_sql x st cte fs n) (mutation_response_sql x st cte (map blank_response fs) n')"
  using assms(2)
proof (induction fs arbitrary: n n')
  case (Cons f fs)
  have f: "res_rel shape (mutation_response_field_sql x st cte f n) (mutation_response_field_sql x st cte (blank_response f) n')"
    using Cons.prems assms(1) by (intro shape_response) auto
  show ?case
    unfolding list.map mutation_response_sql.simps
  proof (rule res_rel_bind [OF f], simp only: prod.case)
    fix s m s' m' assume s: "shape s s'"
    have "res_rel (list_all2 shape) (mutation_response_sql x st cte fs m) (mutation_response_sql x st cte (map blank_response fs) m')"
      using Cons by simp
    then show "res_rel (list_all2 shape) (bindR (mutation_response_sql x st cte fs m) (\<lambda>(ss, n). Inr (s # ss, n)))
        (bindR (mutation_response_sql x st cte (map blank_response fs) m') (\<lambda>(ss, n). Inr (s' # ss, n)))"
      by (rule res_rel_fst_bind) (simp add: s)
  qed
qed simp

lemma shape_output:
  assumes "numbers_plain x" "output_raw_ok out"
  shows "res_rel shape (mutation_output_sql x st cte out n) (mutation_output_sql x st cte (blank_output out) n')"
proof (cases out)
  case (Response fs)
  then have "res_rel (list_all2 shape) (mutation_response_sql x st cte fs n) (mutation_response_sql x st cte (map blank_response fs) n')"
    using assms by (intro shape_responses) auto
  then show ?thesis unfolding Response mutation_output_sql_def blank_output.simps mutation_output.case
    by (rule res_rel_fst_bind) (rule shape_object)
next
  case (SingleRow fs)
  then have "res_rel shape (row_json x st fs cte n) (row_json x st (map blank_field fs) cte n')"
    using assms by (intro shape_select) auto
  then show ?thesis unfolding SingleRow mutation_output_sql_def blank_output.simps mutation_output.case
    by (rule res_rel_fst_bind)
      (rule shape_const [OF _ shape_then_const [OF _ shape_then_end [OF shape_ident]]], simp_all add: plain_eval)
qed

lemma shape_set_op:
  assumes x: "numbers_plain x"
  shows "shape (set_op_sql x [] op) (set_op_sql x [] (blank_set_op op))"
    and "shape (set_op_sql x (quote_ident t @ ''.'') op) (set_op_sql x (quote_ident t' @ ''.'') (blank_set_op op))"
proof -
  have s: "shape (quote_ident c @ '' = '' @ scalar_sql x v ty) (quote_ident [] @ '' = '' @ scalar_sql x (blank_scalar v) ty)" for c v ty
    by (intro shape_then_const shape_ident shape_scalar x) (simp_all add: plain_eval)
  have i: "shape (quote_ident c @ '' = '' @ quote_ident c @ '' + '' @ scalar_sql x v ty)
     (quote_ident [] @ '' = '' @ quote_ident [] @ '' + '' @ scalar_sql x (blank_scalar v) ty)" for c v ty
    by (intro shape_then_const shape_ident shape_scalar x) (simp_all add: plain_eval)
  have t: "shape (quote_ident c @ '' = '' @ quote_ident t @ ''.'' @ quote_ident c @ '' + '' @ scalar_sql x v ty)
     (quote_ident [] @ '' = '' @ quote_ident t' @ ''.'' @ quote_ident [] @ '' + '' @ scalar_sql x (blank_scalar v) ty)" for c v ty
    by (intro shape_then_const shape_ident shape_scalar x) (simp_all add: plain_eval)
  show "shape (set_op_sql x [] op) (set_op_sql x [] (blank_set_op op))"
    using s i by (cases op) (simp_all add: set_op_sql_def)
  show "shape (set_op_sql x (quote_ident t @ ''.'') op) (set_op_sql x (quote_ident t' @ ''.'') (blank_set_op op))"
    using s t by (cases op) (simp_all add: set_op_sql_def)
qed

lemma shape_insert_row:
  assumes x: "numbers_plain x"
  shows "shape (insert_row_sql x cols row) (insert_row_sql x (map (\<lambda>(c, ty). ([], ty)) cols) (map (map_option blank_scalar) row))"
proof -
  have v: "shape (insert_value_sql x v c) (insert_value_sql x (map_option blank_scalar v) ([], snd c))" for v c
    by (cases v) (simp_all add: insert_value_sql_def shape_plain shape_scalar [OF x])
  have "list_all2 shape (map (\<lambda>(v, c). insert_value_sql x v c) (zip row cols))
     (map (\<lambda>(v, c). insert_value_sql x v c) (zip (map (map_option blank_scalar) row) (map (\<lambda>(c, ty). ([], ty)) cols)))"
    unfolding zip_map_map map_map comp_def case_prod_beta
    by (rule list_all2_shape_map) (simp add: v)
  then show ?thesis unfolding insert_row_sql_def
    by (intro shape_surround shape_join) (simp_all add: plain_eval)
qed

lemma shape_target_where:
  assumes "numbers_plain x" "opt_raw_ok p"
  shows "shape_opt (fst (target_where_sql x p a n)) (fst (target_where_sql x (map_option blank_exp p) a n'))"
proof (cases p)
  case (Some e)
  have "shape_opt ('' WHERE '' @ fst (bool_exp_sql x e a a n)) ('' WHERE '' @ fst (bool_exp_sql x (blank_exp e) a a n'))"
    using assms Some by (intro shape_opt_const shape_bool_exp) (simp_all add: plain_eval opt_raw_ok_def)
  then show ?thesis using Some by (simp add: target_where_sql_def case_prod_beta)
qed (simp add: target_where_sql_def shape_opt_def)

lemma shape_opt_of_shape:
  "shape y y' \<Longrightarrow> y \<noteq> [] \<Longrightarrow> y' \<noteq> [] \<Longrightarrow> \<not> starts_quote y \<Longrightarrow> \<not> starts_quote y' \<Longrightarrow> shape_opt y y'"
  by (simp add: shape_opt_def)

lemma shape_on_conflict:
  assumes x: "numbers_plain x" and ok: "opt_raw_ok (oc_predicate oc)"
  shows "shape_opt (fst (on_conflict_sql x t oc n)) (fst (on_conflict_sql x (blank_table t) (blank_conflict oc) n'))"
proof -
  define t0 where "t0 = blank_table t"
  define sets where "sets = (\<lambda>cs ops (t :: ir_table). map (\<lambda>c. quote_ident c @ '' = EXCLUDED.'' @ quote_ident c) cs
     @ map (set_op_sql x (quote_ident (it_name t) @ ''.'')) ops)"
  have ex: "shape (quote_ident c @ '' = EXCLUDED.'' @ quote_ident c) (quote_ident [] @ '' = EXCLUDED.'' @ quote_ident [])" for c
    by (intro shape_then_const shape_ident) (simp_all add: plain_eval)
  have set1: "list_all2 shape (map (\<lambda>c. quote_ident c @ '' = EXCLUDED.'' @ quote_ident c) (oc_update_columns oc))
     (map (\<lambda>c. quote_ident c @ '' = EXCLUDED.'' @ quote_ident c) (blank_strings (oc_update_columns oc)))"
    unfolding blank_strings_def map_map comp_def by (rule list_all2_shape_map) (rule ex)
  have set2: "list_all2 shape (map (set_op_sql x (quote_ident (it_name t) @ ''.'')) (oc_set_ops oc))
     (map (set_op_sql x (quote_ident (it_name t0) @ ''.'')) (map blank_set_op (oc_set_ops oc)))"
    unfolding map_map comp_def by (rule list_all2_shape_map) (rule shape_set_op(2) [OF x])
  have sets: "list_all2 shape (sets (oc_update_columns oc) (oc_set_ops oc) t)
      (sets (blank_strings (oc_update_columns oc)) (map blank_set_op (oc_set_ops oc)) t0)"
    unfolding sets_def using set1 set2 by (rule list_all2_appendI)
  have noop: "shape_opt ('' ON CONFLICT ON CONSTRAINT '' @ quote_ident (oc_constraint oc) @ '' DO NOTHING'')
     ('' ON CONFLICT ON CONSTRAINT '' @ quote_ident [] @ '' DO NOTHING'')"
    by (rule shape_opt_const [OF _ _ shape_then_end [OF shape_ident]]) (simp_all add: plain_eval)
  have upd: "shape_opt ('' ON CONFLICT ON CONSTRAINT '' @ quote_ident (oc_constraint oc) @ '' DO UPDATE SET ''
        @ join_with '', '' (sets (oc_update_columns oc) (oc_set_ops oc) t))
     ('' ON CONFLICT ON CONSTRAINT '' @ quote_ident [] @ '' DO UPDATE SET ''
        @ join_with '', '' (sets (blank_strings (oc_update_columns oc)) (map blank_set_op (oc_set_ops oc)) t0))"
    by (rule shape_opt_const [OF _ _ shape_then_const [OF shape_ident shape_join [OF sets]]]) (simp_all add: plain_eval)
  have wh: "shape_opt ('' WHERE '' @ fst (bool_exp_sql x e a a n)) ('' WHERE '' @ fst (bool_exp_sql x (blank_exp e) a' a' n'))"
    if "oc_predicate oc = Some e" for e a a'
    using that ok x by (intro shape_opt_const shape_bool_exp) (simp_all add: plain_eval opt_raw_ok_def)
  have sel: "oc_update_columns (blank_conflict oc) = blank_strings (oc_update_columns oc)"
    "oc_set_ops (blank_conflict oc) = map blank_set_op (oc_set_ops oc)" "oc_constraint (blank_conflict oc) = []"
    "oc_predicate (blank_conflict oc) = map_option blank_exp (oc_predicate oc)"
    by (simp_all add: blank_conflict_def)
  have empty: "(blank_strings (oc_update_columns oc) = [] \<and> map blank_set_op (oc_set_ops oc) = []) =
     (oc_update_columns oc = [] \<and> oc_set_ops oc = [])"
    by (simp add: blank_strings_def)
  show ?thesis
  proof (cases "oc_update_columns oc = [] \<and> oc_set_ops oc = []")
    case True
    show ?thesis
      unfolding on_conflict_sql_def sel empty if_P [OF True] fst_conv by (rule noop)
  next
    case False
    show ?thesis
    proof (cases "oc_predicate oc")
      case None
      show ?thesis using upd
        by (simp only: on_conflict_sql_def sel empty if_not_P [OF False] Let_def None option.case option.map fst_conv
            sets_def t0_def)
    next
      case (Some e)
      show ?thesis using shape_opt_append [OF upd wh [OF Some, of "it_name t" "it_name t0"]]
        by (simp only: on_conflict_sql_def sel empty if_not_P [OF False] Let_def Some option.case option.map fst_conv
            case_prod_beta sets_def t0_def append_assoc)
    qed
  qed
qed

lemma shape_insert_dml:
  assumes x: "numbers_plain x" and ok: "case im_on_conflict i of None \<Rightarrow> True | Some oc \<Rightarrow> opt_raw_ok (oc_predicate oc)"
  shows "shape (fst (insert_dml x i n)) (fst (insert_dml x (blank_insert i) n'))"
proof -
  define conf where "conf = (\<lambda>(i :: insert_mutation) n. case im_on_conflict i of
             Some oc \<Rightarrow> on_conflict_sql x (im_table i) oc n | None \<Rightarrow> ([], n))"
  have conf: "shape_opt (fst (conf i n)) (fst (conf (blank_insert i) n'))"
    using ok shape_on_conflict [OF x, of _ "im_table i" n n']
    by (cases "im_on_conflict i") (simp_all add: conf_def blank_insert_def shape_opt_def)
  have cols: "list_all2 shape (map (quote_ident \<circ> fst) (im_columns i)) (map (quote_ident \<circ> fst) (map (\<lambda>(c, ty). ([], ty)) (im_columns i)))"
    unfolding map_map comp_def case_prod_beta fst_conv by (rule list_all2_shape_map) (rule shape_ident)
  have rows: "list_all2 shape (map (insert_row_sql x (im_columns i)) (im_rows i))
     (map (insert_row_sql x (map (\<lambda>(c, ty). ([], ty)) (im_columns i))) (map (map (map_option blank_scalar)) (im_rows i)))"
    unfolding map_map [of "insert_row_sql x (map (\<lambda>(c, ty). ([], ty)) (im_columns i))"] comp_def
    by (rule list_all2_shape_map) (rule shape_insert_row [OF x])
  have "shape (''INSERT INTO '' @ table_sql (im_table i) @ '' ('' @ join_with '', '' (map (quote_ident \<circ> fst) (im_columns i))
        @ '') VALUES '' @ join_with '', '' (map (insert_row_sql x (im_columns i)) (im_rows i)) @ fst (conf i n) @ '' RETURNING *'')
     (''INSERT INTO '' @ table_sql (blank_table (im_table i)) @ '' ('' @ join_with '', '' (map (quote_ident \<circ> fst) (map (\<lambda>(c, ty). ([], ty)) (im_columns i)))
        @ '') VALUES '' @ join_with '', '' (map (insert_row_sql x (map (\<lambda>(c, ty). ([], ty)) (im_columns i))) (map (map (map_option blank_scalar)) (im_rows i)))
        @ fst (conf (blank_insert i) n') @ '' RETURNING *'')"
    by (rule shape_const [OF _ shape_then_const [OF shape_table shape_then_const [OF shape_join [OF cols]
          shape_then_opt_end [OF shape_join [OF rows] conf]]]]) (simp_all add: plain_eval)
  then show ?thesis
    by (simp only: insert_dml_def Let_def case_prod_beta fst_conv conf_def append_assoc)
      (simp add: blank_insert_def)
qed

lemma shape_update_dml:
  assumes x: "numbers_plain x" and ok: "opt_raw_ok (um_predicate u)"
  shows "shape (fst (update_dml x u n)) (fst (update_dml x (blank_update u) n'))"
proof -
  have sets: "list_all2 shape (map (set_op_sql x []) (um_sets u)) (map (set_op_sql x []) (map blank_set_op (um_sets u)))"
    unfolding map_map comp_def by (rule list_all2_shape_map) (rule shape_set_op(1) [OF x])
  have "shape (''UPDATE '' @ table_sql (um_table u) @ '' AS '' @ quote_ident ''_upd_target'' @ '' SET ''
       @ join_with '', '' (map (set_op_sql x []) (um_sets u)) @ fst (target_where_sql x (um_predicate u) ''_upd_target'' n) @ '' RETURNING *'')
     (''UPDATE '' @ table_sql (blank_table (um_table u)) @ '' AS '' @ quote_ident ''_upd_target'' @ '' SET ''
       @ join_with '', '' (map (set_op_sql x []) (map blank_set_op (um_sets u)))
       @ fst (target_where_sql x (map_option blank_exp (um_predicate u)) ''_upd_target'' n') @ '' RETURNING *'')"
    by (rule shape_const [OF _ shape_then_const [OF shape_table shape_then_const [OF shape_ident
          shape_then_opt_end [OF shape_join [OF sets] shape_target_where [OF x ok]]]]]) (simp_all add: plain_eval)
  then show ?thesis
    by (simp only: update_dml_def Let_def case_prod_beta fst_conv) (simp add: blank_update_def)
qed

lemma shape_delete_dml:
  assumes x: "numbers_plain x" and ok: "opt_raw_ok (dm_predicate d)"
  shows "shape (fst (delete_dml x d n)) (fst (delete_dml x (blank_delete d) n'))"
proof -
  have "shape (''DELETE FROM '' @ table_sql (dm_table d) @ '' AS '' @ quote_ident ''_del_target''
       @ fst (target_where_sql x (dm_predicate d) ''_del_target'' n) @ '' RETURNING *'')
     (''DELETE FROM '' @ table_sql (blank_table (dm_table d)) @ '' AS '' @ quote_ident ''_del_target''
       @ fst (target_where_sql x (map_option blank_exp (dm_predicate d)) ''_del_target'' n') @ '' RETURNING *'')"
    by (rule shape_const [OF _ shape_then_const [OF shape_table
          shape_then_opt_end [OF shape_ident shape_target_where [OF x ok]]]]) (simp_all add: plain_eval)
  then show ?thesis
    by (simp only: delete_dml_def Let_def case_prod_beta fst_conv) (simp add: blank_delete_def)
qed

lemma shape_mutation_select:
  assumes x: "numbers_plain x" and dml: "shape dml dml'" and ok: "opt_raw_ok c" "output_raw_ok out"
    and res: "mutation_select x st cte dml c p out n = Inr s"
  shows "\<exists>s'. mutation_select x st cte dml' (map_option blank_exp c) p' (blank_output out) n' = Inr s' \<and> shape s s'"
proof -
  define guarded where "guarded = (\<lambda>c p r n. case c of
              Some c \<Rightarrow> ''CASE WHEN '' @ (''(SELECT count(*) FROM '' @ quote_ident cte @ '' WHERE NOT ('' @ fst (bool_exp_sql x c cte cte n) @ ''))'')
                    @ '' > 0 THEN dist_api.check_violation('' @ quote_lit (check_payload x p) @ '') ELSE '' @ r @ '' END''
            | None \<Rightarrow> r)"
  have g: "shape (guarded c p r m) (guarded (map_option blank_exp c) p' r' m')" if "shape r r'" for r r' m m'
  proof (cases c)
    case (Some e)
    have "shape (''CASE WHEN '' @ (''(SELECT count(*) FROM '' @ quote_ident cte @ '' WHERE NOT ('' @ fst (bool_exp_sql x e cte cte m) @ ''))'')
                    @ '' > 0 THEN dist_api.check_violation('' @ quote_lit (check_payload x p) @ '') ELSE '' @ r @ '' END'')
      (''CASE WHEN '' @ (''(SELECT count(*) FROM '' @ quote_ident cte @ '' WHERE NOT ('' @ fst (bool_exp_sql x (blank_exp e) cte cte m') @ ''))'')
                    @ '' > 0 THEN dist_api.check_violation('' @ quote_lit (check_payload x p') @ '') ELSE '' @ r' @ '' END'')"
      by (rule shape_const [OF _ shape_then_const [OF shape_const [OF _ shape_then_const [OF shape_ident shape_then_end
            [OF shape_bool_exp [OF x]]]] shape_then_const [OF shape_lit shape_then_end [OF that]]]])
        (use ok Some in \<open>simp_all add: plain_eval opt_raw_ok_def\<close>)
    then show ?thesis using Some by (simp only: guarded_def option.case option.map)
  qed (simp add: guarded_def that)
  obtain r m where r: "mutation_output_sql x st cte out n = Inr (r, m)"
    and s: "s = ''WITH '' @ quote_ident cte @ '' AS ('' @ dml @ '') SELECT '' @ guarded c p r m @ '' AS root''"
    using res by (auto simp: mutation_select_def Let_def guarded_def case_prod_beta split: option.splits)
  obtain r' m' where r': "mutation_output_sql x st cte (blank_output out) n' = Inr (r', m')" and rr: "shape r r'"
    using shape_output [OF x ok(2), of st cte n n'] r
    by (cases "mutation_output_sql x st cte (blank_output out) n'") (auto simp: res_rel_def)
  have "shape s (''WITH '' @ quote_ident cte @ '' AS ('' @ dml' @ '') SELECT '' @ guarded (map_option blank_exp c) p' r' m' @ '' AS root'')"
    unfolding s by (rule shape_const [OF _ shape_then_const [OF shape_ident shape_then_const [OF dml shape_then_end [OF g [OF rr]]]]])
      (simp_all add: plain_eval)
  then show ?thesis using r'
    by (auto simp: mutation_select_def Let_def guarded_def case_prod_beta split: option.splits)
qed

lemma shape_mutation:
  assumes x: "numbers_plain x" and ok: "mutation_raw_ok r" and res: "mutation_to_sql_opts x r st = Inr s"
  shows "\<exists>s'. mutation_to_sql_opts x (blank_mutation r) st = Inr s' \<and> shape s s'"
proof (cases r)
  case (FunctionCall a q)
  obtain s0 m where q: "select_expr x st q None 0 = Inr (s0, m)" and s: "s = ''SELECT '' @ s0 @ '' AS root''"
    using res by (auto simp: mutation_to_sql_opts_def FunctionCall simp del: select_expr.simps)
  have "res_rel shape (select_expr x st q None 0) (select_expr x st (blank_query q) None 0)"
    using x ok FunctionCall by (intro shape_select) auto
  then obtain s1 m1 where q1: "select_expr x st (blank_query q) None 0 = Inr (s1, m1)" and sh: "shape s0 s1"
    using q by (cases "select_expr x st (blank_query q) None 0") (auto simp: res_rel_def simp del: select_expr.simps)
  have "shape s (''SELECT '' @ s1 @ '' AS root'')"
    unfolding s using sh by (intro shape_surround) (simp_all add: plain_eval)
  then show ?thesis using q1 by (simp add: mutation_to_sql_opts_def FunctionCall del: select_expr.simps)
next
  case (Insert a i)
  then show ?thesis
    using shape_mutation_select [OF x shape_insert_dml [OF x], of i "im_check i" "im_output i" st "''ins''" 0
        "im_check_path i" "snd (insert_dml x i 0)" s 0 "[]" "snd (insert_dml x (blank_insert i) 0)"] ok res
    by (simp add: mutation_to_sql_opts_def case_prod_beta) (simp add: blank_insert_def)
next
  case (Update a u)
  then show ?thesis
    using shape_mutation_select [OF x shape_update_dml [OF x], of u "um_check u" "um_output u" st "''upd''" 0
        "um_check_path u" "snd (update_dml x u 0)" s 0 "[]" "snd (update_dml x (blank_update u) 0)"] ok res
    by (simp add: mutation_to_sql_opts_def case_prod_beta) (simp add: blank_update_def)
next
  case (Delete a d)
  then show ?thesis
    using shape_mutation_select [OF x shape_delete_dml [OF x], of d None "dm_output d" st "''del''" 0
        "''$''" "snd (delete_dml x d 0)" s 0 "''$''" "snd (delete_dml x (blank_delete d) 0)"] ok res
    by (simp add: mutation_to_sql_opts_def case_prod_beta opt_raw_ok_def) (simp add: blank_delete_def)
next
  case (MutTypename a v)
  have "shape (''SELECT '' @ quote_lit v @ ''::text AS root'') (''SELECT '' @ quote_lit [] @ ''::text AS root'')"
    by (intro shape_surround shape_lit) (simp_all add: plain_eval)
  then show ?thesis using res by (auto simp: mutation_to_sql_opts_def MutTypename)
qed

end
