(* ===== verification/Sql_Wf.thy ===== *)
theory Sql_Wf
  imports Sql_Shape_Mutation
begin

text \<open>
  Which IR the generator accepts: \<open>query_wf nested q\<close> says that no
  \<open>panic!\<close>/\<open>expect\<close> of \<open>crates/sqlgen/src/lib.rs\<close> is reached, where
  \<open>nested\<close> tells whether an enclosing row exists. Then every well-formed
  operation has SQL, and the alias counter only moves forward.
\<close>

section \<open>Well-formed IR\<close>

fun from_wf :: "bool \<Rightarrow> from_source \<Rightarrow> bool" where
  "from_wf nested (FromRowFunction _ _ _) = nested"
| "from_wf nested _ = True"

fun query_wf :: "bool \<Rightarrow> select_query \<Rightarrow> bool"
and field_wf :: "output_field \<Rightarrow> bool"
and value_wf :: "field_value \<Rightarrow> bool"
and agg_field_wf :: "output_field \<Rightarrow> bool"
and agg_value_wf :: "field_value \<Rightarrow> bool"
and conn_wf :: "bool \<Rightarrow> connection \<Rightarrow> bool" where
  "query_wf nested (SelectQuery f fs p obs l nl off d s) \<longleftrightarrow> from_wf nested f \<and>
     (if list_ex (\<lambda>f. is_aggregate_value (of_value f)) fs then list_all agg_field_wf fs else list_all field_wf fs)"
| "field_wf (OutputField a v) = value_wf v"
| "value_wf (FObject q j) = query_wf True q"
| "value_wf (FArray q j b) = query_wf True q"
| "value_wf (FNestedConnection c) = conn_wf True c"
| "value_wf (FAggregate _) = False"
| "value_wf (FNodes _) = False"
| "value_wf _ = True"
| "agg_field_wf (OutputField a v) = agg_value_wf v"
| "agg_value_wf (FAggregate _) = True"
| "agg_value_wf (FNodes fs) = list_all field_wf fs"
| "agg_value_wf (FTypename _) = True"
| "agg_value_wf _ = False"
| "conn_wf nested (Connection (SelectQuery f fs p obs l nl off d s) j pk sc t cfs page) \<longleftrightarrow>
     from_wf nested f \<and> list_all field_wf fs"

fun root_wf :: "root_field \<Rightarrow> bool" where
  "root_wf (RSelect _ q) = query_wf False q"
| "root_wf (RConnection _ c) = conn_wf False c"
| "root_wf (RTypename _ _) = True"

lemma query_wf_iff:
  "query_wf nested q \<longleftrightarrow> from_wf nested (sq_from q) \<and>
     (if has_aggregate q then list_all agg_field_wf (sq_fields q) else list_all field_wf (sq_fields q))"
  by (cases q) (simp add: has_aggregate_def)

lemma conn_wf_iff: "conn_wf nested c \<longleftrightarrow> from_wf nested (sq_from (cn_query c)) \<and> list_all field_wf (sq_fields (cn_query c))"
  by (cases "(nested, c)" rule: conn_wf.cases) auto

lemma field_wf_not_aggregate: "field_wf f \<Longrightarrow> \<not> is_aggregate_value (of_value f)"
  by (cases f; cases "of_value f") auto

lemma fields_wf_not_aggregate: "list_all field_wf fs \<Longrightarrow> \<not> list_ex (\<lambda>f. is_aggregate_value (of_value f)) fs"
  by (auto simp: list_all_iff list_ex_iff dest: field_wf_not_aggregate)

lemma nodes_query_wf: "from_wf nested (sq_from q) \<Longrightarrow> list_all field_wf fs \<Longrightarrow> query_wf nested (nodes_query q l fs)"
  by (simp add: nodes_query_def fields_wf_not_aggregate)

section \<open>The generator is total on well-formed IR\<close>

text \<open>\<open>yields r n\<close>: the step succeeds and has not moved the alias counter back.\<close>

definition yields :: "sql_panic + 'a \<times> nat \<Rightarrow> nat \<Rightarrow> bool" where
  "yields r n \<longleftrightarrow> (\<exists>s m. r = Inr (s, m) \<and> n \<le> m)"

lemma yields_Inr [simp]: "yields (Inr p) n \<longleftrightarrow> n \<le> snd p"
  by (cases p) (auto simp: yields_def)

lemma yields_Inl [simp]: "\<not> yields (Inl e) n"
  by (simp add: yields_def)

lemma yields_bind:
  "yields r n \<Longrightarrow> (\<And>s m. r = Inr (s, m) \<Longrightarrow> yields (f (s, m)) m) \<Longrightarrow> yields (bindR r f) n"
  by (fastforce simp: yields_def)

lemma yields_weaken: "yields r m \<Longrightarrow> n \<le> m \<Longrightarrow> yields r n"
  by (auto simp: yields_def)

lemma compare_sql_count: "n \<le> snd (compare_sql x col ty op a r n)"
  by (cases op) (simp_all add: compare_sql_def Let_def)

lemma bool_exp_sql_count:
  "n \<le> snd (bool_exp_sql x e a r n)"
  "n \<le> snd (bool_exps_sql x es a r n)"
proof (induction x e a r n and x es a r n rule: bool_exp_sql_bool_exps_sql.induct)
  case (10 x e es a r n)
  have "snd (bool_exp_sql x e a r n) \<le> snd (bool_exps_sql x es a r (snd (bool_exp_sql x e a r n)))"
    using 10(2) by (cases "bool_exp_sql x e a r n") auto
  then show ?case using 10(1) by (simp add: case_prod_beta)
qed (auto simp: case_prod_beta Let_def compare_sql_count intro: order_trans dest: Suc_leD)

lemma guarded_sql_count: "n \<le> snd (guarded_sql x g a e n)"
  using bool_exp_sql_count(1) by (auto simp: guarded_sql_def case_prod_beta split: option.splits)

lemma map_count_mono: "(\<And>y n. n \<le> snd (f y n)) \<Longrightarrow> n \<le> snd (map_count f ys n)"
proof (induction ys arbitrary: n)
  case (Cons y ys)
  then show ?case using Cons.prems [of n y] Cons.IH [of "snd (f y n)"] order_trans by (fastforce simp: case_prod_beta)
qed simp

lemma aggregate_json_count: "n \<le> snd (aggregate_json x fs a n)"
proof -
  have col: "m \<le> snd (aggregate_column_sql x op a c m)" for op c m
    using guarded_sql_count by (auto simp: aggregate_column_sql_def case_prod_beta)
  have "m \<le> snd (aggregate_field_sql x a f m)" for f m
    using col by (auto simp: aggregate_field_sql_def case_prod_beta Let_def intro: map_count_mono split: aggregate_op.splits)
  then show ?thesis by (auto simp: aggregate_json_def case_prod_beta intro: map_count_mono)
qed

lemma where_sql_count: "n \<le> snd (where_sql x p a outer n)"
  using bool_exp_sql_count(1) by (auto simp: where_sql_def case_prod_beta Let_def split: option.splits)

lemma relationship_conds_count: "n \<le> snd (relationship_conds x ra a j p n)"
  using bool_exp_sql_count(1) by (auto simp: relationship_conds_def case_prod_beta split: option.splits)

lemma order_sql_count: "n \<le> snd (order_sql x obs a n)"
proof -
  have "m \<le> snd (order_by_sql x a ob m)" for ob m
    using Suc_leD [OF relationship_conds_count]
    by (auto simp: order_by_sql_def case_prod_beta Let_def split: order_by_target.splits)
  then show ?thesis by (auto simp: order_sql_def case_prod_beta intro: map_count_mono)
qed

lemma from_where_order_yields:
  "from_wf (outer \<noteq> None) (sq_from q) \<Longrightarrow> yields (from_where_order x q a outer n) n"
  using where_sql_count [of n x "sq_predicate q" a outer]
    order_sql_count [of "snd (where_sql x (sq_predicate q) a outer n)" x "sq_order_by q" a]
  by (auto simp: from_where_order_def from_item_sql_def case_prod_beta split: from_source.splits option.splits)

lemma select_yields:
  "query_wf (outer \<noteq> None) q \<Longrightarrow> yields (select_expr x st q outer n) n"
  "has_aggregate q \<Longrightarrow> query_wf (outer \<noteq> None) q \<Longrightarrow> yields (aggregate_expr x st q outer n) n"
  "from_wf (outer \<noteq> None) (sq_from q) \<Longrightarrow> list_all agg_field_wf fs \<Longrightarrow> yields (aggregate_pairs x st q fs outer oa n) n"
  "from_wf (outer \<noteq> None) (sq_from q) \<Longrightarrow> agg_value_wf v \<Longrightarrow> yields (aggregate_value x st q v outer oa n) n"
  "list_all field_wf fs \<Longrightarrow> yields (row_json x st fs ta n) n"
  "list_all field_wf fs \<Longrightarrow> yields (row_pairs x st fs ta n) n"
  "value_wf v \<Longrightarrow> yields (field_sql x st v ta n) n"
  "conn_wf (outer \<noteq> None) c \<Longrightarrow> yields (connection_expr x st c outer n) n"
proof (induction x st q outer n and x st q outer n and x st q fs outer oa n and x st q v outer oa n and
    x st fs ta n and x st fs ta n and x st v ta n and x st c outer n
    rule: select_expr_aggregate_expr_aggregate_pairs_aggregate_value_row_json_row_pairs_field_sql_connection_expr.induct)
  case (1 x st q outer n)
  show ?case
  proof (cases "has_aggregate q")
    case True
    then show ?thesis using 1 by simp
  next
    case False
    then have row: "yields (row_json x st (sq_fields q) (alias_name n) (Suc n)) (Suc n)"
      and fwf: "from_wf (outer \<noteq> None) (sq_from q)"
      using 1 by (auto simp: query_wf_iff)
    have "yields (select_expr x st q outer n) (Suc n)"
      unfolding select_expr.simps Let_def if_not_P [OF False]
      by (rule yields_bind [OF row], simp only: prod.case, rule yields_bind [OF from_where_order_yields [OF fwf]]) auto
    then show ?thesis by (rule yields_weaken) simp
  qed
next
  case (2 x st q outer n)
  have fwf: "from_wf (outer \<noteq> None) (sq_from q)" and fs: "list_all agg_field_wf (sq_fields q)"
    using 2 by (auto simp: query_wf_iff)
  have "yields (aggregate_expr x st q outer n) (Suc n)"
    unfolding aggregate_expr.simps Let_def
  proof (rule yields_bind [OF from_where_order_yields [OF fwf]], simp only: prod.case)
    fix tail m
    assume "from_where_order x q (alias_name n) outer (Suc n) = Inr (tail, m)"
    from "2.IH" [OF refl this refl refl refl fwf fs]
    have "yields (aggregate_pairs x st q (sq_fields q) outer (alias_name m) (Suc m)) m"
      by (rule yields_weaken) simp
    then show "yields (bindR (aggregate_pairs x st q (sq_fields q) outer (alias_name m) (Suc m))
        (\<lambda>(pairs, n). Inr (''(SELECT json_build_object('' @ join_with '', '' pairs @ '') FROM (SELECT ''
          @ distinct_clause (sq_distinct_on q) (alias_name n') @ ''* '' @ tail @ '') AS ''
          @ quote_ident (alias_name m) @ '')'', n))) m" for n'
      by (rule yields_bind) auto
  qed
  then show ?case by (rule yields_weaken) simp
next
  case (4 x st q al v fs outer oa n)
  have v: "yields (aggregate_value x st q v outer oa n) n" using 4 by simp
  show ?case
    unfolding aggregate_pairs.simps
  proof (rule yields_bind [OF v], simp only: prod.case)
    fix s m
    assume "aggregate_value x st q v outer oa n = Inr (s, m)"
    then have "yields (aggregate_pairs x st q fs outer oa m) m" using 4 by auto
    then show "yields (bindR (aggregate_pairs x st q fs outer oa m)
        (\<lambda>(pairs, n). Inr ((quote_lit al @ '', '' @ s) # pairs, n))) m"
      by (rule yields_bind) auto
  qed
next
  case (6 x st q fs outer oa n)
  show ?case
  proof (cases "sq_nodes_limit q")
    case None
    then have "yields (row_json x st fs oa n) n" using 6 by simp
    then show ?thesis using None by (auto intro: yields_bind)
  next
    case (Some l)
    then show ?thesis using 6 nodes_query_wf by simp
  qed
next
  case (9 x st fs ta n)
  then have "yields (row_pairs x st fs ta n) n" by simp
  then show ?case unfolding row_json.simps by (rule yields_bind) auto
next
  case (11 x st al v fs ta n)
  have v: "yields (field_sql x st v ta n) n" using 11 by simp
  show ?case
    unfolding row_pairs.simps
  proof (rule yields_bind [OF v], simp only: prod.case)
    fix s m
    assume "field_sql x st v ta n = Inr (s, m)"
    then have "yields (row_pairs x st fs ta m) m" using 11 by auto
    then show "yields (bindR (row_pairs x st fs ta m)
        (\<lambda>(pairs, n). Inr ((quote_lit al @ '', '' @ s) # pairs, n))) m"
      by (rule yields_bind) auto
  qed
next
  case (23 x st conn outer n)
  have row: "yields (row_json x st (sq_fields (cn_query conn)) (alias_name n) (Suc n)) (Suc n)"
    and fwf: "from_wf (outer \<noteq> None) (sq_from (connection_query conn))"
    using 23 by (auto simp: conn_wf_iff connection_query_def Let_def)
  have "yields (connection_expr x st conn outer n) (Suc n)"
    unfolding connection_expr.simps Let_def
    by (rule yields_bind [OF row], simp only: prod.case, rule yields_bind [OF from_where_order_yields [OF fwf]]) auto
  then show ?case by (rule yields_weaken) simp
qed (auto simp: guarded_sql_count aggregate_json_count elim: agg_value_wf.elims)

section \<open>Operations and mutations\<close>

lemma root_fields_yields: "list_all root_wf rs \<Longrightarrow> yields (root_fields_sql x st rs n) n"
proof (induction rs arbitrary: n)
  case (Cons r rs)
  have "yields (root_field_sql x st r n) n"
    using Cons.prems select_yields(1) [of None] select_yields(8) [of None]
    by (cases r) (auto simp: root_field_sql_def simp del: select_expr.simps connection_expr.simps intro!: yields_bind)
  moreover have "yields (root_fields_sql x st rs m) m" for m using Cons by simp
  ultimately show ?case
    unfolding root_fields_sql.simps by (intro yields_bind) (auto intro!: yields_bind)
qed simp

fun output_wf :: "mutation_output \<Rightarrow> bool" where
  "output_wf (Response fs) = list_all (\<lambda>f. case f of Returning _ flds \<Rightarrow> list_all field_wf flds | _ \<Rightarrow> True) fs"
| "output_wf (SingleRow flds) = list_all field_wf flds"

fun mutation_wf :: "mutation_root \<Rightarrow> bool" where
  "mutation_wf (FunctionCall _ q) = query_wf False q"
| "mutation_wf (Insert _ i) = output_wf (im_output i)"
| "mutation_wf (Update _ u) = output_wf (um_output u)"
| "mutation_wf (Delete _ d) = output_wf (dm_output d)"
| "mutation_wf (MutTypename _ _) = True"

lemma response_yields:
  "list_all (\<lambda>f. case f of Returning _ flds \<Rightarrow> list_all field_wf flds | _ \<Rightarrow> True) fs \<Longrightarrow>
     yields (mutation_response_sql x st cte fs n) n"
proof (induction fs arbitrary: n)
  case (Cons f fs)
  have "yields (mutation_response_field_sql x st cte f n) n"
    using Cons.prems select_yields(5)
    by (cases f) (auto simp: mutation_response_field_sql_def simp del: row_json.simps intro!: yields_bind)
  moreover have "yields (mutation_response_sql x st cte fs m) m" for m using Cons by simp
  ultimately show ?case
    unfolding mutation_response_sql.simps by (intro yields_bind) (auto intro!: yields_bind)
qed simp

lemma output_yields: "output_wf out \<Longrightarrow> yields (mutation_output_sql x st cte out n) n"
  using response_yields select_yields(5)
  by (cases out) (auto simp: mutation_output_sql_def simp del: row_json.simps intro!: yields_bind)

lemma mutation_select_ok: "output_wf out \<Longrightarrow> \<exists>s. mutation_select x st cte stmt chk path out n = Inr s"
  using output_yields [of out x st cte n] by (auto simp: mutation_select_def yields_def Let_def)

end
