(* ===== verification/Sql_Properties.thy ===== *)
theory Sql_Properties
  imports Sql_Wf
begin

text \<open>
  What the SQL generator guarantees: it always produces a statement from
  well-formed IR, and no string of a request, of a session or of the metadata
  leaves the quotes the generator puts around it.
\<close>

section \<open>A concrete instance of the external functions\<close>

text \<open>Decimal rendering of the integers; enough to evaluate the definitions on examples.\<close>

definition sample_extern :: extern where
  "sample_extern = \<lparr>json_display = (\<lambda>_. ''{}''),
     num_display = (\<lambda>n. case n of PosInt w \<Rightarrow> u64_str w | NegInt i \<Rightarrow> CHR ''-'' # nat_str (nat (- i)) | Float w \<Rightarrow> u64_str w),
     json_parse = (\<lambda>_. None), b64_decode = (\<lambda>_. None), str_debug = (\<lambda>s. s), table_error = ''data did not match any variant of untagged enum QualifiedTable''\<rparr>"

lemma plain_minus_nat: "plain (CHR ''-'' # nat_str n)"
proof -
  have "plain (nat_str n)" by (rule plain_digits) (rule nat_str_digits)
  moreover have "hd (nat_str n) \<noteq> CHR ''-''" using nat_str_digits [of "hd (nat_str n)" n] by auto
  ultimately show ?thesis by (cases "nat_str n") auto
qed

lemma sample_numbers_plain: "numbers_plain sample_extern"
  using plain_minus_nat by (auto simp: numbers_plain_def sample_extern_def split: jnum.splits)

definition sample_query :: "string \<Rightarrow> select_query" where
  "sample_query v = SelectQuery (FromTable \<lparr>it_schema = ''public'', it_name = ''author''\<rparr>)
     [OutputField ''id'' (FColumn ''id'' ''int4''), OutputField ''name'' (FColumn ''name'' ''text'')]
     (Some (And [Compare ''name'' ''text'' (Eq (Scalar (JString v)))])) [] (Some 10) None None [] False"

definition hostile :: string where
  "hostile = ''x'' @ [sq] @ ''); DROP TABLE author; --''"

definition sample_update :: "string \<Rightarrow> update_mutation" where
  "sample_update v = \<lparr>um_table = \<lparr>it_schema = ''public'', it_name = ''author''\<rparr>,
     um_sets = [SetOp ''name'' ''text'' (Scalar (JString v))], um_predicate = Some (Compare ''id'' ''int4'' (Eq (Scalar (JNumber (PosInt 1))))),
     um_check = None, um_check_path = ''$'', um_output = Response [AffectedRows ''affected_rows'']\<rparr>"

lemma shape_common: "shape s b \<Longrightarrow> shape s' b \<Longrightarrow> skeleton s = skeleton s' \<and> TBad \<notin> set (sql_scan s)"
  using shape_skeleton shape_no_bad by metis

section \<open>Properties\<close>

text \<open>
  C25. Queries cannot be injected into. Two operations that differ only in the
  contents of string values and of quoted names (the same blanked IR) are
  rendered to SQL with the same token skeleton, so the extra contents never
  become SQL code; and the scanner meets no unterminated quote, comment or
  dollar quote. The hypotheses name the few strings inserted without quoting.
\<close>

theorem operation_injection_free:
  assumes "numbers_plain x" "list_all root_raw_ok rs" "list_all root_raw_ok rs'"
    and "map blank_root rs = map blank_root rs'"
    and "operation_to_sql_opts x rs st = Inr s" "operation_to_sql_opts x rs' st = Inr s'"
  shows "skeleton s = skeleton s' \<and> TBad \<notin> set (sql_scan s)"
  using shape_operation [OF assms(1,2,5)] shape_operation [OF assms(1,3,6)] assms(4)
  by (auto dest: shape_common)

lemma operation_total: "list_all root_wf rs \<Longrightarrow> \<exists>s. operation_to_sql_opts x rs st = Inr s"
  using root_fields_yields [of rs x st 0] by (auto simp: operation_to_sql_opts_def yields_def)

theorem operation_injection_free_witness:
  "\<exists>s s'. operation_to_sql_opts sample_extern [RSelect ''a'' (sample_query hostile)] False = Inr s \<and>
     operation_to_sql_opts sample_extern [RSelect ''a'' (sample_query ''Ann'')] False = Inr s' \<and>
     skeleton s = skeleton s' \<and> TBad \<notin> set (sql_scan s)"
proof -
  obtain s s' where s: "operation_to_sql_opts sample_extern [RSelect ''a'' (sample_query hostile)] False = Inr s"
    "operation_to_sql_opts sample_extern [RSelect ''a'' (sample_query ''Ann'')] False = Inr s'"
    using operation_total [of "[RSelect ''a'' (sample_query hostile)]" sample_extern False]
      operation_total [of "[RSelect ''a'' (sample_query ''Ann'')]" sample_extern False]
    by (auto simp: sample_query_def)
  have "skeleton s = skeleton s' \<and> TBad \<notin> set (sql_scan s)"
    by (rule operation_injection_free [OF sample_numbers_plain _ _ _ s])
      (simp_all add: sample_query_def opt_raw_ok_def hostile_def trim_start_def starts_with_def blank_scalar_def)
  then show ?thesis using s by blast
qed

text \<open>
  C26. Mutations cannot be injected into: the same statement for inserts,
  updates, deletes and function calls, their checks and returning sets included.
\<close>

theorem mutation_injection_free:
  assumes "numbers_plain x" "mutation_raw_ok r" "mutation_raw_ok r'" "blank_mutation r = blank_mutation r'"
    and "mutation_to_sql_opts x r st = Inr s" "mutation_to_sql_opts x r' st = Inr s'"
  shows "skeleton s = skeleton s' \<and> TBad \<notin> set (sql_scan s)"
  using shape_mutation [OF assms(1,2,5)] shape_mutation [OF assms(1,3,6)] assms(4)
  by (auto dest: shape_common)

lemma mutation_total: "mutation_wf r \<Longrightarrow> \<exists>s. mutation_to_sql_opts x r st = Inr s"
proof (cases r)
  case (FunctionCall a q)
  moreover assume "mutation_wf r"
  ultimately show ?thesis using select_yields(1) [of None q x st 0]
    by (auto simp: mutation_to_sql_opts_def yields_def simp del: select_expr.simps)
qed (simp_all add: mutation_to_sql_opts_def case_prod_beta mutation_select_ok)

theorem mutation_injection_free_witness:
  "\<exists>s s'. mutation_to_sql_opts sample_extern (Update ''u'' (sample_update hostile)) False = Inr s \<and>
     mutation_to_sql_opts sample_extern (Update ''u'' (sample_update ''Ann'')) False = Inr s' \<and>
     skeleton s = skeleton s' \<and> TBad \<notin> set (sql_scan s)"
proof -
  obtain s s' where s: "mutation_to_sql_opts sample_extern (Update ''u'' (sample_update hostile)) False = Inr s"
    "mutation_to_sql_opts sample_extern (Update ''u'' (sample_update ''Ann'')) False = Inr s'"
    using mutation_total [of "Update ''u'' (sample_update hostile)" sample_extern False]
      mutation_total [of "Update ''u'' (sample_update ''Ann'')" sample_extern False]
    by (auto simp: sample_update_def)
  have "skeleton s = skeleton s' \<and> TBad \<notin> set (sql_scan s)"
    by (rule mutation_injection_free [OF sample_numbers_plain _ _ _ s])
      (simp_all add: sample_update_def opt_raw_ok_def hostile_def trim_start_def starts_with_def blank_scalar_def blank_update_def)
  then show ?thesis using s by blast
qed

text \<open>
  C27. A string value reaches Postgres unchanged: whatever it contains, its SQL is
  one literal token with exactly these contents, cast to the column's type.
\<close>

theorem string_value_exact:
  "sql_scan (scalar_sql x (Scalar (JString s)) ty) =
     [TChar (CHR ''(''), TStr s, TChar (CHR '')''), TChar (CHR '':''), TChar (CHR '':''), TIdent ty]"
  using lex_quote_lit [of "'')::'' @ quote_ident ty" s] lex_quote_ident [of "[]" ty]
  by (simp add: scalar_sql_def char_tok_def wordc_def starts_with_char)

text \<open>
  The query generator never panics on well-formed IR: every list of root
  fields in which aggregates and plain fields are not mixed, and row functions
  are nested, has SQL.
\<close>

theorem operation_sql_total:
  assumes "list_all root_wf rs"
  shows "\<exists>s. operation_to_sql_opts x rs st = Inr s"
  using assms by (rule operation_total)

theorem operation_sql_total_witness:
  "\<exists>s. operation_to_sql_opts sample_extern [RSelect ''a'' (sample_query ''Ann''), RTypename ''t'' ''query_root''] True = Inr s"
  by (rule operation_sql_total) (simp add: sample_query_def)

text \<open>Nor does the mutation generator.\<close>

theorem mutation_sql_total:
  assumes "mutation_wf r"
  shows "\<exists>s. mutation_to_sql_opts x r st = Inr s"
  using assms by (rule mutation_total)

theorem mutation_sql_total_witness:
  "\<exists>s. mutation_to_sql_opts sample_extern (Update ''u'' (sample_update hostile)) True = Inr s"
  by (rule mutation_sql_total) (simp add: sample_update_def)

text \<open>
  The nodes of an aggregate respect both limits: with a row limit of the role,
  the rows under \<open>nodes\<close> are bounded by it and by the limit the client asked
  for, and come from the same filtered and ordered source.
\<close>

theorem nodes_query_bounded:
  "\<exists>k. sq_limit (nodes_query q nodes_limit fs) = Some k \<and> k \<le> nodes_limit
     \<and> (case sq_limit q of None \<Rightarrow> k = nodes_limit | Some l \<Rightarrow> k = l \<or> (k = nodes_limit \<and> nodes_limit \<le> l))
     \<and> sq_predicate (nodes_query q nodes_limit fs) = sq_predicate q
     \<and> sq_order_by (nodes_query q nodes_limit fs) = sq_order_by q
     \<and> sq_from (nodes_query q nodes_limit fs) = sq_from q"
  by (cases "sq_limit q") (auto simp: nodes_query_def min_def)

lemma orders_column_append: "orders_column obs c \<Longrightarrow> orders_column (obs @ obs') c"
  by (auto simp: orders_column_def)

lemma complete_order_extends: "\<exists>rest. complete_order b pk obs = obs @ rest"
proof (induction b pk obs rule: complete_order.induct)
  case (2 b col ty pk obs)
  then show ?case by (cases "orders_column obs col") auto
qed simp

lemma complete_order_covers: "col \<in> fst ` set pk \<Longrightarrow> orders_column (complete_order b pk obs) col"
proof (induction b pk obs rule: complete_order.induct)
  case (2 b c ty pk obs)
  let ?obs = "if orders_column obs c then obs
    else obs @ [\<lparr>ob_target = OrderColumn c, ob_direction = (if b then Desc else Asc), ob_nulls = NullsLast\<rparr>]"
  have "orders_column ?obs c" by (auto simp: orders_column_def)
  then have "orders_column (complete_order b pk ?obs) c"
    using complete_order_extends [of b pk ?obs] orders_column_append by (metis (lifting))
  moreover have "col = c \<or> col \<in> fst ` set pk" using "2.prems" by auto
  ultimately show ?case using "2.IH" by (elim disjE) simp_all
qed simp

text \<open>
  C32. A connection is totally ordered: the order of the client is a prefix of the
  order of its row source, and every column of the primary key is ordered by.
\<close>

theorem connection_totally_ordered:
  "(\<exists>rest. sq_order_by (connection_query conn) = sq_order_by (cn_query conn) @ rest)
     \<and> list_all (\<lambda>(col, _). orders_column (sq_order_by (connection_query conn)) col) (cn_pk conn)"
  using complete_order_extends complete_order_covers
  by (force simp: connection_query_def Let_def list_all_iff)

end
