(* ===== verification/Metadata.thy ===== *)
theory Metadata
  imports Json
begin

text \<open>
  The metadata model of \<open>crates/metadata/src/types.rs\<close>: one record per
  struct, one datatype per enum. Field names carry a short prefix for their
  struct, since record fields share one name space. A \<open>BTreeMap\<close> with
  string keys is an association list in key order. Free-text comments and
  descriptions, which no code reads, are left out; a struct of one field is that
  field, and the connection settings of a source are its URL, the only one read.
\<close>

section \<open>Tables, relationships, permissions\<close>

datatype qualified_table = Name string | Qualified string string

fun qt_schema :: "qualified_table \<Rightarrow> string" where
  "qt_schema (Name _) = ''public''"
| "qt_schema (Qualified s _) = s"

fun qt_name :: "qualified_table \<Rightarrow> string" where
  "qt_name (Name n) = n"
| "qt_name (Qualified _ n) = n"

definition qt_display :: "qualified_table \<Rightarrow> string" where
  "qt_display t = qt_schema t @ ''.'' @ qt_name t"

datatype columns = Star | Cols "string list"

text \<open>
  A column list is written as a list or as a star, and is a star where it is
  left out; the last message is that of \<open>serde\<close> for a value of another shape.
\<close>

definition default_columns :: columns where
  "default_columns = Star"

fun json_strings :: "json list \<Rightarrow> string list option" where
  "json_strings [] = Some []"
| "json_strings (v # vs) = (case v of JString s \<Rightarrow> map_option (Cons s) (json_strings vs) | _ \<Rightarrow> None)"

definition columns_of_json :: "extern \<Rightarrow> json \<Rightarrow> string + columns" where
  "columns_of_json ex v =
     (let mismatch = ''data did not match any variant of untagged enum Raw'' in
      case v of
        JString s \<Rightarrow>
          if s = ''*'' then Inr Star
          else Inl (''expected '' @ [CHR 0x22] @ ''*'' @ [CHR 0x22] @ '' or a list of columns, got string '' @ str_debug ex s)
      | JArray vs \<Rightarrow> (case json_strings vs of Some cols \<Rightarrow> Inr (Cols cols) | None \<Rightarrow> Inl mismatch)
      | _ \<Rightarrow> Inl mismatch)"

fun columns_to_json :: "columns \<Rightarrow> json" where
  "columns_to_json Star = JString ''*''"
| "columns_to_json (Cols cols) = JArray (map JString cols)"

lemma json_strings_map [simp]: "json_strings (map JString cols) = Some cols"
  by (induction cols) simp_all

lemma columns_roundtrip: "columns_of_json ex (columns_to_json c) = Inr c"
  by (cases c) (simp_all add: columns_of_json_def)

record select_permission =
  sp_columns :: columns
  sp_filter :: json
  sp_limit :: "u64 option"
  sp_allow_aggregations :: bool
  sp_computed_fields :: "string list"

record insert_permission =
  ip_check :: json
  ip_set :: jmap
  ip_columns :: columns
  ip_backend_only :: bool

record update_permission =
  up_columns :: columns
  up_filter :: json
  up_check :: "json option"
  up_set :: jmap

record delete_permission =
  dp_filter :: json

record 'p permission_entry =
  pe_role :: string
  pe_permission :: 'p

record manual_configuration =
  mc_remote_table :: qualified_table
  mc_column_mapping :: "(string \<times> string) list"

datatype obj_rel_fk_columns = Single string | Multiple "string list"

record obj_rel_using =
  oru_foreign_key_constraint_on :: "obj_rel_fk_columns option"
  oru_manual_configuration :: "manual_configuration option"

record object_relationship =
  or_name :: string
  or_using :: obj_rel_using

record arr_rel_fk_constraint =
  arf_table :: qualified_table
  arf_column :: "string option"
  arf_columns :: "string list option"

record arr_rel_using =
  aru_foreign_key_constraint_on :: "arr_rel_fk_constraint option"
  aru_manual_configuration :: "manual_configuration option"

record array_relationship =
  ar_name :: string
  ar_using :: arr_rel_using

record remote_relationship =
  rr_name :: string
  rr_hasura_fields :: "string list"
  rr_remote_schema :: string
  rr_remote_field :: json

record computed_field_definition =
  cfd_function :: qualified_table
  cfd_table_argument :: "string option"
  cfd_session_argument :: "string option"

record computed_field =
  cf_name :: string
  cf_definition :: computed_field_definition

record table_configuration =
  tc_custom_name :: "string option"
  tc_custom_root_fields :: "(string \<times> string) list"
  tc_custom_column_names :: "(string \<times> string) list"
  tc_column_config :: jmap

record table_entry =
  te_table :: qualified_table
  te_configuration :: "table_configuration option"
  te_is_enum :: bool
  te_object_relationships :: "object_relationship list"
  te_array_relationships :: "array_relationship list"
  te_computed_fields :: "computed_field list"
  te_remote_relationships :: "remote_relationship list"
  te_insert_permissions :: "insert_permission permission_entry list"
  te_select_permissions :: "select_permission permission_entry list"
  te_update_permissions :: "update_permission permission_entry list"
  te_delete_permissions :: "delete_permission permission_entry list"

section \<open>Functions, roles, remote schemas, sources\<close>

record function_configuration =
  fc_session_argument :: "string option"
  fc_custom_name :: "string option"
  fc_exposed_as :: "string option"

record function_permission =
  fp_role :: string

record function_entry =
  fe_function :: qualified_table
  fe_configuration :: "function_configuration option"
  fe_permissions :: "function_permission list"

record inherited_role =
  ir_role_name :: string
  ir_role_set :: "string list"

section \<open>Remote schemas\<close>

record name_customization =
  nc_prefix :: "string option"
  nc_suffix :: "string option"

record field_name_customization =
  fnc_parent_type :: string
  fnc_prefix :: "string option"
  fnc_suffix :: "string option"

record remote_schema_customization =
  rsc_root_fields_namespace :: "string option"
  rsc_type_names :: "name_customization option"
  rsc_field_names :: "field_name_customization list"

record remote_schema_definition =
  rsd_url :: "string option"
  rsd_url_from_env :: "string option"
  rsd_forward_client_headers :: bool
  rsd_timeout_seconds :: "u64 option"
  rsd_customization :: "remote_schema_customization option"

text \<open>The permission's definition is a struct of one field, the SDL text.\<close>

record remote_schema_permission =
  rsp_role :: string
  rsp_schema :: string

record remote_schema =
  rs_name :: string
  rs_definition :: remote_schema_definition
  rs_permissions :: "remote_schema_permission list"

section \<open>Actions\<close>

record argument_definition =
  ad_name :: string
  ad_type :: string

record action_header =
  ah_name :: string
  ah_value :: "string option"
  ah_value_from_env :: "string option"

record action_definition =
  act_kind :: "string option"
  act_type :: "string option"
  act_arguments :: "argument_definition list"
  act_output_type :: string
  act_handler :: string
  act_forward_client_headers :: bool
  act_headers :: "action_header list"
  act_timeout :: "u64 option"

record action_entry =
  ae_name :: string
  ae_definition :: action_definition
  ae_permissions :: "string list"

record custom_type_field =
  ctf_name :: string
  ctf_type :: string

record custom_type_relationship =
  ctr_name :: string
  ctr_type :: string
  ctr_remote_table :: qualified_table
  ctr_field_mapping :: "(string \<times> string) list"

record input_object_type =
  iot_name :: string
  iot_fields :: "custom_type_field list"

record object_type =
  ot_name :: string
  ot_fields :: "custom_type_field list"
  ot_relationships :: "custom_type_relationship list"

record enum_type =
  et_name :: string
  et_values :: "string list"

record custom_types =
  ct_input_objects :: "input_object_type list"
  ct_objects :: "object_type list"
  ct_scalars :: "string list"
  ct_enums :: "enum_type list"

definition no_custom_types :: custom_types where
  "no_custom_types = \<lparr>ct_input_objects = [], ct_objects = [], ct_scalars = [], ct_enums = []\<rparr>"

definition custom_types_empty :: "custom_types \<Rightarrow> bool" where
  "custom_types_empty t \<longleftrightarrow> ct_input_objects t = [] \<and> ct_objects t = [] \<and> ct_scalars t = [] \<and> ct_enums t = []"

lemma custom_types_empty_iff [simp]: "custom_types_empty t \<longleftrightarrow> t = no_custom_types"
  by (auto simp: custom_types_empty_def no_custom_types_def)

section \<open>Sources and the whole metadata\<close>

datatype database_url = Url string | FromEnv string

record source =
  src_name :: string
  src_database_url :: database_url
  src_tables :: "table_entry list"
  src_functions :: "function_entry list"

record collection_query =
  cq_name :: string
  cq_query :: string

record query_collection =
  qc_name :: string
  qc_queries :: "collection_query list"

record metadata =
  md_version :: nat
  md_sources :: "source list"
  md_inherited_roles :: "inherited_role list"
  md_query_collections :: "query_collection list"
  md_allowlist :: "string list"
  md_remote_schemas :: "remote_schema list"
  md_actions :: "action_entry list"
  md_custom_types :: custom_types

lemma qt_display_qualified [simp]: "qt_display (Qualified ''public'' n) = qt_display (Name n)"
  by (simp add: qt_display_def)

end
