(* ===== verification/Naming.thy ===== *)
theory Naming
  imports Metadata
begin

text \<open>GraphQL root names of tracked tables, \<open>crates/schema/src/naming.rs\<close>.\<close>

definition default_base_name :: "qualified_table \<Rightarrow> string" where
  "default_base_name t =
     (if qt_schema t = ''public'' then qt_name t else qt_schema t @ ''_'' @ qt_name t)"

definition table_base_name :: "table_entry \<Rightarrow> string" where
  "table_base_name entry =
     (case te_configuration entry of
        Some config \<Rightarrow>
          (case tc_custom_name config of
             Some custom \<Rightarrow> custom
           | None \<Rightarrow> default_base_name (te_table entry))
      | None \<Rightarrow> default_base_name (te_table entry))"

definition custom_root :: "table_entry \<Rightarrow> string \<Rightarrow> string \<Rightarrow> string" where
  "custom_root entry key dflt =
     (case te_configuration entry of
        Some config \<Rightarrow> (case map_of (tc_custom_root_fields config) key of Some n \<Rightarrow> n | None \<Rightarrow> dflt)
      | None \<Rightarrow> dflt)"

record root_names =
  rn_select :: string
  rn_select_by_pk :: string
  rn_select_aggregate :: string

definition root_names_of :: "table_entry \<Rightarrow> root_names" where
  "root_names_of entry =
     (let base = table_base_name entry in
      \<lparr>rn_select = custom_root entry ''select'' base,
       rn_select_by_pk = custom_root entry ''select_by_pk'' (base @ ''_by_pk''),
       rn_select_aggregate = custom_root entry ''select_aggregate'' (base @ ''_aggregate'')\<rparr>)"

lemma base_name_qualified: "default_base_name (Qualified ''public'' n) = default_base_name (Name n)"
  by (simp add: default_base_name_def)

text \<open>Without custom root fields the three query roots of a table are different names.\<close>

lemma root_names_distinct:
  assumes "te_configuration entry = None \<or> (\<exists>c. te_configuration entry = Some c \<and> tc_custom_root_fields c = [])"
  shows "distinct [rn_select (root_names_of entry), rn_select_by_pk (root_names_of entry), rn_select_aggregate (root_names_of entry)]"
  using assms by (auto simp: root_names_of_def custom_root_def Let_def)

end
