(* ===== verification/Catalog.thy ===== *)
theory Catalog
  imports Prelude
begin

text \<open>
  The catalog snapshot of \<open>crates/catalog/src/lib.rs\<close>. The two
  \<open>BTreeMap\<close>s are association lists keyed by \<open>schema.name\<close>.
\<close>

record column_info =
  ci_name :: string
  ci_pg_type :: string
  ci_nullable :: bool
  ci_has_default :: bool

record foreign_key =
  fk_constraint_name :: string
  fk_column_mapping :: "(string \<times> string) list"
  fk_referenced_schema :: string
  fk_referenced_table :: string

record table_info =
  ti_schema :: string
  ti_name :: string
  ti_columns :: "column_info list"
  ti_primary_key :: "string list"
  ti_foreign_keys :: "foreign_key list"

record function_arg =
  fa_name :: "string option"
  fa_has_default :: bool
  fa_pg_type :: string
  fa_composite_of :: "(string \<times> string) option"

record function_info =
  fi_schema :: string
  fi_name :: string
  fi_args :: "function_arg list"
  fi_returns_table :: "(string \<times> string) option"
  fi_returns_set :: bool
  fi_returns_scalar :: "string option"

record catalog =
  cat_tables :: "(string \<times> table_info) list"
  cat_functions :: "(string \<times> function_info) list"

definition qualified_key :: "string \<Rightarrow> string \<Rightarrow> string" where
  "qualified_key schema name = schema @ ''.'' @ name"

definition catalog_table :: "catalog \<Rightarrow> string \<Rightarrow> string \<Rightarrow> table_info option" where
  "catalog_table c schema name = map_of (cat_tables c) (qualified_key schema name)"

definition catalog_function :: "catalog \<Rightarrow> string \<Rightarrow> string \<Rightarrow> function_info option" where
  "catalog_function c schema name = map_of (cat_functions c) (qualified_key schema name)"

definition table_column :: "table_info \<Rightarrow> string \<Rightarrow> column_info option" where
  "table_column t name = find (\<lambda>c. ci_name c = name) (ti_columns t)"

lemma table_column_name: "table_column t n = Some c \<Longrightarrow> ci_name c = n \<and> c \<in> set (ti_columns t)"
  by (auto simp: table_column_def dest: find_Some_in)

end
