(* ===== verification/Planner.thy ===== *)
theory Planner
  imports Naming Catalog
begin

text \<open>
  The planner's state and its role resolution, \<open>crates/schema/src/plan.rs\<close>:
  sessions, errors, \<open>TableCtx\<close>, \<open>Planner::new\<close>, and which permissions a
  role has on a table, directly or through inherited roles.
\<close>

section \<open>Sessions and errors\<close>

record session =
  se_role :: string
  se_vars :: "(string \<times> string) list"
  se_backend_request :: bool

definition session_var :: "session \<Rightarrow> string \<Rightarrow> string option" where
  "session_var s name = map_of (se_vars s) (to_ascii_lowercase name)"

record plan_error =
  err_message :: string
  err_code :: string
  err_path :: string

text \<open>
  A call of the planner fails with an error the client sees, with a Rust panic,
  or, where recursion is bounded by nothing but the stack, by overflowing it.
\<close>

datatype plan_failure = Fail plan_error | Panic | StackOverflow

type_synonym 'a plan_result = "plan_failure + 'a"

definition plan_error_new :: "string \<Rightarrow> string \<Rightarrow> string \<Rightarrow> plan_error" where
  "plan_error_new path code message = \<lparr>err_message = message, err_code = code, err_path = path\<rparr>"

definition validation :: "string \<Rightarrow> string \<Rightarrow> plan_error" where
  "validation path message = plan_error_new path ''validation-failed'' message"

definition err_validation :: "string \<Rightarrow> string \<Rightarrow> 'a plan_result" where
  "err_validation path message = Inl (Fail (validation path message))"

definition quoted :: "string \<Rightarrow> string" where
  "quoted s = [CHR 0x27] @ s @ [CHR 0x27]"

definition dquoted :: "string \<Rightarrow> string" where
  "dquoted s = [CHR 0x22] @ s @ [CHR 0x22]"

definition field_not_found :: "string \<Rightarrow> string \<Rightarrow> string \<Rightarrow> plan_error" where
  "field_not_found path field type_name =
     validation path (''field '' @ quoted field @ '' not found in type: '' @ quoted type_name)"

definition unexpected_arg :: "string \<Rightarrow> string \<Rightarrow> plan_error" where
  "unexpected_arg path arg = validation path (''unexpected argument: '' @ dquoted arg)"

section \<open>Table contexts\<close>

record table_ctx =
  tx_entry :: table_entry
  tx_info :: table_info
  tx_perms :: "select_permission list"
  tx_type_name :: string

definition perm_grants_column :: "select_permission \<Rightarrow> string \<Rightarrow> bool" where
  "perm_grants_column p name =
     (case sp_columns p of Star \<Rightarrow> True | Cols cols \<Rightarrow> name \<in> set cols)"

fun max_limit :: "u64 \<Rightarrow> select_permission list \<Rightarrow> u64 option" where
  "max_limit m [] = Some m"
| "max_limit m (p # ps) = (case sp_limit p of None \<Rightarrow> None | Some l \<Rightarrow> max_limit (max m l) ps)"

definition select_perm_limit :: "table_ctx \<Rightarrow> u64 option" where
  "select_perm_limit ctx = (if tx_perms ctx = [] then None else max_limit 0 (tx_perms ctx))"

definition allow_aggregations :: "table_ctx \<Rightarrow> bool" where
  "allow_aggregations ctx \<longleftrightarrow> list_ex sp_allow_aggregations (tx_perms ctx)"

definition computed_field_allowed :: "table_ctx \<Rightarrow> string \<Rightarrow> bool" where
  "computed_field_allowed ctx name \<longleftrightarrow> list_ex (\<lambda>p. name \<in> set (sp_computed_fields p)) (tx_perms ctx)"

definition granting_perms :: "table_ctx \<Rightarrow> string \<Rightarrow> select_permission list" where
  "granting_perms ctx name = filter (\<lambda>p. perm_grants_column p name) (tx_perms ctx)"

definition column_allowed :: "table_ctx \<Rightarrow> string \<Rightarrow> bool" where
  "column_allowed ctx name \<longleftrightarrow>
     table_column (tx_info ctx) name \<noteq> None \<and>
     (tx_perms ctx = [] \<or> list_ex (\<lambda>p. perm_grants_column p name) (tx_perms ctx))"

definition any_column_allowed :: "table_ctx \<Rightarrow> bool" where
  "any_column_allowed ctx \<longleftrightarrow> list_ex (\<lambda>c. column_allowed ctx (ci_name c)) (ti_columns (tx_info ctx))"

definition column_allowed_for_filter :: "table_ctx \<Rightarrow> string \<Rightarrow> bool \<Rightarrow> bool" where
  "column_allowed_for_filter ctx name is_permission \<longleftrightarrow>
     (if is_permission then table_column (tx_info ctx) name \<noteq> None else column_allowed ctx name)"

section \<open>The planner\<close>

datatype root_kind = KSelect | KByPk | KAggregate

datatype root_source = SrcTable nat | SrcFunction nat

datatype mutation_kind = MKInsert | MKInsertOne | MKUpdate | MKUpdateByPk | MKDelete | MKDeleteByPk

record planner =
  pl_infer_function_permissions :: bool
  pl_relay :: bool
  pl_inherited_roles :: "inherited_role list"
  pl_remote_schemas :: "remote_schema list"
  pl_catalog :: catalog
  pl_tables :: "table_entry list"
  pl_functions :: "function_entry list"
  pl_by_table :: "(string \<times> nat) list"
  pl_roots :: "(string \<times> root_kind \<times> root_source) list"
  pl_mutation_roots :: "(string \<times> mutation_kind \<times> nat) list"
  pl_mutation_function_roots :: "(string \<times> nat) list"

definition add_table_key :: "nat \<times> table_entry \<Rightarrow> (string \<times> nat) list \<Rightarrow> (string \<times> nat) list" where
  "add_table_key = (\<lambda>(idx, entry) m. hm_insert (qualified_key (qt_schema (te_table entry)) (qt_name (te_table entry))) idx m)"

definition add_table_roots ::
  "nat \<times> table_entry \<Rightarrow> (string \<times> root_kind \<times> root_source) list \<Rightarrow> (string \<times> root_kind \<times> root_source) list" where
  "add_table_roots = (\<lambda>(idx, entry) m.
     let names = root_names_of entry in
     hm_insert (rn_select_aggregate names) (KAggregate, SrcTable idx)
       (hm_insert (rn_select_by_pk names) (KByPk, SrcTable idx)
         (hm_insert (rn_select names) (KSelect, SrcTable idx) m)))"

definition function_base_name :: "function_entry \<Rightarrow> string" where
  "function_base_name entry =
     (case Option.bind (fe_configuration entry) fc_custom_name of
        Some n \<Rightarrow> n | None \<Rightarrow> default_base_name (fe_function entry))"

definition exposed_as_mutation :: "function_entry \<Rightarrow> bool" where
  "exposed_as_mutation entry \<longleftrightarrow> Option.bind (fe_configuration entry) fc_exposed_as = Some ''mutation''"

definition add_function_roots ::
  "nat \<times> function_entry \<Rightarrow> (string \<times> root_kind \<times> root_source) list \<times> (string \<times> nat) list
     \<Rightarrow> (string \<times> root_kind \<times> root_source) list \<times> (string \<times> nat) list" where
  "add_function_roots = (\<lambda>(idx, entry) (roots, mroots).
     let base = function_base_name entry in
     if exposed_as_mutation entry then (roots, hm_insert base idx mroots)
     else (hm_insert (base @ ''_aggregate'') (KAggregate, SrcFunction idx)
             (hm_insert base (KSelect, SrcFunction idx) roots), mroots))"

definition add_mutation_roots ::
  "nat \<times> table_entry \<Rightarrow> (string \<times> mutation_kind \<times> nat) list \<Rightarrow> (string \<times> mutation_kind \<times> nat) list" where
  "add_mutation_roots = (\<lambda>(idx, entry) m.
     let base = table_base_name entry; get = custom_root entry in
     hm_insert (get ''delete_by_pk'' (''delete_'' @ base @ ''_by_pk'')) (MKDeleteByPk, idx)
      (hm_insert (get ''delete'' (''delete_'' @ base)) (MKDelete, idx)
       (hm_insert (get ''update_by_pk'' (''update_'' @ base @ ''_by_pk'')) (MKUpdateByPk, idx)
        (hm_insert (get ''update'' (''update_'' @ base)) (MKUpdate, idx)
         (hm_insert (get ''insert_one'' (''insert_'' @ base @ ''_one'')) (MKInsertOne, idx)
          (hm_insert (get ''insert'' (''insert_'' @ base)) (MKInsert, idx) m))))))"

definition planner_new :: "metadata \<Rightarrow> catalog \<Rightarrow> planner" where
  "planner_new md cat =
     (let tables = (case md_sources md of [] \<Rightarrow> [] | s # _ \<Rightarrow> src_tables s);
          functions = (case md_sources md of [] \<Rightarrow> [] | s # _ \<Rightarrow> src_functions s);
          by_table = fold add_table_key (enumerate 0 tables) [];
          table_roots = fold add_table_roots (enumerate 0 tables) [];
          (roots, mutation_function_roots) = fold add_function_roots (enumerate 0 functions) (table_roots, []);
          mutation_roots = fold add_mutation_roots (enumerate 0 tables) []
      in \<lparr>pl_infer_function_permissions = True, pl_relay = False,
          pl_inherited_roles = md_inherited_roles md, pl_remote_schemas = md_remote_schemas md,
          pl_catalog = cat, pl_tables = tables, pl_functions = functions, pl_by_table = by_table,
          pl_roots = roots, pl_mutation_roots = mutation_roots,
          pl_mutation_function_roots = mutation_function_roots\<rparr>)"

section \<open>Inherited roles\<close>

definition inherited_of :: "inherited_role list \<Rightarrow> string \<Rightarrow> inherited_role option" where
  "inherited_of inh role = find (\<lambda>r. ir_role_name r = role) inh"

lemma inherited_of_Some: "inherited_of inh c = Some r \<Longrightarrow> r \<in> set inh \<and> ir_role_name r = c"
  by (auto simp: inherited_of_def dest: find_Some_in)

text \<open>
  The loop of \<open>expand_role\<close>. The top of the stack is the head of the list, so
  pushing a role's parents one by one puts them in reverse.
\<close>

function expand_loop :: "inherited_role list \<Rightarrow> string \<Rightarrow> string list \<Rightarrow> string list \<Rightarrow> string list \<Rightarrow> string list" where
  "expand_loop inh role [] seen out = out"
| "expand_loop inh role (current # stack) seen out =
     (if current \<in> set seen then expand_loop inh role stack seen out
      else
        (case inherited_of inh current of
           Some r \<Rightarrow> expand_loop inh role (rev (ir_role_set r) @ stack) (current # seen) out
         | None \<Rightarrow> expand_loop inh role stack (current # seen) (if current \<noteq> role then out @ [current] else out)))"
  by pat_completeness auto

termination
proof (relation "measures [\<lambda>(inh, role, stack, seen, out). card (ir_role_name ` set inh - set seen),
                           \<lambda>(inh, role, stack, seen, out). length stack]", goal_cases)
  case 1 show ?case by simp
next
  case (2 inh role c stack seen out)
  then show ?case by simp
next
  case (3 inh role c stack seen out)
  have "card (ir_role_name ` set inh - insert c (set seen)) \<le> card (ir_role_name ` set inh - set seen)"
    by (intro card_mono) auto
  then show ?case by simp linarith
next
  case (4 inh role c stack seen out r)
  have "ir_role_name ` set inh - insert c (set seen) \<subset> ir_role_name ` set inh - set seen"
    using 4 inherited_of_Some [of inh c r] by blast
  then have "card (ir_role_name ` set inh - insert c (set seen)) < card (ir_role_name ` set inh - set seen)"
    by (intro psubset_card_mono) auto
  then show ?case by simp
qed

definition expand_role :: "inherited_role list \<Rightarrow> string \<Rightarrow> string list" where
  "expand_role inh role = expand_loop inh role [role] [] []"

definition role_select_perms :: "inherited_role list \<Rightarrow> table_entry \<Rightarrow> string \<Rightarrow> select_permission list" where
  "role_select_perms inh entry role =
     (case find (\<lambda>p. pe_role p = role) (te_select_permissions entry) of
        Some p \<Rightarrow> [pe_permission p]
      | None \<Rightarrow>
          List.map_filter (\<lambda>parent. map_option pe_permission (find (\<lambda>p. pe_role p = parent) (te_select_permissions entry)))
            (expand_role inh role))"

section \<open>Permissions that do not combine\<close>

text \<open>
  Mutation and function permissions of an inherited role: \<open>same p q\<close> says
  that two permissions are serialised to equal JSON. The set \<open>visiting\<close> is
  threaded through the recursion; the fuel bounds its depth.
\<close>

fun merge_perms :: "('p \<Rightarrow> 'p \<Rightarrow> bool) \<Rightarrow> 'p list \<Rightarrow> 'p option" where
  "merge_perms same [] = None"
| "merge_perms same [p] = Some p"
| "merge_perms same (p # q # ps) = (if list_all (\<lambda>r. same r p) (p # q # ps) then Some p else None)"

definition direct_perm :: "'p permission_entry list \<Rightarrow> ('p \<Rightarrow> bool) \<Rightarrow> string \<Rightarrow> 'p option" where
  "direct_perm entries applies role =
     map_option pe_permission (find (\<lambda>p. pe_role p = role \<and> applies (pe_permission p)) entries)"

fun resolve_rec ::
  "nat \<Rightarrow> inherited_role list \<Rightarrow> ('p \<Rightarrow> 'p \<Rightarrow> bool) \<Rightarrow> 'p permission_entry list \<Rightarrow> ('p \<Rightarrow> bool) \<Rightarrow> string \<Rightarrow> string list
     \<Rightarrow> 'p option \<times> string list"
and resolve_all ::
  "nat \<Rightarrow> inherited_role list \<Rightarrow> ('p \<Rightarrow> 'p \<Rightarrow> bool) \<Rightarrow> 'p permission_entry list \<Rightarrow> ('p \<Rightarrow> bool) \<Rightarrow> string list \<Rightarrow> string list
     \<Rightarrow> 'p list \<times> string list" where
  "resolve_rec 0 inh same entries applies role visiting = (None, visiting)"
| "resolve_rec (Suc fuel) inh same entries applies role visiting =
     (case direct_perm entries applies role of
        Some p \<Rightarrow> (Some p, visiting)
      | None \<Rightarrow>
          if role \<in> set visiting then (None, visiting)
          else
            case inherited_of inh role of
              None \<Rightarrow> (None, role # visiting)
            | Some r \<Rightarrow>
                (let (found, visiting') = resolve_all fuel inh same entries applies (ir_role_set r) (role # visiting)
                 in (merge_perms same found, removeAll role visiting')))"
| "resolve_all fuel inh same entries applies [] visiting = ([], visiting)"
| "resolve_all fuel inh same entries applies (parent # parents) visiting =
     (let (p, visiting') = resolve_rec fuel inh same entries applies parent visiting;
          (ps, visiting'') = resolve_all fuel inh same entries applies parents visiting'
      in ((case p of Some q \<Rightarrow> q # ps | None \<Rightarrow> ps), visiting''))"

definition resolve_role_perm ::
  "inherited_role list \<Rightarrow> ('p \<Rightarrow> 'p \<Rightarrow> bool) \<Rightarrow> 'p permission_entry list \<Rightarrow> ('p \<Rightarrow> bool) \<Rightarrow> string \<Rightarrow> 'p option" where
  "resolve_role_perm inh same entries applies role =
     fst (resolve_rec (Suc (length inh)) inh same entries applies role [])"

definition conflicts_in ::
  "inherited_role list \<Rightarrow> ('p \<Rightarrow> 'p \<Rightarrow> bool) \<Rightarrow> 'p permission_entry list \<Rightarrow> string \<Rightarrow> bool" where
  "conflicts_in inh same entries role =
     (if list_ex (\<lambda>p. pe_role p = role) entries then False
      else
        case inherited_of inh role of
          None \<Rightarrow> False
        | Some r \<Rightarrow>
            (let found = List.map_filter (\<lambda>parent. resolve_role_perm inh same entries (\<lambda>_. True) parent) (ir_role_set r)
             in case found of
                  p # q # ps \<Rightarrow> \<not> list_all (\<lambda>r. same r p) (p # q # ps)
                | _ \<Rightarrow> False))"

definition table_conflicts ::
  "inherited_role list \<Rightarrow> (insert_permission \<Rightarrow> insert_permission \<Rightarrow> bool) \<Rightarrow> (update_permission \<Rightarrow> update_permission \<Rightarrow> bool)
     \<Rightarrow> (delete_permission \<Rightarrow> delete_permission \<Rightarrow> bool) \<Rightarrow> string \<Rightarrow> table_entry \<Rightarrow> (string \<times> string \<times> string) list" where
  "table_conflicts inh same_i same_u same_d role entry =
     (let row = (\<lambda>kind. (role, qt_name (te_table entry), kind)) in
      (if conflicts_in inh same_i (te_insert_permissions entry) role then [row ''insert''] else [])
      @ (if conflicts_in inh same_u (te_update_permissions entry) role then [row ''update''] else [])
      @ (if conflicts_in inh same_d (te_delete_permissions entry) role then [row ''delete''] else []))"

definition mutation_permission_conflicts ::
  "planner \<Rightarrow> (insert_permission \<Rightarrow> insert_permission \<Rightarrow> bool) \<Rightarrow> (update_permission \<Rightarrow> update_permission \<Rightarrow> bool)
     \<Rightarrow> (delete_permission \<Rightarrow> delete_permission \<Rightarrow> bool) \<Rightarrow> (string \<times> string \<times> string) list" where
  "mutation_permission_conflicts pl same_i same_u same_d =
     concat (map (\<lambda>role. concat (map
       (table_conflicts (pl_inherited_roles pl) same_i same_u same_d (ir_role_name role)) (pl_tables pl)))
       (pl_inherited_roles pl))"

definition any_role_perm :: "inherited_role list \<Rightarrow> 'p permission_entry list \<Rightarrow> string \<Rightarrow> bool" where
  "any_role_perm inh entries role \<longleftrightarrow>
     list_ex (\<lambda>p. pe_role p = role) entries
     \<or> list_ex (\<lambda>parent. list_ex (\<lambda>p. pe_role p = parent) entries) (expand_role inh role)"

definition function_allowed :: "planner \<Rightarrow> function_entry \<Rightarrow> string \<Rightarrow> bool" where
  "function_allowed pl fentry role \<longleftrightarrow>
     pl_infer_function_permissions pl
     \<or> list_ex (\<lambda>p. fp_role p = role) (fe_permissions fentry)
     \<or> list_ex (\<lambda>parent. list_ex (\<lambda>p. fp_role p = parent) (fe_permissions fentry))
         (expand_role (pl_inherited_roles pl) role)"

definition role_has_function_mutation :: "planner \<Rightarrow> string \<Rightarrow> bool" where
  "role_has_function_mutation pl role \<longleftrightarrow>
     list_ex (\<lambda>(_, idx). function_allowed pl (pl_functions pl ! idx) role) (pl_mutation_function_roots pl)"

section \<open>Contexts of a role\<close>

definition table_ctx_of :: "planner \<Rightarrow> nat \<Rightarrow> string \<Rightarrow> table_ctx option" where
  "table_ctx_of pl idx role =
     (let entry = pl_tables pl ! idx in
      case catalog_table (pl_catalog pl) (qt_schema (te_table entry)) (qt_name (te_table entry)) of
        None \<Rightarrow> None
      | Some info \<Rightarrow>
          (let perms = role_select_perms (pl_inherited_roles pl) entry role in
           if perms = [] then None
           else Some \<lparr>tx_entry = entry, tx_info = info, tx_perms = perms, tx_type_name = table_base_name entry\<rparr>))"

definition filter_ctx :: "planner \<Rightarrow> nat \<Rightarrow> table_ctx option" where
  "filter_ctx pl idx =
     (let entry = pl_tables pl ! idx in
      map_option (\<lambda>info. \<lparr>tx_entry = entry, tx_info = info, tx_perms = [], tx_type_name = table_base_name entry\<rparr>)
        (catalog_table (pl_catalog pl) (qt_schema (te_table entry)) (qt_name (te_table entry))))"

definition mutation_table_ctx :: "planner \<Rightarrow> nat \<Rightarrow> table_ctx option" where
  "mutation_table_ctx pl idx = filter_ctx pl idx"

definition filter_ctx_of :: "table_ctx \<Rightarrow> table_ctx" where
  "filter_ctx_of ctx = ctx\<lparr>tx_perms := []\<rparr>"

definition table_index :: "planner \<Rightarrow> qualified_table \<Rightarrow> nat option" where
  "table_index pl table = map_of (pl_by_table pl) (qualified_key (qt_schema table) (qt_name table))"

definition entry_for :: "planner \<Rightarrow> qualified_table \<Rightarrow> table_entry option" where
  "entry_for pl table = map_option (\<lambda>idx. pl_tables pl ! idx) (table_index pl table)"

definition table_ctx_by_name :: "planner \<Rightarrow> qualified_table \<Rightarrow> string \<Rightarrow> table_ctx option" where
  "table_ctx_by_name pl table role = Option.bind (table_index pl table) (\<lambda>idx. table_ctx_of pl idx role)"

definition relationship_ctx :: "planner \<Rightarrow> qualified_table \<Rightarrow> session \<Rightarrow> bool \<Rightarrow> table_ctx option" where
  "relationship_ctx pl table session is_permission =
     Option.bind (table_index pl table) (\<lambda>idx.
       if is_permission then filter_ctx pl idx else table_ctx_of pl idx (se_role session))"

end
