(* ===== verification/Role_Properties.thy ===== *)
theory Role_Properties
  imports Planner
begin

text \<open>
  What the roles of a session grant: the expansion of an inherited role finds
  exactly the concrete roles below it, cycles included, and the recursive
  resolution of mutation permissions agrees with a reference that carries its
  path instead of a shared set.
\<close>

section \<open>Reachable roles\<close>

inductive inherits :: "inherited_role list \<Rightarrow> string \<Rightarrow> string \<Rightarrow> bool" for inh where
  inherits_refl: "inherits inh a a"
| inherits_step: "inherits inh a b \<Longrightarrow> inherited_of inh b = Some r \<Longrightarrow> c \<in> set (ir_role_set r) \<Longrightarrow> inherits inh a c"

definition leaf_role :: "inherited_role list \<Rightarrow> string \<Rightarrow> string \<Rightarrow> bool" where
  "leaf_role inh role r \<longleftrightarrow> inherited_of inh r = None \<and> r \<noteq> role"

definition parents_of :: "inherited_role list \<Rightarrow> string \<Rightarrow> string set" where
  "parents_of inh s = (case inherited_of inh s of Some r \<Rightarrow> set (ir_role_set r) | None \<Rightarrow> {})"

definition loop_inv :: "inherited_role list \<Rightarrow> string \<Rightarrow> string list \<Rightarrow> string list \<Rightarrow> string list \<Rightarrow> bool" where
  "loop_inv inh role stack seen out \<longleftrightarrow>
     distinct out \<and> set out = {r \<in> set seen. leaf_role inh role r}
     \<and> (\<forall>s \<in> set stack \<union> set seen. inherits inh role s)
     \<and> role \<in> set stack \<union> set seen
     \<and> (\<Union>s \<in> set seen. parents_of inh s) \<subseteq> set stack \<union> set seen"

lemma loop_inv_done:
  assumes "loop_inv inh role [] seen out"
  shows "distinct out \<and> set out = {r. inherits inh role r \<and> leaf_role inh role r}"
proof -
  have "r \<in> set seen" if "inherits inh role r" for r
    using that assms
  proof (induction rule: inherits.induct)
    case (inherits_step a b r c)
    then show ?case by (fastforce simp: loop_inv_def parents_of_def)
  qed (simp add: loop_inv_def)
  then show ?thesis using assms by (auto simp: loop_inv_def)
qed

lemma loop_inv_skip: "loop_inv inh role (c # stack) seen out \<Longrightarrow> c \<in> set seen \<Longrightarrow> loop_inv inh role stack seen out"
  unfolding loop_inv_def by fastforce

lemma loop_inv_parents:
  assumes "loop_inv inh role (c # stack) seen out" "inherited_of inh c = Some r"
  shows "loop_inv inh role (rev (ir_role_set r) @ stack) (c # seen) out"
proof -
  have "inherits inh role x" if "x \<in> set (ir_role_set r)" for x
    using that assms by (auto simp: loop_inv_def intro: inherits_step)
  then show ?thesis
    using assms unfolding loop_inv_def leaf_role_def by (auto simp: parents_of_def [of inh c])
qed

lemma loop_inv_leaf:
  assumes "loop_inv inh role (c # stack) seen out" "c \<notin> set seen" "inherited_of inh c = None"
  shows "loop_inv inh role stack (c # seen) (if c \<noteq> role then out @ [c] else out)"
  using assms unfolding loop_inv_def leaf_role_def by (auto simp: parents_of_def [of inh c])

lemma expand_loop_spec:
  "loop_inv inh role stack seen out \<Longrightarrow>
     distinct (expand_loop inh role stack seen out)
     \<and> set (expand_loop inh role stack seen out) = {r. inherits inh role r \<and> leaf_role inh role r}"
proof (induction inh role stack seen out rule: expand_loop.induct)
  case (1 inh role seen out)
  then show ?case by (simp add: loop_inv_done)
next
  case (2 inh role c stack seen out)
  show ?case
  proof (cases "c \<in> set seen")
    case True
    then show ?thesis using 2 loop_inv_skip by simp
  next
    case False
    then show ?thesis
      using 2 loop_inv_leaf loop_inv_parents by (cases "inherited_of inh c") simp_all
  qed
qed

lemma expand_role_spec:
  "distinct (expand_role inh role) \<and> set (expand_role inh role) = {r. inherits inh role r \<and> leaf_role inh role r}"
  unfolding expand_role_def by (rule expand_loop_spec) (simp add: loop_inv_def inherits_refl)

lemma expand_role_concrete: "inherited_of inh role = None \<Longrightarrow> expand_role inh role = []"
  by (simp add: expand_role_def)

section \<open>Resolution along a path\<close>

function resolve_ref ::
  "inherited_role list \<Rightarrow> ('p \<Rightarrow> 'p \<Rightarrow> bool) \<Rightarrow> 'p permission_entry list \<Rightarrow> ('p \<Rightarrow> bool) \<Rightarrow> string list \<Rightarrow> string \<Rightarrow> 'p option" where
  "resolve_ref inh same entries applies path role =
     (case direct_perm entries applies role of
        Some p \<Rightarrow> Some p
      | None \<Rightarrow>
          if role \<in> set path then None
          else case inherited_of inh role of
            None \<Rightarrow> None
          | Some r \<Rightarrow> merge_perms same (concat (map (\<lambda>parent.
              case resolve_ref inh same entries applies (role # path) parent of Some p \<Rightarrow> [p] | None \<Rightarrow> []) (ir_role_set r))))"
  by pat_completeness auto
termination
proof (relation "measure (\<lambda>(inh, same, entries, applies, path, role). card (ir_role_name ` set inh - set path))", goal_cases)
  case (2 inh same entries applies path role r parent)
  have "ir_role_name ` set inh - insert role (set path) \<subset> ir_role_name ` set inh - set path"
    using 2 inherited_of_Some [of inh role r] by blast
  then show ?case by (auto intro: psubset_card_mono)
qed simp

declare resolve_ref.simps [simp del]

text \<open>
  The shared set is the path plus roles that were left behind: they have no
  permission and no parents, so meeting them again changes nothing.
\<close>

definition stale :: "inherited_role list \<Rightarrow> 'p permission_entry list \<Rightarrow> ('p \<Rightarrow> bool) \<Rightarrow> string \<Rightarrow> bool" where
  "stale inh entries applies r \<longleftrightarrow> direct_perm entries applies r = None \<and> inherited_of inh r = None"

definition tracks :: "inherited_role list \<Rightarrow> 'p permission_entry list \<Rightarrow> ('p \<Rightarrow> bool) \<Rightarrow> string list \<Rightarrow> string list \<Rightarrow> bool" where
  "tracks inh entries applies path visiting \<longleftrightarrow>
     set path \<subseteq> set visiting \<and> (\<forall>r \<in> set visiting - set path. stale inh entries applies r)"

lemma tracks_push: "tracks inh entries applies path v \<Longrightarrow> tracks inh entries applies (r # path) (r # v)"
  by (auto simp: tracks_def)

lemma tracks_pop: "tracks inh entries applies (r # path) v \<Longrightarrow> r \<notin> set path \<Longrightarrow> tracks inh entries applies path (removeAll r v)"
  by (auto simp: tracks_def)

lemma tracks_stale: "tracks inh entries applies path v \<Longrightarrow> stale inh entries applies r \<Longrightarrow> tracks inh entries applies path (r # v)"
  by (auto simp: tracks_def)

lemma tracks_mem: "tracks inh entries applies path v \<Longrightarrow> \<not> stale inh entries applies r \<Longrightarrow> r \<in> set v \<longleftrightarrow> r \<in> set path"
  unfolding tracks_def by blast

lemma resolve_ref_stale: "stale inh entries applies r \<Longrightarrow> resolve_ref inh same entries applies path r = None"
  by (subst resolve_ref.simps) (simp add: stale_def)

definition rest_names :: "inherited_role list \<Rightarrow> string list \<Rightarrow> nat" where
  "rest_names inh path = card (ir_role_name ` set inh - set path)"

lemma rest_names_push:
  "inherited_of inh role = Some r \<Longrightarrow> role \<notin> set path \<Longrightarrow> rest_names inh (role # path) < rest_names inh path"
  unfolding rest_names_def
  using inherited_of_Some [of inh role r] by (intro psubset_card_mono) auto

lemma resolve_rec_ref:
  "tracks inh entries applies path visiting \<Longrightarrow> rest_names inh path < fuel \<Longrightarrow>
     fst (resolve_rec fuel inh same entries applies role visiting) = resolve_ref inh same entries applies path role
     \<and> tracks inh entries applies path (snd (resolve_rec fuel inh same entries applies role visiting))"
  "tracks inh entries applies path visiting \<Longrightarrow> rest_names inh path < fuel \<Longrightarrow>
     fst (resolve_all fuel inh same entries applies parents visiting)
       = concat (map (\<lambda>parent. case resolve_ref inh same entries applies path parent of Some p \<Rightarrow> [p] | None \<Rightarrow> []) parents)
     \<and> tracks inh entries applies path (snd (resolve_all fuel inh same entries applies parents visiting))"
proof (induction fuel inh same entries applies role visiting and fuel inh same entries applies parents visiting
    arbitrary: path and path rule: resolve_rec_resolve_all.induct)
  case (2 fuel inh same entries applies role visiting)
  show ?case
  proof (cases "direct_perm entries applies role")
    case (Some p)
    then show ?thesis using 2 by (simp add: resolve_ref.simps [of inh same entries applies path role])
  next
    case None
    note direct = None
    show ?thesis
    proof (cases "inherited_of inh role")
      case None
      then have "stale inh entries applies role" using direct by (simp add: stale_def)
      then show ?thesis using 2 direct None
        by (auto simp: resolve_ref_stale intro: tracks_stale)
    next
      case (Some r)
      have vis: "role \<in> set visiting \<longleftrightarrow> role \<in> set path"
        using tracks_mem [OF "2.prems"(1)] Some by (simp add: stale_def)
      show ?thesis
      proof (cases "role \<in> set path")
        case True
        then show ?thesis using 2 vis direct by (simp add: resolve_ref.simps [of inh same entries applies path role])
      next
        case False
        have "rest_names inh (role # path) < fuel" using rest_names_push [OF Some False] "2.prems"(2) by simp
        note IH = "2.IH" [OF direct _ Some tracks_push [OF "2.prems"(1)] this]
        show ?thesis
          using IH False vis direct Some tracks_pop
          by (auto simp: resolve_ref.simps [of inh same entries applies path role] case_prod_beta)
      qed
    qed
  qed
next
  case (4 fuel inh same entries applies parent parents visiting)
  obtain p v where p: "resolve_rec fuel inh same entries applies parent visiting = (p, v)" by fastforce
  then have "p = resolve_ref inh same entries applies path parent" and v: "tracks inh entries applies path v"
    using 4(1) [OF "4.prems"] by auto
  then show ?case using 4(2) [OF p [symmetric] refl v "4.prems"(2)] p
    by (auto simp: case_prod_beta split: option.splits)
qed simp_all

lemma resolve_role_perm_ref:
  "resolve_role_perm inh same entries applies role = resolve_ref inh same entries applies [] role"
proof -
  have "rest_names inh [] \<le> length inh"
    unfolding rest_names_def using card_length [of "map ir_role_name inh"] by simp
  then show ?thesis
    unfolding resolve_role_perm_def by (subst resolve_rec_ref(1)) (auto simp: tracks_def)
qed

lemma inherits_first:
  "inherits inh b c \<Longrightarrow> b \<in> set (ir_role_set r) \<Longrightarrow> inherited_of inh a = Some r \<Longrightarrow> inherits inh a c"
  by (induction rule: inherits.induct) (blast intro: inherits.intros)+

lemma merge_perms_in: "merge_perms same ps = Some p \<Longrightarrow> p \<in> set ps"
  by (cases "(same, ps)" rule: merge_perms.cases) (auto split: if_splits)

text \<open>A resolved permission is an applicable entry of the role or of one it inherits from.\<close>

lemma resolve_ref_sound:
  "resolve_ref inh same entries applies path role = Some p \<Longrightarrow>
     \<exists>e \<in> set entries. pe_permission e = p \<and> applies p \<and> inherits inh role (pe_role e)"
proof (induction inh same entries applies path role arbitrary: p rule: resolve_ref.induct)
  case (1 inh same entries applies path role)
  show ?case
  proof (cases "direct_perm entries applies role")
    case (Some q)
    then have "q = p" using "1.prems" by (simp add: resolve_ref.simps [of inh same entries applies path role])
    then show ?thesis using Some by (auto simp: direct_perm_def dest!: find_Some_in intro: inherits_refl)
  next
    case None
    then obtain r where r: "role \<notin> set path" "inherited_of inh role = Some r"
      and m: "merge_perms same (concat (map (\<lambda>parent.
        case resolve_ref inh same entries applies (role # path) parent of Some p \<Rightarrow> [p] | None \<Rightarrow> []) (ir_role_set r))) = Some p"
      using "1.prems" by (auto simp: resolve_ref.simps [of inh same entries applies path role] split: if_splits option.splits)
    obtain parent where parent: "parent \<in> set (ir_role_set r)" "resolve_ref inh same entries applies (role # path) parent = Some p"
      using merge_perms_in [OF m] by (auto split: option.splits)
    show ?thesis using "1.IH" [OF None r(1) r(2) parent] inherits_first [OF _ parent(1) r(2)] by blast
  qed
qed

lemma resolve_role_perm_sound:
  "resolve_role_perm inh same entries applies role = Some p \<Longrightarrow>
     \<exists>e \<in> set entries. pe_permission e = p \<and> applies p \<and> inherits inh role (pe_role e)"
  unfolding resolve_role_perm_ref by (rule resolve_ref_sound)

section \<open>Properties\<close>

text \<open>
  C11. An inherited role expands to exactly the concrete roles it inherits from,
  through any number of levels and in spite of cycles, each once and never
  itself.
\<close>

theorem expand_role_exact:
  "distinct (expand_role inh role)
     \<and> set (expand_role inh role) = {r. inherits inh role r \<and> inherited_of inh r = None \<and> r \<noteq> role}"
  using expand_role_spec [of inh role] by (simp add: leaf_role_def)

text \<open>
  A role without an entry among the inherited roles has on a table exactly its
  own select permission: nothing is granted to a role, an administrator
  included, that no permission names.
\<close>

theorem concrete_role_select_perms:
  assumes "inherited_of inh role = None"
  shows "role_select_perms inh entry role =
    (case find (\<lambda>p. pe_role p = role) (te_select_permissions entry) of Some p \<Rightarrow> [pe_permission p] | None \<Rightarrow> [])"
  using expand_role_concrete [OF assms] by (simp add: role_select_perms_def map_filter_def split: option.splits)

theorem concrete_role_select_perms_witness:
  "role_select_perms [\<lparr>ir_role_name = ''both'', ir_role_set = [''user'', ''editor'']\<rparr>]
     \<lparr>te_table = Name ''author'', te_configuration = None, te_is_enum = False, te_object_relationships = [],
      te_array_relationships = [], te_computed_fields = [], te_remote_relationships = [], te_insert_permissions = [],
      te_select_permissions = [], te_update_permissions = [], te_delete_permissions = []\<rparr> ''admin'' = []"
  by (subst concrete_role_select_perms) (simp_all add: inherited_of_def)

text \<open>
  C30. The select permissions of a role are entries of the table, of the role
  itself or, only when it has none, of concrete roles it inherits from; and
  every concrete role below it that has one contributes.
\<close>

theorem role_select_perms_sound:
  "set (role_select_perms inh entry role) =
     (if \<exists>p \<in> set (te_select_permissions entry). pe_role p = role
      then {pe_permission p |p. find (\<lambda>p. pe_role p = role) (te_select_permissions entry) = Some p}
      else {pe_permission p |p r. inherits inh role r \<and> inherited_of inh r = None
              \<and> find (\<lambda>p. pe_role p = r) (te_select_permissions entry) = Some p})"
proof (cases "find (\<lambda>p. pe_role p = role) (te_select_permissions entry)")
  case (Some p)
  then show ?thesis using find_Some_in [OF Some] by (auto simp: role_select_perms_def)
next
  case None
  then have none: "\<not> (\<exists>p \<in> set (te_select_permissions entry). pe_role p = role)" by (simp add: find_None_all)
  let ?own = "\<lambda>r. find (\<lambda>p. pe_role p = r) (te_select_permissions entry)"
  have exp: "r \<in> set (expand_role inh role) \<longleftrightarrow> inherits inh role r \<and> inherited_of inh r = None" if "?own r = Some p" for p r
  proof -
    have "r \<noteq> role" using None that by (metis option.distinct(1))
    then show ?thesis using expand_role_spec [of inh role] by (simp add: leaf_role_def)
  qed
  have "role_select_perms inh entry role = List.map_filter (\<lambda>r. map_option pe_permission (?own r)) (expand_role inh role)"
    using None by (simp add: role_select_perms_def)
  then have "q \<in> set (role_select_perms inh entry role) \<longleftrightarrow>
      (\<exists>p r. q = pe_permission p \<and> inherits inh role r \<and> inherited_of inh r = None \<and> ?own r = Some p)" for q
    using exp by (auto simp: in_map_filter)
  then show ?thesis using none by auto
qed

text \<open>
  C31. The recursion that shares one visited set among the parents of a role finds
  the same mutation permission as resolution along a path, so a role met a
  second time on another branch is not lost, and the fuel (one more than the
  number of inherited roles) is enough.
\<close>

theorem resolve_role_perm_path:
  "resolve_role_perm inh same entries applies role = resolve_ref inh same entries applies [] role"
  by (rule resolve_role_perm_ref)

lemma merge_perms_same:
  assumes "merge_perms same ps = Some p" "q \<in> set ps" "\<And>r. same r r"
  shows "same q p"
  using assms by (cases "(same, ps)" rule: merge_perms.cases) (auto simp: list_all_iff split: if_splits)

text \<open>
  Conflicting parents grant nothing: when a role has no permission of its own,
  the permission it resolves to equals the permission of each of its immediate
  parents that resolves to one.
\<close>

theorem inherited_perm_agrees:
  assumes "\<And>p. same p p" "direct_perm entries applies role = None" "inherited_of inh role = Some r"
    and "resolve_role_perm inh same entries applies role = Some p"
    and "parent \<in> set (ir_role_set r)" "resolve_ref inh same entries applies [role] parent = Some q"
  shows "same q p"
proof -
  let ?found = "concat (map (\<lambda>parent. case resolve_ref inh same entries applies [role] parent of
    Some p \<Rightarrow> [p] | None \<Rightarrow> []) (ir_role_set r))"
  have "merge_perms same ?found = Some p"
    using assms(2-4) by (simp add: resolve_role_perm_ref resolve_ref.simps [of inh same entries applies "[]" role])
  moreover have "q \<in> set ?found" using assms(5,6) by force
  ultimately show ?thesis using merge_perms_same [of same ?found p q] assms(1) by blast
qed

theorem inherited_perm_agrees_witness:
  "(17::nat) mod 10 = 7 mod 10 \<and>
   resolve_role_perm [\<lparr>ir_role_name = ''both'', ir_role_set = [''user'', ''editor'']\<rparr>] (\<lambda>a b. a mod 10 = b mod 10)
     [\<lparr>pe_role = ''user'', pe_permission = (7::nat)\<rparr>, \<lparr>pe_role = ''editor'', pe_permission = 17\<rparr>] (\<lambda>_. True) ''both'' = Some 7"
proof -
  let ?r = "\<lparr>ir_role_name = ''both'', ir_role_set = [''user'', ''editor'']\<rparr>"
  let ?es = "[\<lparr>pe_role = ''user'', pe_permission = (7::nat)\<rparr>, \<lparr>pe_role = ''editor'', pe_permission = 17\<rparr>]"
  have res: "resolve_role_perm [?r] (\<lambda>a b. a mod 10 = b mod 10) ?es (\<lambda>_. True) ''both'' = Some 7"
    by (simp add: resolve_role_perm_def direct_perm_def inherited_of_def)
  have "(17::nat) mod 10 = 7 mod 10"
    by (rule inherited_perm_agrees [where same = "\<lambda>a b. a mod 10 = b mod 10" and role = "''both''" and inh = "[?r]"
        and entries = ?es and applies = "\<lambda>_. True" and parent = "''editor''" and r = ?r, OF refl _ _ res])
      (simp_all add: direct_perm_def inherited_of_def resolve_ref.simps)
  with res show ?thesis by simp
qed

end
