(* ===== verification/Relations.thy ===== *)
theory Relations
  imports Planner Ir
begin

text \<open>
  How the planner follows relationships and calls computed-field functions:
  \<open>object_rel_target\<close>, \<open>array_rel_target\<close>, \<open>relationship_target\<close>,
  \<open>session_json\<close> and \<open>computed_field_args\<close> of
  \<open>crates/schema/src/plan.rs\<close>.
\<close>

type_synonym rel_target = "qualified_table \<times> join_pairs"

section \<open>Relationships\<close>

text \<open>A foreign key that maps exactly the given columns.\<close>

definition fk_on :: "string list \<Rightarrow> foreign_key \<Rightarrow> bool" where
  "fk_on cols fk \<longleftrightarrow>
     length (fk_column_mapping fk) = length cols
     \<and> list_all (\<lambda>c. map_of (fk_column_mapping fk) c \<noteq> None) cols"

fun fk_columns_of :: "obj_rel_fk_columns \<Rightarrow> string list" where
  "fk_columns_of (Single c) = [c]"
| "fk_columns_of (Multiple cs) = cs"

definition object_rel_target :: "table_ctx \<Rightarrow> object_relationship \<Rightarrow> string \<Rightarrow> rel_target plan_result" where
  "object_rel_target ctx rel path =
     (case oru_manual_configuration (or_using rel) of
        Some manual \<Rightarrow> Inr (mc_remote_table manual, mc_column_mapping manual)
      | None \<Rightarrow>
          (case oru_foreign_key_constraint_on (or_using rel) of
             Some fk_cols \<Rightarrow>
               (let cols = fk_columns_of fk_cols in
                case find (fk_on cols) (ti_foreign_keys (tx_info ctx)) of
                  None \<Rightarrow> err_validation path
                    (''no foreign key constraint on ('' @ join_with '', '' cols @ '') for relationship '' @ quoted (or_name rel))
                | Some fk \<Rightarrow> Inr (Qualified (fk_referenced_schema fk) (fk_referenced_table fk), fk_column_mapping fk))
           | None \<Rightarrow> err_validation path (''relationship '' @ quoted (or_name rel) @ '' has no using clause'')))"

definition fk_constraint_columns :: "arr_rel_fk_constraint \<Rightarrow> string list" where
  "fk_constraint_columns fk =
     (case arf_column fk of Some c \<Rightarrow> [c] | None \<Rightarrow> []) @ (case arf_columns fk of Some cs \<Rightarrow> cs | None \<Rightarrow> [])"

definition array_rel_target :: "planner \<Rightarrow> table_ctx \<Rightarrow> array_relationship \<Rightarrow> string \<Rightarrow> rel_target plan_result" where
  "array_rel_target pl ctx rel path =
     (case aru_manual_configuration (ar_using rel) of
        Some manual \<Rightarrow> Inr (mc_remote_table manual, mc_column_mapping manual)
      | None \<Rightarrow>
          (case aru_foreign_key_constraint_on (ar_using rel) of
             Some fk \<Rightarrow>
               (let remote_table = arf_table fk; fk_cols = fk_constraint_columns fk in
                case catalog_table (pl_catalog pl) (qt_schema remote_table) (qt_name remote_table) of
                  None \<Rightarrow> err_validation path
                    (''table '' @ quoted (qt_display remote_table) @ '' not found for relationship '' @ quoted (ar_name rel))
                | Some remote_info \<Rightarrow>
                    (case find (\<lambda>c. fk_referenced_schema c = ti_schema (tx_info ctx)
                          \<and> fk_referenced_table c = ti_name (tx_info ctx) \<and> fk_on fk_cols c)
                        (ti_foreign_keys remote_info) of
                       None \<Rightarrow> err_validation path
                         (''no foreign key constraint on '' @ qt_display remote_table @ ''('' @ join_with '', '' fk_cols
                            @ '') for relationship '' @ quoted (ar_name rel))
                     | Some constraint \<Rightarrow>
                         Inr (remote_table, map (\<lambda>(remote_col, our_col). (our_col, remote_col)) (fk_column_mapping constraint))))
           | None \<Rightarrow> err_validation path (''relationship '' @ quoted (ar_name rel) @ '' has no using clause'')))"

definition result_ok :: "'e + 'a \<Rightarrow> 'a option" where
  "result_ok r = (case r of Inr x \<Rightarrow> Some x | Inl _ \<Rightarrow> None)"

definition relationship_target :: "planner \<Rightarrow> table_ctx \<Rightarrow> string \<Rightarrow> string \<Rightarrow> rel_target option" where
  "relationship_target pl ctx name path =
     (case find (\<lambda>r. or_name r = name) (te_object_relationships (tx_entry ctx)) of
        Some rel \<Rightarrow> result_ok (object_rel_target ctx rel path)
      | None \<Rightarrow>
          (case find (\<lambda>r. ar_name r = name) (te_array_relationships (tx_entry ctx)) of
             Some rel \<Rightarrow> result_ok (array_rel_target pl ctx rel path)
           | None \<Rightarrow> None))"

definition ir_table_of :: "qualified_table \<Rightarrow> ir_table" where
  "ir_table_of t = \<lparr>it_schema = qt_schema t, it_name = qt_name t\<rparr>"

section \<open>Function arguments\<close>

text \<open>The session variables are a \<open>HashMap\<close>; the list fixes its iteration order.\<close>

definition session_json :: "extern \<Rightarrow> session \<Rightarrow> string" where
  "session_json x session = json_display x (JObject (map (\<lambda>(k, v). (k, JString v)) (se_vars session)))"

definition is_session_arg :: "computed_field_definition \<Rightarrow> function_arg \<Rightarrow> bool" where
  "is_session_arg cfdef a \<longleftrightarrow>
     (case (fa_name a, cfd_session_argument cfdef) of (Some n, Some s) \<Rightarrow> n = s | _ \<Rightarrow> False)"

definition computed_field_arg ::
  "extern \<Rightarrow> computed_field_definition \<Rightarrow> session \<Rightarrow> jmap option \<Rightarrow> string \<Rightarrow> function_arg \<Rightarrow> row_function_arg plan_result" where
  "computed_field_arg x cfdef session user_args path a =
     (if is_session_arg cfdef a then Inr (SessionJson (session_json x session))
      else if fa_composite_of a \<noteq> None then Inr Row
      else let name = (case fa_name a of Some n \<Rightarrow> n | None \<Rightarrow> []) in
        case Option.bind user_args (\<lambda>m. jmap_get m name) of
          Some v \<Rightarrow> Inr (ArgValue (Scalar v) (fa_pg_type a))
        | None \<Rightarrow> err_validation path (''missing function argument: '' @ dquoted name))"

definition computed_field_args ::
  "extern \<Rightarrow> function_info \<Rightarrow> computed_field_definition \<Rightarrow> session \<Rightarrow> jmap option \<Rightarrow> string \<Rightarrow> row_function_arg list plan_result" where
  "computed_field_args x finfo cfdef session user_args path =
     traverse (computed_field_arg x cfdef session user_args path) (fi_args finfo)"

section \<open>What a target joins\<close>

text \<open>
  The pairs of an object relationship on a foreign key are columns of that
  constraint, and it covers exactly the columns named in the metadata.
\<close>

lemma fk_on_keys: "fk_on cols fk \<Longrightarrow> set cols \<subseteq> fst ` set (fk_column_mapping fk)"
  by (force simp: fk_on_def list_all_iff dest: map_of_SomeD)

lemma array_join_keys:
  assumes "array_rel_target pl ctx rel path = Inr (t, join)"
    and "aru_manual_configuration (ar_using rel) = None" "aru_foreign_key_constraint_on (ar_using rel) = Some fk"
  shows "set (fk_constraint_columns fk) \<subseteq> snd ` set join"
proof -
  obtain info c where c: "fk_on (fk_constraint_columns fk) c"
    and j: "join = map (\<lambda>(r, l). (l, r)) (fk_column_mapping c)"
    using assms by (auto simp: array_rel_target_def err_validation_def Let_def dest!: find_Some_in split: option.splits)
  have "snd ` set join = fst ` set (fk_column_mapping c)"
    unfolding j by (force simp: image_image case_prod_beta)
  then show ?thesis using fk_on_keys [OF c] by simp
qed

end
