(* ===== verification/Bool_Exps.thy ===== *)
theory Bool_Exps
  imports Relations
begin

text \<open>
  Boolean expressions, \<open>crates/schema/src/predicate.rs\<close>: the JSON of a
  \<open>where\<close> argument or of a permission's row filter to an IR predicate, and the
  combination of the row filters of a role (\<open>combined_filter\<close>,
  \<open>permission_predicate\<close> of \<open>plan.rs\<close>). In permission mode session
  variables are substituted and the column mask does not apply.
\<close>

section \<open>Values\<close>

text \<open>\<open>s[..8]\<close> panics when byte 8 lies inside a character.\<close>

definition char_boundary :: "string \<Rightarrow> nat \<Rightarrow> bool" where
  "char_boundary s i \<longleftrightarrow>
     i = 0 \<or> i = length s \<or> (i < length s \<and> \<not> (128 \<le> (of_char (s ! i) :: nat) \<and> (of_char (s ! i) :: nat) < 192))"

definition resolve_session :: "json \<Rightarrow> session \<Rightarrow> bool \<Rightarrow> string \<Rightarrow> json plan_result" where
  "resolve_session value session is_permission path =
     (if \<not> is_permission then Inr value
      else case value of
        JString s \<Rightarrow>
          (if length s < 8 then Inr (JString s)
           else if \<not> char_boundary s 8 then Inl Panic
           else if eq_ignore_ascii_case (take 8 s) ''x-hasura'' then
             (case session_var session s of
                Some v \<Rightarrow> Inr (JString v)
              | None \<Rightarrow> Inl (Fail (plan_error_new ''$'' ''not-found''
                  (''missing session variable: '' @ dquoted (to_ascii_lowercase s)))))
           else Inr (JString s))
      | other \<Rightarrow> Inr other)"

definition parse_array_literal :: "extern \<Rightarrow> string \<Rightarrow> json list option" where
  "parse_array_literal x s =
     (case json_parse x s of
        Some (JArray items) \<Rightarrow> Some items
      | _ \<Rightarrow>
          Option.bind (strip_prefix ''{'' (trim s)) (\<lambda>r.
          Option.bind (strip_suffix ''}'' r) (\<lambda>inner.
            if trim inner = [] then Some []
            else Some (map (\<lambda>part. JString (trim_matches (CHR 0x22) (trim part))) (split_char (CHR '','') inner)))))"

definition scalar_value :: "json \<Rightarrow> session \<Rightarrow> bool \<Rightarrow> string \<Rightarrow> scalar plan_result" where
  "scalar_value v session is_permission path =
     bindR (resolve_session v session is_permission path) (\<lambda>r. Inr (Scalar r))"

definition scalar_list :: "extern \<Rightarrow> json \<Rightarrow> session \<Rightarrow> bool \<Rightarrow> string \<Rightarrow> scalar list plan_result" where
  "scalar_list x v session is_permission path =
     bindR (resolve_session v session is_permission path) (\<lambda>resolved.
       case resolved of
         JArray items \<Rightarrow> Inr (map Scalar items)
       | JString s \<Rightarrow>
           (case parse_array_literal x s of
              None \<Rightarrow> err_validation path ''expected an array of values''
            | Some items \<Rightarrow> Inr (map Scalar items))
       | _ \<Rightarrow> err_validation path ''expected an array of values'')"

definition string_list :: "extern \<Rightarrow> json \<Rightarrow> session \<Rightarrow> bool \<Rightarrow> string \<Rightarrow> string list plan_result" where
  "string_list x v session is_permission path =
     bindR (scalar_list x v session is_permission path) (\<lambda>items.
       Inr (map (\<lambda>s. case scalar_json s of JString t \<Rightarrow> t | other \<Rightarrow> json_display x other) items))"

definition st_op :: "string \<Rightarrow> json \<Rightarrow> (json \<Rightarrow> scalar plan_result) \<Rightarrow> compare_op plan_result" where
  "st_op function value scalar = bindR (scalar value) (\<lambda>v. Inr (StOp function v))"

section \<open>Operators\<close>

definition column_compare :: "planner \<Rightarrow> string \<Rightarrow> json \<Rightarrow> table_ctx \<Rightarrow> string \<Rightarrow> compare_op plan_result" where
  "column_compare pl sql_op value ctx path =
     (case value of
        JString column \<Rightarrow> Inr (CompareColumn sql_op column False)
      | JArray items \<Rightarrow>
          (let parts = List.map_filter as_str items in
           if length parts \<noteq> length items then err_validation path ''expected a column name''
           else case parts of
             [column] \<Rightarrow> Inr (CompareColumn sql_op column False)
           | [rel, column] \<Rightarrow>
               (if rel = ''$'' then Inr (CompareColumn sql_op column True)
                else case relationship_target pl ctx rel path of
                  None \<Rightarrow> err_validation path (''relationship '' @ quoted rel @ '' not found'')
                | Some (remote_table, join) \<Rightarrow>
                    Inr (CompareColumnRel sql_op (ir_table_of remote_table) join column))
           | _ \<Rightarrow> err_validation path ''expected a column name'')
      | _ \<Rightarrow> err_validation path ''expected a column name'')"

text \<open>The operators with one scalar operand, and the PostGIS functions.\<close>

definition scalar_ops :: "(string \<times> (scalar \<Rightarrow> compare_op)) list" where
  "scalar_ops =
     [(''_eq'', Eq), (''_neq'', Neq), (''_ne'', Neq), (''_gt'', Gt), (''_lt'', Lt), (''_gte'', Gte), (''_lte'', Lte),
      (''_like'', Like), (''_nlike'', Nlike), (''_ilike'', Ilike), (''_nilike'', Nilike),
      (''_similar'', Similar), (''_nsimilar'', Nsimilar),
      (''_regex'', Regex), (''_iregex'', Iregex), (''_nregex'', Nregex), (''_niregex'', Niregex),
      (''_has_key'', HasKey), (''_contains'', Contains), (''_contained_in'', ContainedIn)]"

definition column_ops :: "(string \<times> string) list" where
  "column_ops =
     [(''_ceq'', ''=''), (''_cne'', ''<>''), (''_cneq'', ''<>''), (''_cgt'', ''>''), (''_clt'', ''<''),
      (''_cgte'', ''>=''), (''_clte'', ''<='')]"

definition st_functions :: "(string \<times> string) list" where
  "st_functions =
     [(''_st_contains'', ''ST_Contains''), (''_st_crosses'', ''ST_Crosses''), (''_st_equals'', ''ST_Equals''),
      (''_st_intersects'', ''ST_Intersects''), (''_st_overlaps'', ''ST_Overlaps''), (''_st_touches'', ''ST_Touches''),
      (''_st_within'', ''ST_Within''), (''_st_3d_intersects'', ''ST_3DIntersects'')]"

definition normalize_op :: "string \<Rightarrow> string" where
  "normalize_op raw = (case strip_prefix ''$'' raw of Some rest \<Rightarrow> ''_'' @ rest | None \<Rightarrow> raw)"

definition parse_op ::
  "extern \<Rightarrow> planner \<Rightarrow> table_ctx \<Rightarrow> string \<Rightarrow> session \<Rightarrow> bool \<Rightarrow> string \<Rightarrow> string \<times> json \<Rightarrow> compare_op plan_result" where
  "parse_op x pl ctx column session is_permission path entry =
     (let op_name = normalize_op (fst entry);
          op_value = snd entry;
          scalar = (\<lambda>v. scalar_value v session is_permission path)
      in case map_of scalar_ops op_name of
        Some c \<Rightarrow> bindR (scalar op_value) (\<lambda>v. Inr (c v))
      | None \<Rightarrow>
      (case map_of column_ops op_name of
        Some sql_op \<Rightarrow> column_compare pl sql_op op_value ctx path
      | None \<Rightarrow>
      (case map_of st_functions op_name of
        Some f \<Rightarrow> st_op f op_value scalar
      | None \<Rightarrow>
        if op_name = ''_in'' then bindR (scalar_list x op_value session is_permission path) (\<lambda>vs. Inr (In vs))
        else if op_name = ''_nin'' then bindR (scalar_list x op_value session is_permission path) (\<lambda>vs. Inr (Nin vs))
        else if op_name = ''_is_null'' then
          bindR (resolve_session op_value session is_permission path) (\<lambda>v.
            Inr (IsNull (case as_bool v of Some b \<Rightarrow> b | None \<Rightarrow> False)))
        else if op_name = ''_has_keys_any'' then
          bindR (string_list x op_value session is_permission path) (\<lambda>ks. Inr (HasKeysAny ks))
        else if op_name = ''_has_keys_all'' then
          bindR (string_list x op_value session is_permission path) (\<lambda>ks. Inr (HasKeysAll ks))
        else if op_name = ''_st_d_within'' \<or> op_name = ''_st_3d_d_within'' then
          (case as_object op_value of
             None \<Rightarrow> err_validation path ''expected { distance, from } for _st_d_within''
           | Some obj \<Rightarrow>
               (case jmap_get obj ''distance'' of
                  None \<Rightarrow> err_validation path (''missing '' @ quoted ''distance'' @ '' in _st_d_within'')
                | Some distance \<Rightarrow>
                    (case jmap_get obj ''from'' of
                       None \<Rightarrow> err_validation path (''missing '' @ quoted ''from'' @ '' in _st_d_within'')
                     | Some from \<Rightarrow>
                         bindR (scalar distance) (\<lambda>d. bindR (scalar from) (\<lambda>f.
                           Inr (StDWithin d f (op_name = ''_st_3d_d_within'')))))))
        else err_validation path
          (''unexpected operator '' @ dquoted op_name @ '' for column '' @ quoted column))))"

definition parse_ops ::
  "extern \<Rightarrow> planner \<Rightarrow> table_ctx \<Rightarrow> string \<Rightarrow> json \<Rightarrow> session \<Rightarrow> bool \<Rightarrow> string \<Rightarrow> compare_op list plan_result" where
  "parse_ops x pl ctx column value session is_permission path =
     (case value of
        JObject ops \<Rightarrow> traverse (parse_op x pl ctx column session is_permission path) ops
      | _ \<Rightarrow> bindR (resolve_session value session is_permission path) (\<lambda>r. Inr [Eq (Scalar r)]))"

section \<open>Expressions\<close>

fun conj_of :: "bool_exp list \<Rightarrow> bool_exp" where
  "conj_of [e] = e"
| "conj_of es = And es"

fun disj_of :: "bool_exp list \<Rightarrow> bool_exp" where
  "disj_of [e] = e"
| "disj_of es = Or es"

fun qualified_of_json :: "json \<Rightarrow> qualified_table option" where
  "qualified_of_json (JString s) = Some (Name s)"
| "qualified_of_json (JObject m) =
     (case (jmap_get m ''schema'', jmap_get m ''name'') of
        (Some (JString s), Some (JString n)) \<Rightarrow> Some (Qualified s n)
      | _ \<Rightarrow> None)"
| "qualified_of_json _ = None"

definition logical_name :: "string \<Rightarrow> string" where
  "logical_name key =
     (if key = ''$and'' then ''_and'' else if key = ''$or'' then ''_or'' else if key = ''$not'' then ''_not'' else key)"

definition unrestricted :: "json \<Rightarrow> bool" where
  "unrestricted flt \<longleftrightarrow> is_null flt \<or> flt = JObject []"

text \<open>The loop of \<open>combined_filter\<close> over the permissions; \<open>None\<close> is no restriction.\<close>

fun filter_parts :: "(json \<Rightarrow> bool_exp plan_result) \<Rightarrow> select_permission list \<Rightarrow> bool_exp list option plan_result" where
  "filter_parts parse [] = Inr (Some [])"
| "filter_parts parse (perm # perms) =
     (if unrestricted (sp_filter perm) then Inr None
      else bindR (parse (sp_filter perm)) (\<lambda>e. bindR (filter_parts parse perms) (\<lambda>r. Inr (map_option ((#) e) r))))"

definition combined_with :: "(json \<Rightarrow> bool_exp plan_result) \<Rightarrow> select_permission list \<Rightarrow> bool_exp option plan_result" where
  "combined_with parse perms =
     (if perms = [] then Inr None
      else bindR (filter_parts parse perms) (\<lambda>r. Inr (map_option disj_of r)))"

definition with_filter :: "bool_exp \<Rightarrow> bool_exp option \<Rightarrow> bool_exp" where
  "with_filter inner perm = (case perm of Some p \<Rightarrow> And [inner, p] | None \<Rightarrow> inner)"

lemma filter_parts_cong [fundef_cong]:
  "ps = qs \<Longrightarrow> (\<And>p. p \<in> set qs \<Longrightarrow> f (sp_filter p) = g (sp_filter p)) \<Longrightarrow> filter_parts f ps = filter_parts g qs"
proof (induction qs arbitrary: ps)
  case (Cons q qs)
  then have "filter_parts f qs = filter_parts g qs" "f (sp_filter q) = g (sp_filter q)" by auto
  then show ?case using Cons.prems(1) by simp
qed simp

lemma combined_with_cong [fundef_cong]:
  "ps = qs \<Longrightarrow> (\<And>p. p \<in> set qs \<Longrightarrow> f (sp_filter p) = g (sp_filter p)) \<Longrightarrow> combined_with f ps = combined_with g qs"
  unfolding combined_with_def using filter_parts_cong [of ps qs f g] by simp

definition not_in_bool_exp :: "string \<Rightarrow> string \<Rightarrow> table_ctx \<Rightarrow> 'a plan_result" where
  "not_in_bool_exp path name ctx =
     err_validation path (''field '' @ quoted name @ '' not found in type: '' @ quoted (tx_type_name ctx @ ''_bool_exp''))"

definition predicate_args :: "extern \<Rightarrow> computed_field_definition \<Rightarrow> session \<Rightarrow> function_info \<Rightarrow> row_function_arg list" where
  "predicate_args x cfdef session finfo =
     map (\<lambda>a. if is_session_arg cfdef a then SessionJson (session_json x session) else Row) (fi_args finfo)"

function parse_bool_exp ::
  "extern \<Rightarrow> planner \<Rightarrow> json \<Rightarrow> table_ctx \<Rightarrow> session \<Rightarrow> bool \<Rightarrow> string \<Rightarrow> bool_exp plan_result"
and parse_entry ::
  "extern \<Rightarrow> planner \<Rightarrow> string \<Rightarrow> json \<Rightarrow> table_ctx \<Rightarrow> session \<Rightarrow> bool \<Rightarrow> string \<Rightarrow> bool_exp plan_result"
and computed_field_predicate ::
  "extern \<Rightarrow> planner \<Rightarrow> computed_field \<Rightarrow> json \<Rightarrow> table_ctx \<Rightarrow> session \<Rightarrow> bool \<Rightarrow> string \<Rightarrow> bool_exp plan_result"
where
  "parse_bool_exp x pl value ctx session is_permission path =
     (case value of
        JObject m \<Rightarrow>
          bindR (traverse (\<lambda>e. parse_entry x pl (fst e) (snd e) ctx session is_permission path) m)
            (\<lambda>conjuncts. Inr (conj_of conjuncts))
      | _ \<Rightarrow> err_validation path ''expected a bool expression object'')"
| "parse_entry x pl key sub ctx session is_permission path =
     (let logical = logical_name key in
      if logical = ''_and'' \<or> logical = ''_or'' then
        (case sub of
           JArray items \<Rightarrow>
             bindR (traverse (\<lambda>v. parse_bool_exp x pl v ctx session is_permission path) items)
               (\<lambda>parsed. Inr (if logical = ''_and'' then And parsed else Or parsed))
         | _ \<Rightarrow> err_validation path ''expected an array of bool expressions'')
      else if logical = ''_not'' then
        bindR (parse_bool_exp x pl sub ctx session is_permission path) (\<lambda>e. Inr (Not e))
      else if logical = ''_exists'' then
        (case json_get sub ''_table'' of
           None \<Rightarrow> err_validation path ''_exists needs a _table''
         | Some table_value \<Rightarrow>
             (case qualified_of_json table_value of
                None \<Rightarrow> err_validation path (''bad _exists table: '' @ table_error x)
              | Some table \<Rightarrow>
                  (case json_get sub ''_where'' of
                     None \<Rightarrow> err_validation path ''_exists needs a _where''
                   | Some where_value \<Rightarrow>
                       (case relationship_ctx pl table session is_permission of
                          None \<Rightarrow> err_validation path (''table '' @ dquoted (qt_display table) @ '' not found in _exists'')
                        | Some remote \<Rightarrow>
                            bindR (parse_bool_exp x pl where_value remote session is_permission path) (\<lambda>inner.
                              Inr (Exists (ir_table_of table) inner))))))
      else if column_allowed_for_filter ctx logical is_permission then
        (case table_column (tx_info ctx) logical of
           None \<Rightarrow> Inl Panic
         | Some info \<Rightarrow>
             bindR (parse_ops x pl ctx logical sub session is_permission path) (\<lambda>ops.
               Inr (conj_of (map (\<lambda>op. Compare logical (ci_pg_type info) op) ops))))
      else
        (case find (\<lambda>c. cf_name c = logical) (te_computed_fields (tx_entry ctx)) of
           Some cf \<Rightarrow> computed_field_predicate x pl cf sub ctx session is_permission path
         | None \<Rightarrow>
             (case relationship_target pl ctx logical path of
                None \<Rightarrow> not_in_bool_exp path logical ctx
              | Some (remote_table, join) \<Rightarrow>
                  (case relationship_ctx pl remote_table session is_permission of
                     None \<Rightarrow> not_in_bool_exp path logical ctx
                   | Some remote \<Rightarrow>
                       bindR (parse_bool_exp x pl sub remote session is_permission path) (\<lambda>inner.
                       bindR (if is_permission then Inr None
                              else combined_with (\<lambda>f. parse_bool_exp x pl f (filter_ctx_of remote) session True path)
                                (tx_perms remote)) (\<lambda>perm.
                         Inr (Relationship (ir_table_of remote_table) join (with_filter inner perm))))))))"
| "computed_field_predicate x pl cf value ctx session is_permission path =
     (let cfdef = cf_definition cf in
      case catalog_function (pl_catalog pl) (qt_schema (cfd_function cfdef)) (qt_name (cfd_function cfdef)) of
        None \<Rightarrow> err_validation path (''function for computed field '' @ quoted (cf_name cf) @ '' not found'')
      | Some finfo \<Rightarrow>
          (let args = predicate_args x cfdef session finfo in
           case fi_returns_table finfo of
             Some (rschema, rname) \<Rightarrow>
               (case relationship_ctx pl (Qualified rschema rname) session is_permission of
                  None \<Rightarrow> not_in_bool_exp path (cf_name cf) ctx
                | Some remote \<Rightarrow>
                    bindR (parse_bool_exp x pl value remote session is_permission path) (\<lambda>inner.
                    bindR (if is_permission then Inr None
                           else combined_with (\<lambda>f. parse_bool_exp x pl f (filter_ctx_of remote) session True path)
                             (tx_perms remote)) (\<lambda>perm.
                      Inr (RowFunctionExists (fi_schema finfo) (fi_name finfo) args (with_filter inner perm)))))
           | None \<Rightarrow>
               bindR (parse_ops x pl ctx (cf_name cf) value session is_permission path) (\<lambda>ops.
                 Inr (conj_of (map (\<lambda>op. ComputedCompare (fi_schema finfo) (fi_name finfo) args
                   (case fi_returns_scalar finfo of Some t \<Rightarrow> t | None \<Rightarrow> ''text'') op) ops)))))"
  by pat_completeness auto
termination
  by (relation "measures
        [case_sum (\<lambda>(x, pl, v, ctx, se, perm, path). if perm then 0 else 1)
          (case_sum (\<lambda>(x, pl, k, v, ctx, se, perm, path). if perm then 0 else 1)
            (\<lambda>(x, pl, cf, v, ctx, se, perm, path). if perm then 0 else 1)),
         case_sum (\<lambda>(x, pl, v, ctx, se, perm, path). 3 * size v)
          (case_sum (\<lambda>(x, pl, k, v, ctx, se, perm, path). 3 * size v + 2)
            (\<lambda>(x, pl, cf, v, ctx, se, perm, path). 3 * size v + 1))]")
    (auto dest!: size_json_member size_json_get size_json_element simp del: json.size)

declare parse_bool_exp.simps [simp del] parse_entry.simps [simp del] computed_field_predicate.simps [simp del]

definition combined_filter ::
  "extern \<Rightarrow> planner \<Rightarrow> table_ctx \<Rightarrow> select_permission list \<Rightarrow> session \<Rightarrow> string \<Rightarrow> bool_exp option plan_result" where
  "combined_filter x pl ctx perms session path =
     combined_with (\<lambda>f. parse_bool_exp x pl f (filter_ctx_of ctx) session True path) perms"

definition permission_predicate :: "extern \<Rightarrow> planner \<Rightarrow> table_ctx \<Rightarrow> session \<Rightarrow> string \<Rightarrow> bool_exp option plan_result" where
  "permission_predicate x pl ctx session path = combined_filter x pl ctx (tx_perms ctx) session path"

end
