(* ===== verification/Graphql.thy ===== *)
theory Graphql
  imports Planner
begin

text \<open>
  The part of the GraphQL syntax tree (crate \<open>graphql-parser\<close>) the planner
  reads, and the functions of \<open>crates/schema/src/plan.rs\<close> that work on it:
  values to JSON, directives, and the flattening of selection sets. Fragment
  spreads recurse through a map of fragments, so the recursion is bounded by
  the stack only: the fuel is the number of nested spreads the stack allows.
\<close>

section \<open>Syntax\<close>

text \<open>A float is given by its bit pattern, an integer is an \<open>i64\<close>.\<close>

datatype gql_value =
    GVariable string
  | GInt int
  | GFloat u64
  | GString string
  | GBoolean bool
  | GNull
  | GEnum string
  | GList "gql_value list"
  | GObject "(string \<times> gql_value) list"

record gql_directive =
  gd_name :: string
  gd_arguments :: "(string \<times> gql_value) list"

datatype gql_field = GqlField
    (gf_alias: "string option")
    (gf_name: string)
    (gf_arguments: "(string \<times> gql_value) list")
    (gf_directives: "gql_directive list")
    (gf_selection_set: "selection list")
and selection =
    SField gql_field
  | SFragmentSpread string "gql_directive list"
  | SInlineFragment "string option" "gql_directive list" "selection list"

record gql_fragment =
  fr_name :: string
  fr_type_condition :: string
  fr_selection_set :: "selection list"

type_synonym fragments = "(string \<times> gql_fragment) list"

record gql_variable_definition =
  vd_name :: string
  vd_default :: "gql_value option"

datatype gql_operation =
    OpQuery "string option" "gql_variable_definition list" "selection list"
  | OpSelectionSet "selection list"
  | OpMutation "string option" "gql_variable_definition list" "selection list"
  | OpSubscription "string option" "gql_variable_definition list" "selection list"

datatype gql_definition = DefFragment gql_fragment | DefOperation gql_operation

type_synonym gql_document = "gql_definition list"

definition field_alias :: "gql_field \<Rightarrow> string" where
  "field_alias f = (case gf_alias f of Some a \<Rightarrow> a | None \<Rightarrow> gf_name f)"

fun op_name :: "gql_operation \<Rightarrow> string option" where
  "op_name (OpQuery n _ _) = n"
| "op_name (OpMutation n _ _) = n"
| "op_name (OpSubscription n _ _) = n"
| "op_name (OpSelectionSet _) = None"

section \<open>Values\<close>

definition json_of_i64 :: "int \<Rightarrow> json" where
  "json_of_i64 i = JNumber (if i < 0 then NegInt i else PosInt (of_int i))"

text \<open>\<open>Number::from_f64\<close> has no number for an infinity or a NaN: exponent bits all set.\<close>

definition f64_finite :: "u64 \<Rightarrow> bool" where
  "f64_finite w \<longleftrightarrow> (unat w div 2 ^ 52) mod 2 ^ 11 \<noteq> 2047"

definition json_of_f64 :: "u64 \<Rightarrow> json" where
  "json_of_f64 w = (if f64_finite w then JNumber (Float w) else JNull)"

definition obj_insert_all :: "(string \<times> json) list \<Rightarrow> jmap" where
  "obj_insert_all kvs = fold (\<lambda>(k, v) m. jmap_insert m k v) kvs []"

fun value_to_json :: "gql_value \<Rightarrow> jmap \<Rightarrow> string \<Rightarrow> json plan_result" where
  "value_to_json (GVariable name) vars path =
     (case jmap_get vars name of
        Some v \<Rightarrow> Inr v
      | None \<Rightarrow> err_validation path (''expecting a value for non-nullable variable: '' @ dquoted name))"
| "value_to_json (GInt n) vars path = Inr (json_of_i64 n)"
| "value_to_json (GFloat w) vars path = Inr (json_of_f64 w)"
| "value_to_json (GString s) vars path = Inr (JString s)"
| "value_to_json (GBoolean b) vars path = Inr (JBool b)"
| "value_to_json GNull vars path = Inr JNull"
| "value_to_json (GEnum e) vars path = Inr (JString e)"
| "value_to_json (GList items) vars path =
     bindR (traverse (\<lambda>v. value_to_json v vars path) items) (\<lambda>vs. Inr (JArray vs))"
| "value_to_json (GObject m) vars path =
     bindR (traverse (\<lambda>e. bindR (value_to_json (snd e) vars path) (\<lambda>v. Inr (fst e, v))) m)
       (\<lambda>kvs. Inr (JObject (obj_insert_all kvs)))"

definition arg_value :: "(string \<times> gql_value) list \<Rightarrow> string \<Rightarrow> jmap \<Rightarrow> string \<Rightarrow> json option plan_result" where
  "arg_value args name vars path =
     (case find (\<lambda>a. fst a = name) args of
        None \<Rightarrow> Inr None
      | Some (_, v) \<Rightarrow> bindR (value_to_json v vars path) (\<lambda>j. Inr (Some j)))"

section \<open>Directives and selections\<close>

fun directives_include :: "gql_directive list \<Rightarrow> jmap \<Rightarrow> bool plan_result" where
  "directives_include [] vars = Inr True"
| "directives_include (d # ds) vars =
     bindR (arg_value (gd_arguments d) ''if'' vars ''$'') (\<lambda>v.
       let arg = (case Option.bind v as_bool of Some b \<Rightarrow> b | None \<Rightarrow> True) in
       if gd_name d = ''include'' \<and> \<not> arg then Inr False
       else if gd_name d = ''skip'' \<and> arg then Inr False
       else directives_include ds vars)"

definition type_mismatch :: "string \<Rightarrow> string option \<Rightarrow> bool" where
  "type_mismatch on type_name \<longleftrightarrow> (case type_name of Some tn \<Rightarrow> on \<noteq> tn | None \<Rightarrow> False)"

fun flatten :: "nat \<Rightarrow> selection list \<Rightarrow> fragments \<Rightarrow> jmap \<Rightarrow> string option \<Rightarrow> gql_field list plan_result" where
  "flatten fuel [] frs vars type_name = Inr []"
| "flatten fuel (SField f # rest) frs vars type_name =
     bindR (directives_include (gf_directives f) vars) (\<lambda>b.
     bindR (flatten fuel rest frs vars type_name) (\<lambda>fs. Inr (if b then f # fs else fs)))"
| "flatten fuel (SFragmentSpread name ds # rest) frs vars type_name =
     bindR (directives_include ds vars) (\<lambda>b.
       if \<not> b then flatten fuel rest frs vars type_name
       else case map_of frs name of
         None \<Rightarrow> err_validation ''$'' (''fragment '' @ dquoted name @ '' not found'')
       | Some fr \<Rightarrow>
           if type_mismatch (fr_type_condition fr) type_name then
             err_validation ''$'' (''fragment '' @ dquoted name @ '' is defined on '' @ quoted (fr_type_condition fr)
               @ '', not '' @ quoted (case type_name of Some tn \<Rightarrow> tn | None \<Rightarrow> []))
           else case fuel of
             0 \<Rightarrow> Inl StackOverflow
           | Suc k \<Rightarrow>
               bindR (flatten k (fr_selection_set fr) frs vars type_name) (\<lambda>xs.
               bindR (flatten fuel rest frs vars type_name) (\<lambda>ys. Inr (xs @ ys))))"
| "flatten fuel (SInlineFragment on ds items # rest) frs vars type_name =
     bindR (directives_include ds vars) (\<lambda>b.
       if \<not> b \<or> (case on of Some t \<Rightarrow> type_mismatch t type_name | None \<Rightarrow> False)
       then flatten fuel rest frs vars type_name
       else bindR (flatten fuel items frs vars type_name) (\<lambda>xs.
            bindR (flatten fuel rest frs vars type_name) (\<lambda>ys. Inr (xs @ ys))))"

section \<open>Fuel\<close>

text \<open>
  \<open>fle r r'\<close>: the outcome \<open>r'\<close> obtained with more stack is the outcome
  \<open>r\<close>, unless \<open>r\<close> overflowed. The order is kept by sequencing, so it lifts
  from the calls of a function to the function.
\<close>

definition fle :: "'a plan_result \<Rightarrow> 'a plan_result \<Rightarrow> bool" where
  "fle r r' \<longleftrightarrow> r = Inl StackOverflow \<or> r' = r"

named_theorems fuel_mono \<open>sequencing keeps the fuel order\<close>

lemma fle_refl [fuel_mono, simp]: "fle r r"
  by (simp add: fle_def)

lemma fle_overflow [fuel_mono, simp]: "fle (Inl StackOverflow) r"
  by (simp add: fle_def)

lemma fle_trans: "fle r s \<Longrightarrow> fle s t \<Longrightarrow> fle r t"
  by (auto simp: fle_def)

lemma fle_bind [fuel_mono]: "fle r r' \<Longrightarrow> (\<And>x. fle (f x) (f' x)) \<Longrightarrow> fle (bindR r f) (bindR r' f')"
  by (cases r) (auto simp: fle_def)

lemma fle_traverse [fuel_mono]: "(\<And>x. fle (f x) (f' x)) \<Longrightarrow> fle (traverse f xs) (traverse f' xs)"
  by (induction xs) (auto intro!: fuel_mono)

lemma flatten_fle: "k \<le> k' \<Longrightarrow> fle (flatten k sel frs vars tn) (flatten k' sel frs vars tn)"
proof (induction k sel frs vars tn arbitrary: k' rule: flatten.induct)
  case (2 fuel f rest frs vars tn)
  show ?case
  proof (cases "directives_include (gf_directives f) vars")
    case (Inr b)
    then have "fle (flatten fuel rest frs vars tn) (flatten k' rest frs vars tn)" using 2 by blast
    then show ?thesis using Inr by (auto intro: fuel_mono)
  qed simp
next
  case (3 fuel name ds rest frs vars tn)
  show ?case
  proof (cases "directives_include ds vars")
    case (Inr b)
    show ?thesis
    proof (cases "b \<and> (\<exists>fr. map_of frs name = Some fr \<and> \<not> type_mismatch (fr_type_condition fr) tn)")
      case False
      have "\<not> b \<Longrightarrow> fle (flatten fuel rest frs vars tn) (flatten k' rest frs vars tn)" using 3(1,4) Inr by blast
      then show ?thesis using False Inr by (auto split: option.splits)
    next
      case True
      then obtain fr where fr: "b" "map_of frs name = Some fr" "\<not> type_mismatch (fr_type_condition fr) tn" by auto
      show ?thesis
      proof (cases fuel)
        case (Suc k)
        obtain k1 where k1: "k' = Suc k1" "k \<le> k1" using "3.prems" Suc by (cases k') auto
        have sub: "fle (flatten k (fr_selection_set fr) frs vars tn) (flatten k1 (fr_selection_set fr) frs vars tn)"
          using 3(2) Inr fr Suc k1 by simp
        have "fle (flatten fuel rest frs vars tn) (flatten k' rest frs vars tn)"
          if "flatten k (fr_selection_set fr) frs vars tn = Inr xs" for xs
          using 3(3) [of b fr k xs k'] Inr fr Suc that "3.prems" by simp
        then have "fle (bindR (flatten k (fr_selection_set fr) frs vars tn)
            (\<lambda>xs. bindR (flatten fuel rest frs vars tn) (\<lambda>ys. Inr (xs @ ys))))
          (bindR (flatten k1 (fr_selection_set fr) frs vars tn)
            (\<lambda>xs. bindR (flatten k' rest frs vars tn) (\<lambda>ys. Inr (xs @ ys))))"
          using sub by (cases "flatten k (fr_selection_set fr) frs vars tn") (auto simp: fle_def)
        then show ?thesis using Inr fr Suc k1 by simp
      qed (use Inr fr in simp)
    qed
  qed simp
next
  case (4 fuel on ds items rest frs vars tn)
  show ?case
  proof (cases "directives_include ds vars")
    case (Inr b)
    show ?thesis
    proof (cases "\<not> b \<or> (case on of Some t \<Rightarrow> type_mismatch t tn | None \<Rightarrow> False)")
      case True
      then have "fle (flatten fuel rest frs vars tn) (flatten k' rest frs vars tn)" using 4(1,4) Inr by blast
      then show ?thesis using True Inr by simp
    next
      case False
      have sub: "fle (flatten fuel items frs vars tn) (flatten k' items frs vars tn)" using 4(2,4) Inr False by blast
      have "fle (flatten fuel rest frs vars tn) (flatten k' rest frs vars tn)"
        if "flatten fuel items frs vars tn = Inr xs" for xs
        using 4(3,4) Inr False that by blast
      then have "fle (bindR (flatten fuel items frs vars tn)
          (\<lambda>xs. bindR (flatten fuel rest frs vars tn) (\<lambda>ys. Inr (xs @ ys))))
        (bindR (flatten k' items frs vars tn)
          (\<lambda>xs. bindR (flatten k' rest frs vars tn) (\<lambda>ys. Inr (xs @ ys))))"
        using sub by (cases "flatten fuel items frs vars tn") (auto simp: fle_def)
      then show ?thesis using Inr False by simp
    qed
  qed simp
qed simp

text \<open>Spreads at the level \<open>flatten\<close> works on: inside inline fragments, not inside fields.\<close>

fun spreads :: "selection list \<Rightarrow> string list" where
  "spreads [] = []"
| "spreads (SField f # rest) = spreads rest"
| "spreads (SFragmentSpread name ds # rest) = name # spreads rest"
| "spreads (SInlineFragment on ds items # rest) = spreads items @ spreads rest"

definition ranked :: "(string \<Rightarrow> nat) \<Rightarrow> fragments \<Rightarrow> bool" where
  "ranked rank frs \<longleftrightarrow>
     (\<forall>name fr. map_of frs name = Some fr \<longrightarrow> (\<forall>m \<in> set (spreads (fr_selection_set fr)). rank m < rank name))"

lemma value_to_json_no_overflow: "value_to_json v vars path \<noteq> Inl StackOverflow"
proof (induction v vars path rule: value_to_json.induct)
  case (8 items vars path)
  then have "traverse (\<lambda>v. value_to_json v vars path) items \<noteq> Inl StackOverflow"
    by (induction items) (auto simp: bindR_def split: sum.splits)
  then show ?case by (auto simp: bindR_def split: sum.splits)
next
  case (9 m vars path)
  then have "traverse (\<lambda>e. bindR (value_to_json (snd e) vars path) (\<lambda>v. Inr (fst e, v))) m \<noteq> Inl StackOverflow"
    by (induction m) (auto simp: bindR_def split: sum.splits)
  then show ?case by (auto simp: bindR_def split: sum.splits)
qed (auto simp: err_validation_def split: option.splits)

lemma directives_no_overflow: "directives_include ds vars \<noteq> Inl StackOverflow"
proof (induction ds vars rule: directives_include.induct)
  case (2 d ds vars)
  then show ?case
    using value_to_json_no_overflow
    by (auto simp: bindR_def arg_value_def Let_def split: sum.splits option.splits)
qed simp

lemma flatten_enough:
  assumes "ranked rank frs"
  shows "\<forall>m \<in> set (spreads sel). rank m < k \<Longrightarrow> flatten k sel frs vars tn \<noteq> Inl StackOverflow"
  using assms
proof (induction k sel frs vars tn rule: flatten.induct)
  case (2 fuel f rest frs vars tn)
  then show ?case using directives_no_overflow by (auto simp: bindR_def split: sum.splits)
next
  case (3 fuel name ds rest frs vars tn)
  show ?case
  proof (cases fuel)
    case (Suc k)
    have "\<forall>m \<in> set (spreads (fr_selection_set fr)). rank m < k" if "map_of frs name = Some fr" for fr
      using 3(4,5) that Suc by (fastforce simp: ranked_def)
    then show ?thesis
      using 3 Suc directives_no_overflow
      by (auto simp: bindR_def err_validation_def split: sum.splits option.splits)
  qed (use 3(4) in auto)
next
  case (4 fuel on ds items rest frs vars tn)
  then show ?case using directives_no_overflow by (auto simp: bindR_def split: sum.splits option.splits)
qed simp

lemma flatten_self_spread:
  assumes "map_of frs name = Some fr" "fr_selection_set fr = [SFragmentSpread name []]"
  shows "flatten k [SFragmentSpread name []] frs vars None = Inl StackOverflow"
  by (induction k) (simp_all add: assms type_mismatch_def)

end
