(* ===== verification/Plan_Args.thy ===== *)
theory Plan_Args
  imports Bool_Exps Graphql
begin

text \<open>
  The arguments of a root or relationship field, \<open>crates/schema/src/plan.rs\<close>:
  ordering, column lists, tracked-function arguments, and everything
  \<open>build_select\<close> and \<open>build_connection\<close> compute before and after walking
  the selection set.
\<close>

section \<open>What planning reads\<close>

text \<open>
  The arguments that every planning function passes on: the external functions,
  the planner, the fragments, the variables and the session.
  \<open>gql_display\<close> is the \<open>Display\<close> of a GraphQL value (crate \<open>graphql-parser\<close>).
\<close>

record plan_env =
  en_extern :: extern
  en_planner :: planner
  en_fragments :: fragments
  en_vars :: jmap
  en_session :: session
  en_gql_display :: "gql_value \<Rightarrow> string"

abbreviation en_role :: "plan_env \<Rightarrow> string" where
  "en_role en \<equiv> se_role (en_session en)"

definition env_permission :: "plan_env \<Rightarrow> table_ctx \<Rightarrow> string \<Rightarrow> bool_exp option plan_result" where
  "env_permission en ctx path = permission_predicate (en_extern en) (en_planner en) ctx (en_session en) path"

definition ctx_table :: "table_ctx \<Rightarrow> ir_table" where
  "ctx_table ctx = \<lparr>it_schema = ti_schema (tx_info ctx), it_name = ti_name (tx_info ctx)\<rparr>"

section \<open>Scalars and columns\<close>

definition parse_non_negative :: "json \<Rightarrow> string \<Rightarrow> string \<Rightarrow> u64 plan_result" where
  "parse_non_negative value path what =
     (case as_u64 value of
        Some n \<Rightarrow> Inr n
      | None \<Rightarrow> err_validation path (''expects a non-negative integer for '' @ what))"

definition items_of :: "json \<Rightarrow> json list" where
  "items_of value = (case value of JArray items \<Rightarrow> items | other \<Rightarrow> [other])"

definition column_arg :: "table_ctx \<Rightarrow> string \<Rightarrow> json \<Rightarrow> string plan_result" where
  "column_arg ctx path item =
     (case as_str item of
        None \<Rightarrow> err_validation path ''expected a column name''
      | Some name \<Rightarrow>
          if column_allowed ctx name then Inr name
          else Inl (Fail (field_not_found path name (tx_type_name ctx))))"

definition parse_columns_arg :: "json \<Rightarrow> table_ctx \<Rightarrow> string \<Rightarrow> string list plan_result" where
  "parse_columns_arg value ctx path = traverse (column_arg ctx path) (items_of value)"

section \<open>Order by\<close>

definition order_directions :: "(string \<times> order_direction \<times> nulls_order) list" where
  "order_directions =
     [(''asc'', Asc, NullsLast), (''asc_nulls_first'', Asc, NullsFirst), (''asc_nulls_last'', Asc, NullsLast),
      (''desc'', Desc, NullsFirst), (''desc_nulls_first'', Desc, NullsFirst), (''desc_nulls_last'', Desc, NullsLast)]"

definition parse_order_direction :: "json \<Rightarrow> string \<Rightarrow> (order_direction \<times> nulls_order) plan_result" where
  "parse_order_direction value path =
     (case as_str value of
        None \<Rightarrow> err_validation path ''expected an order_by direction''
      | Some s \<Rightarrow>
          (case map_of order_directions s of
             Some r \<Rightarrow> Inr r
           | None \<Rightarrow> err_validation path (''unexpected value '' @ dquoted s @ '' for enum: '' @ quoted ''order_by'')))"

definition order_item :: "order_by_target \<Rightarrow> json \<Rightarrow> string \<Rightarrow> order_by plan_result" where
  "order_item target dir_value path =
     bindR (parse_order_direction dir_value path) (\<lambda>(direction, nulls).
       Inr \<lparr>ob_target = target, ob_direction = direction, ob_nulls = nulls\<rparr>)"

definition remote_order_item ::
  "table_ctx \<Rightarrow> (string \<Rightarrow> order_by_target) \<Rightarrow> string \<Rightarrow> string \<times> json \<Rightarrow> order_by plan_result" where
  "remote_order_item remote target path e =
     (if column_allowed remote (fst e) then order_item (target (fst e)) (snd e) path
      else Inl (Fail (field_not_found path (fst e) (tx_type_name remote))))"

text \<open>One entry of an aggregate order: \<open>count\<close>, or a function over columns; the function is the key itself.\<close>

definition aggregate_order ::
  "table_ctx \<Rightarrow> join_pairs \<Rightarrow> bool_exp option \<Rightarrow> string \<Rightarrow> string \<times> json \<Rightarrow> order_by list plan_result" where
  "aggregate_order remote join predicate path e =
     (if fst e = ''count'' then
        bindR (order_item (OrderRelationshipAggregate (ctx_table remote) join ''count'' None predicate) (snd e) path)
          (\<lambda>ob. Inr [ob])
      else case as_object (snd e) of
        None \<Rightarrow> err_validation path ''expected an order_by object''
      | Some cols \<Rightarrow>
          traverse (remote_order_item remote
            (\<lambda>col. OrderRelationshipAggregate (ctx_table remote) join (fst e) (Some col) predicate) path) cols)"

definition order_relationship ::
  "plan_env \<Rightarrow> table_ctx \<Rightarrow> string \<Rightarrow> json \<Rightarrow> rel_target plan_result
     \<Rightarrow> (table_ctx \<Rightarrow> join_pairs \<Rightarrow> bool_exp option \<Rightarrow> jmap \<Rightarrow> order_by list plan_result) \<Rightarrow> string \<Rightarrow> order_by list plan_result" where
  "order_relationship en ctx key dir_value target body path =
     bindR target (\<lambda>(remote_table, join).
       case table_ctx_by_name (en_planner en) remote_table (en_role en) of
         None \<Rightarrow> Inl (Fail (field_not_found path key (tx_type_name ctx)))
       | Some remote \<Rightarrow>
           bindR (env_permission en remote path) (\<lambda>predicate.
             case as_object dir_value of
               None \<Rightarrow> err_validation path ''expected an order_by object''
             | Some inner \<Rightarrow> body remote join predicate inner))"

definition order_key :: "plan_env \<Rightarrow> table_ctx \<Rightarrow> string \<Rightarrow> string \<times> json \<Rightarrow> order_by list plan_result" where
  "order_key en ctx path e =
     (let key = fst e; dir_value = snd e; pl = en_planner en in
      if column_allowed ctx key then
        bindR (order_item (OrderColumn key) dir_value path) (\<lambda>ob. Inr [ob])
      else
        case Option.bind (strip_suffix ''_aggregate'' key)
               (\<lambda>base. find (\<lambda>r. ar_name r = base) (te_array_relationships (tx_entry ctx))) of
          Some rel \<Rightarrow>
            order_relationship en ctx key dir_value (array_rel_target pl ctx rel path)
              (\<lambda>remote join predicate inner.
                 bindR (traverse (aggregate_order remote join predicate path) inner) (\<lambda>obs. Inr (concat obs))) path
        | None \<Rightarrow>
            (case find (\<lambda>r. or_name r = key) (te_object_relationships (tx_entry ctx)) of
               Some rel \<Rightarrow>
                 order_relationship en ctx key dir_value (object_rel_target ctx rel path)
                   (\<lambda>remote join predicate inner.
                      traverse (remote_order_item remote
                        (\<lambda>col. OrderRelationship (ctx_table remote) join col predicate) path) inner) path
             | None \<Rightarrow> Inl (Fail (field_not_found path key (tx_type_name ctx)))))"

definition parse_order_by :: "plan_env \<Rightarrow> json \<Rightarrow> table_ctx \<Rightarrow> string \<Rightarrow> order_by list plan_result" where
  "parse_order_by en value ctx path =
     bindR (traverse (\<lambda>item.
        case as_object item of
          None \<Rightarrow> err_validation path ''expected an order_by object''
        | Some m \<Rightarrow> bindR (traverse (order_key en ctx path) m) (\<lambda>obs. Inr (concat obs))) (items_of value))
       (\<lambda>obs. Inr (concat obs))"

section \<open>Tracked functions\<close>

definition function_from_arg ::
  "extern \<Rightarrow> session \<Rightarrow> string option \<Rightarrow> jmap \<Rightarrow> string \<Rightarrow> nat \<times> function_arg \<Rightarrow> function_arg_value list plan_result" where
  "function_from_arg x session session_argument user_args path = (\<lambda>(i, arg).
     if (case (fa_name arg, session_argument) of (Some n, Some s) \<Rightarrow> n = s | _ \<Rightarrow> False) then
       Inr [\<lparr>fav_name = fa_name arg, fav_value = Scalar (JString (session_json x session)), fav_pg_type = fa_pg_type arg\<rparr>]
     else case Option.bind (fa_name arg) (jmap_get user_args) of
       Some value \<Rightarrow> Inr [\<lparr>fav_name = fa_name arg, fav_value = Scalar value, fav_pg_type = fa_pg_type arg\<rparr>]
     | None \<Rightarrow>
         if fa_has_default arg then Inr []
         else err_validation path (''missing function argument: ''
           @ dquoted (case fa_name arg of Some n \<Rightarrow> n | None \<Rightarrow> ''$'' @ nat_str i)))"

definition function_from ::
  "plan_env \<Rightarrow> function_entry \<Rightarrow> function_info \<Rightarrow> gql_field \<Rightarrow> string \<Rightarrow> from_source plan_result" where
  "function_from en fentry finfo field path =
     bindR (arg_value (gf_arguments field) ''args'' (en_vars en) path) (\<lambda>v.
       case as_object (case v of Some j \<Rightarrow> j | None \<Rightarrow> JObject []) of
         None \<Rightarrow> err_validation path (''expected an object for '' @ quoted ''args'')
       | Some user_args \<Rightarrow>
           bindR (traverse (function_from_arg (en_extern en) (en_session en)
                (Option.bind (fe_configuration fentry) fc_session_argument) user_args path)
              (enumerate 0 (fi_args finfo))) (\<lambda>args.
             Inr (FromFunction (fi_schema finfo) (fi_name finfo) (concat args))))"

section \<open>Arguments of a select\<close>

record select_args =
  sa_where :: "bool_exp option"
  sa_order_by :: "order_by list"
  sa_limit :: "u64 option"
  sa_offset :: "u64 option"
  sa_distinct_on :: "string list"
  sa_pk :: "bool_exp list"

definition no_args :: select_args where
  "no_args = \<lparr>sa_where = None, sa_order_by = [], sa_limit = None, sa_offset = None, sa_distinct_on = [], sa_pk = []\<rparr>"

definition is_function_source :: "from_source \<Rightarrow> bool" where
  "is_function_source from = (case from of FromTable _ \<Rightarrow> False | _ \<Rightarrow> True)"

definition select_arg ::
  "plan_env \<Rightarrow> table_ctx \<Rightarrow> root_kind \<Rightarrow> from_source \<Rightarrow> string \<Rightarrow> select_args \<Rightarrow> string \<times> gql_value \<Rightarrow> select_args plan_result" where
  "select_arg en ctx kind from path sa a =
     (let arg = fst a in
      bindR (value_to_json (snd a) (en_vars en) path) (\<lambda>value.
      if kind = KByPk then
        (if arg \<notin> set (ti_primary_key (tx_info ctx)) \<or> \<not> column_allowed ctx arg
         then Inl (Fail (unexpected_arg path arg))
         else case table_column (tx_info ctx) arg of
           None \<Rightarrow> Inl Panic
         | Some c \<Rightarrow> Inr (sa\<lparr>sa_pk := sa_pk sa @ [Compare arg (ci_pg_type c) (Eq (Scalar value))]\<rparr>))
      else if arg = ''where'' then
        bindR (parse_bool_exp (en_extern en) (en_planner en) value ctx (en_session en) False path) (\<lambda>e.
          Inr (sa\<lparr>sa_where := Some e\<rparr>))
      else if arg = ''order_by'' then
        bindR (parse_order_by en value ctx path) (\<lambda>obs. Inr (sa\<lparr>sa_order_by := obs\<rparr>))
      else if arg = ''limit'' then
        bindR (parse_non_negative value path ''limit'') (\<lambda>l. Inr (sa\<lparr>sa_limit := Some l\<rparr>))
      else if arg = ''offset'' then
        bindR (parse_non_negative value path ''offset'') (\<lambda>l. Inr (sa\<lparr>sa_offset := Some l\<rparr>))
      else if arg = ''distinct_on'' then
        bindR (parse_columns_arg value ctx path) (\<lambda>cs. Inr (sa\<lparr>sa_distinct_on := cs\<rparr>))
      else if arg = ''args'' \<and> is_function_source from then Inr sa
      else Inl (Fail (unexpected_arg path arg))))"

fun foldR :: "('s \<Rightarrow> 'a \<Rightarrow> 'e + 's) \<Rightarrow> 's \<Rightarrow> 'a list \<Rightarrow> 'e + 's" where
  "foldR f s [] = Inr s"
| "foldR f s (x # xs) = bindR (f s x) (\<lambda>s'. foldR f s' xs)"

definition compares_column :: "string \<Rightarrow> bool_exp \<Rightarrow> bool" where
  "compares_column c e = (case e of Compare column _ _ \<Rightarrow> column = c | _ \<Rightarrow> False)"

definition missing_pk :: "table_ctx \<Rightarrow> bool_exp list \<Rightarrow> string option" where
  "missing_pk ctx pks = find (\<lambda>c. \<not> list_ex (compares_column c) pks) (ti_primary_key (tx_info ctx))"

definition orders_by_column :: "order_by list \<Rightarrow> string \<Rightarrow> bool" where
  "orders_by_column obs c \<longleftrightarrow> list_ex (\<lambda>ob. ob_target ob = OrderColumn c) obs"

definition distinct_prefix :: "string list \<Rightarrow> order_by list \<Rightarrow> order_by list" where
  "distinct_prefix cols obs =
     map (\<lambda>c. \<lparr>ob_target = OrderColumn c, ob_direction = Asc, ob_nulls = NullsLast\<rparr>)
       (filter (\<lambda>c. \<not> orders_by_column obs c) cols) @ obs"

fun predicate_of :: "bool_exp list \<Rightarrow> bool_exp option" where
  "predicate_of [] = None"
| "predicate_of [e] = Some e"
| "predicate_of es = Some (And es)"

definition opt_list :: "'a option \<Rightarrow> 'a list" where
  "opt_list v = (case v of Some a \<Rightarrow> [a] | None \<Rightarrow> [])"

definition cap_limit :: "u64 option \<Rightarrow> u64 \<Rightarrow> u64" where
  "cap_limit limit perm_limit = (case limit of None \<Rightarrow> perm_limit | Some l \<Rightarrow> min l perm_limit)"

text \<open>\<open>build_select\<close> up to the selection set: the query without its fields.\<close>

definition select_shell ::
  "plan_env \<Rightarrow> table_ctx \<Rightarrow> root_kind \<Rightarrow> from_source \<Rightarrow> gql_field \<Rightarrow> string \<Rightarrow> select_query plan_result" where
  "select_shell en ctx kind from field path =
     bindR (foldR (select_arg en ctx kind from path) no_args (gf_arguments field)) (\<lambda>sa.
       case (if kind = KByPk then missing_pk ctx (sa_pk sa) else None) of
         Some pk \<Rightarrow> err_validation path (''missing required field argument: '' @ dquoted pk)
       | None \<Rightarrow>
           bindR (env_permission en ctx path) (\<lambda>perm_filter.
             let order_by = (if sa_distinct_on sa = [] then sa_order_by sa
                             else distinct_prefix (sa_distinct_on sa) (sa_order_by sa));
                 predicate = predicate_of (sa_pk sa @ opt_list (sa_where sa) @ opt_list perm_filter);
                 perm_limit = (if kind = KByPk then None else select_perm_limit ctx);
                 nodes_limit = (if kind = KAggregate then perm_limit else None);
                 limit = (if kind = KAggregate then sa_limit sa
                          else case perm_limit of Some p \<Rightarrow> Some (cap_limit (sa_limit sa) p) | None \<Rightarrow> sa_limit sa)
             in Inr (SelectQuery from [] predicate order_by limit nodes_limit (sa_offset sa) (sa_distinct_on sa)
                       (kind = KByPk))))"

definition with_fields :: "select_query \<Rightarrow> output_field list \<Rightarrow> select_query" where
  "with_fields q fs = SelectQuery (sq_from q) fs (sq_predicate q) (sq_order_by q) (sq_limit q) (sq_nodes_limit q)
     (sq_offset q) (sq_distinct_on q) (sq_single q)"

lemma with_fields_sel [simp]:
  "sq_predicate (with_fields q fs) = sq_predicate q" "sq_from (with_fields q fs) = sq_from q"
  "sq_single (with_fields q fs) = sq_single q" "sq_limit (with_fields q fs) = sq_limit q"
  "sq_nodes_limit (with_fields q fs) = sq_nodes_limit q" "sq_fields (with_fields q fs) = fs" "sq_order_by (with_fields q fs) = sq_order_by q"
  by (simp_all add: with_fields_def)

section \<open>Arguments of a connection\<close>

record conn_args =
  ca_where :: "bool_exp option"
  ca_order_by :: "order_by list"
  ca_first :: "u64 option"
  ca_last :: "u64 option"
  ca_after :: "string option"
  ca_before :: "string option"

definition no_conn_args :: conn_args where
  "no_conn_args = \<lparr>ca_where = None, ca_order_by = [], ca_first = None, ca_last = None, ca_after = None, ca_before = None\<rparr>"

definition conn_arg :: "plan_env \<Rightarrow> table_ctx \<Rightarrow> string \<Rightarrow> conn_args \<Rightarrow> string \<times> gql_value \<Rightarrow> conn_args plan_result" where
  "conn_arg en ctx path ca a =
     (let arg = fst a in
      bindR (value_to_json (snd a) (en_vars en) path) (\<lambda>value.
      if arg = ''where'' then
        bindR (parse_bool_exp (en_extern en) (en_planner en) value ctx (en_session en) False path) (\<lambda>e.
          Inr (ca\<lparr>ca_where := Some e\<rparr>))
      else if arg = ''order_by'' then
        bindR (parse_order_by en value ctx path) (\<lambda>obs. Inr (ca\<lparr>ca_order_by := obs\<rparr>))
      else if arg = ''first'' then Inr (ca\<lparr>ca_first := as_u64 value\<rparr>)
      else if arg = ''last'' then Inr (ca\<lparr>ca_last := as_u64 value\<rparr>)
      else if arg = ''after'' then Inr (ca\<lparr>ca_after := as_str value\<rparr>)
      else if arg = ''before'' then Inr (ca\<lparr>ca_before := as_str value\<rparr>)
      else Inl (Fail (unexpected_arg path arg))))"

definition decode_cursor :: "extern \<Rightarrow> string \<Rightarrow> string \<Rightarrow> json plan_result" where
  "decode_cursor x raw path =
     (case Option.bind (b64_decode x raw) (json_parse x) of
        Some v \<Rightarrow> Inr v
      | None \<Rightarrow> err_validation path ''invalid cursor'')"

definition cursor_conds ::
  "extern \<Rightarrow> (scalar \<Rightarrow> compare_op) \<Rightarrow> (string \<times> string) list \<Rightarrow> string option \<Rightarrow> string \<Rightarrow> bool_exp list plan_result" where
  "cursor_conds x op pk raw path =
     (case raw of
        None \<Rightarrow> Inr []
      | Some r \<Rightarrow>
          bindR (decode_cursor x r path) (\<lambda>cursor.
            Inr (concat (map (\<lambda>(col, pg_type).
              case json_get cursor col of
                Some v \<Rightarrow> [Compare col pg_type (op (Scalar v))]
              | None \<Rightarrow> []) pk))))"

definition pk_typed :: "table_ctx \<Rightarrow> (string \<times> string) list" where
  "pk_typed ctx = List.map_filter (\<lambda>c. map_option (\<lambda>info. (c, ci_pg_type info)) (table_column (tx_info ctx) c))
     (ti_primary_key (tx_info ctx))"

definition page_of :: "conn_args \<Rightarrow> relay_page option" where
  "page_of ca =
     (case ca_first ca of
        Some sz \<Rightarrow> Some \<lparr>rp_size = sz, rp_backward = False, rp_has_other_side = ca_after ca \<noteq> None\<rparr>
      | None \<Rightarrow>
          (case ca_last ca of
             Some sz \<Rightarrow> Some \<lparr>rp_size = sz, rp_backward = True, rp_has_other_side = ca_before ca \<noteq> None\<rparr>
           | None \<Rightarrow> None))"

text \<open>\<open>build_connection\<close> after the selection set.\<close>

definition connection_shell ::
  "plan_env \<Rightarrow> table_ctx \<Rightarrow> gql_field \<Rightarrow> string \<Rightarrow> join_pairs \<Rightarrow> connection_field list \<Rightarrow> output_field list \<Rightarrow> connection plan_result" where
  "connection_shell en ctx field path join conn_fields node_fields =
     bindR (foldR (conn_arg en ctx path) no_conn_args (gf_arguments field)) (\<lambda>ca.
       let pk = pk_typed ctx in
       bindR (cursor_conds (en_extern en) Gt pk (ca_after ca) path) (\<lambda>after_conds.
       bindR (cursor_conds (en_extern en) Lt pk (ca_before ca) path) (\<lambda>before_conds.
       bindR (env_permission en ctx path) (\<lambda>perm.
         Inr (Connection
           (SelectQuery (FromTable (ctx_table ctx)) node_fields
             (predicate_of (opt_list (ca_where ca) @ after_conds @ before_conds @ opt_list perm))
             (ca_order_by ca) (select_perm_limit ctx) None None [] False)
           join pk (ti_schema (tx_info ctx)) (ti_name (tx_info ctx)) conn_fields (page_of ca))))))"

end
