(* ===== verification/Plan.thy ===== *)
theory Plan
  imports Plan_Args
begin

text \<open>
  Planning a query, \<open>crates/schema/src/plan.rs\<close>: the walk over selection sets
  (tables, aggregates, connections), remote relationships rendered back to
  GraphQL, Relay roots and \<open>Planner::plan\<close> for queries and subscriptions. The
  fuel is the depth of the call stack.
\<close>

section \<open>Remote relationships\<close>

type_synonym remote_vars = "string list \<times> (string \<times> string) list"

definition hidden_alias :: "string \<Rightarrow> string" where
  "hidden_alias col = ''__rr__'' @ col"

definition trim_start_dollar :: "string \<Rightarrow> string" where
  "trim_start_dollar s = dropWhile (\<lambda>c. c = CHR ''$'') s"

definition remote_arg_type :: "table_ctx \<Rightarrow> string \<Rightarrow> string" where
  "remote_arg_type ctx col =
     (let pg_type = (case table_column (tx_info ctx) col of Some c \<Rightarrow> ci_pg_type c | None \<Rightarrow> ''text'') in
      if pg_type \<in> {''int2'', ''int4'', ''int8''} then ''Int!''
      else if pg_type = ''bool'' then ''Boolean!'' else ''String!'')"

function (sequential) render_remote_arg :: "extern \<Rightarrow> table_ctx \<Rightarrow> json \<Rightarrow> remote_vars \<Rightarrow> string \<times> remote_vars"
and render_remote_items :: "extern \<Rightarrow> table_ctx \<Rightarrow> json list \<Rightarrow> remote_vars \<Rightarrow> string list \<times> remote_vars"
and render_remote_members :: "extern \<Rightarrow> table_ctx \<Rightarrow> (string \<times> json) list \<Rightarrow> remote_vars \<Rightarrow> string list \<times> remote_vars" where
  "render_remote_arg x ctx (JString s) vs =
     (if starts_with s ''$'' then
        let (defs, variables) = vs; col = trim_start_dollar s; var = ''v'' @ nat_str (length variables) in
        (''$'' @ var, defs @ [''$'' @ var @ '': '' @ remote_arg_type ctx col], variables @ [(var, hidden_alias col)])
      else (str_debug x s, vs))"
| "render_remote_arg x ctx (JObject m) vs =
     (let (inner, vs) = render_remote_members x ctx m vs in (''{'' @ join_with '', '' inner @ ''}'', vs))"
| "render_remote_arg x ctx (JArray items) vs =
     (let (inner, vs) = render_remote_items x ctx items vs in (''['' @ join_with '', '' inner @ '']'', vs))"
| "render_remote_arg x ctx other vs = (json_display x other, vs)"
| "render_remote_items x ctx [] vs = ([], vs)"
| "render_remote_items x ctx (v # rest) vs =
     (let (s, vs) = render_remote_arg x ctx v vs; (ss, vs) = render_remote_items x ctx rest vs in (s # ss, vs))"
| "render_remote_members x ctx [] vs = ([], vs)"
| "render_remote_members x ctx (e # rest) vs =
     (let (s, vs) = render_remote_arg x ctx (snd e) vs; (ss, vs) = render_remote_members x ctx rest vs
      in ((fst e @ '': '' @ s) # ss, vs))"
  by pat_completeness auto
termination
  by (relation "measure (case_sum (\<lambda>(x, ctx, v, vs). 2 * size v)
        (case_sum (\<lambda>(x, ctx, items, vs). 2 * size_list size items + 1)
          (\<lambda>(x, ctx, m, vs). 2 * size_list (size_prod (\<lambda>_. 0) size) m + 1)))") auto

fun render_selection :: "nat \<Rightarrow> plan_env \<Rightarrow> selection list \<Rightarrow> string plan_result" where
  "render_selection 0 en sel = Inl StackOverflow"
| "render_selection (Suc k) en sel =
     bindR (flatten k sel (en_fragments en) (en_vars en) None) (\<lambda>fs.
     bindR (traverse (\<lambda>f.
        bindR (if gf_selection_set f = [] then Inr []
               else bindR (render_selection k en (gf_selection_set f)) (\<lambda>s. Inr ('' '' @ s))) (\<lambda>sub.
          Inr ((case gf_alias f of Some a \<Rightarrow> a @ '': '' | None \<Rightarrow> []) @ gf_name f
            @ (if gf_arguments f = [] then []
               else ''('' @ join_with '', '' (map (\<lambda>(n, v). n @ '': '' @ en_gql_display en v) (gf_arguments f)) @ '')'')
            @ sub))) fs) (\<lambda>parts.
       Inr (''{ '' @ join_with '' '' parts @ '' }'')))"

text \<open>Columns that carry the joining values, each once.\<close>

fun hidden_columns :: "table_ctx \<Rightarrow> string list \<Rightarrow> output_field list \<Rightarrow> output_field list" where
  "hidden_columns ctx [] out = out"
| "hidden_columns ctx (col # cols) out =
     hidden_columns ctx cols
       (if list_ex (\<lambda>f. of_alias f = hidden_alias col) out then out
        else case table_column (tx_info ctx) col of
          Some info \<Rightarrow> out @ [OutputField (hidden_alias col) (FColumn (ci_name info) (ci_pg_type info))]
        | None \<Rightarrow> out)"

definition remote_permitted :: "plan_env \<Rightarrow> remote_relationship \<Rightarrow> bool" where
  "remote_permitted en rel \<longleftrightarrow>
     list_ex (\<lambda>s. rs_name s = rr_remote_schema rel \<and> list_ex (\<lambda>p. rsp_role p = en_role en) (rs_permissions s))
       (pl_remote_schemas (en_planner en))"

definition paren_list :: "string list \<Rightarrow> string" where
  "paren_list items = (if items = [] then [] else ''('' @ join_with '', '' items @ '')'')"

definition remote_field ::
  "nat \<Rightarrow> plan_env \<Rightarrow> table_ctx \<Rightarrow> string \<Rightarrow> output_field list \<Rightarrow> gql_field \<Rightarrow> remote_relationship \<Rightarrow> output_field list plan_result" where
  "remote_field fuel en ctx fpath out field rel =
     (if \<not> remote_permitted en rel then Inl (Fail (field_not_found fpath (gf_name field) (tx_type_name ctx)))
      else case gf_arguments field of
        (arg, _) # _ \<Rightarrow> err_validation fpath (quoted (gf_name field) @ '' has no argument named '' @ quoted arg)
      | [] \<Rightarrow>
          (let out' = hidden_columns ctx (rr_hasura_fields rel) out in
           case as_object (rr_remote_field rel) of
             Some ((root_field, spec) # _) \<Rightarrow>
               (let (args_sdl, defs, variables) =
                  render_remote_members (en_extern en) ctx
                    (case Option.bind (json_get spec ''arguments'') as_object of Some m \<Rightarrow> m | None \<Rightarrow> []) ([], [])
                in bindR (render_selection fuel en (gf_selection_set field)) (\<lambda>sel.
                  Inr (out' @ [OutputField (field_alias field) (FRemoteJoin
                    \<lparr>rj_schema = rr_remote_schema rel,
                     rj_query = ''query'' @ paren_list defs @ '' { '' @ root_field @ paren_list args_sdl @ '' '' @ sel @ '' }'',
                     rj_variables = variables, rj_root_field = root_field\<rparr>)])))
           | _ \<Rightarrow> err_validation fpath ''invalid remote_field''))"

section \<open>Columns and aggregates\<close>

text \<open>
  Inherited roles: when only some of the permissions grant a column, it is
  guarded by the row filters of those that do.
\<close>

definition guard_for :: "plan_env \<Rightarrow> table_ctx \<Rightarrow> select_permission list \<Rightarrow> string \<Rightarrow> bool_exp option plan_result" where
  "guard_for en ctx granting path =
     (if 1 < length (tx_perms ctx) \<and> length granting < length (tx_perms ctx)
      then combined_filter (en_extern en) (en_planner en) ctx granting (en_session en) path
      else Inr None)"

definition column_field :: "plan_env \<Rightarrow> table_ctx \<Rightarrow> string \<Rightarrow> gql_field \<Rightarrow> output_field plan_result" where
  "column_field en ctx fpath field =
     (case gf_arguments field of
        (arg, _) # _ \<Rightarrow> Inl (Fail (unexpected_arg fpath arg))
      | [] \<Rightarrow>
          (case table_column (tx_info ctx) (gf_name field) of
             None \<Rightarrow> Inl Panic
           | Some col \<Rightarrow>
               bindR (guard_for en ctx (granting_perms ctx (gf_name field)) fpath) (\<lambda>guard.
                 Inr (OutputField (field_alias field)
                   (case guard of
                      Some g \<Rightarrow> FColumnGuarded (ci_name col) (ci_pg_type col) g
                    | None \<Rightarrow> FColumn (ci_name col) (ci_pg_type col))))))"

definition column_op_names :: "string list" where
  "column_op_names = [''sum'', ''avg'', ''max'', ''min'', ''stddev'', ''stddev_samp'', ''stddev_pop'', ''variance'',
     ''var_samp'', ''var_pop'']"

definition count_arg ::
  "plan_env \<Rightarrow> table_ctx \<Rightarrow> string \<Rightarrow> bool \<times> string list \<Rightarrow> string \<times> gql_value \<Rightarrow> (bool \<times> string list) plan_result" where
  "count_arg en ctx fpath st a =
     bindR (value_to_json (snd a) (en_vars en) fpath) (\<lambda>value.
       if fst a = ''distinct'' then Inr ((case as_bool value of Some b \<Rightarrow> b | None \<Rightarrow> False), snd st)
       else if fst a = ''columns'' then
         (if \<not> any_column_allowed ctx then err_validation fpath (quoted ''count'' @ '' has no argument named '' @ quoted ''columns'')
          else bindR (parse_columns_arg value ctx fpath) (\<lambda>cs. Inr (fst st, cs)))
       else Inl (Fail (unexpected_arg fpath (fst a))))"

definition aggregate_column_of :: "plan_env \<Rightarrow> table_ctx \<Rightarrow> string \<Rightarrow> gql_field \<Rightarrow> aggregate_column plan_result" where
  "aggregate_column_of en ctx fpath f =
     (if \<not> column_allowed ctx (gf_name f) then Inl (Fail (field_not_found fpath (gf_name f) (tx_type_name ctx)))
      else case table_column (tx_info ctx) (gf_name f) of
        None \<Rightarrow> Inl Panic
      | Some info \<Rightarrow>
          bindR (guard_for en ctx (granting_perms ctx (gf_name f)) fpath) (\<lambda>guard.
            Inr \<lparr>ac_alias = field_alias f, ac_column = ci_name info, ac_pg_type = ci_pg_type info, ac_guard = guard\<rparr>))"

definition aggregate_field_of :: "nat \<Rightarrow> plan_env \<Rightarrow> table_ctx \<Rightarrow> string \<Rightarrow> gql_field \<Rightarrow> aggregate_field plan_result" where
  "aggregate_field_of fuel en ctx path field =
     (let fpath = path @ ''.selectionSet.'' @ gf_name field; op = gf_name field in
      if op = ''count'' then
        bindR (foldR (count_arg en ctx fpath) (False, []) (gf_arguments field)) (\<lambda>(dist, cols).
          Inr \<lparr>af_alias = field_alias field, af_op = Count dist cols\<rparr>)
      else if op \<in> set column_op_names then
        (if \<not> any_column_allowed ctx then
           Inl (Fail (field_not_found fpath op (tx_type_name ctx @ ''_aggregate_fields'')))
         else
           bindR (flatten fuel (gf_selection_set field) (en_fragments en) (en_vars en) None) (\<lambda>cols.
           bindR (traverse (aggregate_column_of en ctx fpath) cols) (\<lambda>columns.
             Inr \<lparr>af_alias = field_alias field, af_op = ColumnOp op columns\<rparr>)))
      else Inl (Fail (field_not_found fpath op ''aggregate fields'')))"

definition parse_aggregate_fields :: "nat \<Rightarrow> plan_env \<Rightarrow> table_ctx \<Rightarrow> selection list \<Rightarrow> string \<Rightarrow> aggregate_field list plan_result" where
  "parse_aggregate_fields fuel en ctx sel path =
     bindR (flatten fuel sel (en_fragments en) (en_vars en) None) (\<lambda>fs.
       traverse (aggregate_field_of fuel en ctx path) fs)"

section \<open>The walk over selection sets\<close>

text \<open>The array relationship behind \<open>rel\<close> or \<open>rel_aggregate\<close>, and which of the two.\<close>

definition array_field :: "table_ctx \<Rightarrow> string \<Rightarrow> (array_relationship \<times> bool) option" where
  "array_field ctx name =
     (let rels = te_array_relationships (tx_entry ctx);
          (rel_name, aggregate) =
            (case strip_suffix ''_aggregate'' name of
               Some base \<Rightarrow> if list_ex (\<lambda>r. ar_name r = base) rels then (base, True) else (name, False)
             | None \<Rightarrow> (name, False))
      in map_option (\<lambda>rel. (rel, aggregate)) (find (\<lambda>r. ar_name r = rel_name) rels))"

definition relay_array_field :: "plan_env \<Rightarrow> table_ctx \<Rightarrow> string \<Rightarrow> array_relationship option" where
  "relay_array_field en ctx name =
     (if pl_relay (en_planner en) then
        Option.bind (strip_suffix ''_connection'' name)
          (\<lambda>base. find (\<lambda>r. ar_name r = base) (te_array_relationships (tx_entry ctx)))
      else None)"

definition computed_granting :: "table_ctx \<Rightarrow> string \<Rightarrow> select_permission list" where
  "computed_granting ctx name = filter (\<lambda>p. name \<in> set (sp_computed_fields p)) (tx_perms ctx)"

definition page_info_fields :: "gql_field list \<Rightarrow> (string \<times> string) list" where
  "page_info_fields fs = map (\<lambda>f. (field_alias f, gf_name f)) fs"

definition object_query :: "table_ctx \<Rightarrow> output_field list \<Rightarrow> bool_exp option \<Rightarrow> select_query" where
  "object_query remote fs predicate = SelectQuery (FromTable (ctx_table remote)) fs predicate [] None None None [] True"

text \<open>A step that needs the remote table to exist for the role.\<close>

definition with_remote ::
  "plan_env \<Rightarrow> table_ctx \<Rightarrow> string \<Rightarrow> string \<Rightarrow> qualified_table \<Rightarrow> (table_ctx \<Rightarrow> 'a plan_result) \<Rightarrow> 'a plan_result" where
  "with_remote en ctx fpath name table body =
     (case table_ctx_by_name (en_planner en) table (en_role en) of
        None \<Rightarrow> Inl (Fail (field_not_found fpath name (tx_type_name ctx)))
      | Some remote \<Rightarrow> body remote)"

text \<open>
  Every recursion of the planner goes through \<open>walk_table_selection\<close>. The
  functions it calls take it as the argument \<open>walk\<close>, with the fuel \<open>k\<close>
  that is left for flattening.
\<close>

type_synonym walker = "table_ctx \<Rightarrow> selection list \<Rightarrow> string \<Rightarrow> output_field list plan_result"

definition walk_aggregate_selection :: "nat \<Rightarrow> plan_env \<Rightarrow> walker \<Rightarrow> table_ctx \<Rightarrow> selection list \<Rightarrow> string \<Rightarrow> output_field list plan_result" where
  "walk_aggregate_selection k en walk ctx sel path =
     (let agg_type_name = tx_type_name ctx @ ''_aggregate'' in
      bindR (flatten k sel (en_fragments en) (en_vars en) (Some agg_type_name)) (\<lambda>fs.
        traverse (\<lambda>field.
          let name = gf_name field; fpath = path @ ''.selectionSet.'' @ name;
              emit = (\<lambda>v. Inr (OutputField (field_alias field) v)) in
          if name = ''__typename'' then emit (FTypename agg_type_name)
          else if name = ''aggregate'' then
            bindR (parse_aggregate_fields k en ctx (gf_selection_set field) fpath) (\<lambda>aggs. emit (FAggregate aggs))
          else if name = ''nodes'' then
            bindR (walk ctx (gf_selection_set field) fpath) (\<lambda>nodes. emit (FNodes nodes))
          else Inl (Fail (field_not_found fpath name agg_type_name))) fs))"

definition build_select ::
  "nat \<Rightarrow> plan_env \<Rightarrow> walker \<Rightarrow> table_ctx \<Rightarrow> root_kind \<Rightarrow> from_source \<Rightarrow> gql_field \<Rightarrow> string \<Rightarrow> select_query plan_result" where
  "build_select k en walk ctx kind from field path =
     bindR (select_shell en ctx kind from field path) (\<lambda>q.
     bindR (if kind = KAggregate then walk_aggregate_selection k en walk ctx (gf_selection_set field) path
            else walk ctx (gf_selection_set field) path) (\<lambda>fs.
       Inr (with_fields q fs)))"

definition edge_step ::
  "walker \<Rightarrow> table_ctx \<Rightarrow> string \<Rightarrow> edge_field list \<times> output_field list \<Rightarrow> gql_field \<Rightarrow> (edge_field list \<times> output_field list) plan_result" where
  "edge_step walk ctx path st ef =
     (let name = gf_name ef; ea = field_alias ef in
      if name = ''cursor'' then Inr (fst st @ [EdgeCursor ea], snd st)
      else if name = ''node'' then
        bindR (walk ctx (gf_selection_set ef) path) (\<lambda>nodes. Inr (fst st @ [EdgeNode ea], nodes))
      else if name = ''__typename'' then Inr (fst st @ [EdgeTypename ea (tx_type_name ctx @ ''Edge'')], snd st)
      else Inl (Fail (field_not_found path name ''edges'')))"

definition connection_step ::
  "nat \<Rightarrow> plan_env \<Rightarrow> walker \<Rightarrow> table_ctx \<Rightarrow> string \<Rightarrow> connection_field list \<times> output_field list \<Rightarrow> gql_field
     \<Rightarrow> (connection_field list \<times> output_field list) plan_result" where
  "connection_step k en walk ctx path st sub =
     (let name = gf_name sub; alias = field_alias sub; conn_type = tx_type_name ctx @ ''Connection'' in
      if name = ''__typename'' then Inr (fst st @ [ConnTypename alias conn_type], snd st)
      else if name = ''pageInfo'' then
        bindR (flatten k (gf_selection_set sub) (en_fragments en) (en_vars en) None) (\<lambda>fs.
          Inr (fst st @ [ConnPageInfo alias (page_info_fields fs)], snd st))
      else if name = ''edges'' then
        bindR (flatten k (gf_selection_set sub) (en_fragments en) (en_vars en) None) (\<lambda>fs.
        bindR (foldR (edge_step walk ctx path) ([], snd st) fs) (\<lambda>(edges, nodes).
          Inr (fst st @ [ConnEdges alias edges], nodes)))
      else Inl (Fail (field_not_found path name conn_type)))"

definition build_connection ::
  "nat \<Rightarrow> plan_env \<Rightarrow> walker \<Rightarrow> table_ctx \<Rightarrow> gql_field \<Rightarrow> string \<Rightarrow> join_pairs \<Rightarrow> connection plan_result" where
  "build_connection k en walk ctx field path join =
     bindR (flatten k (gf_selection_set field) (en_fragments en) (en_vars en) None) (\<lambda>fs.
     bindR (foldR (connection_step k en walk ctx path) ([], []) fs) (\<lambda>(conn_fields, node_fields).
       connection_shell en ctx field path join conn_fields node_fields))"

definition computed_field_value ::
  "nat \<Rightarrow> plan_env \<Rightarrow> walker \<Rightarrow> table_ctx \<Rightarrow> string \<Rightarrow> gql_field \<Rightarrow> computed_field \<Rightarrow> field_value plan_result" where
  "computed_field_value k en walk ctx fpath field cf =
     (let cfdef = cf_definition cf; name = gf_name field;
          missing = Inl (Fail (field_not_found fpath name (tx_type_name ctx))) in
      case catalog_function (pl_catalog (en_planner en)) (qt_schema (cfd_function cfdef)) (qt_name (cfd_function cfdef)) of
        None \<Rightarrow> missing
      | Some finfo \<Rightarrow>
          bindR (arg_value (gf_arguments field) ''args'' (en_vars en) fpath) (\<lambda>v.
          bindR (computed_field_args (en_extern en) finfo cfdef (en_session en) (Option.bind v as_object) fpath) (\<lambda>args.
            case fi_returns_table finfo of
              Some (rschema, rname) \<Rightarrow>
                with_remote en ctx fpath name (Qualified rschema rname) (\<lambda>remote.
                bindR (build_select k en walk remote KSelect (FromRowFunction (fi_schema finfo) (fi_name finfo) args) field fpath)
                  (\<lambda>q. Inr (FArray q [] False)))
            | None \<Rightarrow>
                if \<not> computed_field_allowed ctx name then missing
                else bindR (guard_for en ctx (computed_granting ctx name) fpath) (\<lambda>guard.
                  Inr (FComputedScalar (fi_schema finfo) (fi_name finfo) args guard)))))"

text \<open>The body of the loop of \<open>walk_table_selection\<close>: what a field appends to the output.\<close>

definition table_field ::
  "nat \<Rightarrow> plan_env \<Rightarrow> walker \<Rightarrow> table_ctx \<Rightarrow> string \<Rightarrow> output_field list \<Rightarrow> gql_field \<Rightarrow> output_field list plan_result" where
  "table_field k en walk ctx path out field =
     (let name = gf_name field; fpath = path @ ''.selectionSet.'' @ name; pl = en_planner en;
          emit = (\<lambda>v. Inr (out @ [OutputField (field_alias field) v]))
      in if name = ''__typename'' then emit (FTypename (tx_type_name ctx))
      else if pl_relay pl \<and> name = ''id'' then
        emit (FRelayGlobalId (ti_schema (tx_info ctx)) (ti_name (tx_info ctx)) (pk_typed ctx))
      else case relay_array_field en ctx name of
        Some rel \<Rightarrow>
          bindR (array_rel_target pl ctx rel fpath) (\<lambda>(remote_table, join).
          with_remote en ctx fpath name remote_table (\<lambda>remote.
          bindR (build_connection k en walk remote field fpath join) (\<lambda>conn. emit (FNestedConnection conn))))
      | None \<Rightarrow>
      if column_allowed ctx name then
        bindR (column_field en ctx fpath field) (\<lambda>f. Inr (out @ [f]))
      else case find (\<lambda>r. or_name r = name) (te_object_relationships (tx_entry ctx)) of
        Some rel \<Rightarrow>
          bindR (object_rel_target ctx rel fpath) (\<lambda>(remote_table, join).
          with_remote en ctx fpath name remote_table (\<lambda>remote.
          bindR (walk remote (gf_selection_set field) fpath) (\<lambda>fs.
          bindR (env_permission en remote fpath) (\<lambda>predicate.
            emit (FObject (object_query remote fs predicate) join)))))
      | None \<Rightarrow>
      (case array_field ctx name of
        Some (rel, aggregate) \<Rightarrow>
          bindR (array_rel_target pl ctx rel fpath) (\<lambda>(remote_table, join).
          with_remote en ctx fpath name remote_table (\<lambda>remote.
            if aggregate \<and> \<not> allow_aggregations remote then
              Inl (Fail (field_not_found fpath name (tx_type_name ctx)))
            else
              bindR (build_select k en walk remote (if aggregate then KAggregate else KSelect)
                  (FromTable (ctx_table remote)) field fpath) (\<lambda>q.
                emit (FArray q join aggregate))))
      | None \<Rightarrow>
      (case find (\<lambda>r. rr_name r = name) (te_remote_relationships (tx_entry ctx)) of
        Some rel \<Rightarrow> remote_field k en ctx fpath out field rel
      | None \<Rightarrow>
      (case find (\<lambda>c. cf_name c = name) (te_computed_fields (tx_entry ctx)) of
        Some cf \<Rightarrow> bindR (computed_field_value k en walk ctx fpath field cf) emit
      | None \<Rightarrow> Inl (Fail (field_not_found fpath name (tx_type_name ctx)))))))"

fun walk_table_selection :: "nat \<Rightarrow> plan_env \<Rightarrow> walker" where
  "walk_table_selection 0 en ctx sel path = Inl StackOverflow"
| "walk_table_selection (Suc k) en ctx sel path =
     bindR (flatten k sel (en_fragments en) (en_vars en) (Some (tx_type_name ctx))) (\<lambda>fs.
       if fs = [] then err_validation path (''missing selection set for type '' @ quoted (tx_type_name ctx))
       else foldR (table_field k en (walk_table_selection k en) ctx path) [] fs)"

section \<open>Roots\<close>

definition dead_node :: "string \<Rightarrow> root_field" where
  "dead_node alias = RSelect alias (SelectQuery (FromTable \<lparr>it_schema = ''pg_catalog'', it_name = ''pg_class''\<rparr>)
     [] (Some (Or [])) [] (Some 0) None None [] True)"

definition str_or_empty :: "json \<Rightarrow> string" where
  "str_or_empty v = (case as_str v of Some s \<Rightarrow> s | None \<Rightarrow> [])"

text \<open>\<open>node(id:)\<close>: the global id names the table and the primary key.\<close>

definition node_conds :: "json list \<Rightarrow> table_ctx \<Rightarrow> bool_exp list" where
  "node_conds decoded ctx =
     map (\<lambda>(i, col, pg_type). Compare col pg_type (Eq (Scalar (if 3 + i < length decoded then decoded ! (3 + i) else JNull))))
       (enumerate 0 (pk_typed ctx))"

definition plan_node :: "nat \<Rightarrow> plan_env \<Rightarrow> gql_field \<Rightarrow> string \<Rightarrow> root_field plan_result" where
  "plan_node fuel en field path =
     bindR (arg_value (gf_arguments field) ''id'' (en_vars en) path) (\<lambda>v.
       case Option.bind v as_str of
         None \<Rightarrow> err_validation path ''expecting an id''
       | Some id_value \<Rightarrow>
           (case Option.bind (Option.bind (b64_decode (en_extern en) id_value) (json_parse (en_extern en))) as_array of
              None \<Rightarrow> err_validation path ''invalid node id''
            | Some decoded \<Rightarrow>
                if length decoded < 4 then err_validation path ''invalid node id''
                else
                  case table_ctx_by_name (en_planner en)
                         (Qualified (str_or_empty (decoded ! 1)) (str_or_empty (decoded ! 2))) (en_role en) of
                    None \<Rightarrow> Inr (dead_node (field_alias field))
                  | Some ctx \<Rightarrow>
                      bindR (env_permission en ctx path) (\<lambda>perm.
                      bindR (walk_table_selection fuel en ctx (gf_selection_set field) path) (\<lambda>fs.
                        Inr (RSelect (field_alias field)
                          (SelectQuery (FromTable (ctx_table ctx)) fs (Some (And (node_conds decoded ctx @ opt_list perm)))
                             [] None None None [] True))))))"

definition plan_relay_root :: "nat \<Rightarrow> plan_env \<Rightarrow> gql_field \<Rightarrow> string \<Rightarrow> root_field option plan_result" where
  "plan_relay_root fuel en field path =
     (if gf_name field = ''node'' then bindR (plan_node fuel en field path) (\<lambda>r. Inr (Some r))
      else case Option.bind (strip_suffix ''_connection'' (gf_name field)) (map_of (pl_roots (en_planner en))) of
        Some (KSelect, SrcTable idx) \<Rightarrow>
          (case table_ctx_of (en_planner en) idx (en_role en) of
             None \<Rightarrow> Inr None
           | Some ctx \<Rightarrow>
               bindR (build_connection fuel en (walk_table_selection fuel en) ctx field path []) (\<lambda>conn.
                 Inr (Some (RConnection (field_alias field) conn))))
      | _ \<Rightarrow> Inr None)"

definition root_not_found :: "gql_field \<Rightarrow> string \<Rightarrow> 'a plan_result" where
  "root_not_found field path = Inl (Fail (field_not_found path (gf_name field) ''query_root''))"

text \<open>Which rows a root reads, and as which table: the role decides whether it exists.\<close>

definition root_source_of ::
  "plan_env \<Rightarrow> gql_field \<Rightarrow> string \<Rightarrow> root_kind \<Rightarrow> root_source \<Rightarrow> (table_ctx \<times> from_source) plan_result" where
  "root_source_of en field path kind src =
     (let pl = en_planner en; role = en_role en in
      case src of
        SrcTable idx \<Rightarrow>
          (case table_ctx_of pl idx role of
             None \<Rightarrow> root_not_found field path
           | Some ctx \<Rightarrow>
               if kind = KByPk \<and> (ti_primary_key (tx_info ctx) = []
                    \<or> \<not> list_all (column_allowed ctx) (ti_primary_key (tx_info ctx)))
               then root_not_found field path
               else Inr (ctx, FromTable (ctx_table ctx)))
      | SrcFunction fidx \<Rightarrow>
          (let fentry = pl_functions pl ! fidx in
           if \<not> function_allowed pl fentry role then root_not_found field path
           else case catalog_function (pl_catalog pl) (qt_schema (fe_function fentry)) (qt_name (fe_function fentry)) of
             None \<Rightarrow> root_not_found field path
           | Some finfo \<Rightarrow>
               (case fi_returns_table finfo of
                  None \<Rightarrow> root_not_found field path
                | Some (rschema, rname) \<Rightarrow>
                    (case table_ctx_by_name pl (Qualified rschema rname) role of
                       None \<Rightarrow> root_not_found field path
                     | Some ctx \<Rightarrow>
                         bindR (function_from en fentry finfo field path) (\<lambda>from. Inr (ctx, from))))))"

definition plan_root :: "nat \<Rightarrow> plan_env \<Rightarrow> gql_field \<Rightarrow> root_field plan_result" where
  "plan_root fuel en field =
     (let alias = field_alias field; path = ''$.selectionSet.'' @ gf_name field; pl = en_planner en in
      if gf_name field = ''__typename'' then Inr (RTypename alias ''query_root'')
      else
        bindR (if pl_relay pl then plan_relay_root fuel en field path else Inr None) (\<lambda>relay_root.
        case relay_root of
          Some root \<Rightarrow> Inr root
        | None \<Rightarrow>
            (case map_of (pl_roots pl) (gf_name field) of
               None \<Rightarrow> root_not_found field path
             | Some (kind, src) \<Rightarrow>
                 bindR (root_source_of en field path kind src) (\<lambda>(ctx, from).
                   if kind = KAggregate \<and> \<not> allow_aggregations ctx then root_not_found field path
                   else bindR (build_select fuel en (walk_table_selection fuel en) ctx kind from field path) (\<lambda>q.
                     Inr (RSelect alias q))))))"

definition plan_query :: "nat \<Rightarrow> plan_env \<Rightarrow> selection list \<Rightarrow> root_field list plan_result" where
  "plan_query fuel en sel =
     bindR (flatten fuel sel (en_fragments en) (en_vars en) None) (\<lambda>fs.
     bindR (traverse (plan_root fuel en) fs) (\<lambda>out.
       if out = [] then err_validation ''$'' ''selection set cannot be empty'' else Inr out))"

section \<open>Operations of a document\<close>

definition fragments_of :: "gql_document \<Rightarrow> fragments" where
  "fragments_of doc = fold (\<lambda>d m. case d of DefFragment f \<Rightarrow> hm_insert (fr_name f) f m | DefOperation _ \<Rightarrow> m) doc []"

definition operations_of :: "gql_document \<Rightarrow> gql_operation list" where
  "operations_of doc = List.map_filter (\<lambda>d. case d of DefOperation op \<Rightarrow> Some op | DefFragment _ \<Rightarrow> None) doc"

definition pick_operation :: "gql_operation list \<Rightarrow> string option \<Rightarrow> gql_operation plan_result" where
  "pick_operation ops name =
     (case name of
        Some wanted \<Rightarrow>
          (case find (\<lambda>op. op_name op = Some wanted) ops of
             Some op \<Rightarrow> Inr op
           | None \<Rightarrow> err_validation ''$'' (''no such operation found in the document: '' @ dquoted wanted))
      | None \<Rightarrow>
          (case ops of
             [op] \<Rightarrow> Inr op
           | _ \<Rightarrow> err_validation ''$''
               ''exactly one operation has to be present in the document when operationName is not specified''))"

fun operation_parts :: "gql_operation \<Rightarrow> selection list \<times> gql_variable_definition list \<times> bool" where
  "operation_parts (OpQuery _ vds sel) = (sel, vds, False)"
| "operation_parts (OpSelectionSet sel) = (sel, [], False)"
| "operation_parts (OpMutation _ vds sel) = (sel, vds, True)"
| "operation_parts (OpSubscription _ vds sel) = (sel, vds, False)"

definition effective_var :: "jmap \<Rightarrow> gql_variable_definition \<Rightarrow> jmap plan_result" where
  "effective_var vars vd =
     (if jmap_get vars (vd_name vd) \<noteq> None then Inr vars
      else case vd_default vd of
        None \<Rightarrow> Inr vars
      | Some dflt \<Rightarrow> bindR (value_to_json dflt vars ''$'') (\<lambda>v. Inr (jmap_insert vars (vd_name vd) v)))"

definition effective_vars :: "gql_variable_definition list \<Rightarrow> jmap \<Rightarrow> jmap plan_result" where
  "effective_vars vds variables = foldR effective_var variables vds"

end
