(* ===== verification/Plan_Mutation.thy ===== *)
theory Plan_Mutation
  imports Plan
begin

text \<open>
  Planning mutations, \<open>crates/schema/src/plan_mutation.rs\<close>, and
  \<open>Planner::plan\<close>, which sends an operation to the query or the mutation
  planner. There is no administrator bypass: a mutation root exists for a role
  that has the permission.
\<close>

text \<open>Equality of two permissions after serialisation, per kind of permission.\<close>

record perm_eq =
  pq_insert :: "insert_permission \<Rightarrow> insert_permission \<Rightarrow> bool"
  pq_update :: "update_permission \<Rightarrow> update_permission \<Rightarrow> bool"
  pq_delete :: "delete_permission \<Rightarrow> delete_permission \<Rightarrow> bool"

section \<open>Which mutations a role has\<close>

definition insert_usable :: "session \<Rightarrow> insert_permission \<Rightarrow> bool" where
  "insert_usable session p \<longleftrightarrow> \<not> ip_backend_only p \<or> se_backend_request session"

definition role_can_insert :: "planner \<Rightarrow> session \<Rightarrow> insert_permission permission_entry list \<Rightarrow> bool" where
  "role_can_insert pl session entries \<longleftrightarrow>
     list_ex (\<lambda>p. pe_role p = se_role session \<and> insert_usable session (pe_permission p)) entries
     \<or> list_ex (\<lambda>parent. list_ex (\<lambda>p. pe_role p = parent \<and> insert_usable session (pe_permission p)) entries)
         (expand_role (pl_inherited_roles pl) (se_role session))"

definition role_has_any_mutation :: "planner \<Rightarrow> session \<Rightarrow> bool" where
  "role_has_any_mutation pl session \<longleftrightarrow>
     list_ex (\<lambda>t. role_can_insert pl session (te_insert_permissions t)
       \<or> any_role_perm (pl_inherited_roles pl) (te_update_permissions t) (se_role session)
       \<or> any_role_perm (pl_inherited_roles pl) (te_delete_permissions t) (se_role session)) (pl_tables pl)
     \<or> role_has_function_mutation pl (se_role session)"

definition mutation_not_found :: "plan_env \<Rightarrow> gql_field \<Rightarrow> string \<Rightarrow> 'a plan_result" where
  "mutation_not_found en field path =
     (if \<not> role_has_any_mutation (en_planner en) (en_session en) then err_validation ''$'' ''no mutations exist''
      else Inl (Fail (field_not_found path (gf_name field) ''mutation_root'')))"

section \<open>Parts shared by the mutations\<close>

definition parse_filter_exp :: "plan_env \<Rightarrow> json \<Rightarrow> table_ctx \<Rightarrow> string \<Rightarrow> bool_exp option plan_result" where
  "parse_filter_exp en flt ctx path =
     (if unrestricted flt then Inr None
      else bindR (parse_bool_exp (en_extern en) (en_planner en) flt (filter_ctx_of ctx) (en_session en) True path)
        (\<lambda>e. Inr (Some e)))"

definition parse_check_exp :: "plan_env \<Rightarrow> json \<Rightarrow> table_ctx \<Rightarrow> string \<Rightarrow> bool_exp option plan_result" where
  "parse_check_exp en check ctx path = parse_filter_exp en check ctx path"

text \<open>Presets of a permission: columns the table does not have are skipped.\<close>

fun presets :: "table_ctx \<Rightarrow> session \<Rightarrow> jmap \<Rightarrow> (string \<times> string \<times> scalar) list plan_result" where
  "presets ctx session [] = Inr []"
| "presets ctx session ((col, value) # rest) =
     (case table_column (tx_info ctx) col of
        None \<Rightarrow> presets ctx session rest
      | Some info \<Rightarrow>
          bindR (resolve_session value session True ''$'') (\<lambda>v.
          bindR (presets ctx session rest) (\<lambda>ps. Inr ((col, ci_pg_type info, Scalar v) # ps))))"

definition preset_sets :: "(string \<times> string \<times> scalar) list \<Rightarrow> set_op list" where
  "preset_sets ps = map (\<lambda>(col, pg_type, v). SetOp col pg_type v) ps"

definition columns_grant :: "columns \<Rightarrow> table_ctx \<Rightarrow> string \<Rightarrow> bool" where
  "columns_grant cols ctx key \<longleftrightarrow>
     table_column (tx_info ctx) key \<noteq> None \<and> (case cols of Star \<Rightarrow> True | Cols cs \<Rightarrow> key \<in> set cs)"

definition is_single :: "mutation_kind \<Rightarrow> bool" where
  "is_single kind \<longleftrightarrow> kind \<in> {MKInsertOne, MKUpdateByPk, MKDeleteByPk}"

definition response_field ::
  "plan_env \<Rightarrow> walker \<Rightarrow> table_ctx option \<Rightarrow> string \<Rightarrow> string \<Rightarrow> gql_field \<Rightarrow> mutation_response_field plan_result" where
  "response_field en walk select_ctx response_type path sub =
     (let name = gf_name sub; alias = field_alias sub; fpath = path @ ''.selectionSet.'' @ name in
      if name = ''__typename'' then Inr (MTypename alias response_type)
      else if name = ''affected_rows'' then Inr (AffectedRows alias)
      else if name = ''returning'' then
        (case select_ctx of
           None \<Rightarrow> Inl (Fail (field_not_found fpath ''returning'' response_type))
         | Some sctx \<Rightarrow> bindR (walk sctx (gf_selection_set sub) fpath) (\<lambda>fs. Inr (Returning alias fs)))
      else Inl (Fail (field_not_found fpath name response_type)))"

definition parse_mutation_output ::
  "nat \<Rightarrow> plan_env \<Rightarrow> table_ctx \<Rightarrow> mutation_kind \<Rightarrow> gql_field \<Rightarrow> string \<Rightarrow> mutation_output plan_result" where
  "parse_mutation_output fuel en ctx kind field path =
     (let select_ctx = relationship_ctx (en_planner en)
            (Qualified (ti_schema (tx_info ctx)) (ti_name (tx_info ctx))) (en_session en) False;
          walk = walk_table_selection fuel en in
      if is_single kind then
        (case select_ctx of
           None \<Rightarrow> Inl (Fail (field_not_found path (gf_name field) ''mutation_root''))
         | Some sctx \<Rightarrow> bindR (walk sctx (gf_selection_set field) path) (\<lambda>fs. Inr (SingleRow fs)))
      else
        let response_type = tx_type_name ctx @ ''_mutation_response'' in
        bindR (flatten fuel (gf_selection_set field) (en_fragments en) (en_vars en) (Some response_type)) (\<lambda>subs.
        bindR (traverse (response_field en walk select_ctx response_type path) subs) (\<lambda>out. Inr (Response out))))"

section \<open>Insert\<close>

definition on_conflict_filter ::
  "plan_env \<Rightarrow> table_ctx \<Rightarrow> string \<Rightarrow> string list \<Rightarrow> bool_exp option \<Rightarrow> (bool_exp option \<times> set_op list) plan_result" where
  "on_conflict_filter en ctx path update_columns predicate =
     (case (if update_columns = [] then None
            else find (\<lambda>p. pe_role p = en_role en) (te_update_permissions (tx_entry ctx))) of
        None \<Rightarrow> Inr (predicate, [])
      | Some entry \<Rightarrow>
          (let perm = pe_permission entry in
           bindR (parse_filter_exp en (up_filter perm) ctx path) (\<lambda>flt.
           bindR (presets ctx (en_session en) (up_set perm)) (\<lambda>ps.
             Inr (case flt of
                    None \<Rightarrow> predicate
                  | Some f \<Rightarrow> Some (case predicate of Some p \<Rightarrow> And [p, f] | None \<Rightarrow> f),
                  preset_sets ps)))))"

definition parse_on_conflict :: "plan_env \<Rightarrow> json \<Rightarrow> table_ctx \<Rightarrow> string \<Rightarrow> on_conflict plan_result" where
  "parse_on_conflict en value ctx path =
     (case as_object value of
        None \<Rightarrow> err_validation path ''on_conflict must be an object''
      | Some obj \<Rightarrow>
          (case Option.bind (jmap_get obj ''constraint'') as_str of
             None \<Rightarrow> err_validation path ''on_conflict needs a constraint''
           | Some constraint \<Rightarrow>
               (let update_columns = (case Option.bind (jmap_get obj ''update_columns'') as_array of
                      Some cols \<Rightarrow> List.map_filter as_str cols | None \<Rightarrow> []) in
                if list_ex (\<lambda>c. table_column (tx_info ctx) c = None) update_columns then
                  err_validation (path @ ''.args.on_conflict'') ''erroneous column name''
                else
                  bindR (case jmap_get obj ''where'' of
                      None \<Rightarrow> Inr None
                    | Some w \<Rightarrow>
                        if is_null w then Inr None
                        else bindR (parse_bool_exp (en_extern en) (en_planner en) w ctx (en_session en) False path)
                          (\<lambda>e. Inr (Some e))) (\<lambda>predicate.
                  bindR (on_conflict_filter en ctx path update_columns predicate) (\<lambda>(predicate, set_ops).
                    Inr \<lparr>oc_constraint = constraint, oc_update_columns = update_columns,
                         oc_predicate = predicate, oc_set_ops = set_ops\<rparr>)))))"

record insert_args =
  ia_objects :: "json list"
  ia_on_conflict :: "on_conflict option"

definition insert_arg ::
  "plan_env \<Rightarrow> table_ctx \<Rightarrow> mutation_kind \<Rightarrow> string \<Rightarrow> insert_args \<Rightarrow> string \<times> gql_value \<Rightarrow> insert_args plan_result" where
  "insert_arg en ctx kind path ia a =
     (let arg = fst a in
      bindR (value_to_json (snd a) (en_vars en) path) (\<lambda>value.
      if kind = MKInsert \<and> arg = ''objects'' then
        (case value of
           JArray items \<Rightarrow> Inr (ia\<lparr>ia_objects := items\<rparr>)
         | JObject m \<Rightarrow> Inr (ia\<lparr>ia_objects := [JObject m]\<rparr>)
         | _ \<Rightarrow> err_validation path ''objects must be a list'')
      else if kind = MKInsertOne \<and> arg = ''object'' then Inr (ia\<lparr>ia_objects := [value]\<rparr>)
      else if arg = ''on_conflict'' then
        (if is_null value then Inr ia
         else bindR (parse_on_conflict en value ctx path) (\<lambda>oc. Inr (ia\<lparr>ia_on_conflict := Some oc\<rparr>)))
      else Inl (Fail (unexpected_arg path arg))))"

definition push_new :: "string list \<Rightarrow> string \<Rightarrow> string list" where
  "push_new cols c = (if c \<in> set cols then cols else cols @ [c])"

definition insert_key ::
  "columns \<Rightarrow> table_ctx \<Rightarrow> string \<Rightarrow> string list \<Rightarrow> string \<times> json \<Rightarrow> string list plan_result" where
  "insert_key granted ctx path cols e =
     (if columns_grant granted ctx (fst e) then Inr (push_new cols (fst e))
      else Inl (Fail (field_not_found path (fst e) (tx_type_name ctx @ ''_insert_input''))))"

definition insert_object ::
  "columns \<Rightarrow> table_ctx \<Rightarrow> string \<Rightarrow> string list \<Rightarrow> json \<Rightarrow> string list plan_result" where
  "insert_object granted ctx path cols obj =
     (case as_object obj of
        None \<Rightarrow> err_validation path ''objects must be objects''
      | Some m \<Rightarrow> foldR (insert_key granted ctx path) cols m)"

definition typed_column :: "table_ctx \<Rightarrow> string \<Rightarrow> (string \<times> string) plan_result" where
  "typed_column ctx c = (case table_column (tx_info ctx) c of Some i \<Rightarrow> Inr (c, ci_pg_type i) | None \<Rightarrow> Inl Panic)"

definition insert_cell :: "(string \<times> string \<times> scalar) list \<Rightarrow> jmap \<Rightarrow> string \<times> string \<Rightarrow> scalar option" where
  "insert_cell ps m c =
     (case find (\<lambda>p. fst p = fst c) ps of
        Some (_, _, v) \<Rightarrow> Some v
      | None \<Rightarrow> map_option Scalar (jmap_get m (fst c)))"

definition object_map :: "json \<Rightarrow> jmap" where
  "object_map v = (case as_object v of Some m \<Rightarrow> m | None \<Rightarrow> [])"

definition plan_insert ::
  "nat \<Rightarrow> plan_env \<Rightarrow> perm_eq \<Rightarrow> table_ctx \<Rightarrow> mutation_kind \<Rightarrow> gql_field \<Rightarrow> string \<Rightarrow> insert_mutation plan_result" where
  "plan_insert fuel en pq ctx kind field path =
     (case resolve_role_perm (pl_inherited_roles (en_planner en)) (pq_insert pq) (te_insert_permissions (tx_entry ctx))
             (insert_usable (en_session en)) (en_role en) of
        None \<Rightarrow> mutation_not_found en field path
      | Some perm \<Rightarrow>
          bindR (foldR (insert_arg en ctx kind path) \<lparr>ia_objects = [], ia_on_conflict = None\<rparr> (gf_arguments field)) (\<lambda>ia.
          if ia_objects ia = [] then err_validation path ''expecting a non-empty list of objects''
          else
            bindR (foldR (insert_object (ip_columns perm) ctx path) [] (ia_objects ia)) (\<lambda>cols.
            bindR (presets ctx (en_session en) (ip_set perm)) (\<lambda>ps.
            bindR (traverse (typed_column ctx) (foldl push_new cols (map fst ps))) (\<lambda>typed_columns.
            bindR (parse_check_exp en (ip_check perm) ctx path) (\<lambda>check.
            bindR (parse_mutation_output fuel en ctx kind field path) (\<lambda>output.
              Inr \<lparr>im_table = ctx_table ctx, im_columns = typed_columns,
                   im_rows = map (\<lambda>obj. map (insert_cell ps (object_map obj)) typed_columns) (ia_objects ia),
                   im_on_conflict = ia_on_conflict ia, im_check = check,
                   im_check_path = path @ ''.args.objects'', im_output = output\<rparr>)))))))"

section \<open>Update\<close>

record update_args =
  ua_sets :: "set_op list"
  ua_where :: "bool_exp option"
  ua_pk :: "bool_exp list"

definition set_columns ::
  "(string \<Rightarrow> string \<Rightarrow> scalar \<Rightarrow> set_op) \<Rightarrow> string \<Rightarrow> update_permission \<Rightarrow> table_ctx \<Rightarrow> string \<Rightarrow> jmap \<Rightarrow> set_op list plan_result" where
  "set_columns mk suffix perm ctx path m =
     traverse (\<lambda>e.
       if columns_grant (up_columns perm) ctx (fst e) then
         (case table_column (tx_info ctx) (fst e) of
            Some info \<Rightarrow> Inr (mk (fst e) (ci_pg_type info) (Scalar (snd e)))
          | None \<Rightarrow> Inl Panic)
       else Inl (Fail (field_not_found path (fst e) (tx_type_name ctx @ suffix)))) m"

definition pk_column :: "table_ctx \<Rightarrow> string \<Rightarrow> string \<times> json \<Rightarrow> bool_exp plan_result" where
  "pk_column ctx path e =
     (case table_column (tx_info ctx) (fst e) of
        None \<Rightarrow> Inl (Fail (field_not_found path (fst e) (tx_type_name ctx)))
      | Some info \<Rightarrow> Inr (Compare (fst e) (ci_pg_type info) (Eq (Scalar (snd e)))))"

definition update_arg ::
  "plan_env \<Rightarrow> update_permission \<Rightarrow> table_ctx \<Rightarrow> mutation_kind \<Rightarrow> string \<Rightarrow> update_args \<Rightarrow> string \<times> gql_value \<Rightarrow> update_args plan_result" where
  "update_arg en perm ctx kind path ua a =
     (let arg = fst a in
      bindR (value_to_json (snd a) (en_vars en) path) (\<lambda>value.
      if arg = ''_set'' then
        (case as_object value of
           None \<Rightarrow> err_validation path ''_set must be an object''
         | Some m \<Rightarrow> bindR (set_columns SetOp ''_set_input'' perm ctx path m) (\<lambda>s. Inr (ua\<lparr>ua_sets := ua_sets ua @ s\<rparr>)))
      else if arg = ''_inc'' then
        (case as_object value of
           None \<Rightarrow> err_validation path ''_inc must be an object''
         | Some m \<Rightarrow> bindR (set_columns IncOp ''_inc_input'' perm ctx path m) (\<lambda>s. Inr (ua\<lparr>ua_sets := ua_sets ua @ s\<rparr>)))
      else if kind = MKUpdate \<and> arg = ''where'' then
        bindR (parse_bool_exp (en_extern en) (en_planner en) value ctx (en_session en) False path) (\<lambda>e.
          Inr (ua\<lparr>ua_where := Some e\<rparr>))
      else if kind = MKUpdateByPk \<and> arg = ''pk_columns'' then
        (case as_object value of
           None \<Rightarrow> err_validation path ''pk_columns must be an object''
         | Some m \<Rightarrow> bindR (traverse (pk_column ctx path) m) (\<lambda>es. Inr (ua\<lparr>ua_pk := ua_pk ua @ es\<rparr>)))
      else Inl (Fail (unexpected_arg path arg))))"

definition plan_update ::
  "nat \<Rightarrow> plan_env \<Rightarrow> perm_eq \<Rightarrow> table_ctx \<Rightarrow> mutation_kind \<Rightarrow> gql_field \<Rightarrow> string \<Rightarrow> update_mutation plan_result" where
  "plan_update fuel en pq ctx kind field path =
     (case resolve_role_perm (pl_inherited_roles (en_planner en)) (pq_update pq) (te_update_permissions (tx_entry ctx))
             (\<lambda>_. True) (en_role en) of
        None \<Rightarrow> mutation_not_found en field path
      | Some perm \<Rightarrow>
          bindR (foldR (update_arg en perm ctx kind path) \<lparr>ua_sets = [], ua_where = None, ua_pk = []\<rparr> (gf_arguments field)) (\<lambda>ua.
          if kind = MKUpdate \<and> ua_where ua = None then
            err_validation path (''expecting a value for the argument '' @ dquoted ''where'')
          else if kind = MKUpdateByPk \<and> ua_pk ua = [] then
            err_validation path (''expecting a value for the argument '' @ dquoted ''pk_columns'')
          else
            bindR (presets ctx (en_session en) (up_set perm)) (\<lambda>ps.
            let sets = ua_sets ua @ preset_sets ps in
            if sets = [] then err_validation path ''at least any one of _set, _inc is expected''
            else
              bindR (parse_filter_exp en (up_filter perm) ctx path) (\<lambda>flt.
              bindR (case up_check perm of Some c \<Rightarrow> parse_check_exp en c ctx path | None \<Rightarrow> Inr None) (\<lambda>check.
              bindR (parse_mutation_output fuel en ctx kind field path) (\<lambda>output.
                Inr \<lparr>um_table = ctx_table ctx, um_sets = sets,
                     um_predicate = predicate_of (ua_pk ua @ opt_list (ua_where ua) @ opt_list flt),
                     um_check = check, um_check_path = ''$'', um_output = output\<rparr>))))))"

section \<open>Delete\<close>

record delete_args =
  da_where :: "bool_exp option"
  da_pk :: "bool_exp list"

definition delete_arg ::
  "plan_env \<Rightarrow> table_ctx \<Rightarrow> mutation_kind \<Rightarrow> string \<Rightarrow> delete_args \<Rightarrow> string \<times> gql_value \<Rightarrow> delete_args plan_result" where
  "delete_arg en ctx kind path da a =
     (let arg = fst a in
      bindR (value_to_json (snd a) (en_vars en) path) (\<lambda>value.
      if kind = MKDelete \<and> arg = ''where'' then
        bindR (parse_bool_exp (en_extern en) (en_planner en) value ctx (en_session en) False path) (\<lambda>e.
          Inr (da\<lparr>da_where := Some e\<rparr>))
      else if kind = MKDeleteByPk then
        (case table_column (tx_info ctx) arg of
           None \<Rightarrow> Inl (Fail (unexpected_arg path arg))
         | Some info \<Rightarrow>
             if arg \<notin> set (ti_primary_key (tx_info ctx)) then Inl (Fail (unexpected_arg path arg))
             else Inr (da\<lparr>da_pk := da_pk da @ [Compare arg (ci_pg_type info) (Eq (Scalar value))]\<rparr>))
      else Inl (Fail (unexpected_arg path arg))))"

definition plan_delete ::
  "nat \<Rightarrow> plan_env \<Rightarrow> perm_eq \<Rightarrow> table_ctx \<Rightarrow> mutation_kind \<Rightarrow> gql_field \<Rightarrow> string \<Rightarrow> delete_mutation plan_result" where
  "plan_delete fuel en pq ctx kind field path =
     (case resolve_role_perm (pl_inherited_roles (en_planner en)) (pq_delete pq) (te_delete_permissions (tx_entry ctx))
             (\<lambda>_. True) (en_role en) of
        None \<Rightarrow> mutation_not_found en field path
      | Some perm \<Rightarrow>
          bindR (foldR (delete_arg en ctx kind path) \<lparr>da_where = None, da_pk = []\<rparr> (gf_arguments field)) (\<lambda>da.
          if kind = MKDelete \<and> da_where da = None then
            err_validation path (''expecting a value for the argument '' @ dquoted ''where'')
          else
            bindR (parse_filter_exp en (dp_filter perm) ctx path) (\<lambda>flt.
            bindR (parse_mutation_output fuel en ctx kind field path) (\<lambda>output.
              Inr \<lparr>dm_table = ctx_table ctx,
                   dm_predicate = predicate_of (da_pk da @ opt_list (da_where da) @ opt_list flt),
                   dm_output = output\<rparr>))))"

section \<open>Roots\<close>

definition try_plan_function_mutation ::
  "nat \<Rightarrow> plan_env \<Rightarrow> gql_field \<Rightarrow> string \<Rightarrow> select_query plan_result option" where
  "try_plan_function_mutation fuel en field path =
     (let pl = en_planner en in
      Option.bind (map_of (pl_mutation_function_roots pl) (gf_name field)) (\<lambda>fidx.
        let fentry = pl_functions pl ! fidx in
        if \<not> function_allowed pl fentry (en_role en) then None
        else
          Option.bind (catalog_function (pl_catalog pl) (qt_schema (fe_function fentry)) (qt_name (fe_function fentry)))
            (\<lambda>finfo. Option.bind (fi_returns_table finfo) (\<lambda>(rschema, rname).
              Option.bind (table_ctx_by_name pl (Qualified rschema rname) (en_role en)) (\<lambda>ctx.
                Some (bindR (function_from en fentry finfo field path) (\<lambda>from.
                  build_select fuel en (walk_table_selection fuel en) ctx KSelect from field path)))))))"

definition plan_mutation_root :: "nat \<Rightarrow> plan_env \<Rightarrow> perm_eq \<Rightarrow> gql_field \<Rightarrow> mutation_root plan_result" where
  "plan_mutation_root fuel en pq field =
     (let alias = field_alias field; path = ''$.selectionSet.'' @ gf_name field in
      if gf_name field = ''__typename'' then Inr (MutTypename alias ''mutation_root'')
      else case try_plan_function_mutation fuel en field path of
        Some result \<Rightarrow> bindR result (\<lambda>q. Inr (FunctionCall alias q))
      | None \<Rightarrow>
          (case map_of (pl_mutation_roots (en_planner en)) (gf_name field) of
             None \<Rightarrow> mutation_not_found en field path
           | Some (kind, idx) \<Rightarrow>
               (case mutation_table_ctx (en_planner en) idx of
                  None \<Rightarrow> mutation_not_found en field path
                | Some ctx \<Rightarrow>
                    if kind = MKInsert \<or> kind = MKInsertOne then
                      bindR (plan_insert fuel en pq ctx kind field path) (\<lambda>i. Inr (Insert alias i))
                    else if kind = MKUpdate \<or> kind = MKUpdateByPk then
                      bindR (plan_update fuel en pq ctx kind field path) (\<lambda>u. Inr (Update alias u))
                    else
                      bindR (plan_delete fuel en pq ctx kind field path) (\<lambda>d. Inr (Delete alias d)))))"

definition plan_mutation :: "nat \<Rightarrow> plan_env \<Rightarrow> perm_eq \<Rightarrow> selection list \<Rightarrow> mutation_root list plan_result" where
  "plan_mutation fuel en pq sel =
     bindR (flatten fuel sel (en_fragments en) (en_vars en) None) (\<lambda>fs.
     bindR (traverse (plan_mutation_root fuel en pq) fs) (\<lambda>out.
       if out = [] then err_validation ''$'' ''selection set cannot be empty'' else Inr out))"

section \<open>Planning a document\<close>

datatype plan = PlanQuery "root_field list" | PlanMutation "mutation_root list"

definition plan_document ::
  "nat \<Rightarrow> extern \<Rightarrow> (gql_value \<Rightarrow> string) \<Rightarrow> perm_eq \<Rightarrow> planner \<Rightarrow> gql_document \<Rightarrow> string option \<Rightarrow> jmap \<Rightarrow> session \<Rightarrow> plan plan_result" where
  "plan_document fuel x gql_display pq pl doc operation_name variables session =
     bindR (pick_operation (operations_of doc) operation_name) (\<lambda>op.
       let (sel, vds, is_mutation) = operation_parts op in
       bindR (effective_vars vds variables) (\<lambda>vars.
         let en = \<lparr>en_extern = x, en_planner = pl, en_fragments = fragments_of doc, en_vars = vars,
                   en_session = session, en_gql_display = gql_display\<rparr> in
         if is_mutation then bindR (plan_mutation fuel en pq sel) (\<lambda>ms. Inr (PlanMutation ms))
         else bindR (plan_query fuel en sel) (\<lambda>rs. Inr (PlanQuery rs))))"

end
