(* ===== verification/Semantics.thy ===== *)
theory Semantics
  imports Plan_Mutation
begin

text \<open>
  What a predicate of the IR says about a row, in the three-valued logic of SQL:
  \<open>Some True\<close>, \<open>Some False\<close> or unknown (\<open>None\<close>). The comparison operators
  and the SQL functions belong to Postgres and are parameters. The locale
  \<open>row_filter\<close> states what the permission code needs of a reading of
  predicates; its lemmas say what the combinations built by the planner mean.
\<close>

section \<open>Three-valued evaluation\<close>

type_synonym row = "string \<Rightarrow> json option"

record database =
  db_rows :: "ir_table \<Rightarrow> row list"
  db_compare :: "string \<Rightarrow> compare_op \<Rightarrow> json option \<Rightarrow> row \<Rightarrow> row \<Rightarrow> bool option"
  db_scalar_function :: "string \<Rightarrow> string \<Rightarrow> row_function_arg list \<Rightarrow> row \<Rightarrow> json option"
  db_row_function :: "string \<Rightarrow> string \<Rightarrow> row_function_arg list \<Rightarrow> row \<Rightarrow> row list"

definition and3 :: "bool option list \<Rightarrow> bool option" where
  "and3 vs = (if Some False \<in> set vs then Some False else if None \<in> set vs then None else Some True)"

definition or3 :: "bool option list \<Rightarrow> bool option" where
  "or3 vs = (if Some True \<in> set vs then Some True else if None \<in> set vs then None else Some False)"

definition not3 :: "bool option \<Rightarrow> bool option" where
  "not3 v = map_option HOL.Not v"

definition joined :: "join_pairs \<Rightarrow> row \<Rightarrow> row \<Rightarrow> bool" where
  "joined join outer inner \<longleftrightarrow> list_all (\<lambda>(l, r). outer l \<noteq> None \<and> outer l = inner r) join"

fun eval :: "database \<Rightarrow> bool_exp \<Rightarrow> row \<Rightarrow> row \<Rightarrow> bool option" where
  "eval db (And es) row root = and3 (map (\<lambda>e. eval db e row root) es)"
| "eval db (Or es) row root = or3 (map (\<lambda>e. eval db e row root) es)"
| "eval db (bool_exp.Not e) row root = not3 (eval db e row root)"
| "eval db (Compare column pg_type op) row root = db_compare db pg_type op (row column) row root"
| "eval db (Relationship t join e) row root =
     Some (list_ex (\<lambda>r. joined join row r \<and> eval db e r root = Some True) (db_rows db t))"
| "eval db (ComputedCompare schema name args pg_type op) row root =
     db_compare db pg_type op (db_scalar_function db schema name args row) row root"
| "eval db (RowFunctionExists schema name args e) row root =
     Some (list_ex (\<lambda>r. eval db e r root = Some True) (db_row_function db schema name args row))"
| "eval db (Exists t e) row root = Some (list_ex (\<lambda>r. eval db e r r = Some True) (db_rows db t))"

definition holds :: "database \<Rightarrow> row \<Rightarrow> bool_exp \<Rightarrow> bool" where
  "holds db row e \<longleftrightarrow> eval db e row row = Some True"

text \<open>The rows a query reads from a table: a missing predicate keeps every row.\<close>

definition holds_opt :: "database \<Rightarrow> row \<Rightarrow> bool_exp option \<Rightarrow> bool" where
  "holds_opt db row p \<longleftrightarrow> pred_option (holds db row) p"

lemma and3_true [simp]: "and3 vs = Some True \<longleftrightarrow> (\<forall>v \<in> set vs. v = Some True)"
  by (auto simp: and3_def) (metis option.exhaust)

lemma or3_true [simp]: "or3 vs = Some True \<longleftrightarrow> Some True \<in> set vs"
  by (auto simp: or3_def)

section \<open>Readings of predicates\<close>

locale row_filter =
  fixes sat :: "'r \<Rightarrow> bool_exp \<Rightarrow> bool"
  assumes sat_And: "sat r (And es) \<longleftrightarrow> (\<forall>e \<in> set es. sat r e)"
    and sat_Or: "sat r (Or es) \<longleftrightarrow> (\<exists>e \<in> set es. sat r e)"
begin

lemma sat_conj_of: "sat r (conj_of es) \<longleftrightarrow> (\<forall>e \<in> set es. sat r e)"
  by (cases es rule: conj_of.cases) (auto simp: sat_And)

lemma sat_disj_of: "es \<noteq> [] \<Longrightarrow> sat r (disj_of es) \<longleftrightarrow> (\<exists>e \<in> set es. sat r e)"
  by (cases es rule: disj_of.cases) (auto simp: sat_Or)

lemma sat_with_filter: "sat r (with_filter inner perm) \<longleftrightarrow> sat r inner \<and> pred_option (sat r) perm"
  by (cases perm) (simp_all add: with_filter_def sat_And)

lemma sat_predicate_of: "pred_option (sat r) (predicate_of es) \<longleftrightarrow> (\<forall>e \<in> set es. sat r e)"
  by (cases es rule: predicate_of.cases) (auto simp: sat_And)

lemma sat_opt_list: "(\<forall>e \<in> set (opt_list p). sat r e) \<longleftrightarrow> pred_option (sat r) p"
  by (cases p) (simp_all add: opt_list_def)

text \<open>The filters of several permissions combine to their union.\<close>

lemma sat_filter_parts:
  assumes "filter_parts parse perms = Inr (Some es)"
  shows "(\<exists>e \<in> set es. sat r e) \<longleftrightarrow> (\<exists>p \<in> set perms. \<exists>e. parse (sp_filter p) = Inr e \<and> sat r e)"
    and "\<forall>p \<in> set perms. \<not> unrestricted (sp_filter p)" and "length es = length perms"
  using assms
  by (induction perms arbitrary: es) (auto split: if_splits)

lemma sat_combined:
  assumes "combined_with parse perms = Inr res" "perms \<noteq> []"
  shows "pred_option (sat r) res \<longleftrightarrow>
    (\<exists>p \<in> set perms. unrestricted (sp_filter p) \<or> (\<exists>e. parse (sp_filter p) = Inr e \<and> sat r e))"
proof -
  obtain parts where parts: "filter_parts parse perms = Inr parts" and res: "res = map_option disj_of parts"
    using assms by (auto simp: combined_with_def)
  show ?thesis
  proof (cases parts)
    case (Some es)
    have "es \<noteq> []" using sat_filter_parts(3) [OF parts [unfolded Some]] assms(2) by auto
    then show ?thesis
      using sat_filter_parts(1,2) [OF parts [unfolded Some]] by (auto simp: res Some sat_disj_of)
  next
    case None
    have "filter_parts parse ps = Inr None \<Longrightarrow> \<exists>p \<in> set ps. unrestricted (sp_filter p)" for ps
      by (induction ps) (auto split: if_splits)
    then show ?thesis using parts None res by auto
  qed
qed

end

text \<open>Rows of a database read predicates by evaluation; so do rows below a fixed root row.\<close>

interpretation pg: row_filter "holds db" for db
  by unfold_locales (force simp: holds_def)+

interpretation nested: row_filter "\<lambda>r e. eval db e r root = Some True" for db root
  by unfold_locales force+

end
