(* ===== verification/Samples.thy ===== *)
theory Samples
  imports Plan_Mutation Sql_Properties
begin

text \<open>
  A small configuration on which the properties of the planner are evaluated:
  authors and their articles, a role \<open>user\<close> that sees its own articles and
  published ones, a role \<open>editor\<close>, and the inherited role \<open>both\<close>.
\<close>

definition col :: "string \<Rightarrow> string \<Rightarrow> column_info" where
  "col n ty = \<lparr>ci_name = n, ci_pg_type = ty, ci_nullable = False, ci_has_default = False\<rparr>"

definition author_info :: table_info where
  "author_info = \<lparr>ti_schema = ''public'', ti_name = ''author'', ti_columns = [col ''id'' ''int4'', col ''name'' ''text''],
     ti_primary_key = [''id''], ti_foreign_keys = []\<rparr>"

definition article_info :: table_info where
  "article_info = \<lparr>ti_schema = ''public'', ti_name = ''article'',
     ti_columns = [col ''id'' ''int4'', col ''author_id'' ''int4'', col ''title'' ''text'', col ''secret'' ''text''],
     ti_primary_key = [''id''],
     ti_foreign_keys = [\<lparr>fk_constraint_name = ''article_author'', fk_column_mapping = [(''author_id'', ''id'')],
       fk_referenced_schema = ''public'', fk_referenced_table = ''author''\<rparr>]\<rparr>"

definition own_rows :: json where
  "own_rows = JObject [(''author_id'', JObject [(''_eq'', JString ''X-Hasura-User-Id'')])]"

definition user_select :: select_permission where
  "user_select = \<lparr>sp_columns = Cols [''id'', ''author_id'', ''title''], sp_filter = own_rows, sp_limit = Some 10,
     sp_allow_aggregations = True, sp_computed_fields = []\<rparr>"

definition editor_select :: select_permission where
  "editor_select = \<lparr>sp_columns = Star, sp_filter = JObject [(''title'', JObject [(''_like'', JString ''public%'')])],
     sp_limit = Some 100, sp_allow_aggregations = False, sp_computed_fields = []\<rparr>"

definition author_select :: select_permission where
  "author_select = \<lparr>sp_columns = Star, sp_filter = JObject [], sp_limit = None, sp_allow_aggregations = True, sp_computed_fields = []\<rparr>"

definition entry_of :: "string \<Rightarrow> table_entry" where
  "entry_of n = \<lparr>te_table = Name n, te_configuration = None, te_is_enum = False, te_object_relationships = [],
     te_array_relationships = [], te_computed_fields = [], te_remote_relationships = [], te_insert_permissions = [],
     te_select_permissions = [], te_update_permissions = [], te_delete_permissions = []\<rparr>"

definition author_entry :: table_entry where
  "author_entry = (entry_of ''author'')
     \<lparr>te_array_relationships := [\<lparr>ar_name = ''articles'', ar_using =
        \<lparr>aru_foreign_key_constraint_on = Some \<lparr>arf_table = Name ''article'', arf_column = Some ''author_id'', arf_columns = None\<rparr>,
         aru_manual_configuration = None\<rparr>\<rparr>],
      te_select_permissions := [\<lparr>pe_role = ''user'', pe_permission = author_select\<rparr>]\<rparr>"

definition article_entry :: table_entry where
  "article_entry = (entry_of ''article'')
     \<lparr>te_object_relationships := [\<lparr>or_name = ''author'', or_using =
        \<lparr>oru_foreign_key_constraint_on = Some (Single ''author_id''), oru_manual_configuration = None\<rparr>\<rparr>],
      te_select_permissions := [\<lparr>pe_role = ''user'', pe_permission = user_select\<rparr>, \<lparr>pe_role = ''editor'', pe_permission = editor_select\<rparr>],
      te_insert_permissions := [\<lparr>pe_role = ''user'', pe_permission =
        \<lparr>ip_check = own_rows, ip_set = [(''author_id'', JString ''x-hasura-user-id'')], ip_columns = Cols [''id'', ''title''],
         ip_backend_only = False\<rparr>\<rparr>],
      te_update_permissions := [\<lparr>pe_role = ''user'', pe_permission =
        \<lparr>up_columns = Cols [''title''], up_filter = own_rows, up_check = None, up_set = []\<rparr>\<rparr>],
      te_delete_permissions := [\<lparr>pe_role = ''user'', pe_permission = \<lparr>dp_filter = own_rows\<rparr>\<rparr>,
        \<lparr>pe_role = ''editor'', pe_permission = \<lparr>dp_filter = JObject []\<rparr>\<rparr>]\<rparr>"

definition sample_metadata :: metadata where
  "sample_metadata = \<lparr>md_version = 3,
     md_sources = [\<lparr>src_name = ''default'', src_database_url = FromEnv ''DIST_API_DATABASE_URL'', src_tables = [author_entry, article_entry], src_functions = []\<rparr>],
     md_inherited_roles = [\<lparr>ir_role_name = ''both'', ir_role_set = [''user'', ''editor'']\<rparr>],
     md_query_collections = [], md_allowlist = [], md_remote_schemas = [], md_actions = [], md_custom_types = no_custom_types\<rparr>"

definition sample_catalog :: catalog where
  "sample_catalog = \<lparr>cat_tables = [(''public.article'', article_info), (''public.author'', author_info)], cat_functions = []\<rparr>"

definition sample_planner :: planner where
  "sample_planner = planner_new sample_metadata sample_catalog"

definition sample_session :: "string \<Rightarrow> session" where
  "sample_session role = \<lparr>se_role = role, se_vars = [(''x-hasura-user-id'', ''7'')], se_backend_request = False\<rparr>"

definition sample_env :: "string \<Rightarrow> jmap \<Rightarrow> plan_env" where
  "sample_env role vars = \<lparr>en_extern = sample_extern, en_planner = sample_planner, en_fragments = [], en_vars = vars,
     en_session = sample_session role, en_gql_display = (\<lambda>_. [])\<rparr>"

definition leaf_field :: "string \<Rightarrow> selection" where
  "leaf_field n = SField (GqlField None n [] [] [])"

definition sample_field :: "string \<Rightarrow> (string \<times> gql_value) list \<Rightarrow> string list \<Rightarrow> gql_field" where
  "sample_field n args subs = GqlField None n args [] (map leaf_field subs)"

definition nested_field :: "string \<Rightarrow> (string \<times> gql_value) list \<Rightarrow> selection list \<Rightarrow> selection" where
  "nested_field n args subs = SField (GqlField None n args [] subs)"

text \<open>Authors with their articles, twice: as rows and aggregated.\<close>

definition sample_selection :: "selection list" where
  "sample_selection = [nested_field ''author'' [] [leaf_field ''name'',
     nested_field ''articles'' [(''limit'', GInt 50), (''order_by'', GObject [(''id'', GEnum ''desc'')]),
        (''where'', GObject [(''title'', GObject [(''_like'', GString ''A%'')])])] [leaf_field ''title''],
     nested_field ''articles_aggregate'' [] [nested_field ''aggregate'' [] [leaf_field ''count''],
        nested_field ''nodes'' [] [leaf_field ''id'', nested_field ''author'' [] [leaf_field ''id'']]]]]"

definition sample_document :: gql_document where
  "sample_document = [DefOperation (OpQuery None [] sample_selection)]"

definition sample_perm_eq :: perm_eq where
  "sample_perm_eq = \<lparr>pq_insert = (=), pq_update = (=), pq_delete = (=)\<rparr>"

lemmas sample_defs = col_def author_info_def article_info_def own_rows_def user_select_def editor_select_def
  author_select_def entry_of_def author_entry_def article_entry_def sample_metadata_def sample_catalog_def
  sample_planner_def sample_session_def sample_env_def leaf_field_def sample_field_def

end
