(* ===== verification/Filter_Properties.thy ===== *)
theory Filter_Properties
  imports Semantics Samples
begin

text \<open>
  What the parser of boolean expressions guarantees: the operators it emits are
  SQL operators, a client's filter names only what its role may see, session
  variables are read in permission filters only, and the row filters of an
  inherited role combine to their union.
\<close>

section \<open>Operators are SQL operators\<close>

lemma column_ops_plain: "map_of column_ops name = Some op \<Longrightarrow> plain op"
  by (auto simp: column_ops_def split: if_splits)

lemma st_functions_plain: "map_of st_functions name = Some f \<Longrightarrow> plain f"
  by (auto simp: st_functions_def split: if_splits)

lemma scalar_ops_raw_ok: "map_of scalar_ops name = Some c \<Longrightarrow> op_raw_ok (c v)"
  by (auto simp: scalar_ops_def split: if_splits)

lemma column_compare_raw_ok: "column_compare pl op v ctx path = Inr c \<Longrightarrow> plain op \<Longrightarrow> op_raw_ok c"
  by (auto simp: column_compare_def err_validation_def Let_def split: json.splits if_splits list.splits option.splits)

lemma parse_op_raw_ok: "parse_op x pl ctx column se perm path e = Inr c \<Longrightarrow> op_raw_ok c"
  by (auto simp: parse_op_def st_op_def err_validation_def Let_def
      dest: column_compare_raw_ok column_ops_plain st_functions_plain scalar_ops_raw_ok
      split: option.splits if_splits)

lemma parse_ops_raw_ok: "parse_ops x pl ctx column v se perm path = Inr cs \<Longrightarrow> list_all op_raw_ok cs"
proof (cases v)
  case (JObject m)
  moreover assume "parse_ops x pl ctx column v se perm path = Inr cs"
  ultimately have "list_all2 (\<lambda>e c. parse_op x pl ctx column se perm path e = Inr c) m cs"
    by (simp add: parse_ops_def traverse_Inr_iff)
  then show ?thesis by induction (auto dest: parse_op_raw_ok)
qed (auto simp: parse_ops_def)

lemma conj_of_raw_ok: "exp_raw_ok (conj_of es) \<longleftrightarrow> list_all exp_raw_ok es"
  by (cases es rule: conj_of.cases) auto

lemma disj_of_raw_ok: "exp_raw_ok (disj_of es) \<longleftrightarrow> list_all exp_raw_ok es"
  by (cases es rule: disj_of.cases) auto

lemma with_filter_raw_ok: "exp_raw_ok (with_filter e p) \<longleftrightarrow> exp_raw_ok e \<and> pred_option exp_raw_ok p"
  by (cases p) (auto simp: with_filter_def)

section \<open>Shape of a parsed filter\<close>

text \<open>
  The predicates the parser produces, for a mode and a table context. A
  relationship of a client's filter carries the row filter of the table it
  leads to; an \<open>_exists\<close> does not.
\<close>

inductive parsed :: "extern \<Rightarrow> planner \<Rightarrow> session \<Rightarrow> string \<Rightarrow> bool \<Rightarrow> table_ctx \<Rightarrow> bool_exp \<Rightarrow> bool"
and row_guard :: "extern \<Rightarrow> planner \<Rightarrow> session \<Rightarrow> string \<Rightarrow> bool \<Rightarrow> table_ctx \<Rightarrow> bool_exp option \<Rightarrow> bool"
for x pl se path where
  p_conj: "(\<And>e. e \<in> set es \<Longrightarrow> parsed x pl se path perm ctx e) \<Longrightarrow> parsed x pl se path perm ctx (conj_of es)"
| p_and: "(\<And>e. e \<in> set es \<Longrightarrow> parsed x pl se path perm ctx e) \<Longrightarrow> parsed x pl se path perm ctx (And es)"
| p_or: "(\<And>e. e \<in> set es \<Longrightarrow> parsed x pl se path perm ctx e) \<Longrightarrow> parsed x pl se path perm ctx (Or es)"
| p_not: "parsed x pl se path perm ctx e \<Longrightarrow> parsed x pl se path perm ctx (bool_exp.Not e)"
| p_exists: "relationship_ctx pl t se perm = Some remote \<Longrightarrow> parsed x pl se path perm remote e \<Longrightarrow>
     parsed x pl se path perm ctx (Exists (ir_table_of t) e)"
| p_column: "column_allowed_for_filter ctx c perm \<Longrightarrow> table_column (tx_info ctx) c = Some info \<Longrightarrow>
     parse_ops x pl ctx c v se perm path = Inr ops \<Longrightarrow>
     parsed x pl se path perm ctx (conj_of (map (Compare c (ci_pg_type info)) ops))"
| p_computed: "cf \<in> set (te_computed_fields (tx_entry ctx)) \<Longrightarrow>
     parse_ops x pl ctx (cf_name cf) v se perm path = Inr ops \<Longrightarrow>
     parsed x pl se path perm ctx (conj_of (map (ComputedCompare s n args ty) ops))"
| p_row_function: "cf \<in> set (te_computed_fields (tx_entry ctx)) \<Longrightarrow> relationship_ctx pl t se perm = Some remote \<Longrightarrow>
     parsed x pl se path perm remote e \<Longrightarrow> row_guard x pl se path perm remote g \<Longrightarrow>
     parsed x pl se path perm ctx (RowFunctionExists s n args (with_filter e g))"
| p_relationship: "relationship_target pl ctx name path = Some (t, join) \<Longrightarrow> relationship_ctx pl t se perm = Some remote \<Longrightarrow>
     parsed x pl se path perm remote e \<Longrightarrow> row_guard x pl se path perm remote g \<Longrightarrow>
     parsed x pl se path perm ctx (Relationship (ir_table_of t) join (with_filter e g))"
| g_permission: "row_guard x pl se path True remote None"
| g_unrestricted: "combined_with (\<lambda>f. parse_bool_exp x pl f (filter_ctx_of remote) se True path) (tx_perms remote) = Inr None \<Longrightarrow>
     row_guard x pl se path False remote None"
| g_filters: "combined_with (\<lambda>f. parse_bool_exp x pl f (filter_ctx_of remote) se True path) (tx_perms remote) = Inr (Some (disj_of es)) \<Longrightarrow>
     (\<And>e. e \<in> set es \<Longrightarrow> parsed x pl se path True (filter_ctx_of remote) e) \<Longrightarrow>
     row_guard x pl se path False remote (Some (disj_of es))"

text \<open>What a successful call of the parser has done.\<close>

lemma computed_field_cases:
  assumes "computed_field_predicate x pl cf v ctx se perm path = Inr e"
  obtains (scalar) s n args ty ops where "parse_ops x pl ctx (cf_name cf) v se perm path = Inr ops"
      "e = conj_of (map (ComputedCompare s n args ty) ops)"
  | (rows) s n args t remote inner g where "relationship_ctx pl t se perm = Some remote"
      "parse_bool_exp x pl v remote se perm path = Inr inner"
      "(if perm then Inr None else combined_with (\<lambda>f. parse_bool_exp x pl f (filter_ctx_of remote) se True path) (tx_perms remote)) = Inr g"
      "e = RowFunctionExists s n args (with_filter inner g)"
proof -
  obtain finfo where "catalog_function (pl_catalog pl) (qt_schema (cfd_function (cf_definition cf))) (qt_name (cfd_function (cf_definition cf))) = Some finfo"
    using assms by (auto simp: computed_field_predicate.simps [of x pl cf] err_validation_def Let_def split: option.splits)
  then show thesis
    using assms scalar rows
    by (auto simp: computed_field_predicate.simps [of x pl cf] err_validation_def not_in_bool_exp_def Let_def split: option.splits)
qed

lemma parse_entry_cases:
  assumes "parse_entry x pl k v ctx se perm path = Inr e"
  obtains (listed) items es where "v = JArray items"
      "traverse (\<lambda>v. parse_bool_exp x pl v ctx se perm path) items = Inr es" "e = And es \<or> e = Or es"
  | (negation) e' where "parse_bool_exp x pl v ctx se perm path = Inr e'" "e = bool_exp.Not e'"
  | (exists) t w remote inner where "json_get v ''_where'' = Some w" "relationship_ctx pl t se perm = Some remote"
      "parse_bool_exp x pl w remote se perm path = Inr inner" "e = Exists (ir_table_of t) inner"
  | (column) c info ops where "column_allowed_for_filter ctx c perm" "table_column (tx_info ctx) c = Some info"
      "parse_ops x pl ctx c v se perm path = Inr ops" "e = conj_of (map (Compare c (ci_pg_type info)) ops)"
  | (computed) cf where "cf \<in> set (te_computed_fields (tx_entry ctx))" "computed_field_predicate x pl cf v ctx se perm path = Inr e"
  | (relationship) name t join remote inner g where "relationship_target pl ctx name path = Some (t, join)"
      "relationship_ctx pl t se perm = Some remote" "parse_bool_exp x pl v remote se perm path = Inr inner"
      "(if perm then Inr None else combined_with (\<lambda>f. parse_bool_exp x pl f (filter_ctx_of remote) se True path) (tx_perms remote)) = Inr g"
      "e = Relationship (ir_table_of t) join (with_filter inner g)"
proof -
  let ?l = "logical_name k"
  consider "?l = ''_and'' \<or> ?l = ''_or''" | "?l = ''_not''" | "?l = ''_exists''"
    | "?l \<notin> {''_and'', ''_or'', ''_not'', ''_exists''}" "column_allowed_for_filter ctx ?l perm"
    | "?l \<notin> {''_and'', ''_or'', ''_not'', ''_exists''}" "\<not> column_allowed_for_filter ctx ?l perm"
    by blast
  then show thesis
  proof cases
    case 1
    then show ?thesis using assms listed
      by (auto simp: parse_entry.simps [of x pl k] err_validation_def Let_def split: json.splits)
  next
    case 2
    then show ?thesis using assms negation by (auto simp: parse_entry.simps [of x pl k] Let_def)
  next
    case 3
    then show ?thesis using assms exists
      by (auto simp: parse_entry.simps [of x pl k] err_validation_def Let_def split: option.splits)
  next
    case 4
    then show ?thesis using assms column
      by (auto simp: parse_entry.simps [of x pl k] Let_def split: option.splits)
  next
    case 5
    show ?thesis
    proof (cases "find (\<lambda>c. cf_name c = ?l) (te_computed_fields (tx_entry ctx))")
      case (Some cf)
      then show ?thesis using 5 assms computed find_Some_in [OF Some]
        by (auto simp: parse_entry.simps [of x pl k] Let_def)
    next
      case None
      then show ?thesis using 5 assms relationship
        by (auto simp: parse_entry.simps [of x pl k] not_in_bool_exp_def err_validation_def Let_def split: option.splits)
    qed
  qed
qed

lemma filter_parts_member:
  "filter_parts parse perms = Inr (Some es) \<Longrightarrow> e \<in> set es \<Longrightarrow> \<exists>p \<in> set perms. parse (sp_filter p) = Inr e"
  by (induction perms arbitrary: es) (auto split: if_splits)

lemma parsed_guard:
  assumes "(if perm then Inr None else combined_with (\<lambda>f. parse_bool_exp x pl f (filter_ctx_of remote) se True path) (tx_perms remote)) = Inr g"
    and "\<And>f e. \<not> perm \<Longrightarrow> parse_bool_exp x pl f (filter_ctx_of remote) se True path = Inr e \<Longrightarrow>
      parsed x pl se path True (filter_ctx_of remote) e"
  shows "row_guard x pl se path perm remote g"
proof (cases perm)
  case True
  then show ?thesis using assms(1) by (auto intro: g_permission)
next
  case False
  let ?parse = "\<lambda>f. parse_bool_exp x pl f (filter_ctx_of remote) se True path"
  have c: "combined_with ?parse (tx_perms remote) = Inr g" using assms(1) False by simp
  show ?thesis
  proof (cases g)
    case None
    then show ?thesis using c False by (auto intro: g_unrestricted)
  next
    case (Some d)
    then obtain es where es: "filter_parts ?parse (tx_perms remote) = Inr (Some es)" "g = Some (disj_of es)"
      using c by (auto simp: combined_with_def split: if_splits)
    have "parsed x pl se path True (filter_ctx_of remote) e" if "e \<in> set es" for e
      using filter_parts_member [OF es(1) that] assms(2) False by blast
    then show ?thesis using c es(2) False by (auto intro: g_filters)
  qed
qed

definition parse_measure :: "((bool \<times> json) \<times> (bool \<times> json)) set" where
  "parse_measure = measures [\<lambda>(perm, v). if perm then 0 else 1, \<lambda>(perm, v). size v]"

lemma wf_parse_measure: "wf parse_measure"
  by (simp add: parse_measure_def)

lemma parse_measure_smaller: "size v < size w \<Longrightarrow> ((perm, v), (perm, w)) \<in> parse_measure"
  by (simp add: parse_measure_def)

lemma parse_measure_filter: "\<not> perm \<Longrightarrow> ((True, v), (perm, w)) \<in> parse_measure"
  by (simp add: parse_measure_def)

lemma parse_sound:
  "parse_bool_exp x pl v ctx se perm path = Inr e \<Longrightarrow> parsed x pl se path perm ctx e"
proof (induction "(perm, v)" arbitrary: perm v ctx e rule: wf_induct_rule [OF wf_parse_measure])
  case (1 perm v ctx e)
  have sub: "parsed x pl se path perm c e'" if "parse_bool_exp x pl w c se perm path = Inr e'" "size w < size v" for w c e'
    using "1.hyps" [OF parse_measure_smaller] that by blast
  have flt: "parsed x pl se path True c e'" if "parse_bool_exp x pl w c se True path = Inr e'" "\<not> perm" for w c e'
    using "1.hyps" [OF parse_measure_filter] that by blast
  obtain m es where v: "v = JObject m" and es: "e = conj_of es"
    "traverse (\<lambda>e. parse_entry x pl (fst e) (snd e) ctx se perm path) m = Inr es"
    using "1.prems" by (cases v) (auto simp: parse_bool_exp.simps err_validation_def)
  have "parsed x pl se path perm ctx d" if d: "d \<in> set es" for d
  proof -
    obtain k w where kw: "(k, w) \<in> set m" and entry: "parse_entry x pl k w ctx se perm path = Inr d"
      using traverse_member [OF es(2) d] by auto
    have w: "size w < size v" using size_json_member [OF kw] v by simp
    show ?thesis
      using entry
    proof (cases rule: parse_entry_cases)
      case (listed items ds)
      have "parsed x pl se path perm ctx d'" if d': "d' \<in> set ds" for d'
      proof -
        obtain u where u: "u \<in> set items" "parse_bool_exp x pl u ctx se perm path = Inr d'"
          using traverse_member [OF listed(2) d'] by auto
        then show ?thesis using size_json_element [OF u(1)] listed(1) w by (intro sub) auto
      qed
      then show ?thesis using listed(3) by (auto intro: p_and p_or)
    next
      case (negation d')
      then show ?thesis using sub w by (auto intro: p_not)
    next
      case (exists t u remote inner)
      then show ?thesis using sub size_json_get [OF exists(1)] w by (auto intro!: p_exists)
    next
      case (column c info ops)
      then show ?thesis by (auto intro: p_column)
    next
      case (computed cf)
      from computed(2) show ?thesis
      proof (cases rule: computed_field_cases)
        case (scalar s n args ty ops)
        then show ?thesis using computed(1) by (auto intro: p_computed)
      next
        case (rows s n args t remote inner g)
        then show ?thesis using computed(1) sub w parsed_guard [OF rows(3)] flt by (auto intro!: p_row_function)
      qed
    next
      case (relationship name t join remote inner g)
      then show ?thesis using sub w parsed_guard [OF relationship(4)] flt by (auto intro!: p_relationship)
    qed
  qed
  then show ?case unfolding es(1) by (rule p_conj)
qed

lemma parsed_raw_ok:
  "parsed x pl se path perm ctx e \<Longrightarrow> exp_raw_ok e"
  "row_guard x pl se path perm ctx g \<Longrightarrow> pred_option exp_raw_ok g"
proof (induction rule: parsed_row_guard.inducts)
  case (p_column ctx c perm info v ops)
  then show ?case by (auto simp: conj_of_raw_ok list_all_iff dest: parse_ops_raw_ok)
next
  case (p_computed cf ctx v perm ops s n args ty)
  then show ?case by (auto simp: conj_of_raw_ok list_all_iff dest: parse_ops_raw_ok)
qed (auto simp: conj_of_raw_ok disj_of_raw_ok with_filter_raw_ok list_all_iff)

lemmas parse_raw_ok = parsed_raw_ok(1) [OF parse_sound]

section \<open>Columns of the filtered row\<close>

fun row_columns :: "bool_exp \<Rightarrow> string list" where
  "row_columns (And es) = concat (map row_columns es)"
| "row_columns (Or es) = concat (map row_columns es)"
| "row_columns (bool_exp.Not e) = row_columns e"
| "row_columns (Compare c _ _) = [c]"
| "row_columns _ = []"

lemma row_columns_conj: "set (row_columns (conj_of es)) = (\<Union>e \<in> set es. set (row_columns e))"
  by (cases es rule: conj_of.cases) auto

lemma parsed_columns:
  "parsed x pl se path perm ctx e \<Longrightarrow> c \<in> set (row_columns e) \<Longrightarrow> column_allowed_for_filter ctx c perm"
  "row_guard x pl se path perm ctx g \<Longrightarrow> True"
  by (induction rule: parsed_row_guard.inducts) (auto simp: row_columns_conj with_filter_def split: option.splits if_splits)

section \<open>Properties\<close>

text \<open>
  C8. Row-level security combines to a union: the filter computed for a role with
  several select permissions keeps a row exactly when one of them is
  unrestricted or its own filter keeps the row; unknown (null) comparisons never
  keep a row.
\<close>

theorem permission_predicate_union:
  assumes "permission_predicate x pl ctx se path = Inr res" "tx_perms ctx \<noteq> []"
  shows "holds_opt db row res \<longleftrightarrow>
    (\<exists>p \<in> set (tx_perms ctx). unrestricted (sp_filter p)
       \<or> (\<exists>e. parse_bool_exp x pl (sp_filter p) (filter_ctx_of ctx) se True path = Inr e \<and> holds db row e))"
  using pg.sat_combined [OF assms [unfolded permission_predicate_def combined_filter_def]] by (simp add: holds_opt_def)

definition article_ctx :: "select_permission list \<Rightarrow> table_ctx" where
  "article_ctx perms = \<lparr>tx_entry = article_entry, tx_info = article_info, tx_perms = perms, tx_type_name = ''article''\<rparr>"

definition both_filter :: bool_exp where
  "both_filter = Or [Compare ''author_id'' ''int4'' (Eq (Scalar (JString ''7''))),
     Compare ''title'' ''text'' (Like (Scalar (JString ''public%'')))]"

lemma both_filter_parsed:
  "permission_predicate sample_extern sample_planner (article_ctx [user_select, editor_select]) (sample_session ''both'') ''$''
     = Inr (Some both_filter)"
  by code_simp

theorem permission_predicate_union_witness:
  "\<forall>db row. holds_opt db row (Some both_filter) \<longleftrightarrow>
    (\<exists>p \<in> {user_select, editor_select}. unrestricted (sp_filter p)
       \<or> (\<exists>e. parse_bool_exp sample_extern sample_planner (sp_filter p)
             (filter_ctx_of (article_ctx [user_select, editor_select])) (sample_session ''both'') True ''$'' = Inr e \<and> holds db row e))"
  using permission_predicate_union [OF both_filter_parsed] by (simp add: article_ctx_def)


definition sample_where :: json where
  "sample_where = JObject [(''_or'', JArray [JObject [(''title'', JObject [(''_eq'', JString ''x-hasura-user-id'')])],
     JObject [(''author'', JObject [(''name'', JObject [(''_like'', JString ''A%'')])])]])]"

definition sample_exp :: bool_exp where
  "sample_exp = Or [Compare ''title'' ''text'' (Eq (Scalar (JString ''x-hasura-user-id''))),
     Relationship \<lparr>it_schema = ''public'', it_name = ''author''\<rparr> [(''author_id'', ''id'')]
       (Compare ''name'' ''text'' (Like (Scalar (JString ''A%''))))]"

lemma sample_where_parsed:
  "parse_bool_exp sample_extern sample_planner sample_where (article_ctx [user_select]) (sample_session ''user'') False ''$'' = Inr sample_exp"
  by code_simp


lemma resolve_client: "resolve_session v se False path = Inr v"
  by (simp add: resolve_session_def)

lemma parse_op_session: "parse_op x pl ctx c se False path e = parse_op x pl ctx c se' False path e"
  unfolding parse_op_def scalar_value_def scalar_list_def string_list_def resolve_client by (rule refl)

text \<open>
  Clients cannot name session variables: the operators of a client's filter are
  the same for every session, a value that looks like a session variable
  included.
\<close>

theorem client_operators_session_free:
  "parse_ops x pl ctx c v se False path = parse_ops x pl ctx c v se' False path"
proof -
  have "parse_op x pl ctx c se False path = parse_op x pl ctx c se' False path"
    by (rule ext) (rule parse_op_session)
  then show ?thesis unfolding parse_ops_def resolve_client by (simp split: json.splits)
qed

text \<open>
  In a permission filter a session variable is replaced by its value, whatever
  the case of its name; a variable the session lacks is reported as
  \<open>not-found\<close> at the path \<open>$\<close> and never read as a literal.
\<close>

theorem permission_session_variable:
  assumes "8 \<le> length s" "char_boundary s 8" "eq_ignore_ascii_case (take 8 s) ''x-hasura''"
  shows "resolve_session (JString s) se True path =
    (case map_of (se_vars se) (to_ascii_lowercase s) of
       Some v \<Rightarrow> Inr (JString v)
     | None \<Rightarrow> Inl (Fail \<lparr>err_message = ''missing session variable: '' @ dquoted (to_ascii_lowercase s),
         err_code = ''not-found'', err_path = ''$''\<rparr>))"
  using assms by (simp add: resolve_session_def session_var_def plan_error_new_def split: option.splits)

theorem permission_session_variable_witness:
  "resolve_session (JString ''X-Hasura-User-Id'') (sample_session ''user'') True ''$.a'' = Inr (JString ''7'')"
proof -
  have low: "to_ascii_lowercase ''X-Hasura-User-Id'' = ''x-hasura-user-id''" by code_simp
  show ?thesis
    by (subst permission_session_variable) (code_simp, code_simp, code_simp, simp add: low sample_session_def)
qed


definition author_ctx :: table_ctx where
  "author_ctx = \<lparr>tx_entry = author_entry, tx_info = author_info, tx_perms = [author_select], tx_type_name = ''author''\<rparr>"

definition own_filter :: bool_exp where
  "own_filter = Compare ''author_id'' ''int4'' (Eq (Scalar (JString ''7'')))"

definition articles_exp :: bool_exp where
  "articles_exp = Relationship \<lparr>it_schema = ''public'', it_name = ''article''\<rparr> [(''id'', ''author_id'')]
     (And [Compare ''title'' ''text'' (Like (Scalar (JString ''A%''))), own_filter])"

definition sample_db :: database where
  "sample_db = \<lparr>db_rows = (\<lambda>t. [[''id'' \<mapsto> JString ''1'', ''author_id'' \<mapsto> JString ''7'', ''title'' \<mapsto> JString ''Abc'']]),
     db_compare = (\<lambda>ty op v row root. case op of Eq (Scalar j) \<Rightarrow> map_option ((=) j) v | _ \<Rightarrow> Some True),
     db_scalar_function = (\<lambda>s n args row. None), db_row_function = (\<lambda>s n args row. [])\<rparr>"


text \<open>
  An \<open>_exists\<close> in a client's filter is not guarded: whatever row filter the
  role has on the table it names, the predicate over that table is the client's
  alone, so a client learns of rows it cannot select.
\<close>

theorem exists_unguarded:
  assumes "relationship_ctx pl (Qualified s n) se False = Some remote"
  shows "parse_entry x pl ''_exists''
      (JObject [(''_table'', JObject [(''schema'', JString s), (''name'', JString n)]), (''_where'', JObject [])]) ctx se False path
    = Inr (Exists \<lparr>it_schema = s, it_name = n\<rparr> (And []))"
  using assms by (simp add: parse_entry.simps [of x pl "''_exists''"] parse_bool_exp.simps [of x pl "JObject []"] logical_name_def ir_table_of_def)

theorem exists_unguarded_witness:
  "parse_entry sample_extern sample_planner ''_exists''
      (JObject [(''_table'', JObject [(''schema'', JString ''public''), (''name'', JString ''article'')]), (''_where'', JObject [])])
      (article_ctx [user_select]) (sample_session ''user'') False ''$''
    = Inr (Exists \<lparr>it_schema = ''public'', it_name = ''article''\<rparr> (And []))
   \<and> permission_predicate sample_extern sample_planner (article_ctx [user_select]) (sample_session ''user'') ''$''
     = Inr (Some (Compare ''author_id'' ''int4'' (Eq (Scalar (JString ''7'')))))"
proof
  have c: "relationship_ctx sample_planner (Qualified ''public'' ''article'') (sample_session ''user'') False
      = Some (article_ctx [user_select])" by code_simp
  show "parse_entry sample_extern sample_planner ''_exists''
      (JObject [(''_table'', JObject [(''schema'', JString ''public''), (''name'', JString ''article'')]), (''_where'', JObject [])])
      (article_ctx [user_select]) (sample_session ''user'') False ''$''
    = Inr (Exists \<lparr>it_schema = ''public'', it_name = ''article''\<rparr> (And []))"
    by (rule exists_unguarded [OF c])
  show "permission_predicate sample_extern sample_planner (article_ctx [user_select]) (sample_session ''user'') ''$''
     = Inr (Some (Compare ''author_id'' ''int4'' (Eq (Scalar (JString ''7'')))))"
    by code_simp
qed

end
