(* ===== verification/Plan_Walk.thy ===== *)
theory Plan_Walk
  imports Plan
begin

text \<open>
  The walk over a selection set, once for all: an invariant of output fields
  that holds for every way the planner makes a field holds for every field of
  the plan. The locale \<open>field_invariant\<close> lists the ways; well-formedness,
  the absence of raw strings and the enforcement of permissions are its
  instances.
\<close>

section \<open>Loops\<close>

lemma foldR_invariant:
  assumes "foldR f s xs = Inr s'" "I s" "\<And>s x t. x \<in> set xs \<Longrightarrow> I s \<Longrightarrow> f s x = Inr t \<Longrightarrow> I t"
  shows "I s'"
  using assms
proof (induction xs arbitrary: s)
  case (Cons x xs)
  then obtain t where t: "f s x = Inr t" "foldR f t xs = Inr s'" by auto
  have "I t" using Cons.prems(2,3) t(1) by auto
  then show ?case using Cons.IH [OF t(2)] Cons.prems(3) by auto
qed simp

lemma traverse_list_all: "traverse f xs = Inr ys \<Longrightarrow> (\<And>x y. x \<in> set xs \<Longrightarrow> f x = Inr y \<Longrightarrow> P y) \<Longrightarrow> list_all P ys"
proof (induction xs arbitrary: ys)
  case (Cons x xs)
  then obtain y zs where y: "ys = y # zs" "f x = Inr y" "traverse f xs = Inr zs" by auto
  have "list_all P zs" using Cons.IH [OF y(3)] Cons.prems(2) by auto
  then show ?case using Cons.prems(2) y by auto
qed simp

lemma with_remote_Inr:
  assumes "with_remote en ctx fpath name t body = Inr r"
  obtains remote where "table_ctx_by_name (en_planner en) t (en_role en) = Some remote" "body remote = Inr r"
  using assms by (auto simp: with_remote_def split: option.splits)

section \<open>Invariants of output fields\<close>

locale field_invariant =
  fixes en :: plan_env
    and ok :: "table_ctx \<Rightarrow> bool"
    and good :: "table_ctx \<Rightarrow> output_field \<Rightarrow> bool"
    and agg :: "table_ctx \<Rightarrow> output_field \<Rightarrow> bool"
  assumes remote_ok: "table_ctx_by_name (en_planner en) t (en_role en) = Some remote \<Longrightarrow> ok remote"
    and typename: "good ctx (OutputField a (FTypename v))"
    and global_id: "ok ctx \<Longrightarrow> pl_relay (en_planner en) \<Longrightarrow>
      good ctx (OutputField a (FRelayGlobalId (ti_schema (tx_info ctx)) (ti_name (tx_info ctx)) (pk_typed ctx)))"
    and column: "ok ctx \<Longrightarrow> column_allowed ctx (gf_name field) \<Longrightarrow> column_field en ctx path field = Inr f \<Longrightarrow> good ctx f"
    and hidden: "rel \<in> set (te_remote_relationships (tx_entry ctx)) \<Longrightarrow> remote_permitted en rel \<Longrightarrow>
      c \<in> set (rr_hasura_fields rel) \<Longrightarrow> table_column (tx_info ctx) c = Some info \<Longrightarrow>
      good ctx (OutputField (hidden_alias c) (FColumn (ci_name info) (ci_pg_type info)))"
    and remote_join: "rel \<in> set (te_remote_relationships (tx_entry ctx)) \<Longrightarrow> remote_permitted en rel \<Longrightarrow>
      rj_schema spec = rr_remote_schema rel \<Longrightarrow> good ctx (OutputField a (FRemoteJoin spec))"
    and computed: "ok ctx \<Longrightarrow> computed_field_allowed ctx name \<Longrightarrow> guard_for en ctx (computed_granting ctx name) path = Inr guard \<Longrightarrow>
      good ctx (OutputField a (FComputedScalar s n args guard))"
    and object: "ok remote \<Longrightarrow> list_all (good remote) fs \<Longrightarrow> env_permission en remote path = Inr p \<Longrightarrow>
      good ctx (OutputField a (FObject (object_query remote fs p) join))"
    and rows: "ok remote \<Longrightarrow> select_shell en remote KSelect (FromTable (ctx_table remote)) field path = Inr q \<Longrightarrow>
      list_all (good remote) fs \<Longrightarrow> good ctx (OutputField a (FArray (with_fields q fs) join False))"
    and function_rows: "ok remote \<Longrightarrow> select_shell en remote KSelect (FromRowFunction s n args) field path = Inr q \<Longrightarrow>
      list_all (good remote) fs \<Longrightarrow> good ctx (OutputField a (FArray (with_fields q fs) join False))"
    and aggregates: "ok remote \<Longrightarrow> allow_aggregations remote \<Longrightarrow>
      select_shell en remote KAggregate (FromTable (ctx_table remote)) field path = Inr q \<Longrightarrow> list_all (agg remote) fs \<Longrightarrow>
      good ctx (OutputField a (FArray (with_fields q fs) join True))"
    and nested_connection: "ok remote \<Longrightarrow> list_all (good remote) nodes \<Longrightarrow>
      connection_shell en remote field path join cfs nodes = Inr conn \<Longrightarrow>
      good ctx (OutputField a (FNestedConnection conn))"
    and agg_typename: "agg ctx (OutputField a (FTypename v))"
    and agg_aggregate: "ok ctx \<Longrightarrow> parse_aggregate_fields k en ctx sel path = Inr aggs \<Longrightarrow> agg ctx (OutputField a (FAggregate aggs))"
    and agg_nodes: "ok ctx \<Longrightarrow> list_all (good ctx) fs \<Longrightarrow> agg ctx (OutputField a (FNodes fs))"
begin

definition walks :: "walker \<Rightarrow> bool" where
  "walks walk \<longleftrightarrow> (\<forall>ctx sel path fs. ok ctx \<longrightarrow> walk ctx sel path = Inr fs \<longrightarrow> list_all (good ctx) fs)"

lemma walksD: "walks walk \<Longrightarrow> ok ctx \<Longrightarrow> walk ctx sel path = Inr fs \<Longrightarrow> list_all (good ctx) fs"
  by (auto simp: walks_def)

lemma aggregate_selection_good:
  assumes "walks walk" "ok ctx" "walk_aggregate_selection k en walk ctx sel path = Inr fs"
  shows "list_all (agg ctx) fs"
proof -
  from assms(3) obtain gs where "traverse (\<lambda>field.
          let name = gf_name field; fpath = path @ ''.selectionSet.'' @ name;
              emit = (\<lambda>v. Inr (OutputField (field_alias field) v)) in
          if name = ''__typename'' then emit (FTypename (tx_type_name ctx @ ''_aggregate''))
          else if name = ''aggregate'' then
            bindR (parse_aggregate_fields k en ctx (gf_selection_set field) fpath) (\<lambda>aggs. emit (FAggregate aggs))
          else if name = ''nodes'' then
            bindR (walk ctx (gf_selection_set field) fpath) (\<lambda>nodes. emit (FNodes nodes))
          else Inl (Fail (field_not_found fpath name (tx_type_name ctx @ ''_aggregate'')))) gs = Inr fs"
    by (auto simp: walk_aggregate_selection_def Let_def)
  then show ?thesis
    by (rule traverse_list_all)
      (use assms in \<open>auto simp: Let_def intro: agg_typename agg_aggregate agg_nodes dest: walksD split: if_splits\<close>)
qed

lemma build_select_good:
  assumes "walks walk" "ok ctx" "build_select k en walk ctx kind from field path = Inr q"
  obtains q0 fs where "select_shell en ctx kind from field path = Inr q0" "q = with_fields q0 fs"
    "if kind = KAggregate then list_all (agg ctx) fs else list_all (good ctx) fs"
  using assms by (auto simp: build_select_def dest: aggregate_selection_good walksD split: if_splits)

lemma build_connection_good:
  assumes "walks walk" "ok ctx" "build_connection k en walk ctx field path join = Inr conn"
  obtains cfs nodes where "list_all (good ctx) nodes" "connection_shell en ctx field path join cfs nodes = Inr conn"
proof -
  obtain fs cfs nodes where f: "foldR (connection_step k en walk ctx path) ([], []) fs = Inr (cfs, nodes)"
    and c: "connection_shell en ctx field path join cfs nodes = Inr conn"
    using assms(3) by (auto simp: build_connection_def)
  have edge: "list_all (good ctx) (snd t)" if "list_all (good ctx) (snd s)" "edge_step walk ctx path s ef = Inr t" for s t ef
    using that assms(1,2) by (auto simp: edge_step_def Let_def dest: walksD split: if_splits)
  have "list_all (good ctx) (snd t)" if "list_all (good ctx) (snd s)" "connection_step k en walk ctx path s sub = Inr t" for s t sub
  proof -
    have "list_all (good ctx) (snd u)" if "foldR (edge_step walk ctx path) ([], snd s) es = Inr u" for es u
      by (rule foldR_invariant [OF that, where I = "\<lambda>u. list_all (good ctx) (snd u)"]) (use \<open>list_all (good ctx) (snd s)\<close> edge in auto)
    then show ?thesis using that by (auto simp: connection_step_def Let_def split: if_splits)
  qed
  then have "list_all (good ctx) (snd (cfs, nodes))"
    using foldR_invariant [OF f, where I = "\<lambda>s. list_all (good ctx) (snd s)"] by auto
  then show thesis using that c by simp
qed

lemma hidden_columns_good:
  assumes "rel \<in> set (te_remote_relationships (tx_entry ctx))" "remote_permitted en rel"
  shows "set cols \<subseteq> set (rr_hasura_fields rel) \<Longrightarrow> list_all (good ctx) out \<Longrightarrow> list_all (good ctx) (hidden_columns ctx cols out)"
  by (induction cols arbitrary: out) (auto simp: hidden [OF assms] split: option.splits)

lemma remote_field_good:
  "list_all (good ctx) out \<Longrightarrow> rel \<in> set (te_remote_relationships (tx_entry ctx)) \<Longrightarrow>
     remote_field k en ctx fpath out field rel = Inr out' \<Longrightarrow> list_all (good ctx) out'"
  by (auto simp: remote_field_def err_validation_def Let_def case_prod_beta intro!: remote_join [of rel] hidden_columns_good [of rel, OF _ _ order_refl]
      split: if_splits list.splits option.splits prod.splits)

lemma computed_field_good:
  assumes w: "walks walk" and ctx: "ok ctx" and v: "computed_field_value k en walk ctx fpath field cf = Inr v"
  shows "good ctx (OutputField a v)"
proof -
  consider (scalar) s n args guard where "computed_field_allowed ctx (gf_name field)"
      "guard_for en ctx (computed_granting ctx (gf_name field)) fpath = Inr guard" "v = FComputedScalar s n args guard"
    | (table) s n args t where "with_remote en ctx fpath (gf_name field) t (\<lambda>remote.
        bindR (build_select k en walk remote KSelect (FromRowFunction s n args) field fpath) (\<lambda>q. Inr (FArray q [] False))) = Inr v"
    using v by (auto simp: computed_field_value_def Let_def split: option.splits if_splits)
  then show ?thesis
  proof cases
    case scalar
    then show ?thesis using computed [OF ctx] by auto
  next
    case table
    then obtain remote q where remote: "table_ctx_by_name (en_planner en) t (en_role en) = Some remote"
      and q: "build_select k en walk remote KSelect (FromRowFunction s n args) field fpath = Inr q" and v: "v = FArray q [] False"
      by (auto elim: with_remote_Inr)
    obtain q0 fs where "select_shell en remote KSelect (FromRowFunction s n args) field fpath = Inr q0"
      "q = with_fields q0 fs" "list_all (good remote) fs"
      by (rule build_select_good [OF w remote_ok [OF remote] q]) simp
    then show ?thesis using v function_rows [OF remote_ok [OF remote]] by auto
  qed
qed

lemma relay_field_good:
  assumes w: "walks walk"
    and r: "bindR (array_rel_target (en_planner en) ctx rel fpath) (\<lambda>(remote_table, join).
          with_remote en ctx fpath name remote_table (\<lambda>remote.
          bindR (build_connection k en walk remote field fpath join) (\<lambda>conn.
            Inr (out @ [OutputField a (FNestedConnection conn)])))) = Inr out'"
    and out: "list_all (good ctx) out"
  shows "list_all (good ctx) out'"
proof -
  obtain t join remote conn where remote: "table_ctx_by_name (en_planner en) t (en_role en) = Some remote"
    and c: "build_connection k en walk remote field fpath join = Inr conn"
    and o: "out' = out @ [OutputField a (FNestedConnection conn)]"
    using r by (auto elim: with_remote_Inr)
  obtain cfs nodes where "list_all (good remote) nodes" "connection_shell en remote field fpath join cfs nodes = Inr conn"
    by (rule build_connection_good [OF w remote_ok [OF remote] c])
  then show ?thesis using nested_connection [OF remote_ok [OF remote]] out o by auto
qed

lemma object_field_good:
  assumes w: "walks walk"
    and r: "bindR (object_rel_target ctx rel fpath) (\<lambda>(remote_table, join).
          with_remote en ctx fpath name remote_table (\<lambda>remote.
          bindR (walk remote (gf_selection_set field) fpath) (\<lambda>fs.
          bindR (env_permission en remote fpath) (\<lambda>predicate.
            Inr (out @ [OutputField a (FObject (object_query remote fs predicate) join)]))))) = Inr out'"
    and out: "list_all (good ctx) out"
  shows "list_all (good ctx) out'"
proof -
  obtain t join remote fs p where remote: "table_ctx_by_name (en_planner en) t (en_role en) = Some remote"
    and "walk remote (gf_selection_set field) fpath = Inr fs" "env_permission en remote fpath = Inr p"
    and "out' = out @ [OutputField a (FObject (object_query remote fs p) join)]"
    using r by (auto elim: with_remote_Inr)
  then show ?thesis using object [OF remote_ok [OF remote]] walksD [OF w remote_ok [OF remote]] out by auto
qed

lemma array_field_good:
  assumes w: "walks walk"
    and r: "bindR (array_rel_target (en_planner en) ctx rel fpath) (\<lambda>(remote_table, join).
          with_remote en ctx fpath name remote_table (\<lambda>remote.
            if aggregate \<and> \<not> allow_aggregations remote then
              Inl (Fail (field_not_found fpath name (tx_type_name ctx)))
            else
              bindR (build_select k en walk remote (if aggregate then KAggregate else KSelect)
                  (FromTable (ctx_table remote)) field fpath) (\<lambda>q.
                Inr (out @ [OutputField a (FArray q join aggregate)])))) = Inr out'"
    and out: "list_all (good ctx) out"
  shows "list_all (good ctx) out'"
proof -
  obtain t join remote q where remote: "table_ctx_by_name (en_planner en) t (en_role en) = Some remote"
    and agg: "aggregate \<Longrightarrow> allow_aggregations remote"
    and q: "build_select k en walk remote (if aggregate then KAggregate else KSelect) (FromTable (ctx_table remote)) field fpath = Inr q"
    and o: "out' = out @ [OutputField a (FArray q join aggregate)]"
    using r by (auto elim!: with_remote_Inr split: if_splits)
  obtain q0 fs where
    "select_shell en remote (if aggregate then KAggregate else KSelect) (FromTable (ctx_table remote)) field fpath = Inr q0"
    "q = with_fields q0 fs" "if aggregate then list_all (agg remote) fs else list_all (good remote) fs"
    by (rule build_select_good [OF w remote_ok [OF remote] q]) (cases aggregate; simp)
  then have "good ctx (OutputField a (FArray q join aggregate))"
    using rows [OF remote_ok [OF remote]] aggregates [OF remote_ok [OF remote] agg] by (cases aggregate) auto
  then show ?thesis using out o by simp
qed

lemma table_field_good:
  assumes w: "walks walk" and ctx: "ok ctx" and out: "list_all (good ctx) out"
    and r: "table_field k en walk ctx path out field = Inr out'"
  shows "list_all (good ctx) out'"
proof -
  let ?name = "gf_name field" and ?fpath = "path @ ''.selectionSet.'' @ gf_name field"
  note r' = r [unfolded table_field_def Let_def]
  consider "?name = ''__typename'' \<or> (pl_relay (en_planner en) \<and> ?name = ''id'')"
    | "\<not> (?name = ''__typename'' \<or> (pl_relay (en_planner en) \<and> ?name = ''id''))" "relay_array_field en ctx ?name \<noteq> None"
    | "\<not> (?name = ''__typename'' \<or> (pl_relay (en_planner en) \<and> ?name = ''id''))" "relay_array_field en ctx ?name = None"
      "column_allowed ctx ?name"
    | "\<not> (?name = ''__typename'' \<or> (pl_relay (en_planner en) \<and> ?name = ''id''))" "relay_array_field en ctx ?name = None"
      "\<not> column_allowed ctx ?name"
    by blast
  then show ?thesis
  proof cases
    case 1
    then show ?thesis using r' out typename global_id [OF ctx] by (auto split: if_splits)
  next
    case 2
    then show ?thesis using r' relay_field_good [OF w _ out] by (auto split: if_splits)
  next
    case 3
    then show ?thesis using r' out column [OF ctx] by (auto split: if_splits)
  next
    case 4
    note none = 4
    show ?thesis
    proof (cases "find (\<lambda>r. or_name r = ?name) (te_object_relationships (tx_entry ctx))")
      case (Some rel)
      then show ?thesis using r' none object_field_good [OF w _ out] by (auto split: if_splits)
    next
      case None
      note none = none None
      show ?thesis
      proof (cases "array_field ctx ?name")
        case (Some ra)
        obtain rel aggregate where ra: "ra = (rel, aggregate)" by (cases ra)
        have "bindR (array_rel_target (en_planner en) ctx rel ?fpath) (\<lambda>(remote_table, join).
          with_remote en ctx ?fpath ?name remote_table (\<lambda>remote.
            if aggregate \<and> \<not> allow_aggregations remote then
              Inl (Fail (field_not_found ?fpath ?name (tx_type_name ctx)))
            else
              bindR (build_select k en walk remote (if aggregate then KAggregate else KSelect)
                  (FromTable (ctx_table remote)) field ?fpath) (\<lambda>q.
                Inr (out @ [OutputField (field_alias field) (FArray q join aggregate)])))) = Inr out'"
          using r' none Some ra by (simp del: append.simps split: if_splits)
        then show ?thesis by (rule array_field_good [OF w _ out])
      next
        case None
        note none = none None
        show ?thesis
        proof (cases "find (\<lambda>r. rr_name r = ?name) (te_remote_relationships (tx_entry ctx))")
          case (Some rel)
          then show ?thesis using r' none remote_field_good [OF out conjunct1 [OF find_Some_in [OF Some]]] by (auto split: if_splits)
        next
          case None
          then show ?thesis using r' none out computed_field_good [OF w ctx]
            by (auto split: if_splits option.splits)
        qed
      qed
    qed
  qed
qed

lemma walk_good: "walks (walk_table_selection k en)"
proof (induction k)
  case (Suc k)
  have "list_all (good ctx) fs" if ctx: "ok ctx" and r: "walk_table_selection (Suc k) en ctx sel path = Inr fs" for ctx sel path fs
  proof -
    obtain gs where "foldR (table_field k en (walk_table_selection k en) ctx path) [] gs = Inr fs"
      using r by (auto simp: err_validation_def split: if_splits)
    then show ?thesis
      by (rule foldR_invariant) (use table_field_good [OF Suc ctx] in auto)
  qed
  then show ?case by (simp add: walks_def)
qed (simp add: walks_def)

end

end
