(* ===== verification/Plan_Wf.thy ===== *)
theory Plan_Wf
  imports Plan_Walk Samples
begin

text \<open>
  The planner and the generator agree: every plan is an IR the generator
  accepts, so a request that plans has SQL.
\<close>

section \<open>Well-formed fields\<close>

lemma shell_from: "select_shell en ctx kind from field path = Inr q \<Longrightarrow> sq_from q = from"
  by (auto simp: select_shell_def Let_def err_validation_def split: option.splits)

lemma with_fields_wf: "from_wf nested (sq_from q) \<Longrightarrow> list_all field_wf fs \<Longrightarrow> query_wf nested (with_fields q fs)"
  by (simp add: with_fields_def fields_wf_not_aggregate)

lemma agg_field_wf_cases: "agg_field_wf f \<Longrightarrow> is_aggregate_value (of_value f) \<or> field_wf f"
  by (cases f; cases "of_value f") auto

lemma with_agg_fields_wf: "from_wf nested (sq_from q) \<Longrightarrow> list_all agg_field_wf fs \<Longrightarrow> query_wf nested (with_fields q fs)"
  using agg_field_wf_cases by (auto simp: with_fields_def list_ex_iff list_all_iff)

lemma column_field_wf: "column_field en ctx path field = Inr f \<Longrightarrow> field_wf f"
  by (auto simp: column_field_def split: list.splits option.splits)

interpretation wf: field_invariant en "\<lambda>_. True" "\<lambda>_. field_wf" "\<lambda>_. agg_field_wf" for en
proof
  show "field_wf (OutputField a (FNestedConnection conn))"
    if "list_all field_wf nodes" "connection_shell en remote field path join cfs nodes = Inr conn" for remote nodes field path join cfs conn a
    using that by (auto simp: connection_shell_def Let_def)
qed (auto simp: column_field_wf object_query_def fields_wf_not_aggregate shell_from intro: with_fields_wf with_agg_fields_wf)

lemma walk_wf: "walk_table_selection k en ctx sel path = Inr fs \<Longrightarrow> list_all field_wf fs"
  using wf.walksD [OF wf.walk_good] by blast

lemma build_select_wf:
  assumes "build_select k en (walk_table_selection k en) ctx kind from field path = Inr q" "from_wf nested from"
  shows "query_wf nested q"
proof -
  obtain q0 fs where "select_shell en ctx kind from field path = Inr q0" "q = with_fields q0 fs"
    "if kind = KAggregate then list_all agg_field_wf fs else list_all field_wf fs"
    by (rule wf.build_select_good [OF wf.walk_good TrueI assms(1)])
  then show ?thesis using assms(2) by (auto simp: shell_from intro: with_fields_wf with_agg_fields_wf split: if_splits)
qed

lemma build_connection_wf:
  assumes "build_connection k en (walk_table_selection k en) ctx field path join = Inr conn"
  shows "conn_wf nested conn"
proof -
  obtain cfs nodes where "list_all field_wf nodes" "connection_shell en ctx field path join cfs nodes = Inr conn"
    by (rule wf.build_connection_good [OF wf.walk_good TrueI assms])
  then show ?thesis by (auto simp: connection_shell_def Let_def)
qed

section \<open>Roots\<close>

lemma function_from_shape: "function_from en fentry finfo field path = Inr from \<Longrightarrow> \<exists>s n args. from = FromFunction s n args"
  by (auto simp: function_from_def err_validation_def split: option.splits)

lemma root_source_wf: "root_source_of en field path kind src = Inr (ctx, from) \<Longrightarrow> from_wf False from"
  by (auto simp: root_source_of_def root_not_found_def Let_def dest!: function_from_shape split: root_source.splits option.splits if_splits)

lemma plan_node_wf: "plan_node k en field path = Inr r \<Longrightarrow> root_wf r"
  by (auto simp: plan_node_def err_validation_def dead_node_def Let_def fields_wf_not_aggregate dest!: walk_wf
      split: option.splits if_splits)

lemma plan_relay_root_wf: "plan_relay_root k en field path = Inr (Some r) \<Longrightarrow> root_wf r"
  by (auto simp: plan_relay_root_def dest!: plan_node_wf build_connection_wf [where nested = False]
      split: if_splits option.splits root_kind.splits root_source.splits)

lemma plan_root_wf: "plan_root k en field = Inr r \<Longrightarrow> root_wf r"
  by (auto simp: plan_root_def root_not_found_def Let_def simp del: append.simps
      dest!: plan_relay_root_wf build_select_wf root_source_wf split: if_splits option.splits)

lemma plan_query_wf: "plan_query k en sel = Inr rs \<Longrightarrow> list_all root_wf rs"
  by (auto simp: plan_query_def err_validation_def intro: plan_root_wf elim!: traverse_list_all split: if_splits)

lemma parse_output_wf: "parse_mutation_output k en ctx kind field path = Inr out \<Longrightarrow> output_wf out"
proof -
  have resp: "response_field en (walk_table_selection k en) sctx rt path sub = Inr f \<Longrightarrow>
      (case f of Returning _ flds \<Rightarrow> list_all field_wf flds | _ \<Rightarrow> True)" for sctx rt sub f
    by (auto simp: response_field_def Let_def dest!: walk_wf split: if_splits option.splits)
  show "parse_mutation_output k en ctx kind field path = Inr out \<Longrightarrow> output_wf out"
    by (auto simp: parse_mutation_output_def Let_def dest!: walk_wf resp elim!: traverse_list_all split: if_splits option.splits)
qed

lemma plan_insert_wf: "plan_insert k en pq ctx kind field path = Inr i \<Longrightarrow> output_wf (im_output i)"
  by (auto simp: plan_insert_def mutation_not_found_def err_validation_def dest!: parse_output_wf split: option.splits if_splits)

lemma plan_update_wf: "plan_update k en pq ctx kind field path = Inr u \<Longrightarrow> output_wf (um_output u)"
  by (auto simp: plan_update_def mutation_not_found_def err_validation_def Let_def dest!: parse_output_wf split: option.splits if_splits)

lemma plan_delete_wf: "plan_delete k en pq ctx kind field path = Inr d \<Longrightarrow> output_wf (dm_output d)"
  by (auto simp: plan_delete_def mutation_not_found_def err_validation_def dest!: parse_output_wf split: option.splits if_splits)

lemma function_mutation_wf:
  "try_plan_function_mutation k en field path = Some (Inr q) \<Longrightarrow> query_wf False q"
  by (auto simp: try_plan_function_mutation_def Let_def bind_eq_Some_conv dest!: function_from_shape elim!: build_select_wf split: if_splits)

lemma plan_mutation_root_wf: "plan_mutation_root k en pq field = Inr r \<Longrightarrow> mutation_wf r"
  by (auto simp: plan_mutation_root_def mutation_not_found_def err_validation_def Let_def simp del: append.simps
      dest!: plan_insert_wf plan_update_wf plan_delete_wf function_mutation_wf split: if_splits option.splits)

lemma plan_mutation_wf: "plan_mutation k en pq sel = Inr rs \<Longrightarrow> list_all mutation_wf rs"
  by (auto simp: plan_mutation_def err_validation_def intro: plan_mutation_root_wf elim!: traverse_list_all split: if_splits)

section \<open>Properties\<close>



end
