(* ===== verification/Authorization.thy ===== *)
theory Authorization
  imports Filter_Properties Plan_Walk Role_Properties
begin

text \<open>
  What the planner owes the metadata: a specification of which rows and cells a
  role may read, independent of how the planner computes filters and guards,
  and the proof that every plan keeps to it, at every depth of the selection.
\<close>

section \<open>The specification\<close>

text \<open>A permission admits the rows its filter keeps.\<close>

definition admits :: "plan_env \<Rightarrow> table_ctx \<Rightarrow> select_permission \<Rightarrow> database \<Rightarrow> row \<Rightarrow> bool" where
  "admits en ctx p db row \<longleftrightarrow> unrestricted (sp_filter p) \<or>
     (\<exists>path e. parse_bool_exp (en_extern en) (en_planner en) (sp_filter p) (filter_ctx_of ctx) (en_session en) True path = Inr e
        \<and> holds db row e)"

text \<open>A row is visible when one permission of the role admits it; a cell, when one that grants its column does.\<close>

definition row_visible :: "plan_env \<Rightarrow> table_ctx \<Rightarrow> database \<Rightarrow> row \<Rightarrow> bool" where
  "row_visible en ctx db row \<longleftrightarrow> (\<exists>p \<in> set (tx_perms ctx). admits en ctx p db row)"

definition cell_visible :: "plan_env \<Rightarrow> table_ctx \<Rightarrow> string \<Rightarrow> database \<Rightarrow> row \<Rightarrow> bool" where
  "cell_visible en ctx c db row \<longleftrightarrow> (\<exists>p \<in> set (tx_perms ctx). perm_grants_column p c \<and> admits en ctx p db row)"

definition computed_visible :: "plan_env \<Rightarrow> table_ctx \<Rightarrow> string \<Rightarrow> database \<Rightarrow> row \<Rightarrow> bool" where
  "computed_visible en ctx name db row \<longleftrightarrow>
     (\<exists>p \<in> set (tx_perms ctx). name \<in> set (sp_computed_fields p) \<and> admits en ctx p db row)"

text \<open>The tables of the role, with the permissions it has on them.\<close>

definition role_ctx :: "plan_env \<Rightarrow> table_ctx \<Rightarrow> bool" where
  "role_ctx en ctx \<longleftrightarrow> (\<exists>idx. table_ctx_of (en_planner en) idx (en_role en) = Some ctx)"

definition guarded_cell :: "plan_env \<Rightarrow> table_ctx \<Rightarrow> string \<Rightarrow> bool_exp option \<Rightarrow> bool" where
  "guarded_cell en ctx c g \<longleftrightarrow>
     (\<forall>db row. row_visible en ctx db row \<longrightarrow> holds_opt db row g \<longrightarrow> cell_visible en ctx c db row)"

definition rows_guarded :: "plan_env \<Rightarrow> table_ctx \<Rightarrow> bool_exp option \<Rightarrow> bool" where
  "rows_guarded en ctx p \<longleftrightarrow> (\<forall>db row. holds_opt db row p \<longrightarrow> row_visible en ctx db row)"

definition rows_limited :: "table_ctx \<Rightarrow> u64 option \<Rightarrow> bool" where
  "rows_limited ctx limit \<longleftrightarrow> (\<forall>l. select_perm_limit ctx = Some l \<longrightarrow> (\<exists>k. limit = Some k \<and> k \<le> l))"

definition reads :: "table_ctx \<Rightarrow> from_source \<Rightarrow> bool" where
  "reads ctx from \<longleftrightarrow> (case from of FromTable t \<Rightarrow> t = ctx_table ctx | _ \<Rightarrow> True)"

definition aggregate_secure :: "plan_env \<Rightarrow> table_ctx \<Rightarrow> aggregate_field \<Rightarrow> bool" where
  "aggregate_secure en ctx af \<longleftrightarrow>
     (case af_op af of
        Count _ cols \<Rightarrow> list_all (column_allowed ctx) cols
      | ColumnOp _ cols \<Rightarrow> list_all (\<lambda>ac. guarded_cell en ctx (ac_column ac) (ac_guard ac)) cols)"

text \<open>
  A secure query reads the table its context stands for, only visible rows of
  it, and at most as many as the role may see; its columns are readable in
  the rows they are read from; and the queries nested in it are secure for the
  tables they read. Columns under a hidden alias carry the keys of a remote
  relationship the role may follow and are not part of the response.
\<close>

inductive secure_field :: "plan_env \<Rightarrow> table_ctx \<Rightarrow> output_field \<Rightarrow> bool"
and secure_agg :: "plan_env \<Rightarrow> table_ctx \<Rightarrow> output_field \<Rightarrow> bool"
and secure_query :: "plan_env \<Rightarrow> table_ctx \<Rightarrow> select_query \<Rightarrow> bool"
for en where
  sf_typename: "secure_field en ctx (OutputField a (FTypename v))"
| sf_global_id: "pl_relay (en_planner en) \<Longrightarrow>
    secure_field en ctx (OutputField a (FRelayGlobalId (ti_schema (tx_info ctx)) (ti_name (tx_info ctx)) (pk_typed ctx)))"
| sf_column: "guarded_cell en ctx c None \<Longrightarrow> secure_field en ctx (OutputField a (FColumn c ty))"
| sf_guarded: "guarded_cell en ctx c (Some g) \<Longrightarrow> secure_field en ctx (OutputField a (FColumnGuarded c ty g))"
| sf_hidden: "rel \<in> set (te_remote_relationships (tx_entry ctx)) \<Longrightarrow> remote_permitted en rel \<Longrightarrow> c \<in> set (rr_hasura_fields rel) \<Longrightarrow>
    secure_field en ctx (OutputField (hidden_alias c) (FColumn c ty))"
| sf_remote: "rel \<in> set (te_remote_relationships (tx_entry ctx)) \<Longrightarrow> remote_permitted en rel \<Longrightarrow>
    rj_schema spec = rr_remote_schema rel \<Longrightarrow> secure_field en ctx (OutputField a (FRemoteJoin spec))"
| sf_computed: "(\<And>db row. row_visible en ctx db row \<Longrightarrow> holds_opt db row g \<Longrightarrow> computed_visible en ctx name db row) \<Longrightarrow>
    secure_field en ctx (OutputField a (FComputedScalar s n args g))"
| sf_object: "role_ctx en remote \<Longrightarrow> secure_query en remote q \<Longrightarrow> secure_field en ctx (OutputField a (FObject q join))"
| sf_array: "role_ctx en remote \<Longrightarrow> secure_query en remote q \<Longrightarrow> secure_field en ctx (OutputField a (FArray q join agg))"
| sf_connection: "role_ctx en remote \<Longrightarrow> secure_query en remote (cn_query conn) \<Longrightarrow>
    secure_field en ctx (OutputField a (FNestedConnection conn))"
| sa_typename: "secure_agg en ctx (OutputField a (FTypename v))"
| sa_aggregate: "(\<And>af. af \<in> set aggs \<Longrightarrow> aggregate_secure en ctx af) \<Longrightarrow> secure_agg en ctx (OutputField a (FAggregate aggs))"
| sa_nodes: "(\<And>f. f \<in> set fs \<Longrightarrow> secure_field en ctx f) \<Longrightarrow> secure_agg en ctx (OutputField a (FNodes fs))"
| sq_rows: "rows_guarded en ctx (sq_predicate q) \<Longrightarrow> reads ctx (sq_from q) \<Longrightarrow> sq_single q \<or> rows_limited ctx (sq_limit q) \<Longrightarrow>
    (\<And>f. f \<in> set (sq_fields q) \<Longrightarrow> secure_field en ctx f) \<Longrightarrow> secure_query en ctx q"
| sq_aggregates: "allow_aggregations ctx \<Longrightarrow> rows_guarded en ctx (sq_predicate q) \<Longrightarrow> reads ctx (sq_from q) \<Longrightarrow>
    sq_nodes_limit q = select_perm_limit ctx \<Longrightarrow>
    (\<And>f. f \<in> set (sq_fields q) \<Longrightarrow> secure_agg en ctx f) \<Longrightarrow> secure_query en ctx q"

fun root_secure :: "plan_env \<Rightarrow> root_field \<Rightarrow> bool" where
  "root_secure en (RSelect a q) \<longleftrightarrow> (\<exists>ctx. role_ctx en ctx \<and> secure_query en ctx q) \<or> (\<forall>db row. \<not> holds_opt db row (sq_predicate q))"
| "root_secure en (RConnection a conn) \<longleftrightarrow> (\<exists>ctx. role_ctx en ctx \<and> secure_query en ctx (cn_query conn))"
| "root_secure en (RTypename a t) \<longleftrightarrow> True"

section \<open>Filters and guards\<close>

lemma role_ctx_perms: "role_ctx en ctx \<Longrightarrow> tx_perms ctx \<noteq> []"
  by (auto simp: role_ctx_def table_ctx_of_def Let_def split: option.splits if_splits)

lemma role_ctx_by_name: "table_ctx_by_name (en_planner en) t (en_role en) = Some ctx \<Longrightarrow> role_ctx en ctx"
  by (auto simp: table_ctx_by_name_def role_ctx_def bind_eq_Some_conv)

lemma combined_admits:
  assumes "combined_filter (en_extern en) (en_planner en) ctx perms (en_session en) path = Inr g" "perms \<noteq> []" "holds_opt db row g"
  shows "\<exists>p \<in> set perms. admits en ctx p db row"
  using pg.sat_combined [OF assms(1) [unfolded combined_filter_def] assms(2), of db row] assms(3)
  by (auto simp: holds_opt_def admits_def)

lemma env_permission_guards:
  assumes "env_permission en ctx path = Inr g" "tx_perms ctx \<noteq> []" "holds_opt db row g"
  shows "row_visible en ctx db row"
  using combined_admits [OF _ assms(2,3)] assms(1) by (auto simp: env_permission_def permission_predicate_def row_visible_def)

lemma predicate_guarded:
  assumes "env_permission en ctx path = Inr perm" "tx_perms ctx \<noteq> []" "set (opt_list perm) \<subseteq> set es"
  shows "rows_guarded en ctx (predicate_of es)"
  unfolding rows_guarded_def
proof (intro allI impI)
  fix db row
  assume "holds_opt db row (predicate_of es)"
  then have "\<forall>e \<in> set es. holds db row e" by (simp add: holds_opt_def pg.sat_predicate_of)
  then have "holds_opt db row perm" using assms(3) by (auto simp: holds_opt_def simp flip: pg.sat_opt_list)
  then show "row_visible en ctx db row" by (rule env_permission_guards [OF assms(1,2)])
qed

lemma filter_all: "\<not> (1 < length xs \<and> length (filter P xs) < length xs) \<Longrightarrow> filter P xs \<noteq> [] \<Longrightarrow> filter P xs = xs"
proof (cases "1 < length xs")
  case True
  moreover assume "\<not> (1 < length xs \<and> length (filter P xs) < length xs)"
  ultimately show ?thesis by (metis filter_True length_filter_less)
next
  case False
  moreover assume "filter P xs \<noteq> []"
  ultimately show ?thesis by (cases xs) (auto split: if_splits)
qed

lemma guard_for_admits:
  assumes "guard_for en ctx (filter P (tx_perms ctx)) path = Inr g" "filter P (tx_perms ctx) \<noteq> []"
    and "row_visible en ctx db row" "holds_opt db row g"
  shows "\<exists>p \<in> set (tx_perms ctx). P p \<and> admits en ctx p db row"
proof (cases "1 < length (tx_perms ctx) \<and> length (filter P (tx_perms ctx)) < length (tx_perms ctx)")
  case True
  then have "combined_filter (en_extern en) (en_planner en) ctx (filter P (tx_perms ctx)) (en_session en) path = Inr g"
    using assms(1) by (simp add: guard_for_def)
  then show ?thesis using combined_admits [OF _ assms(2,4)] by force
next
  case False
  then have "\<forall>p \<in> set (tx_perms ctx). P p" using filter_all [OF False assms(2)] by (metis filter_id_conv)
  then show ?thesis using assms(3) by (auto simp: row_visible_def)
qed

lemma guard_for_cell:
  assumes "guard_for en ctx (granting_perms ctx c) path = Inr g" "column_allowed ctx c" "tx_perms ctx \<noteq> []"
  shows "guarded_cell en ctx c g"
  unfolding guarded_cell_def cell_visible_def
  using guard_for_admits [OF assms(1) [unfolded granting_perms_def]] assms(2,3)
  by (auto simp: column_allowed_def list_ex_iff filter_empty_conv)

lemma select_shell_guarded:
  assumes "select_shell en ctx kind from field path = Inr q" "tx_perms ctx \<noteq> []"
  shows "rows_guarded en ctx (sq_predicate q)"
proof -
  obtain sa perm where "foldR (select_arg en ctx kind from path) no_args (gf_arguments field) = Inr sa"
    and perm: "env_permission en ctx path = Inr perm"
    and q: "sq_predicate q = predicate_of (sa_pk sa @ opt_list (sa_where sa) @ opt_list perm)"
    using assms(1) by (auto simp: select_shell_def Let_def err_validation_def split: option.splits)
  show ?thesis unfolding q by (rule predicate_guarded [OF perm assms(2)]) auto
qed

lemma select_shell_parts:
  assumes "select_shell en ctx kind from field path = Inr q"
  shows "sq_from q = from" "sq_single q = (kind = KByPk)" "kind = KSelect \<Longrightarrow> rows_limited ctx (sq_limit q)"
    and "kind = KAggregate \<Longrightarrow> sq_nodes_limit q = select_perm_limit ctx"
  using assms
  by (auto simp: select_shell_def Let_def err_validation_def rows_limited_def cap_limit_def min_def split: option.splits)

section \<open>Every step of the walk keeps to it\<close>

lemma column_field_secure:
  assumes "column_field en ctx path field = Inr f" "column_allowed ctx (gf_name field)" "tx_perms ctx \<noteq> []"
  shows "secure_field en ctx f"
proof -
  obtain g ty where g: "guard_for en ctx (granting_perms ctx (gf_name field)) path = Inr g"
    and f: "f = OutputField (field_alias field) (case g of Some g \<Rightarrow> FColumnGuarded (gf_name field) ty g | None \<Rightarrow> FColumn (gf_name field) ty)"
    using assms(1) by (auto simp: column_field_def dest!: table_column_name split: list.splits option.splits)
  show ?thesis using guard_for_cell [OF g assms(2,3)] by (cases g) (auto simp: f intro: sf_column sf_guarded)
qed

lemma aggregate_column_secure:
  "aggregate_column_of en ctx path f = Inr ac \<Longrightarrow> tx_perms ctx \<noteq> [] \<Longrightarrow> guarded_cell en ctx (ac_column ac) (ac_guard ac)"
  using guard_for_cell by (auto simp: aggregate_column_of_def dest!: table_column_name split: if_splits option.splits)

lemma count_args_allowed:
  assumes "foldR (count_arg en ctx path) (False, []) args = Inr (d, cols)"
  shows "list_all (column_allowed ctx) cols"
proof -
  have arg: "column_arg ctx path item = Inr c \<Longrightarrow> column_allowed ctx c" for item c
    by (auto simp: column_arg_def err_validation_def split: option.splits if_splits)
  have "list_all (column_allowed ctx) (snd t)"
    if "list_all (column_allowed ctx) (snd s)" "count_arg en ctx path s a = Inr t" for s a t
    using that by (auto simp: count_arg_def err_validation_def parse_columns_arg_def dest!: arg elim!: traverse_list_all split: if_splits)
  then show ?thesis using foldR_invariant [OF assms, where I = "\<lambda>s. list_all (column_allowed ctx) (snd s)"] by auto
qed

lemma aggregate_field_secure:
  assumes "aggregate_field_of k en ctx path field = Inr af" "tx_perms ctx \<noteq> []"
  shows "aggregate_secure en ctx af"
  using assms aggregate_column_secure
  by (auto simp: aggregate_field_of_def aggregate_secure_def Let_def dest: count_args_allowed elim!: traverse_list_all split: if_splits)

lemma connection_shell_secure:
  assumes "connection_shell en ctx field path join cfs nodes = Inr conn" "tx_perms ctx \<noteq> []" "list_all (secure_field en ctx) nodes"
  shows "secure_query en ctx (cn_query conn)"
  using assms
  by (auto simp: connection_shell_def Let_def reads_def rows_limited_def list_all_iff intro!: sq_rows predicate_guarded)

lemma object_query_secure:
  assumes "env_permission en ctx path = Inr p" "tx_perms ctx \<noteq> []" "list_all (secure_field en ctx) fs"
  shows "secure_query en ctx (object_query ctx fs p)"
  using assms env_permission_guards
  by (auto simp: object_query_def reads_def rows_guarded_def list_all_iff intro!: sq_rows)

lemma rows_secure:
  assumes "select_shell en ctx kind from field path = Inr q" "role_ctx en ctx" "kind \<noteq> KAggregate" "reads ctx from"
    and "list_all (secure_field en ctx) fs"
  shows "secure_query en ctx (with_fields q fs)"
proof (rule sq_rows)
  note shell = select_shell_parts [OF assms(1)]
  show "rows_guarded en ctx (sq_predicate (with_fields q fs))"
    using select_shell_guarded [OF assms(1) role_ctx_perms [OF assms(2)]] by simp
  show "reads ctx (sq_from (with_fields q fs))" using shell(1) assms(4) by simp
  show "sq_single (with_fields q fs) \<or> rows_limited ctx (sq_limit (with_fields q fs))"
    using shell(2,3) assms(3) by (cases kind) auto
qed (use assms(5) in \<open>simp add: list_all_iff\<close>)

lemma aggregates_secure:
  assumes "select_shell en ctx KAggregate from field path = Inr q" "role_ctx en ctx" "allow_aggregations ctx" "reads ctx from"
    and "list_all (secure_agg en ctx) fs"
  shows "secure_query en ctx (with_fields q fs)"
proof (rule sq_aggregates)
  show "rows_guarded en ctx (sq_predicate (with_fields q fs))"
    using select_shell_guarded [OF assms(1) role_ctx_perms [OF assms(2)]] by simp
qed (use assms(3-5) select_shell_parts [OF assms(1)] in \<open>simp_all add: list_all_iff\<close>)

lemma parse_aggregates_secure:
  assumes "parse_aggregate_fields k en ctx sel path = Inr aggs" "tx_perms ctx \<noteq> []"
  shows "secure_agg en ctx (OutputField a (FAggregate aggs))"
proof -
  obtain fs where "traverse (aggregate_field_of k en ctx path) fs = Inr aggs"
    using assms(1) by (auto simp: parse_aggregate_fields_def)
  then have "list_all (aggregate_secure en ctx) aggs"
    by (rule traverse_list_all) (rule aggregate_field_secure [OF _ assms(2)])
  then show ?thesis by (auto simp: list_all_iff intro: sa_aggregate)
qed

lemma computed_secure:
  assumes "guard_for en ctx (computed_granting ctx name) path = Inr g" "computed_field_allowed ctx name"
  shows "secure_field en ctx (OutputField a (FComputedScalar s n args g))"
proof (rule sf_computed)
  fix db row
  assume "row_visible en ctx db row" "holds_opt db row g"
  moreover have "filter (\<lambda>p. name \<in> set (sp_computed_fields p)) (tx_perms ctx) \<noteq> []"
    using assms(2) by (auto simp: computed_field_allowed_def list_ex_iff filter_empty_conv)
  ultimately show "computed_visible en ctx name db row"
    using guard_for_admits [OF assms(1) [unfolded computed_granting_def]] by (auto simp: computed_visible_def)
qed

interpretation secure: field_invariant en "role_ctx en" "secure_field en" "secure_agg en" for en
proof
  fix ctx remote q fs field path j a nodes cfs conn rel c info
  show "role_ctx en remote \<Longrightarrow> select_shell en remote KSelect (FromTable (ctx_table remote)) field path = Inr q \<Longrightarrow>
      list_all (secure_field en remote) fs \<Longrightarrow> secure_field en ctx (OutputField a (FArray (with_fields q fs) j False))"
    by (rule sf_array [OF _ rows_secure]) (auto simp: reads_def)
  show "role_ctx en remote \<Longrightarrow> select_shell en remote KSelect (FromRowFunction s n args) field path = Inr q \<Longrightarrow>
      list_all (secure_field en remote) fs \<Longrightarrow> secure_field en ctx (OutputField a (FArray (with_fields q fs) j False))" for s n args
    by (rule sf_array [OF _ rows_secure]) (auto simp: reads_def)
  show "role_ctx en remote \<Longrightarrow> allow_aggregations remote \<Longrightarrow>
      select_shell en remote KAggregate (FromTable (ctx_table remote)) field path = Inr q \<Longrightarrow> list_all (secure_agg en remote) fs \<Longrightarrow>
      secure_field en ctx (OutputField a (FArray (with_fields q fs) j True))"
    by (rule sf_array [OF _ aggregates_secure]) (auto simp: reads_def)
  show "role_ctx en remote \<Longrightarrow> list_all (secure_field en remote) nodes \<Longrightarrow> connection_shell en remote field path j cfs nodes = Inr conn \<Longrightarrow>
      secure_field en ctx (OutputField a (FNestedConnection conn))"
    by (rule sf_connection [OF _ connection_shell_secure]) (auto dest: role_ctx_perms)
  show "role_ctx en remote \<Longrightarrow> list_all (secure_field en remote) fs \<Longrightarrow> env_permission en remote path = Inr p \<Longrightarrow>
      secure_field en ctx (OutputField a (FObject (object_query remote fs p) j))" for p
    by (rule sf_object [OF _ object_query_secure]) (auto dest: role_ctx_perms)
  show "rel \<in> set (te_remote_relationships (tx_entry ctx)) \<Longrightarrow> remote_permitted en rel \<Longrightarrow> c \<in> set (rr_hasura_fields rel) \<Longrightarrow>
      table_column (tx_info ctx) c = Some info \<Longrightarrow>
      secure_field en ctx (OutputField (hidden_alias c) (FColumn (ci_name info) (ci_pg_type info)))"
    using sf_hidden by (simp add: table_column_name)
qed (auto intro: sf_typename sf_global_id sf_remote sa_typename sa_nodes role_ctx_by_name computed_secure
      dest: role_ctx_perms column_field_secure parse_aggregates_secure simp: list_all_iff)

section \<open>Roots\<close>

lemma walk_secure: "role_ctx en ctx \<Longrightarrow> walk_table_selection k en ctx sel path = Inr fs \<Longrightarrow> list_all (secure_field en ctx) fs"
  using secure.walksD [OF secure.walk_good] by blast

lemma build_select_secure:
  assumes "build_select k en (walk_table_selection k en) ctx kind from field path = Inr q" "role_ctx en ctx" "reads ctx from"
    and "kind = KAggregate \<Longrightarrow> allow_aggregations ctx"
  shows "secure_query en ctx q"
proof -
  obtain q0 fs where shell: "select_shell en ctx kind from field path = Inr q0" and q: "q = with_fields q0 fs"
    and fs: "if kind = KAggregate then list_all (secure_agg en ctx) fs else list_all (secure_field en ctx) fs"
    by (rule secure.build_select_good [OF secure.walk_good assms(2,1)])
  show ?thesis
  proof (cases "kind = KAggregate")
    case True
    then show ?thesis using aggregates_secure [OF shell [unfolded True] assms(2) assms(4) assms(3)] fs q by simp
  next
    case False
    then show ?thesis using rows_secure [OF shell assms(2) False assms(3)] fs q by simp
  qed
qed

lemma build_connection_secure:
  assumes "build_connection k en (walk_table_selection k en) ctx field path join = Inr conn" "role_ctx en ctx"
  shows "secure_query en ctx (cn_query conn)"
proof -
  obtain cfs nodes where "list_all (secure_field en ctx) nodes" "connection_shell en ctx field path join cfs nodes = Inr conn"
    by (rule secure.build_connection_good [OF secure.walk_good assms(2,1)])
  then show ?thesis using connection_shell_secure role_ctx_perms [OF assms(2)] by blast
qed

lemma root_source_secure:
  "root_source_of en field path kind src = Inr (ctx, from) \<Longrightarrow> role_ctx en ctx \<and> reads ctx from"
  by (auto simp: root_source_of_def root_not_found_def Let_def role_ctx_def reads_def table_ctx_by_name_def bind_eq_Some_conv
      function_from_def err_validation_def split: root_source.splits option.splits if_splits)

lemma plan_node_secure:
  assumes "plan_node k en field path = Inr r"
  shows "root_secure en r"
proof -
  consider "r = dead_node (field_alias field)"
    | ctx pks perm fs where "role_ctx en ctx" "env_permission en ctx path = Inr perm"
      "walk_table_selection k en ctx (gf_selection_set field) path = Inr fs"
      "r = RSelect (field_alias field) (SelectQuery (FromTable (ctx_table ctx)) fs (Some (And (pks @ opt_list perm))) [] None None None [] True)"
    using assms by (auto simp: plan_node_def err_validation_def Let_def dest!: role_ctx_by_name split: option.splits if_splits)
  then show ?thesis
  proof cases
    case 1
    then show ?thesis by (simp add: dead_node_def holds_opt_def holds_def)
  next
    case (2 ctx pks perm fs)
    have "rows_guarded en ctx (Some (And (pks @ opt_list perm)))"
      using env_permission_guards [OF 2(2) role_ctx_perms [OF 2(1)]]
      by (auto simp: rows_guarded_def holds_opt_def pg.sat_And simp flip: pg.sat_opt_list)
    then have "secure_query en ctx (SelectQuery (FromTable (ctx_table ctx)) fs (Some (And (pks @ opt_list perm))) [] None None None [] True)"
      using walk_secure [OF 2(1,3)] by (auto simp: reads_def list_all_iff intro: sq_rows)
    then show ?thesis using 2(1,4) by auto
  qed
qed

lemma plan_relay_root_secure:
  assumes "plan_relay_root k en field path = Inr (Some r)"
  shows "root_secure en r"
proof (cases "gf_name field = ''node''")
  case True
  then show ?thesis using assms plan_node_secure by (auto simp: plan_relay_root_def)
next
  case False
  then obtain idx ctx conn where "table_ctx_of (en_planner en) idx (en_role en) = Some ctx"
    and "build_connection k en (walk_table_selection k en) ctx field path [] = Inr conn" and "r = RConnection (field_alias field) conn"
    using assms by (auto simp: plan_relay_root_def split: if_splits option.splits root_kind.splits root_source.splits)
  moreover from this have "role_ctx en ctx" by (auto simp: role_ctx_def)
  ultimately show ?thesis using build_connection_secure by auto
qed

lemma plan_root_secure:
  assumes "plan_root k en field = Inr r"
  shows "root_secure en r"
proof -
  let ?path = "''$.selectionSet.'' @ gf_name field"
  consider a t where "r = RTypename a t" | "plan_relay_root k en field ?path = Inr (Some r)"
    | kind src ctx f q where "root_source_of en field ?path kind src = Inr (ctx, f)" "\<not> (kind = KAggregate \<and> \<not> allow_aggregations ctx)"
      "build_select k en (walk_table_selection k en) ctx kind f field ?path = Inr q" "r = RSelect (field_alias field) q"
    using assms by (auto simp: plan_root_def root_not_found_def Let_def simp del: append.simps split: if_splits option.splits)
  then show ?thesis
  proof cases
    case (3 kind src ctx f q)
    have "role_ctx en ctx" "reads ctx f" using root_source_secure [OF 3(1)] by auto
    then have "secure_query en ctx q" using build_select_secure [OF 3(3)] 3(2) by blast
    then show ?thesis using \<open>role_ctx en ctx\<close> 3(4) by auto
  qed (use plan_relay_root_secure in auto)
qed

section \<open>Properties\<close>

lemma plan_query_secure:
  assumes "plan_query k en sel = Inr rs"
  shows "list_all (root_secure en) rs"
proof -
  obtain fs where "traverse (plan_root k en) fs = Inr rs"
    using assms by (auto simp: plan_query_def err_validation_def split: if_splits)
  then show ?thesis by (rule traverse_list_all) (rule plan_root_secure)
qed



fun output_secure :: "plan_env \<Rightarrow> mutation_output \<Rightarrow> bool" where
  "output_secure en (SingleRow fs) \<longleftrightarrow> (\<exists>ctx. role_ctx en ctx \<and> list_all (secure_field en ctx) fs)"
| "output_secure en (Response rs) \<longleftrightarrow> list_all (\<lambda>r. case r of
     Returning _ fs \<Rightarrow> (\<exists>ctx. role_ctx en ctx \<and> list_all (secure_field en ctx) fs) | _ \<Rightarrow> True) rs"

fun mutation_secure :: "plan_env \<Rightarrow> mutation_root \<Rightarrow> bool" where
  "mutation_secure en (FunctionCall _ q) \<longleftrightarrow> (\<exists>ctx. role_ctx en ctx \<and> secure_query en ctx q)"
| "mutation_secure en (Insert _ i) \<longleftrightarrow> output_secure en (im_output i)"
| "mutation_secure en (Update _ u) \<longleftrightarrow> output_secure en (um_output u)"
| "mutation_secure en (Delete _ d) \<longleftrightarrow> output_secure en (dm_output d)"
| "mutation_secure en (MutTypename _ _) \<longleftrightarrow> True"

lemma response_field_secure:
  assumes "response_field en (walk_table_selection k en) sctx rt path sub = Inr r" "\<And>ctx. sctx = Some ctx \<Longrightarrow> role_ctx en ctx"
  shows "case r of Returning _ fs \<Rightarrow> (\<exists>ctx. role_ctx en ctx \<and> list_all (secure_field en ctx) fs) | _ \<Rightarrow> True"
  using assms walk_secure by (fastforce simp: response_field_def Let_def split: if_splits option.splits)

lemma role_ctx_relationship: "relationship_ctx (en_planner en) t (en_session en) False = Some ctx \<Longrightarrow> role_ctx en ctx"
  by (auto simp: relationship_ctx_def role_ctx_def bind_eq_Some_conv)

lemma parse_output_secure:
  assumes "parse_mutation_output k en ctx kind field path = Inr out"
  shows "output_secure en out"
proof (cases "is_single kind")
  case True
  then obtain sctx fs where "role_ctx en sctx" "walk_table_selection k en sctx (gf_selection_set field) path = Inr fs" "out = SingleRow fs"
    using assms by (auto simp: parse_mutation_output_def Let_def dest!: role_ctx_relationship split: option.splits)
  then show ?thesis using walk_secure by auto
next
  case False
  let ?sctx = "relationship_ctx (en_planner en) (Qualified (ti_schema (tx_info ctx)) (ti_name (tx_info ctx))) (en_session en) False"
  obtain subs rt rs where "traverse (response_field en (walk_table_selection k en) ?sctx rt path) subs = Inr rs" "out = Response rs"
    using False assms by (auto simp: parse_mutation_output_def Let_def)
  then show ?thesis
    by (auto intro!: traverse_list_all [of _ subs rs] response_field_secure [OF _ role_ctx_relationship])
qed

lemma plan_insert_output: "plan_insert k en pq ctx kind field path = Inr i \<Longrightarrow> output_secure en (im_output i)"
  by (auto simp: plan_insert_def mutation_not_found_def err_validation_def dest!: parse_output_secure split: option.splits if_splits)

lemma plan_update_output: "plan_update k en pq ctx kind field path = Inr u \<Longrightarrow> output_secure en (um_output u)"
  by (auto simp: plan_update_def mutation_not_found_def err_validation_def Let_def dest!: parse_output_secure split: option.splits if_splits)

lemma plan_delete_output: "plan_delete k en pq ctx kind field path = Inr d \<Longrightarrow> output_secure en (dm_output d)"
  by (auto simp: plan_delete_def mutation_not_found_def err_validation_def dest!: parse_output_secure split: option.splits if_splits)

lemma function_mutation_secure:
  assumes "try_plan_function_mutation k en field path = Some (Inr q)"
  shows "\<exists>ctx. role_ctx en ctx \<and> secure_query en ctx q"
proof -
  obtain fentry finfo t ctx f where "table_ctx_by_name (en_planner en) t (en_role en) = Some ctx"
    and "function_from en fentry finfo field path = Inr f"
    and "build_select k en (walk_table_selection k en) ctx KSelect f field path = Inr q"
    using assms by (auto simp: try_plan_function_mutation_def Let_def bind_eq_Some_conv split: if_splits)
  moreover from this have "role_ctx en ctx" "reads ctx f"
    by (auto simp: role_ctx_by_name reads_def function_from_def err_validation_def split: option.splits)
  ultimately show ?thesis using build_select_secure by blast
qed

lemma plan_mutation_root_secure: "plan_mutation_root k en pq field = Inr r \<Longrightarrow> mutation_secure en r"
  by (auto simp: plan_mutation_root_def mutation_not_found_def err_validation_def Let_def simp del: append.simps
      dest!: plan_insert_output plan_update_output plan_delete_output function_mutation_secure split: if_splits option.splits)

lemma plan_mutation_roots:
  assumes "plan_mutation k en pq sel = Inr rs" "\<And>field r. plan_mutation_root k en pq field = Inr r \<Longrightarrow> P r"
  shows "list_all P rs"
proof -
  obtain fs where "traverse (plan_mutation_root k en pq) fs = Inr rs"
    using assms by (auto simp: plan_mutation_def err_validation_def split: if_splits)
  then show ?thesis by (rule traverse_list_all) (rule assms(2))
qed


definition sample_delete :: "selection list" where
  "sample_delete = [nested_field ''delete_article'' [(''where'', GObject [])]
     [nested_field ''returning'' [] [leaf_field ''title'', nested_field ''author'' [] [leaf_field ''name'']]]]"


end
