(* ===== verification/Plan_Injection.thy ===== *)
theory Plan_Injection
  imports Filter_Properties Plan_Walk Plan_Wf
begin

text \<open>
  From request to SQL: which strings of a request reach the SQL unquoted. The
  planner passes on only operators and aggregate names it knows, except for the
  function of an order by a relationship's aggregate, which is the client's key.
\<close>

section \<open>Orders by aggregates\<close>

fun target_orders_plain :: "order_by_target \<Rightarrow> bool" where
  "target_orders_plain (OrderRelationshipAggregate _ _ f _ _) = plain f"
| "target_orders_plain _ = True"

fun query_orders_plain :: "select_query \<Rightarrow> bool"
and field_orders_plain :: "output_field \<Rightarrow> bool"
and value_orders_plain :: "field_value \<Rightarrow> bool"
and conn_orders_plain :: "connection \<Rightarrow> bool" where
  "query_orders_plain (SelectQuery f fs p obs l nl off d s) \<longleftrightarrow>
     list_all field_orders_plain fs \<and> list_all (\<lambda>ob. target_orders_plain (ob_target ob)) obs"
| "field_orders_plain (OutputField a v) = value_orders_plain v"
| "value_orders_plain (FObject q j) = query_orders_plain q"
| "value_orders_plain (FArray q j b) = query_orders_plain q"
| "value_orders_plain (FNodes fs) = list_all field_orders_plain fs"
| "value_orders_plain (FNestedConnection c) = conn_orders_plain c"
| "value_orders_plain v = True"
| "conn_orders_plain (Connection q j pk s t fs page) = query_orders_plain q"

fun root_orders_plain :: "root_field \<Rightarrow> bool" where
  "root_orders_plain (RSelect _ q) = query_orders_plain q"
| "root_orders_plain (RConnection _ c) = conn_orders_plain c"
| "root_orders_plain (RTypename _ _) = True"

text \<open>Relay ids write the names of a table into a literal without escaping.\<close>

definition quote_free_tables :: "planner \<Rightarrow> bool" where
  "quote_free_tables pl \<longleftrightarrow>
     (pl_relay pl \<longrightarrow> list_all (\<lambda>(_, t). sq \<notin> set (ti_schema t) \<and> sq \<notin> set (ti_name t)) (cat_tables (pl_catalog pl)))"

definition names_ok :: "plan_env \<Rightarrow> table_ctx \<Rightarrow> bool" where
  "names_ok en ctx \<longleftrightarrow> (pl_relay (en_planner en) \<longrightarrow> sq \<notin> set (ti_schema (tx_info ctx)) \<and> sq \<notin> set (ti_name (tx_info ctx)))"

section \<open>Predicates and orders of a plan\<close>

lemma opt_raw_ok_iff [simp]: "opt_raw_ok p \<longleftrightarrow> pred_option exp_raw_ok p"
  by (cases p) (simp_all add: opt_raw_ok_def)

lemma predicate_of_raw_ok: "pred_option exp_raw_ok (predicate_of es) \<longleftrightarrow> list_all exp_raw_ok es"
  by (cases es rule: predicate_of.cases) auto

lemma opt_list_raw_ok: "list_all exp_raw_ok (opt_list p) \<longleftrightarrow> pred_option exp_raw_ok p"
  by (cases p) (simp_all add: opt_list_def)

lemma combined_raw_ok:
  assumes "combined_filter x pl ctx perms se path = Inr g"
  shows "pred_option exp_raw_ok g"
proof (cases g)
  case (Some e)
  then obtain es where es: "filter_parts (\<lambda>f. parse_bool_exp x pl f (filter_ctx_of ctx) se True path) perms = Inr (Some es)" "e = disj_of es"
    using assms by (auto simp: combined_filter_def combined_with_def split: if_splits)
  have "exp_raw_ok d" if "d \<in> set es" for d
    using filter_parts_member [OF es(1) that] parse_raw_ok by blast
  then show ?thesis using Some es(2) by (simp add: disj_of_raw_ok list_all_iff)
qed simp

lemma env_permission_raw_ok: "env_permission en ctx path = Inr p \<Longrightarrow> pred_option exp_raw_ok p"
  by (auto simp: env_permission_def permission_predicate_def dest: combined_raw_ok)

lemma guard_for_raw_ok: "guard_for en ctx granting path = Inr g \<Longrightarrow> pred_option exp_raw_ok g"
  by (auto simp: guard_for_def dest: combined_raw_ok split: if_splits)

definition order_raw_ok :: "order_by \<Rightarrow> bool" where
  "order_raw_ok ob \<longleftrightarrow> (target_orders_plain (ob_target ob) \<longrightarrow> target_raw_ok (ob_target ob))"

lemma remote_order_raw_ok:
  "traverse (remote_order_item remote target path) m = Inr obs \<Longrightarrow> (\<And>c. target_orders_plain (target c) \<Longrightarrow> target_raw_ok (target c)) \<Longrightarrow>
     list_all order_raw_ok obs"
  by (erule traverse_list_all) (auto simp: remote_order_item_def order_item_def order_raw_ok_def split: if_splits)

lemma aggregate_order_raw_ok:
  assumes "aggregate_order remote join p path e = Inr obs" "pred_option exp_raw_ok p"
  shows "list_all order_raw_ok obs"
  using assms
  by (auto simp: aggregate_order_def order_item_def order_raw_ok_def err_validation_def
      elim!: remote_order_raw_ok split: if_splits option.splits)

lemma order_key_raw_ok:
  assumes "order_key en ctx path e = Inr obs"
  shows "list_all order_raw_ok obs"
proof -
  consider "column_allowed ctx (fst e)" "bindR (order_item (OrderColumn (fst e)) (snd e) path) (\<lambda>ob. Inr [ob]) = Inr obs"
    | remote j p m obss where "env_permission en remote path = Inr p" "traverse (aggregate_order remote j p path) m = Inr obss" "obs = concat obss"
    | remote j p m where "env_permission en remote path = Inr p"
        "traverse (remote_order_item remote (\<lambda>col. OrderRelationship (ctx_table remote) j col p) path) m = Inr obs"
    using assms by (auto simp: order_key_def order_relationship_def err_validation_def Let_def split: if_splits option.splits)
  then show ?thesis
  proof cases
    case (2 remote j p m obss)
    have "list_all (list_all order_raw_ok) obss"
      by (rule traverse_list_all [OF 2(2)]) (rule aggregate_order_raw_ok [OF _ env_permission_raw_ok [OF 2(1)]])
    then show ?thesis using 2(3) by (auto simp: list_all_iff)
  next
    case (3 remote j p m)
    show ?thesis by (rule remote_order_raw_ok [OF 3(2)]) (simp add: env_permission_raw_ok [OF 3(1)])
  qed (auto simp: order_item_def order_raw_ok_def)
qed

lemma parse_order_by_raw_ok:
  assumes "parse_order_by en v ctx path = Inr obs"
  shows "list_all order_raw_ok obs"
proof -
  let ?f = "\<lambda>item. case as_object item of None \<Rightarrow> err_validation path ''expected an order_by object''
        | Some m \<Rightarrow> bindR (traverse (order_key en ctx path) m) (\<lambda>obs. Inr (concat obs))"
  obtain obss where obss: "traverse ?f (items_of v) = Inr obss" "obs = concat obss"
    using assms by (auto simp: parse_order_by_def)
  have "list_all (list_all order_raw_ok) obss"
  proof (rule traverse_list_all [OF obss(1)])
    fix item obs
    assume "?f item = Inr obs"
    then obtain m xs where m: "traverse (order_key en ctx path) m = Inr xs" "obs = concat xs"
      by (auto simp: err_validation_def split: option.splits)
    have "list_all (list_all order_raw_ok) xs" by (rule traverse_list_all [OF m(1)]) (rule order_key_raw_ok)
    then show "list_all order_raw_ok obs" using m(2) by (auto simp: list_all_iff)
  qed
  then show ?thesis using obss(2) by (auto simp: list_all_iff)
qed

definition args_raw_ok :: "select_args \<Rightarrow> bool" where
  "args_raw_ok sa \<longleftrightarrow> list_all exp_raw_ok (sa_pk sa) \<and> pred_option exp_raw_ok (sa_where sa) \<and> list_all order_raw_ok (sa_order_by sa)"

lemma select_arg_raw_ok: "args_raw_ok sa \<Longrightarrow> select_arg en ctx kind from path sa a = Inr sb \<Longrightarrow> args_raw_ok sb"
  by (auto simp: select_arg_def args_raw_ok_def Let_def err_validation_def dest!: parse_raw_ok parse_order_by_raw_ok
      split: if_splits option.splits)

lemma distinct_prefix_raw_ok: "list_all order_raw_ok (distinct_prefix cols obs) \<longleftrightarrow> list_all order_raw_ok obs"
  by (auto simp: distinct_prefix_def order_raw_ok_def list_all_iff)

lemma select_shell_raw_ok:
  assumes "select_shell en ctx kind from field path = Inr q"
  shows "pred_option exp_raw_ok (sq_predicate q) \<and> list_all order_raw_ok (sq_order_by q)"
proof -
  obtain sa perm where sa: "foldR (select_arg en ctx kind from path) no_args (gf_arguments field) = Inr sa"
    and perm: "env_permission en ctx path = Inr perm"
    and q: "sq_predicate q = predicate_of (sa_pk sa @ opt_list (sa_where sa) @ opt_list perm)"
      "sq_order_by q = (if sa_distinct_on sa = [] then sa_order_by sa else distinct_prefix (sa_distinct_on sa) (sa_order_by sa))"
    using assms by (auto simp: select_shell_def Let_def err_validation_def split: option.splits)
  have "args_raw_ok sa"
    by (rule foldR_invariant [OF sa]) (simp add: args_raw_ok_def no_args_def, erule select_arg_raw_ok, assumption)
  then show ?thesis using env_permission_raw_ok [OF perm] q
    by (auto simp: args_raw_ok_def predicate_of_raw_ok opt_list_raw_ok distinct_prefix_raw_ok)
qed

definition conn_args_raw_ok :: "conn_args \<Rightarrow> bool" where
  "conn_args_raw_ok ca \<longleftrightarrow> pred_option exp_raw_ok (ca_where ca) \<and> list_all order_raw_ok (ca_order_by ca)"

lemma conn_arg_raw_ok: "conn_args_raw_ok ca \<Longrightarrow> conn_arg en ctx path ca a = Inr cb \<Longrightarrow> conn_args_raw_ok cb"
  by (auto simp: conn_arg_def conn_args_raw_ok_def Let_def err_validation_def dest!: parse_raw_ok parse_order_by_raw_ok
      split: if_splits option.splits)

lemma cursor_conds_raw_ok: "cursor_conds x op pk raw path = Inr es \<Longrightarrow> (\<And>s. op_raw_ok (op s)) \<Longrightarrow> list_all exp_raw_ok es"
  by (auto simp: cursor_conds_def decode_cursor_def err_validation_def list_all_iff split: option.splits)

lemma connection_shell_raw_ok:
  assumes "connection_shell en ctx field path join cfs nodes = Inr conn"
  shows "sq_fields (cn_query conn) = nodes \<and> pred_option exp_raw_ok (sq_predicate (cn_query conn))
    \<and> list_all order_raw_ok (sq_order_by (cn_query conn))"
proof -
  obtain ca a b perm where ca: "foldR (conn_arg en ctx path) no_conn_args (gf_arguments field) = Inr ca"
    and a: "cursor_conds (en_extern en) Gt (pk_typed ctx) (ca_after ca) path = Inr a"
    and b: "cursor_conds (en_extern en) Lt (pk_typed ctx) (ca_before ca) path = Inr b"
    and perm: "env_permission en ctx path = Inr perm"
    and q: "sq_fields (cn_query conn) = nodes" "sq_order_by (cn_query conn) = ca_order_by ca"
      "sq_predicate (cn_query conn) = predicate_of (opt_list (ca_where ca) @ a @ b @ opt_list perm)"
    using assms by (auto simp: connection_shell_def Let_def)
  have "conn_args_raw_ok ca"
    by (rule foldR_invariant [OF ca]) (simp add: conn_args_raw_ok_def no_conn_args_def, erule conn_arg_raw_ok, assumption)
  then show ?thesis using cursor_conds_raw_ok [OF a] cursor_conds_raw_ok [OF b] env_permission_raw_ok [OF perm] q
    by (auto simp: conn_args_raw_ok_def predicate_of_raw_ok opt_list_raw_ok)
qed

section \<open>Fields\<close>

definition safe_field :: "output_field \<Rightarrow> bool" where
  "safe_field f \<longleftrightarrow> (field_orders_plain f \<longrightarrow> field_raw_ok f)"

lemma query_raw_ok_iff:
  "query_raw_ok q \<longleftrightarrow> list_all field_raw_ok (sq_fields q) \<and> pred_option exp_raw_ok (sq_predicate q)
     \<and> list_all (\<lambda>ob. target_raw_ok (ob_target ob)) (sq_order_by q)"
  by (cases q) simp

lemma query_orders_plain_iff:
  "query_orders_plain q \<longleftrightarrow> list_all field_orders_plain (sq_fields q) \<and> list_all (\<lambda>ob. target_orders_plain (ob_target ob)) (sq_order_by q)"
  by (cases q) simp

lemma safe_query:
  assumes "list_all safe_field (sq_fields q)" "pred_option exp_raw_ok (sq_predicate q)" "list_all order_raw_ok (sq_order_by q)"
    and "query_orders_plain q"
  shows "query_raw_ok q"
  using assms by (auto simp: query_raw_ok_iff query_orders_plain_iff safe_field_def order_raw_ok_def list_all_iff)

lemma select_safe:
  "select_shell en ctx kind from field path = Inr q \<Longrightarrow> list_all safe_field fs \<Longrightarrow> query_orders_plain (with_fields q fs) \<Longrightarrow>
     query_raw_ok (with_fields q fs)"
  by (rule safe_query) (auto dest: select_shell_raw_ok)

lemma connection_safe:
  assumes "connection_shell en ctx field path join cfs nodes = Inr conn" "list_all safe_field nodes" "conn_orders_plain conn"
  shows "conn_raw_ok conn"
proof -
  have "conn_raw_ok conn \<longleftrightarrow> query_raw_ok (cn_query conn)" "conn_orders_plain conn \<longleftrightarrow> query_orders_plain (cn_query conn)"
    by (cases conn; simp)+
  then show ?thesis using safe_query [of "cn_query conn"] connection_shell_raw_ok [OF assms(1)] assms(2,3) by simp
qed

lemma column_field_raw_ok: "column_field en ctx path field = Inr f \<Longrightarrow> field_raw_ok f"
  by (auto simp: column_field_def dest!: guard_for_raw_ok split: list.splits option.splits)

lemma column_op_plain: "op \<in> set column_op_names \<Longrightarrow> plain op"
  by (auto simp: column_op_names_def)

lemma aggregate_columns_raw_ok:
  "traverse (aggregate_column_of en ctx path) fs = Inr cols \<Longrightarrow> list_all (\<lambda>c. pred_option exp_raw_ok (ac_guard c)) cols"
  by (erule traverse_list_all) (auto simp: aggregate_column_of_def dest!: guard_for_raw_ok split: if_splits option.splits)

lemma aggregate_field_raw_ok: "aggregate_field_of k en ctx path f = Inr af \<Longrightarrow> agg_op_raw_ok (af_op af)"
  by (auto simp: aggregate_field_of_def Let_def dest!: column_op_plain aggregate_columns_raw_ok split: if_splits)

lemma aggregates_raw_ok: "parse_aggregate_fields k en ctx sel path = Inr aggs \<Longrightarrow> list_all (\<lambda>f. agg_op_raw_ok (af_op f)) aggs"
  by (auto simp: parse_aggregate_fields_def elim!: traverse_list_all dest: aggregate_field_raw_ok)

lemma object_safe:
  "list_all safe_field fs \<Longrightarrow> env_permission en ctx path = Inr p \<Longrightarrow> query_orders_plain (object_query ctx fs p) \<Longrightarrow>
     query_raw_ok (object_query ctx fs p)"
  by (rule safe_query) (auto simp: object_query_def dest: env_permission_raw_ok)

lemma names_ok_ctx: "quote_free_tables (en_planner en) \<Longrightarrow> table_ctx_of (en_planner en) idx role = Some ctx \<Longrightarrow> names_ok en ctx"
  by (auto simp: quote_free_tables_def names_ok_def table_ctx_of_def catalog_table_def Let_def list_all_iff
      dest!: map_of_SomeD split: option.splits if_splits)

lemma names_ok_by_name:
  "quote_free_tables (en_planner en) \<Longrightarrow> table_ctx_by_name (en_planner en) t (en_role en) = Some ctx \<Longrightarrow> names_ok en ctx"
  by (auto simp: table_ctx_by_name_def bind_eq_Some_conv dest: names_ok_ctx)

text \<open>The invariant of the walk: under quote-free table names, a field is raw only through its orders.\<close>

definition ok_for :: "plan_env \<Rightarrow> table_ctx \<Rightarrow> bool" where
  "ok_for en ctx \<longleftrightarrow> (quote_free_tables (en_planner en) \<longrightarrow> names_ok en ctx)"

definition safe_for :: "plan_env \<Rightarrow> output_field \<Rightarrow> bool" where
  "safe_for en f \<longleftrightarrow> (quote_free_tables (en_planner en) \<longrightarrow> safe_field f)"

lemma safe_for_all: "quote_free_tables (en_planner en) \<Longrightarrow> list_all (safe_for en) fs \<Longrightarrow> list_all safe_field fs"
  by (auto simp: safe_for_def list_all_iff)

lemma safe_for_raw_ok:
  "quote_free_tables (en_planner en) \<Longrightarrow> list_all (safe_for en) fs \<Longrightarrow> list_all field_orders_plain fs \<Longrightarrow> list_all field_raw_ok fs"
  by (auto simp: safe_for_def safe_field_def list_all_iff)

interpretation safe: field_invariant en "ok_for en" "\<lambda>_. safe_for en" "\<lambda>_. safe_for en" for en
proof
  show "safe_for en (OutputField a (FRelayGlobalId (ti_schema (tx_info ctx)) (ti_name (tx_info ctx)) (pk_typed ctx)))"
    if "ok_for en ctx" "pl_relay (en_planner en)" for ctx a
    using that by (simp add: safe_for_def safe_field_def ok_for_def names_ok_def)
qed (auto simp: safe_for_def safe_field_def ok_for_def names_ok_by_name column_field_raw_ok aggregates_raw_ok guard_for_raw_ok
      list_all_iff [symmetric],
     (blast intro: select_safe object_safe connection_safe safe_for_all safe_for_raw_ok)+)

section \<open>Roots\<close>

lemma walk_safe:
  "quote_free_tables (en_planner en) \<Longrightarrow> names_ok en ctx \<Longrightarrow> walk_table_selection k en ctx sel path = Inr fs \<Longrightarrow> list_all safe_field fs"
  using safe.walksD [OF safe.walk_good, of en ctx] safe_for_all by (fastforce simp: ok_for_def)

lemma build_select_safe:
  assumes qf: "quote_free_tables (en_planner en)" and ctx: "names_ok en ctx"
    and q: "build_select k en (walk_table_selection k en) ctx kind from field path = Inr q" and plain: "query_orders_plain q"
  shows "query_raw_ok q"
proof -
  have ok: "ok_for en ctx" using ctx by (simp add: ok_for_def)
  obtain q0 fs where shell: "select_shell en ctx kind from field path = Inr q0" and q': "q = with_fields q0 fs"
    and "if kind = KAggregate then list_all (safe_for en) fs else list_all (safe_for en) fs"
    by (rule safe.build_select_good [OF safe.walk_good ok q])
  then have "list_all safe_field fs" using safe_for_all [OF qf] by (simp split: if_splits)
  then show ?thesis using select_safe [OF shell] q' plain by simp
qed

lemma build_connection_safe:
  assumes qf: "quote_free_tables (en_planner en)" and ctx: "names_ok en ctx"
    and c: "build_connection k en (walk_table_selection k en) ctx field path join = Inr conn" and plain: "conn_orders_plain conn"
  shows "conn_raw_ok conn"
proof -
  have ok: "ok_for en ctx" using ctx by (simp add: ok_for_def)
  obtain cfs nodes where "list_all (safe_for en) nodes" "connection_shell en ctx field path join cfs nodes = Inr conn"
    by (rule safe.build_connection_good [OF safe.walk_good ok c])
  then show ?thesis using connection_safe safe_for_all [OF qf] plain by blast
qed

lemma node_conds_raw_ok: "list_all exp_raw_ok (node_conds decoded ctx)"
  by (auto simp: node_conds_def list_all_iff)

lemma plan_node_safe:
  assumes qf: "quote_free_tables (en_planner en)" and r: "plan_node k en field path = Inr r" and plain: "root_orders_plain r"
  shows "root_raw_ok r"
proof -
  consider "r = dead_node (field_alias field)"
    | ctx decoded perm fs where "names_ok en ctx" "env_permission en ctx path = Inr perm"
      "walk_table_selection k en ctx (gf_selection_set field) path = Inr fs"
      "r = RSelect (field_alias field) (SelectQuery (FromTable (ctx_table ctx)) fs (Some (And (node_conds decoded ctx @ opt_list perm))) [] None None None [] True)"
    using r by (auto simp: plan_node_def err_validation_def Let_def dest!: names_ok_by_name [OF qf] split: option.splits if_splits)
  then show ?thesis
  proof cases
    case 1
    then show ?thesis by (simp add: dead_node_def)
  next
    case (2 ctx decoded perm fs)
    then have "list_all field_raw_ok fs"
      using walk_safe [OF qf 2(1,3)] plain by (auto simp: safe_field_def list_all_iff)
    then show ?thesis using 2(4) env_permission_raw_ok [OF 2(2)] by (simp add: node_conds_raw_ok opt_list_raw_ok)
  qed
qed

lemma root_source_names:
  assumes qf: "quote_free_tables (en_planner en)"
  shows "root_source_of en field path kind src = Inr (ctx, f) \<Longrightarrow> names_ok en ctx"
  by (auto simp: root_source_of_def root_not_found_def Let_def dest!: names_ok_by_name [OF qf] names_ok_ctx [OF qf]
      split: root_source.splits option.splits if_splits)

lemma plan_root_safe:
  assumes qf: "quote_free_tables (en_planner en)" and r: "plan_root k en field = Inr r" and plain: "root_orders_plain r"
  shows "root_raw_ok r"
proof -
  let ?path = "''$.selectionSet.'' @ gf_name field"
  consider a t where "r = RTypename a t" | "plan_node k en field ?path = Inr r"
    | idx ctx conn where "table_ctx_of (en_planner en) idx (en_role en) = Some ctx"
      "build_connection k en (walk_table_selection k en) ctx field ?path [] = Inr conn" "r = RConnection (field_alias field) conn"
    | kind src ctx f q where "root_source_of en field ?path kind src = Inr (ctx, f)"
      "build_select k en (walk_table_selection k en) ctx kind f field ?path = Inr q" "r = RSelect (field_alias field) q"
    using r by (auto simp: plan_root_def plan_relay_root_def root_not_found_def Let_def simp del: append.simps
      split: if_splits option.splits root_kind.splits root_source.splits)
  then show ?thesis
  proof cases
    case 2
    then show ?thesis using plan_node_safe [OF qf] plain by blast
  next
    case (3 idx ctx conn)
    then show ?thesis using build_connection_safe [OF qf names_ok_ctx [OF qf 3(1)]] plain by auto
  next
    case (4 kind src ctx f q)
    then show ?thesis using build_select_safe [OF qf root_source_names [OF qf 4(1)]] plain by auto
  qed simp
qed

lemma plan_query_safe:
  assumes "quote_free_tables (en_planner en)" "plan_query k en sel = Inr rs" "list_all root_orders_plain rs"
  shows "list_all root_raw_ok rs"
proof -
  obtain fs where "traverse (plan_root k en) fs = Inr rs"
    using assms(2) by (auto simp: plan_query_def err_validation_def split: if_splits)
  then have "list_all (\<lambda>r. root_orders_plain r \<longrightarrow> root_raw_ok r) rs"
    by (rule traverse_list_all) (use plan_root_safe [OF assms(1)] in blast)
  then show ?thesis using assms(3) by (auto simp: list_all_iff)
qed

section \<open>Properties\<close>

text \<open>
  C5. A planned query cannot be injected into: for any two requests, of any
  sessions and variables, whose plans differ only in the contents of string
  values and quoted names, the SQL has the same token skeleton and leaves no
  quote open. The only strings of a request that reach the SQL unquoted are the
  function names of orders by a relationship's aggregate, which the
  hypothesis asks to be words; with Relay, table names must be free of quotes.
\<close>

theorem planned_query_injection_free:
  assumes "numbers_plain x" "quote_free_tables (en_planner en)" "quote_free_tables (en_planner en')"
    and plans: "plan_query k en sel = Inr rs" "plan_query k' en' sel' = Inr rs'"
    and "list_all root_orders_plain rs" "list_all root_orders_plain rs'" "map blank_root rs = map blank_root rs'"
    and sql: "operation_to_sql_opts x rs st = Inr s" "operation_to_sql_opts x rs' st = Inr s'"
  shows "skeleton s = skeleton s' \<and> TBad \<notin> set (sql_scan s)"
  using shape_operation [OF assms(1) plan_query_safe [OF assms(2) plans(1) assms(6)] sql(1)]
    shape_operation [OF assms(1) plan_query_safe [OF assms(3) plans(2) assms(7)] sql(2)] assms(8)
  by (auto dest: shape_common)

definition titled :: "selection list" where
  "titled = [nested_field ''article'' [(''where'', GObject [(''title'', GObject [(''_eq'', GVariable ''t'')])])] [leaf_field ''id'']]"

definition titled_plan :: "string \<Rightarrow> root_field list" where
  "titled_plan t = [RSelect ''article'' (SelectQuery (FromTable \<lparr>it_schema = ''public'', it_name = ''article''\<rparr>)
     [OutputField ''id'' (FColumn ''id'' ''int4'')]
     (Some (And [Compare ''title'' ''text'' (Eq (Scalar (JString t))), own_filter])) [] (Some 10) None None [] False)]"

lemma titled_planned: "plan_query 9 (sample_env ''user'' [(''t'', JString ''Ann'')]) titled = Inr (titled_plan ''Ann'')"
  "plan_query 9 (sample_env ''user'' [(''t'', JString hostile)]) titled = Inr (titled_plan hostile)"
  by code_simp+

theorem planned_query_injection_free_witness:
  "\<exists>s s'. operation_to_sql_opts sample_extern (titled_plan hostile) False = Inr s
     \<and> operation_to_sql_opts sample_extern (titled_plan ''Ann'') False = Inr s'
     \<and> skeleton s = skeleton s' \<and> TBad \<notin> set (sql_scan s)"
proof -
  have wf: "list_all root_wf (titled_plan t)" for t by (simp add: titled_plan_def)
  obtain s s' where s: "operation_to_sql_opts sample_extern (titled_plan hostile) False = Inr s"
    "operation_to_sql_opts sample_extern (titled_plan ''Ann'') False = Inr s'"
    using operation_total [OF wf] by metis
  have "quote_free_tables sample_planner" by code_simp
  then have q: "quote_free_tables (en_planner (sample_env ''user'' vars))" for vars
    by (simp add: sample_env_def)
  have "skeleton s = skeleton s' \<and> TBad \<notin> set (sql_scan s)"
    by (rule planned_query_injection_free [OF sample_numbers_plain q q titled_planned(2,1) _ _ _ s])
      (simp_all add: titled_plan_def own_filter_def hostile_def trim_start_def starts_with_def blank_scalar_def)
  then show ?thesis using s by blast
qed

definition order_attack :: json where
  "order_attack = JObject [(''articles_aggregate'', JObject [(''pg_sleep(9)) --'', JObject [(''id'', JString ''asc'')])])]"

definition ordered_authors :: "selection list" where
  "ordered_authors = [nested_field ''author'' [(''order_by'', GVariable ''o'')] [leaf_field ''name'']]"


end
