(* ===== verification/Mutation_Properties.thy ===== *)
theory Mutation_Properties
  imports Authorization Plan_Wf
begin

text \<open>
  What the mutation planner owes the metadata: a mutation exists only under the
  role's permission for it, touches only rows the permission's filter keeps,
  writes only columns the permission grants or presets, and carries the
  permission's check.
\<close>

section \<open>The specification\<close>

definition filter_admits :: "plan_env \<Rightarrow> table_ctx \<Rightarrow> json \<Rightarrow> database \<Rightarrow> row \<Rightarrow> bool" where
  "filter_admits en ctx flt db row \<longleftrightarrow> unrestricted flt \<or>
     (\<exists>path e. parse_bool_exp (en_extern en) (en_planner en) flt (filter_ctx_of ctx) (en_session en) True path = Inr e \<and> holds db row e)"

definition rows_admitted :: "plan_env \<Rightarrow> table_ctx \<Rightarrow> json \<Rightarrow> bool_exp option \<Rightarrow> bool" where
  "rows_admitted en ctx flt p \<longleftrightarrow> (\<forall>db row. holds_opt db row p \<longrightarrow> filter_admits en ctx flt db row)"

fun set_op_column :: "set_op \<Rightarrow> string" where
  "set_op_column (SetOp c _ _) = c"
| "set_op_column (IncOp c _ _) = c"

definition writable :: "columns \<Rightarrow> jmap \<Rightarrow> table_ctx \<Rightarrow> string \<Rightarrow> bool" where
  "writable cols preset ctx c \<longleftrightarrow> columns_grant cols ctx c \<or> c \<in> set (map fst preset)"

text \<open>A check is the permission's expression in permission mode, and absent only when it says nothing.\<close>

definition checks :: "plan_env \<Rightarrow> table_ctx \<Rightarrow> json \<Rightarrow> bool_exp option \<Rightarrow> bool" where
  "checks en ctx chk p \<longleftrightarrow> (if unrestricted chk then p = None
     else \<exists>path e. parse_bool_exp (en_extern en) (en_planner en) chk (filter_ctx_of ctx) (en_session en) True path = Inr e \<and> p = Some e)"

text \<open>In every row, a column the permission presets has the preset value, resolved for the session.\<close>

definition preset_cell :: "plan_env \<Rightarrow> table_ctx \<Rightarrow> jmap \<Rightarrow> string \<times> string \<Rightarrow> scalar option \<Rightarrow> bool" where
  "preset_cell en ctx preset tc cell \<longleftrightarrow> (fst tc \<in> set (map fst preset) \<longrightarrow>
     (\<exists>v w. (fst tc, v) \<in> set preset \<and> resolve_session v (en_session en) True ''$'' = Inr w \<and> cell = Some (Scalar w)))"

definition insert_authorized :: "plan_env \<Rightarrow> table_ctx \<Rightarrow> insert_permission \<Rightarrow> insert_mutation \<Rightarrow> bool" where
  "insert_authorized en ctx perm i \<longleftrightarrow> im_table i = ctx_table ctx
     \<and> insert_usable (en_session en) perm
     \<and> list_all (\<lambda>c. writable (ip_columns perm) (ip_set perm) ctx (fst c)) (im_columns i)
     \<and> list_all (list_all2 (preset_cell en ctx (ip_set perm)) (im_columns i)) (im_rows i)
     \<and> checks en ctx (ip_check perm) (im_check i)"

definition update_authorized :: "plan_env \<Rightarrow> table_ctx \<Rightarrow> update_permission \<Rightarrow> update_mutation \<Rightarrow> bool" where
  "update_authorized en ctx perm u \<longleftrightarrow> um_table u = ctx_table ctx
     \<and> rows_admitted en ctx (up_filter perm) (um_predicate u)
     \<and> list_all (\<lambda>s. writable (up_columns perm) (up_set perm) ctx (set_op_column s)) (um_sets u)
     \<and> (case up_check perm of Some c \<Rightarrow> checks en ctx c (um_check u) | None \<Rightarrow> um_check u = None)"

definition delete_authorized :: "plan_env \<Rightarrow> table_ctx \<Rightarrow> delete_permission \<Rightarrow> delete_mutation \<Rightarrow> bool" where
  "delete_authorized en ctx perm d \<longleftrightarrow> dm_table d = ctx_table ctx \<and> rows_admitted en ctx (dp_filter perm) (dm_predicate d)"

fun mutation_authorized :: "plan_env \<Rightarrow> perm_eq \<Rightarrow> mutation_root \<Rightarrow> bool" where
  "mutation_authorized en pq (Insert _ i) \<longleftrightarrow> (\<exists>idx ctx perm. mutation_table_ctx (en_planner en) idx = Some ctx
     \<and> resolve_role_perm (pl_inherited_roles (en_planner en)) (pq_insert pq) (te_insert_permissions (tx_entry ctx))
         (insert_usable (en_session en)) (en_role en) = Some perm
     \<and> insert_authorized en ctx perm i)"
| "mutation_authorized en pq (Update _ u) \<longleftrightarrow> (\<exists>idx ctx perm. mutation_table_ctx (en_planner en) idx = Some ctx
     \<and> resolve_role_perm (pl_inherited_roles (en_planner en)) (pq_update pq) (te_update_permissions (tx_entry ctx))
         (\<lambda>_. True) (en_role en) = Some perm
     \<and> update_authorized en ctx perm u)"
| "mutation_authorized en pq (Delete _ d) \<longleftrightarrow> (\<exists>idx ctx perm. mutation_table_ctx (en_planner en) idx = Some ctx
     \<and> resolve_role_perm (pl_inherited_roles (en_planner en)) (pq_delete pq) (te_delete_permissions (tx_entry ctx))
         (\<lambda>_. True) (en_role en) = Some perm
     \<and> delete_authorized en ctx perm d)"
| "mutation_authorized en pq (FunctionCall _ q) \<longleftrightarrow>
     (\<exists>fentry finfo args. function_allowed (en_planner en) fentry (en_role en)
        \<and> catalog_function (pl_catalog (en_planner en)) (qt_schema (fe_function fentry)) (qt_name (fe_function fentry)) = Some finfo
        \<and> sq_from q = FromFunction (fi_schema finfo) (fi_name finfo) args)"
| "mutation_authorized en pq (MutTypename _ _) \<longleftrightarrow> True"

section \<open>Filters, checks and presets\<close>

lemma parse_filter_admits:
  assumes "parse_filter_exp en flt ctx path = Inr f" "holds_opt db row f"
  shows "filter_admits en ctx flt db row"
  using assms by (cases f) (auto simp: parse_filter_exp_def filter_admits_def holds_opt_def split: if_splits)

lemma rows_admitted_predicate:
  assumes "parse_filter_exp en flt ctx path = Inr f" "set (opt_list f) \<subseteq> set es"
  shows "rows_admitted en ctx flt (predicate_of es)"
  unfolding rows_admitted_def
proof (intro allI impI)
  fix db row
  assume "holds_opt db row (predicate_of es)"
  then have "\<forall>e \<in> set es. holds db row e" by (simp add: holds_opt_def pg.sat_predicate_of)
  then have "holds_opt db row f" using assms(2) by (auto simp: holds_opt_def simp flip: pg.sat_opt_list)
  then show "filter_admits en ctx flt db row" by (rule parse_filter_admits [OF assms(1)])
qed

lemma parse_check_checks: "parse_check_exp en chk ctx path = Inr p \<Longrightarrow> checks en ctx chk p"
  by (auto simp: parse_check_exp_def parse_filter_exp_def checks_def split: if_splits)

lemma presets_Cons_Inr:
  assumes "presets ctx se ((c, v) # rest) = Inr ps"
  obtains (skipped) "table_column (tx_info ctx) c = None" "presets ctx se rest = Inr ps"
  | (preset) info w qs where "table_column (tx_info ctx) c = Some info" "resolve_session v se True ''$'' = Inr w"
      "presets ctx se rest = Inr qs" "ps = (c, ci_pg_type info, Scalar w) # qs"
  using assms by (cases "table_column (tx_info ctx) c") auto

lemma presets_resolved:
  "presets ctx se preset = Inr ps \<Longrightarrow> (c, ty, s) \<in> set ps \<Longrightarrow>
     \<exists>v w. (c, v) \<in> set preset \<and> resolve_session v se True ''$'' = Inr w \<and> s = Scalar w"
proof (induction preset arbitrary: ps)
  case (Cons e rest)
  obtain c' v where e: "e = (c', v)" by (cases e)
  show ?case using Cons.prems(1) [unfolded e]
    by (cases rule: presets_Cons_Inr) (use Cons.IH Cons.prems(2) e in force)+
qed simp

lemma presets_complete:
  "presets ctx se preset = Inr ps \<Longrightarrow> c \<in> set (map fst preset) \<Longrightarrow> table_column (tx_info ctx) c \<noteq> None \<Longrightarrow> c \<in> set (map fst ps)"
proof (induction preset arbitrary: ps)
  case (Cons e rest)
  obtain c' v where e: "e = (c', v)" by (cases e)
  show ?case using Cons.prems(1) [unfolded e]
    by (cases rule: presets_Cons_Inr) (use Cons.IH Cons.prems(2,3) e in auto)
qed simp

lemma presets_columns: "presets ctx se preset = Inr ps \<Longrightarrow> set (map fst ps) \<subseteq> set (map fst preset)"
proof (induction preset arbitrary: ps)
  case (Cons e rest)
  obtain c' v where e: "e = (c', v)" by (cases e)
  show ?case using Cons.prems(1) [unfolded e]
    by (cases rule: presets_Cons_Inr) (use Cons.IH e in auto)
qed simp

section \<open>Update and delete\<close>

lemma set_columns_granted:
  "set_columns mk suffix perm ctx path m = Inr sets \<Longrightarrow> (\<And>c ty v. set_op_column (mk c ty v) = c) \<Longrightarrow>
     list_all (\<lambda>s. columns_grant (up_columns perm) ctx (set_op_column s)) sets"
  by (auto simp: set_columns_def elim!: traverse_list_all split: if_splits option.splits)

lemma update_arg_granted:
  assumes "update_arg en perm ctx kind path ua a = Inr ub" "list_all (\<lambda>s. columns_grant (up_columns perm) ctx (set_op_column s)) (ua_sets ua)"
  shows "list_all (\<lambda>s. columns_grant (up_columns perm) ctx (set_op_column s)) (ua_sets ub)"
  using assms
  by (auto simp: update_arg_def Let_def err_validation_def dest!: set_columns_granted split: if_splits option.splits)

lemma preset_sets_writable:
  "presets ctx se preset = Inr ps \<Longrightarrow> list_all (\<lambda>s. writable cols preset ctx (set_op_column s)) (preset_sets ps)"
  using presets_columns [of ctx se preset ps] by (force simp: preset_sets_def writable_def list_all_iff)

lemma plan_update_authorized:
  assumes "plan_update k en pq ctx kind field path = Inr u"
  shows "\<exists>perm. resolve_role_perm (pl_inherited_roles (en_planner en)) (pq_update pq) (te_update_permissions (tx_entry ctx))
         (\<lambda>_. True) (en_role en) = Some perm \<and> update_authorized en ctx perm u"
proof -
  obtain perm ua ps flt check where
    perm: "resolve_role_perm (pl_inherited_roles (en_planner en)) (pq_update pq) (te_update_permissions (tx_entry ctx))
         (\<lambda>_. True) (en_role en) = Some perm"
    and ua: "foldR (update_arg en perm ctx kind path) \<lparr>ua_sets = [], ua_where = None, ua_pk = []\<rparr> (gf_arguments field) = Inr ua"
    and ps: "presets ctx (en_session en) (up_set perm) = Inr ps"
    and flt: "parse_filter_exp en (up_filter perm) ctx path = Inr flt"
    and check: "(case up_check perm of Some c \<Rightarrow> parse_check_exp en c ctx path | None \<Rightarrow> Inr None) = Inr check"
    and u: "um_table u = ctx_table ctx" "um_sets u = ua_sets ua @ preset_sets ps" "um_check u = check"
      "um_predicate u = predicate_of (ua_pk ua @ opt_list (ua_where ua) @ opt_list flt)"
    using assms by (auto simp: plan_update_def mutation_not_found_def err_validation_def Let_def split: option.splits if_splits)
  have "list_all (\<lambda>s. columns_grant (up_columns perm) ctx (set_op_column s)) (ua_sets ua)"
    by (rule foldR_invariant [OF ua, where I = "\<lambda>ua. list_all (\<lambda>s. columns_grant (up_columns perm) ctx (set_op_column s)) (ua_sets ua)"])
      (auto intro: update_arg_granted)
  then have "list_all (\<lambda>s. writable (up_columns perm) (up_set perm) ctx (set_op_column s)) (um_sets u)"
    using preset_sets_writable [OF ps] u(2) by (auto simp: writable_def list_all_iff)
  moreover have "rows_admitted en ctx (up_filter perm) (um_predicate u)"
    unfolding u by (rule rows_admitted_predicate [OF flt]) auto
  moreover have "case up_check perm of Some c \<Rightarrow> checks en ctx c (um_check u) | None \<Rightarrow> um_check u = None"
    using check u(3) parse_check_checks by (auto split: option.splits)
  ultimately show ?thesis using perm u(1) by (auto simp: update_authorized_def)
qed

lemma plan_delete_authorized:
  assumes "plan_delete k en pq ctx kind field path = Inr d"
  shows "\<exists>perm. resolve_role_perm (pl_inherited_roles (en_planner en)) (pq_delete pq) (te_delete_permissions (tx_entry ctx))
         (\<lambda>_. True) (en_role en) = Some perm \<and> delete_authorized en ctx perm d"
proof -
  obtain perm da flt where
    perm: "resolve_role_perm (pl_inherited_roles (en_planner en)) (pq_delete pq) (te_delete_permissions (tx_entry ctx))
         (\<lambda>_. True) (en_role en) = Some perm"
    and "foldR (delete_arg en ctx kind path) \<lparr>da_where = None, da_pk = []\<rparr> (gf_arguments field) = Inr da"
    and flt: "parse_filter_exp en (dp_filter perm) ctx path = Inr flt"
    and d: "dm_table d = ctx_table ctx" "dm_predicate d = predicate_of (da_pk da @ opt_list (da_where da) @ opt_list flt)"
    using assms by (auto simp: plan_delete_def mutation_not_found_def err_validation_def split: option.splits if_splits)
  have "rows_admitted en ctx (dp_filter perm) (dm_predicate d)"
    unfolding d by (rule rows_admitted_predicate [OF flt]) auto
  then show ?thesis using perm d(1) by (auto simp: delete_authorized_def)
qed

section \<open>Insert\<close>

lemma insert_keys_granted:
  assumes "foldR (insert_key granted ctx path) cols m = Inr cols'" "list_all (columns_grant granted ctx) cols"
  shows "list_all (columns_grant granted ctx) cols'"
  by (rule foldR_invariant [OF assms(1), where I = "list_all (columns_grant granted ctx)"])
    (use assms(2) in \<open>auto simp: insert_key_def push_new_def split: if_splits\<close>)

lemma insert_objects_granted:
  assumes "foldR (insert_object granted ctx path) [] objs = Inr cols"
  shows "list_all (columns_grant granted ctx) cols"
proof (rule foldR_invariant [OF assms])
  fix s obj t
  assume "list_all (columns_grant granted ctx) s" "insert_object granted ctx path s obj = Inr t"
  then show "list_all (columns_grant granted ctx) t"
    by (cases "as_object obj") (auto simp: insert_object_def err_validation_def dest: insert_keys_granted)
qed simp

lemma push_all_new: "set (foldl push_new cols cs) = set cols \<union> set cs"
  by (induction cs arbitrary: cols) (auto simp: push_new_def)

lemma typed_columns_Inr:
  "traverse (typed_column ctx) cols = Inr tcs \<Longrightarrow> map fst tcs = cols \<and> list_all (\<lambda>c. table_column (tx_info ctx) (fst c) \<noteq> None) tcs"
proof (induction cols arbitrary: tcs)
  case (Cons c cols)
  then obtain tc rest where tc: "typed_column ctx c = Inr tc" "traverse (typed_column ctx) cols = Inr rest" "tcs = tc # rest" by auto
  then show ?case using Cons.IH [OF tc(2)] by (auto simp: typed_column_def split: option.splits)
qed simp

lemma insert_cell_preset:
  assumes ps: "presets ctx (en_session en) preset = Inr ps" and tc: "table_column (tx_info ctx) (fst tc) \<noteq> None"
  shows "preset_cell en ctx preset tc (insert_cell ps m tc)"
  unfolding preset_cell_def
proof
  assume "fst tc \<in> set (map fst preset)"
  then have "fst tc \<in> set (map fst ps)" by (rule presets_complete [OF ps _ tc])
  then obtain p where p: "find (\<lambda>p. fst p = fst tc) ps = Some p"
    by (cases "find (\<lambda>p. fst p = fst tc) ps") (auto simp: find_None_iff)
  obtain c ty s where cts: "p = (c, ty, s)" by (cases p)
  have in_ps: "(fst tc, ty, s) \<in> set ps" using find_Some_in [OF p] cts by auto
  show "\<exists>v w. (fst tc, v) \<in> set preset \<and> resolve_session v (en_session en) True ''$'' = Inr w \<and> insert_cell ps m tc = Some (Scalar w)"
    using presets_resolved [OF ps in_ps] p cts by (simp add: insert_cell_def)
qed

text \<open>The rows of an insert, built from granted columns and presets.\<close>

lemma insert_parts_authorized:
  assumes ps: "presets ctx (en_session en) (ip_set perm) = Inr ps"
    and tcs: "traverse (typed_column ctx) (foldl push_new cols (map fst ps)) = Inr tcs"
    and cols: "list_all (columns_grant (ip_columns perm) ctx) cols"
    and i: "im_table i = ctx_table ctx" "im_columns i = tcs"
      "im_rows i = map (\<lambda>obj. map (insert_cell ps (object_map obj)) tcs) objects"
    and "insert_usable (en_session en) perm" "checks en ctx (ip_check perm) (im_check i)"
  shows "insert_authorized en ctx perm i"
proof -
  have sets: "set (map fst tcs) = set cols \<union> set (map fst ps)"
    using typed_columns_Inr [OF tcs] by (simp only: push_all_new)
  have "writable (ip_columns perm) (ip_set perm) ctx c" if "c \<in> set (map fst tcs)" for c
    using that cols presets_columns [OF ps] unfolding sets writable_def list_all_iff by blast
  moreover have "list_all2 (preset_cell en ctx (ip_set perm)) tcs (map (insert_cell ps m) tcs)" for m
    using typed_columns_Inr [OF tcs] insert_cell_preset [OF ps] by (auto simp: list_all2_conv_all_nth list_all_length)
  ultimately show ?thesis using assms(4-) by (auto simp: insert_authorized_def list_all_iff)
qed

lemma plan_insert_authorized:
  assumes "plan_insert k en pq ctx kind field path = Inr i"
  shows "\<exists>perm. resolve_role_perm (pl_inherited_roles (en_planner en)) (pq_insert pq) (te_insert_permissions (tx_entry ctx))
         (insert_usable (en_session en)) (en_role en) = Some perm \<and> insert_authorized en ctx perm i"
proof -
  obtain perm ia cols ps tcs check where
    perm: "resolve_role_perm (pl_inherited_roles (en_planner en)) (pq_insert pq) (te_insert_permissions (tx_entry ctx))
         (insert_usable (en_session en)) (en_role en) = Some perm"
    and ia: "foldR (insert_arg en ctx kind path) \<lparr>ia_objects = [], ia_on_conflict = None\<rparr> (gf_arguments field) = Inr ia"
    and cols: "foldR (insert_object (ip_columns perm) ctx path) [] (ia_objects ia) = Inr cols"
    and ps: "presets ctx (en_session en) (ip_set perm) = Inr ps"
    and tcs: "traverse (typed_column ctx) (foldl push_new cols (map fst ps)) = Inr tcs"
    and check: "parse_check_exp en (ip_check perm) ctx path = Inr check"
    and i: "im_table i = ctx_table ctx" "im_columns i = tcs" "im_check i = check"
      "im_rows i = map (\<lambda>obj. map (insert_cell ps (object_map obj)) tcs) (ia_objects ia)"
    using assms by (auto simp: plan_insert_def mutation_not_found_def err_validation_def split: option.splits if_splits)
  have "insert_authorized en ctx perm i"
    using insert_parts_authorized [OF ps tcs insert_objects_granted [OF cols] i(1,2,4)] resolve_role_perm_sound [OF perm]
      parse_check_checks [OF check] i(3) by blast
  then show ?thesis using perm by blast
qed

section \<open>Whole mutations\<close>

lemma function_mutation_allowed:
  assumes "try_plan_function_mutation k en field path = Some (Inr q)"
  shows "mutation_authorized en pq (FunctionCall a q)"
proof -
  obtain fentry finfo ctx f where allowed: "function_allowed (en_planner en) fentry (en_role en)"
    "catalog_function (pl_catalog (en_planner en)) (qt_schema (fe_function fentry)) (qt_name (fe_function fentry)) = Some finfo"
    and f: "function_from en fentry finfo field path = Inr f"
    and q: "build_select k en (walk_table_selection k en) ctx KSelect f field path = Inr q"
    using assms by (auto simp: try_plan_function_mutation_def Let_def bind_eq_Some_conv split: if_splits)
  have "sq_from q = f" using q by (auto simp: build_select_def dest: shell_from)
  moreover obtain args where "f = FromFunction (fi_schema finfo) (fi_name finfo) args"
    using f by (auto simp: function_from_def err_validation_def split: option.splits)
  ultimately show ?thesis using allowed by auto
qed

lemma insert_root_authorized:
  "mutation_table_ctx (en_planner en) idx = Some ctx \<Longrightarrow> plan_insert k en pq ctx kind field path = Inr i \<Longrightarrow>
     mutation_authorized en pq (Insert a i)"
  using plan_insert_authorized [of k en pq ctx kind field path i] unfolding mutation_authorized.simps by blast

lemma update_root_authorized:
  "mutation_table_ctx (en_planner en) idx = Some ctx \<Longrightarrow> plan_update k en pq ctx kind field path = Inr u \<Longrightarrow>
     mutation_authorized en pq (Update a u)"
  using plan_update_authorized [of k en pq ctx kind field path u] unfolding mutation_authorized.simps by blast

lemma delete_root_authorized:
  "mutation_table_ctx (en_planner en) idx = Some ctx \<Longrightarrow> plan_delete k en pq ctx kind field path = Inr d \<Longrightarrow>
     mutation_authorized en pq (Delete a d)"
  using plan_delete_authorized [of k en pq ctx kind field path d] unfolding mutation_authorized.simps by blast

lemma plan_mutation_root_authorized: "plan_mutation_root k en pq field = Inr r \<Longrightarrow> mutation_authorized en pq r"
  by (auto simp: plan_mutation_root_def mutation_not_found_def err_validation_def Let_def
      simp del: append.simps mutation_authorized.simps(1-4)
      intro: insert_root_authorized update_root_authorized delete_root_authorized function_mutation_allowed
      split: if_splits option.splits)

section \<open>Properties\<close>


definition sample_insert :: "selection list" where
  "sample_insert = [nested_field ''insert_article'' [(''objects'', GList [GObject [(''title'', GString ''t'')]])]
     [leaf_field ''affected_rows'']]"


section \<open>Where the mutation planner is weaker than its schema\<close>

text \<open>
  A delete by primary key plans without a single key column: with the
  unrestricted permission of the role it reaches every row.
\<close>

theorem delete_by_pk_without_key:
  "(case plan_mutation 9 (sample_env ''editor'' []) sample_perm_eq
      [nested_field ''delete_article_by_pk'' [] [leaf_field ''title'']] of
      Inr (Delete a d # rs) \<Rightarrow> a = ''delete_article_by_pk'' \<and> dm_predicate d = None \<and> rs = []
    | _ \<Rightarrow> False) = True"
  by code_simp

text \<open>
  The columns an upsert overwrites are not checked against the role's update
  permission: the column \<open>secret\<close>, which the role may neither update nor
  insert nor read, is accepted.
\<close>

theorem upsert_columns_unchecked:
  "(case plan_mutation 9 (sample_env ''user'' []) sample_perm_eq
      [nested_field ''insert_article'' [(''objects'', GList [GObject [(''title'', GString ''t'')]]),
         (''on_conflict'', GObject [(''constraint'', GEnum ''article_pkey''), (''update_columns'', GList [GEnum ''secret''])])]
         [leaf_field ''affected_rows'']] of
      Inr (Insert a i # rs) \<Rightarrow> (case im_on_conflict i of Some oc \<Rightarrow> oc_update_columns oc = [''secret''] | None \<Rightarrow> False)
    | _ \<Rightarrow> False) = True"
  by code_simp

end
