(* ===== verification/V1.thy ===== *)
theory V1
  imports Plan_Mutation
begin

text \<open>
  The legacy data API, \<open>crates/schema/src/v1.rs\<close>: \<open>select\<close>, \<open>count\<close>,
  \<open>insert\<close>, \<open>update\<close> and \<open>delete\<close> of \<open>/v1/query\<close> with a role. The
  IR and the permission machinery are those of GraphQL; the argument syntax
  is JSON. Mutation permissions are looked up for the role itself.
\<close>

section \<open>Tables and permissions\<close>

definition fail_new :: "string \<Rightarrow> string \<Rightarrow> string \<Rightarrow> 'a plan_result" where
  "fail_new path code message = Inl (Fail (plan_error_new path code message))"

definition parse_table :: "extern \<Rightarrow> json \<Rightarrow> string \<Rightarrow> qualified_table plan_result" where
  "parse_table x args path =
     (case json_get args ''table'' of
        None \<Rightarrow> err_validation path ''expected a table''
      | Some t \<Rightarrow>
          (case qualified_of_json t of
             Some table \<Rightarrow> Inr table
           | None \<Rightarrow> err_validation path (''cannot parse table: '' @ table_error x)))"

definition select_denied :: "string \<Rightarrow> session \<Rightarrow> qualified_table \<Rightarrow> 'a plan_result" where
  "select_denied path session table =
     fail_new path ''permission-denied'' (''role '' @ dquoted (se_role session)
       @ '' does not have permission to select from table '' @ dquoted (qt_display table))"

definition v1_table_ctx ::
  "extern \<Rightarrow> planner \<Rightarrow> json \<Rightarrow> session \<Rightarrow> string \<Rightarrow> (qualified_table \<times> table_ctx) plan_result" where
  "v1_table_ctx x pl args session path =
     bindR (parse_table x args path) (\<lambda>table.
       case table_ctx_by_name pl table (se_role session) of
         None \<Rightarrow> select_denied path session table
       | Some ctx \<Rightarrow> Inr (table, ctx))"

definition non_null :: "json option \<Rightarrow> json option" where
  "non_null v = Option.bind v (\<lambda>w. if is_null w then None else Some w)"

text \<open>The predicate of \<open>where\<close>, as a list of at most one.\<close>

definition v1_where :: "extern \<Rightarrow> planner \<Rightarrow> table_ctx \<Rightarrow> json \<Rightarrow> session \<Rightarrow> string \<Rightarrow> bool_exp list plan_result" where
  "v1_where x pl ctx args session path =
     (case non_null (json_get args ''where'') of
        None \<Rightarrow> Inr []
      | Some w \<Rightarrow> bindR (parse_bool_exp x pl w ctx session False path) (\<lambda>e. Inr [e]))"

definition v1_predicate :: "extern \<Rightarrow> planner \<Rightarrow> table_ctx \<Rightarrow> json \<Rightarrow> session \<Rightarrow> string \<Rightarrow> bool_exp option plan_result" where
  "v1_predicate x pl ctx args session path =
     bindR (v1_where x pl ctx args session path) (\<lambda>ws.
     bindR (permission_predicate x pl ctx session path) (\<lambda>perm.
       Inr (predicate_of (ws @ opt_list perm))))"

section \<open>Order by\<close>

definition v1_order_item :: "table_ctx \<Rightarrow> string \<Rightarrow> string \<Rightarrow> bool \<Rightarrow> bool option \<Rightarrow> order_by plan_result" where
  "v1_order_item ctx path column descending nulls_first =
     (if \<not> column_allowed ctx column then err_validation path (''column '' @ dquoted column @ '' not found'')
      else Inr \<lparr>ob_target = OrderColumn column, ob_direction = (if descending then Desc else Asc),
        ob_nulls = (case nulls_first of Some True \<Rightarrow> NullsFirst | Some False \<Rightarrow> NullsLast
                    | None \<Rightarrow> if descending then NullsFirst else NullsLast)\<rparr>)"

definition v1_order_spec :: "table_ctx \<Rightarrow> string \<Rightarrow> json \<Rightarrow> order_by plan_result" where
  "v1_order_spec ctx path item =
     (case item of
        JString s \<Rightarrow>
          (case strip_prefix ''-'' s of
             Some rest \<Rightarrow> v1_order_item ctx path rest True None
           | None \<Rightarrow> v1_order_item ctx path (case strip_prefix ''+'' s of Some rest \<Rightarrow> rest | None \<Rightarrow> s) False None)
      | JObject obj \<Rightarrow>
          (case Option.bind (jmap_get obj ''column'') as_str of
             None \<Rightarrow> err_validation path ''order_by needs a column''
           | Some column \<Rightarrow>
               v1_order_item ctx path column (Option.bind (jmap_get obj ''type'') as_str = Some ''desc'')
                 (map_option (\<lambda>n. n = ''first'') (Option.bind (jmap_get obj ''nulls'') as_str)))
      | _ \<Rightarrow> err_validation path ''bad order_by'')"

definition v1_order_by :: "table_ctx \<Rightarrow> json \<Rightarrow> string \<Rightarrow> order_by list plan_result" where
  "v1_order_by ctx value path = traverse (v1_order_spec ctx path) (items_of value)"

section \<open>Select\<close>

definition v1_column :: "table_ctx \<Rightarrow> session \<Rightarrow> string \<Rightarrow> nat \<Rightarrow> string \<Rightarrow> output_field list plan_result" where
  "v1_column ctx session path idx name =
     (if name = ''*'' then
        Inr (map (\<lambda>col. OutputField (ci_name col) (FColumn (ci_name col) (ci_pg_type col)))
          (filter (\<lambda>col. column_allowed ctx (ci_name col)) (ti_columns (tx_info ctx))))
      else if \<not> column_allowed ctx name then
        (if table_column (tx_info ctx) name \<noteq> None then
           fail_new (path @ ''.args.columns['' @ nat_str idx @ '']'') ''permission-denied''
             (''role '' @ dquoted (se_role session) @ '' does not have permission to select column '' @ dquoted name)
         else err_validation path (''column '' @ dquoted name @ '' not found''))
      else case table_column (tx_info ctx) name of
        None \<Rightarrow> Inl Panic
      | Some info \<Rightarrow> Inr [OutputField name (FColumn (ci_name info) (ci_pg_type info))])"

text \<open>Everything of \<open>v1_select_on\<close> but the columns.\<close>

definition v1_shell ::
  "extern \<Rightarrow> planner \<Rightarrow> table_ctx \<Rightarrow> json \<Rightarrow> session \<Rightarrow> string \<Rightarrow> output_field list \<Rightarrow> select_query plan_result" where
  "v1_shell x pl ctx args session path fs =
     bindR (v1_predicate x pl ctx args session path) (\<lambda>predicate.
     let limit = Option.bind (json_get args ''limit'') as_u64;
         offset = Option.bind (json_get args ''offset'') as_u64;
         limit = (case select_perm_limit ctx of Some p \<Rightarrow> Some (cap_limit limit p) | None \<Rightarrow> limit)
     in bindR (case non_null (json_get args ''order_by'') of None \<Rightarrow> Inr [] | Some v \<Rightarrow> v1_order_by ctx v path) (\<lambda>order_by.
       Inr (SelectQuery (FromTable (ctx_table ctx)) fs predicate order_by limit None offset [] False)))"

definition as_single :: "select_query \<Rightarrow> select_query" where
  "as_single q = SelectQuery (sq_from q) (sq_fields q) (sq_predicate q) (sq_order_by q) (sq_limit q) (sq_nodes_limit q)
     (sq_offset q) (sq_distinct_on q) True"

definition v1_relationship_value :: "table_ctx \<Rightarrow> string \<Rightarrow> join_pairs \<Rightarrow> select_query \<Rightarrow> output_field" where
  "v1_relationship_value ctx name join q =
     OutputField name
       (if list_ex (\<lambda>r. or_name r = name) (te_object_relationships (tx_entry ctx))
        then FObject (as_single q) join else FArray q join False)"

lemma size_list_columns: "Option.bind (json_get args k) as_array = Some cols \<Longrightarrow> size_list size cols < size args"
  by (auto simp: bind_eq_Some_conv dest: size_json_get)

function (sequential) v1_select_on ::
  "extern \<Rightarrow> planner \<Rightarrow> table_ctx \<Rightarrow> json \<Rightarrow> session \<Rightarrow> string \<Rightarrow> select_query plan_result"
and v1_output_fields ::
  "extern \<Rightarrow> planner \<Rightarrow> table_ctx \<Rightarrow> nat \<Rightarrow> json list \<Rightarrow> session \<Rightarrow> string \<Rightarrow> output_field list plan_result"
and v1_output_field ::
  "extern \<Rightarrow> planner \<Rightarrow> table_ctx \<Rightarrow> nat \<Rightarrow> json \<Rightarrow> session \<Rightarrow> string \<Rightarrow> output_field list plan_result" where
  "v1_select_on x pl ctx args session path =
     (case Option.bind (json_get args ''columns'') as_array of
        None \<Rightarrow> err_validation path (''expected '' @ quoted ''columns'')
      | Some columns \<Rightarrow>
          bindR (v1_output_fields x pl ctx 0 columns session path) (\<lambda>fs.
            v1_shell x pl ctx args session path fs))"
| "v1_output_fields x pl ctx idx [] session path = Inr []"
| "v1_output_fields x pl ctx idx (item # rest) session path =
     bindR (v1_output_field x pl ctx idx item session path) (\<lambda>fs.
     bindR (v1_output_fields x pl ctx (Suc idx) rest session path) (\<lambda>gs. Inr (fs @ gs)))"
| "v1_output_field x pl ctx idx (JString name) session path = v1_column ctx session path idx name"
| "v1_output_field x pl ctx idx (JObject obj) session path =
     (case Option.bind (jmap_get obj ''name'') as_str of
        None \<Rightarrow> err_validation path ''relationship column needs a name''
      | Some name \<Rightarrow>
          (case relationship_target pl ctx name path of
             None \<Rightarrow> err_validation path (''relationship '' @ dquoted name @ '' not found'')
           | Some (remote_table, join) \<Rightarrow>
               (case relationship_ctx pl remote_table session False of
                  None \<Rightarrow> select_denied path session remote_table
                | Some remote \<Rightarrow>
                    bindR (v1_select_on x pl remote (JObject obj) session path) (\<lambda>q.
                      Inr [v1_relationship_value ctx name join q]))))"
| "v1_output_field x pl ctx idx other session path = err_validation path (''unexpected column spec: '' @ json_display x other)"
  by pat_completeness auto
termination
  by (relation "measure (case_sum (\<lambda>(x, pl, ctx, args, se, path). 2 * size args)
        (case_sum (\<lambda>(x, pl, ctx, idx, items, se, path). 2 * size_list size items + 1)
          (\<lambda>(x, pl, ctx, idx, item, se, path). 2 * size item + 1)))")
    (auto dest: size_list_columns)

declare v1_select_on.simps [simp del]

definition plan_v1_select :: "extern \<Rightarrow> planner \<Rightarrow> json \<Rightarrow> session \<Rightarrow> select_query plan_result" where
  "plan_v1_select x pl args session =
     bindR (v1_table_ctx x pl args session ''$'') (\<lambda>(_, ctx). v1_select_on x pl ctx args session ''$'')"

section \<open>Count\<close>

definition plan_v1_count :: "extern \<Rightarrow> planner \<Rightarrow> json \<Rightarrow> session \<Rightarrow> select_query plan_result" where
  "plan_v1_count x pl args session =
     bindR (parse_table x args ''$'') (\<lambda>table.
       case table_ctx_by_name pl table (se_role session) of
         None \<Rightarrow> fail_new ''$.args'' ''permission-denied''
           (''select on '' @ dquoted (qt_name table) @ '' for role '' @ dquoted (se_role session)
             @ '' is not allowed. ; '' @ dquoted ''count'' @ '' is only allowed if the role has '' @ dquoted ''select''
             @ '' permissions on the table'')
       | Some ctx \<Rightarrow>
           bindR (v1_predicate x pl ctx args session ''$'') (\<lambda>predicate.
           let cols = (case Option.bind (json_get args ''distinct'') as_array of
                 Some cs \<Rightarrow> List.map_filter as_str cs | None \<Rightarrow> [])
           in Inr (SelectQuery (FromTable (ctx_table ctx))
                [OutputField ''count'' (FAggregate [\<lparr>af_alias = ''count'', af_op = Count (cols \<noteq> []) cols\<rparr>])]
                predicate [] None None None [] False)))"

section \<open>Mutations\<close>

definition resolve_preset :: "json \<Rightarrow> session \<Rightarrow> json plan_result" where
  "resolve_preset value session =
     (case value of
        JString s \<Rightarrow>
          (if length s < 8 then Inr (JString s)
           else if \<not> char_boundary s 8 then Inl Panic
           else if eq_ignore_ascii_case (take 8 s) ''x-hasura'' then
             (case session_var session s of
                Some v \<Rightarrow> Inr (JString v)
              | None \<Rightarrow> fail_new ''$'' ''not-found'' (''missing session variable: '' @ dquoted (to_ascii_lowercase s)))
           else Inr (JString s))
      | other \<Rightarrow> Inr other)"

fun v1_presets :: "table_ctx \<Rightarrow> session \<Rightarrow> jmap \<Rightarrow> (string \<times> string \<times> scalar) list plan_result" where
  "v1_presets ctx session [] = Inr []"
| "v1_presets ctx session ((col, value) # rest) =
     (case table_column (tx_info ctx) col of
        None \<Rightarrow> v1_presets ctx session rest
      | Some info \<Rightarrow>
          bindR (resolve_preset value session) (\<lambda>v.
          bindR (v1_presets ctx session rest) (\<lambda>ps. Inr ((col, ci_pg_type info, Scalar v) # ps))))"

definition v1_mutation_output :: "extern \<Rightarrow> planner \<Rightarrow> table_ctx \<Rightarrow> json \<Rightarrow> session \<Rightarrow> string \<Rightarrow> mutation_output plan_result" where
  "v1_mutation_output x pl ctx args session path =
     (case Option.bind (json_get args ''returning'') as_array of
        None \<Rightarrow> Inr (Response [AffectedRows ''affected_rows''])
      | Some cols \<Rightarrow>
          (let table = Qualified (ti_schema (tx_info ctx)) (ti_name (tx_info ctx)) in
           case relationship_ctx pl table session False of
             None \<Rightarrow> select_denied path session table
           | Some select_ctx \<Rightarrow>
               bindR (v1_output_fields x pl select_ctx 0 cols session path) (\<lambda>fs.
                 Inr (Response [AffectedRows ''affected_rows'', Returning ''returning'' fs]))))"

definition v1_tracked_ctx :: "extern \<Rightarrow> planner \<Rightarrow> json \<Rightarrow> session \<Rightarrow> (qualified_table \<times> table_ctx) plan_result" where
  "v1_tracked_ctx x pl args session =
     bindR (parse_table x args ''$'') (\<lambda>table.
       case relationship_ctx pl table session True of
         None \<Rightarrow> err_validation ''$'' (''table '' @ dquoted (qt_display table) @ '' not tracked'')
       | Some ctx \<Rightarrow> Inr (table, ctx))"

text \<open>The row filter of a mutation permission, as a list of at most one.\<close>

definition v1_filter :: "extern \<Rightarrow> planner \<Rightarrow> table_ctx \<Rightarrow> json \<Rightarrow> session \<Rightarrow> bool_exp list plan_result" where
  "v1_filter x pl ctx flt session =
     (if unrestricted flt then Inr []
      else bindR (parse_bool_exp x pl flt ctx session True ''$'') (\<lambda>e. Inr [e]))"

definition v1_set_keys :: "(string \<times> (string \<Rightarrow> string \<Rightarrow> scalar \<Rightarrow> set_op)) list" where
  "v1_set_keys = [(''$set'', SetOp), (''$inc'', IncOp), (''$mul'', SetOp)]"

definition v1_set_column ::
  "table_ctx \<Rightarrow> session \<Rightarrow> update_permission \<Rightarrow> string \<Rightarrow> (string \<Rightarrow> string \<Rightarrow> scalar \<Rightarrow> set_op) \<Rightarrow> string \<times> json \<Rightarrow> set_op plan_result" where
  "v1_set_column ctx session perm key mk e =
     (if jmap_get (up_set perm) (fst e) \<noteq> None then
        fail_new (''$.args['' @ dquoted ''$set'' @ '']'') ''not-supported''
          (''column '' @ dquoted (fst e) @ '' is not updatable for role '' @ dquoted (se_role session)
            @ ''; its value is predefined in permission'')
      else if \<not> columns_grant (up_columns perm) ctx (fst e) then
        fail_new (''$.args['' @ dquoted key @ '']'') ''permission-denied''
          (''role '' @ dquoted (se_role session) @ '' does not have permission to update column '' @ dquoted (fst e))
      else case table_column (tx_info ctx) (fst e) of
        None \<Rightarrow> Inl Panic
      | Some info \<Rightarrow> Inr (mk (fst e) (ci_pg_type info) (Scalar (snd e))))"

definition v1_sets :: "table_ctx \<Rightarrow> session \<Rightarrow> update_permission \<Rightarrow> json \<Rightarrow> set_op list plan_result" where
  "v1_sets ctx session perm args =
     bindR (traverse (\<lambda>(key, mk). case Option.bind (json_get args key) as_object of
           None \<Rightarrow> Inr []
         | Some m \<Rightarrow> traverse (v1_set_column ctx session perm key mk) m) v1_set_keys)
       (\<lambda>sets. Inr (concat sets))"

definition plan_v1_update :: "extern \<Rightarrow> planner \<Rightarrow> json \<Rightarrow> session \<Rightarrow> update_mutation plan_result" where
  "plan_v1_update x pl args session =
     bindR (v1_tracked_ctx x pl args session) (\<lambda>(table, ctx).
       case find (\<lambda>p. pe_role p = se_role session) (te_update_permissions (tx_entry ctx)) of
         None \<Rightarrow> fail_new ''$'' ''permission-denied'' (''role '' @ dquoted (se_role session)
           @ '' does not have permission to update table '' @ dquoted (qt_display table))
       | Some entry \<Rightarrow>
           (let perm = pe_permission entry in
            bindR (v1_sets ctx session perm args) (\<lambda>user_sets.
            bindR (v1_presets ctx session (up_set perm)) (\<lambda>ps.
            let sets = user_sets @ preset_sets ps in
            if sets = [] then err_validation ''$'' (''expected '' @ quoted ''$set'')
            else
              bindR (v1_where x pl ctx args session ''$'') (\<lambda>ws.
              bindR (v1_filter x pl ctx (up_filter perm) session) (\<lambda>fs.
              bindR (v1_mutation_output x pl ctx args session ''$'') (\<lambda>output.
                Inr \<lparr>um_table = ctx_table ctx, um_sets = sets, um_predicate = predicate_of (ws @ fs),
                     um_check = None, um_check_path = ''$'', um_output = output\<rparr>)))))))"

definition plan_v1_delete :: "extern \<Rightarrow> planner \<Rightarrow> json \<Rightarrow> session \<Rightarrow> delete_mutation plan_result" where
  "plan_v1_delete x pl args session =
     bindR (v1_tracked_ctx x pl args session) (\<lambda>(table, ctx).
       case find (\<lambda>p. pe_role p = se_role session) (te_delete_permissions (tx_entry ctx)) of
         None \<Rightarrow> fail_new ''$'' ''permission-denied'' (''role '' @ dquoted (se_role session)
           @ '' does not have permission to delete from table '' @ dquoted (qt_display table))
       | Some entry \<Rightarrow>
           bindR (v1_where x pl ctx args session ''$'') (\<lambda>ws.
           bindR (v1_filter x pl ctx (dp_filter (pe_permission entry)) session) (\<lambda>fs.
           bindR (v1_mutation_output x pl ctx args session ''$'') (\<lambda>output.
             Inr \<lparr>dm_table = ctx_table ctx, dm_predicate = predicate_of (ws @ fs), dm_output = output\<rparr>))))"

definition v1_insert_key :: "insert_permission \<Rightarrow> table_ctx \<Rightarrow> session \<Rightarrow> string list \<Rightarrow> string \<times> json \<Rightarrow> string list plan_result" where
  "v1_insert_key perm ctx session cols e =
     (if columns_grant (ip_columns perm) ctx (fst e) then Inr (push_new cols (fst e))
      else fail_new ''$'' ''permission-denied''
        (''role '' @ dquoted (se_role session) @ '' does not have permission to insert column '' @ dquoted (fst e)))"

definition v1_insert_object :: "insert_permission \<Rightarrow> table_ctx \<Rightarrow> session \<Rightarrow> string list \<Rightarrow> json \<Rightarrow> string list plan_result" where
  "v1_insert_object perm ctx session cols obj =
     (case as_object obj of
        None \<Rightarrow> err_validation ''$'' ''objects must be objects''
      | Some m \<Rightarrow> foldR (v1_insert_key perm ctx session) cols m)"

definition v1_on_conflict ::
  "extern \<Rightarrow> planner \<Rightarrow> table_ctx \<Rightarrow> session \<Rightarrow> string list \<Rightarrow> json \<Rightarrow> on_conflict plan_result" where
  "v1_on_conflict x pl ctx session columns oc =
     (case Option.bind (json_get oc ''constraint'') as_str of
        None \<Rightarrow> err_validation ''$'' ''on_conflict needs a constraint''
      | Some constraint \<Rightarrow>
          (let update_columns = (if Option.bind (json_get oc ''action'') as_str = Some ''ignore'' then [] else columns) in
           case (if update_columns = [] then None
                 else find (\<lambda>p. pe_role p = se_role session) (te_update_permissions (tx_entry ctx))) of
             None \<Rightarrow> Inr \<lparr>oc_constraint = constraint, oc_update_columns = update_columns, oc_predicate = None, oc_set_ops = []\<rparr>
           | Some entry \<Rightarrow>
               bindR (v1_filter x pl ctx (up_filter (pe_permission entry)) session) (\<lambda>fs.
               bindR (v1_presets ctx session (up_set (pe_permission entry))) (\<lambda>ps.
                 Inr \<lparr>oc_constraint = constraint, oc_update_columns = update_columns, oc_predicate = predicate_of fs,
                      oc_set_ops = preset_sets ps\<rparr>))))"

definition plan_v1_insert :: "extern \<Rightarrow> planner \<Rightarrow> json \<Rightarrow> session \<Rightarrow> insert_mutation plan_result" where
  "plan_v1_insert x pl args session =
     bindR (v1_tracked_ctx x pl args session) (\<lambda>(table, ctx).
       case find (\<lambda>p. pe_role p = se_role session \<and> insert_usable session (pe_permission p)) (te_insert_permissions (tx_entry ctx)) of
         None \<Rightarrow> fail_new ''$.args'' ''permission-denied''
           (''insert on '' @ dquoted (qt_name table) @ '' for role '' @ dquoted (se_role session) @ '' is not allowed. '')
       | Some entry \<Rightarrow>
           (let perm = pe_permission entry in
            case Option.bind (json_get args ''objects'') as_array of
              None \<Rightarrow> err_validation ''$'' (''expected '' @ quoted ''objects'')
            | Some objects \<Rightarrow>
                if objects = [] then err_validation ''$'' ''objects must be non-empty''
                else
                  bindR (foldR (v1_insert_object perm ctx session) [] objects) (\<lambda>cols.
                  bindR (v1_presets ctx session (ip_set perm)) (\<lambda>ps.
                  let columns = foldl push_new cols (map fst ps) in
                  bindR (traverse (typed_column ctx) columns) (\<lambda>typed_columns.
                  bindR (v1_filter x pl ctx (ip_check perm) session) (\<lambda>check.
                  bindR (case non_null (json_get args ''on_conflict'') of
                      None \<Rightarrow> Inr None
                    | Some oc \<Rightarrow> bindR (v1_on_conflict x pl ctx session columns oc) (\<lambda>c. Inr (Some c))) (\<lambda>on_conflict.
                  bindR (v1_mutation_output x pl ctx args session ''$'') (\<lambda>output.
                    Inr \<lparr>im_table = ctx_table ctx, im_columns = typed_columns,
                         im_rows = map (\<lambda>obj. map (insert_cell ps (object_map obj)) typed_columns) objects,
                         im_on_conflict = on_conflict, im_check = predicate_of check,
                         im_check_path = ''$'', im_output = output\<rparr>))))))))"

end
