(* ===== verification/V1_Properties.thy ===== *)
theory V1_Properties
  imports Mutation_Properties V1 Plan_Injection
begin

text \<open>
  The legacy data API keeps to the same permissions as GraphQL: what its
  columns and relationships read, and what its mutations reach and write.
\<close>

section \<open>Walking a column list\<close>

locale v1_invariant =
  fixes x :: extern and pl :: planner and session :: session
    and good :: "table_ctx \<Rightarrow> bool"
    and ok :: "table_ctx \<Rightarrow> output_field \<Rightarrow> bool"
  assumes good_remote: "relationship_ctx pl t session False = Some ctx \<Longrightarrow> good ctx"
    and column_ok: "good ctx \<Longrightarrow> column_allowed ctx c \<Longrightarrow> ok ctx (OutputField c (FColumn c ty))"
    and related_ok: "good remote \<Longrightarrow> v1_shell x pl remote args session path fs = Inr q \<Longrightarrow> list_all (ok remote) fs \<Longrightarrow>
      ok ctx (v1_relationship_value ctx name join q)"
begin

lemma columns_ok:
  "good ctx \<Longrightarrow> v1_column ctx session path idx name = Inr fs \<Longrightarrow> list_all (ok ctx) fs"
  using column_ok
  by (auto simp: v1_column_def fail_new_def err_validation_def list_all_iff dest!: table_column_name split: if_splits option.splits)

lemma walk_ok:
  "good ctx \<Longrightarrow> v1_select_on x' pl' ctx args session' path = Inr q \<Longrightarrow> x' = x \<Longrightarrow> pl' = pl \<Longrightarrow> session' = session \<Longrightarrow>
     \<exists>fs. v1_shell x pl ctx args session path fs = Inr q \<and> list_all (ok ctx) fs"
  "good ctx \<Longrightarrow> v1_output_fields x' pl' ctx idx items session' path = Inr fs \<Longrightarrow> x' = x \<Longrightarrow> pl' = pl \<Longrightarrow> session' = session \<Longrightarrow>
     list_all (ok ctx) fs"
  "good ctx \<Longrightarrow> v1_output_field x' pl' ctx idx item session' path = Inr fs \<Longrightarrow> x' = x \<Longrightarrow> pl' = pl \<Longrightarrow> session' = session \<Longrightarrow>
     list_all (ok ctx) fs"
proof (induction x' pl' ctx args session' path and x' pl' ctx idx items session' path and x' pl' ctx idx item session' path
    arbitrary: q and fs and fs rule: v1_select_on_v1_output_fields_v1_output_field.induct)
  case (1 x' pl' ctx args session' path)
  then show ?case by (auto simp: v1_select_on.simps [of x] err_validation_def split: option.splits)
next
  case (5 x' pl' ctx idx obj session' path)
  then show ?case using related_ok good_remote
    by (fastforce simp: err_validation_def select_denied_def fail_new_def split: option.splits)
qed (auto simp: columns_ok err_validation_def)

lemmas select_ok = walk_ok(1) [OF _ _ refl refl refl]
lemmas fields_ok = walk_ok(2) [OF _ _ refl refl refl]

end

section \<open>The environment of a request\<close>

definition v1_env :: "extern \<Rightarrow> planner \<Rightarrow> session \<Rightarrow> plan_env" where
  "v1_env x pl session = \<lparr>en_extern = x, en_planner = pl, en_fragments = [], en_vars = [], en_session = session,
     en_gql_display = (\<lambda>_. [])\<rparr>"

lemma v1_env_sel [simp]:
  "en_extern (v1_env x pl session) = x" "en_planner (v1_env x pl session) = pl" "en_session (v1_env x pl session) = session"
  "en_role (v1_env x pl session) = se_role session"
  by (simp_all add: v1_env_def)

definition one_perm :: "plan_env \<Rightarrow> table_ctx \<Rightarrow> bool" where
  "one_perm en ctx \<longleftrightarrow> role_ctx en ctx \<and> length (tx_perms ctx) = 1"

lemma concrete_one_perm:
  assumes "role_ctx en ctx" "inherited_of (pl_inherited_roles (en_planner en)) (en_role en) = None"
  shows "one_perm en ctx"
proof -
  obtain entry where "tx_perms ctx = role_select_perms (pl_inherited_roles (en_planner en)) entry (en_role en)"
    using assms(1) by (auto simp: role_ctx_def table_ctx_of_def Let_def split: option.splits if_splits)
  then have "length (tx_perms ctx) \<le> 1"
    using expand_role_concrete [OF assms(2)] by (simp add: role_select_perms_def map_filter_def split: option.splits)
  then show ?thesis using assms(1) role_ctx_perms [OF assms(1)] by (simp add: one_perm_def le_Suc_eq)
qed

lemma one_perm_cell: "one_perm en ctx \<Longrightarrow> column_allowed ctx c \<Longrightarrow> guarded_cell en ctx c None"
  by (auto simp: one_perm_def guarded_cell_def row_visible_def cell_visible_def column_allowed_def length_Suc_conv)

lemma v1_predicate_guarded:
  assumes "v1_predicate x pl ctx args session path = Inr p" "tx_perms ctx \<noteq> []"
  shows "rows_guarded (v1_env x pl session) ctx p"
proof -
  obtain ws perm where "permission_predicate x pl ctx session path = Inr perm" "p = predicate_of (ws @ opt_list perm)"
    using assms(1) by (auto simp: v1_predicate_def)
  then show ?thesis
    by (auto simp: env_permission_def intro: predicate_guarded [of "v1_env x pl session" ctx path perm, OF _ assms(2)])
qed

lemma v1_shell_parts:
  assumes "v1_shell x pl ctx args session path fs = Inr q"
  shows "sq_from q = FromTable (ctx_table ctx)" "sq_fields q = fs" "rows_limited ctx (sq_limit q)" "\<not> sq_single q"
    and "v1_predicate x pl ctx args session path = Inr (sq_predicate q)"
  using assms by (auto simp: v1_shell_def Let_def rows_limited_def cap_limit_def min_def split: option.splits)

lemma v1_shell_secure:
  assumes "v1_shell x pl ctx args session path fs = Inr q" "tx_perms ctx \<noteq> []"
    and "list_all (secure_field (v1_env x pl session) ctx) fs"
  shows "secure_query (v1_env x pl session) ctx q" "secure_query (v1_env x pl session) ctx (as_single q)"
  using v1_predicate_guarded [OF v1_shell_parts(5) [OF assms(1)] assms(2)] v1_shell_parts(1-3) [OF assms(1)] assms(3)
  by (auto simp: as_single_def reads_def list_all_iff intro: sq_rows)

definition concrete_role :: "planner \<Rightarrow> session \<Rightarrow> bool" where
  "concrete_role pl session \<longleftrightarrow> inherited_of (pl_inherited_roles pl) (se_role session) = None"

lemma concrete_column_secure:
  "concrete_role pl session \<Longrightarrow> role_ctx (v1_env x pl session) ctx \<Longrightarrow> column_allowed ctx c \<Longrightarrow>
     secure_field (v1_env x pl session) ctx (OutputField c (FColumn c ty))"
  by (rule sf_column [OF one_perm_cell [OF concrete_one_perm]]) (simp_all add: concrete_role_def)

lemma related_secure:
  assumes "role_ctx (v1_env x pl session) remote" "v1_shell x pl remote args session path fs = Inr q"
    and "list_all (secure_field (v1_env x pl session) remote) fs"
  shows "secure_field (v1_env x pl session) ctx (v1_relationship_value ctx name join q)"
  using v1_shell_secure [OF assms(2) role_ctx_perms [OF assms(1)] assms(3)] assms(1)
  by (auto simp: v1_relationship_value_def intro: sf_object sf_array)

interpretation v1_secure: v1_invariant x pl session "role_ctx (v1_env x pl session)"
  "\<lambda>ctx f. concrete_role pl session \<longrightarrow> secure_field (v1_env x pl session) ctx f" for x pl session
proof
  show "role_ctx (v1_env x pl session) ctx" if "relationship_ctx pl t session False = Some ctx" for t ctx
    using that role_ctx_relationship [of "v1_env x pl session" t ctx] by simp
qed (auto intro!: concrete_column_secure related_secure simp: list_all_iff)

interpretation v1_wf: v1_invariant x pl session "\<lambda>_. True" "\<lambda>_. field_wf" for x pl session
proof
  show "field_wf (v1_relationship_value ctx name join q)"
    if "v1_shell x pl remote args session path fs = Inr q" "list_all field_wf fs" for remote args path fs q ctx name join
  proof -
    have q: "from_wf True (sq_from q)" "sq_fields q = fs" using v1_shell_parts(1,2) [OF that(1)] by simp_all
    then show ?thesis using that(2) by (cases q) (simp add: v1_relationship_value_def as_single_def fields_wf_not_aggregate)
  qed
qed simp_all

lemma v1_order_raw_ok: "v1_order_by ctx v path = Inr obs \<Longrightarrow> list_all (\<lambda>ob. target_raw_ok (ob_target ob)) obs"
  unfolding v1_order_by_def
  by (erule traverse_list_all)
    (auto simp: v1_order_spec_def v1_order_item_def err_validation_def split: json.splits option.splits if_splits)

lemma v1_where_raw_ok: "v1_where x pl ctx args session path = Inr ws \<Longrightarrow> list_all exp_raw_ok ws"
  by (auto simp: v1_where_def dest: parse_raw_ok split: option.splits)

lemma v1_predicate_raw_ok: "v1_predicate x pl ctx args session path = Inr p \<Longrightarrow> pred_option exp_raw_ok p"
  by (auto simp: v1_predicate_def permission_predicate_def predicate_of_raw_ok opt_list_raw_ok dest: v1_where_raw_ok combined_raw_ok)

lemma v1_shell_raw_ok:
  assumes "v1_shell x pl ctx args session path fs = Inr q" "list_all field_raw_ok fs"
  shows "query_raw_ok q" "query_raw_ok (as_single q)"
  using assms
  by (auto simp: v1_shell_def Let_def as_single_def dest!: v1_predicate_raw_ok v1_order_raw_ok split: option.splits)

interpretation v1_safe: v1_invariant x pl session "\<lambda>_. True" "\<lambda>_. field_raw_ok" for x pl session
  by unfold_locales (auto simp: v1_relationship_value_def v1_shell_raw_ok)

section \<open>Mutations\<close>

text \<open>Presets and filters are resolved as in GraphQL.\<close>

lemma resolve_preset_session: "resolve_preset value session = resolve_session value session True path"
  by (simp add: resolve_preset_def resolve_session_def fail_new_def split: json.splits option.splits)

lemma v1_presets_eq: "v1_presets ctx session preset = presets ctx session preset"
  by (induction preset) (auto simp: resolve_preset_session [where path = "''$''"] split: option.splits)

lemma filter_ctx_unmasked: "filter_ctx pl idx = Some ctx \<Longrightarrow> filter_ctx_of ctx = ctx"
  by (auto simp: filter_ctx_def filter_ctx_of_def Let_def)

lemma tracked_ctx:
  assumes "v1_tracked_ctx x pl args session = Inr (table, ctx)"
  obtains idx where "mutation_table_ctx pl idx = Some ctx" "filter_ctx_of ctx = ctx"
proof -
  obtain idx where "filter_ctx pl idx = Some ctx"
    using assms by (auto simp: v1_tracked_ctx_def err_validation_def relationship_ctx_def bind_eq_Some_conv split: option.splits)
  then show ?thesis using that by (simp add: mutation_table_ctx_def filter_ctx_unmasked)
qed

lemma v1_filter_eq:
  "filter_ctx_of ctx = ctx \<Longrightarrow>
     v1_filter x pl ctx flt session = bindR (parse_filter_exp (v1_env x pl session) flt ctx ''$'') (\<lambda>f. Inr (opt_list f))"
  by (cases "parse_bool_exp x pl flt ctx session True ''$''") (simp_all add: v1_filter_def parse_filter_exp_def opt_list_def)

lemma v1_filter_Inr:
  assumes "v1_filter x pl ctx flt session = Inr fs" "filter_ctx_of ctx = ctx"
  obtains f where "parse_filter_exp (v1_env x pl session) flt ctx ''$'' = Inr f" "fs = opt_list f"
  using assms by (auto simp: v1_filter_eq)

lemma v1_sets_granted:
  assumes "v1_sets ctx session perm args = Inr sets"
  shows "list_all (\<lambda>s. columns_grant (up_columns perm) ctx (set_op_column s)) sets"
proof -
  let ?P = "\<lambda>s. columns_grant (up_columns perm) ctx (set_op_column s)"
  have one: "traverse (v1_set_column ctx session perm key mk) m = Inr ss \<Longrightarrow> (key, mk) \<in> set v1_set_keys \<Longrightarrow> list_all ?P ss" for key mk m ss
    by (erule traverse_list_all) (auto simp: v1_set_column_def fail_new_def v1_set_keys_def split: if_splits option.splits)
  obtain sss where sss: "traverse (\<lambda>(key, mk). case Option.bind (json_get args key) as_object of
           None \<Rightarrow> Inr [] | Some m \<Rightarrow> traverse (v1_set_column ctx session perm key mk) m) v1_set_keys = Inr sss" "sets = concat sss"
    using assms by (auto simp: v1_sets_def)
  have "list_all (list_all ?P) sss"
    using sss(1) one by (auto simp: v1_set_keys_def split: option.splits)
  then show ?thesis using sss(2) by (auto simp: list_all_iff)
qed

text \<open>A mutation of the legacy API runs under an entry of the role itself.\<close>

definition own_entry :: "session \<Rightarrow> 'p permission_entry list \<Rightarrow> 'p \<Rightarrow> bool" where
  "own_entry session entries perm \<longleftrightarrow> (\<exists>e \<in> set entries. pe_role e = se_role session \<and> pe_permission e = perm)"

fun v1_authorized :: "plan_env \<Rightarrow> mutation_root \<Rightarrow> bool" where
  "v1_authorized en (Insert _ i) \<longleftrightarrow> (\<exists>idx ctx perm. mutation_table_ctx (en_planner en) idx = Some ctx
     \<and> own_entry (en_session en) (te_insert_permissions (tx_entry ctx)) perm \<and> insert_authorized en ctx perm i)"
| "v1_authorized en (Update _ u) \<longleftrightarrow> (\<exists>idx ctx perm. mutation_table_ctx (en_planner en) idx = Some ctx
     \<and> own_entry (en_session en) (te_update_permissions (tx_entry ctx)) perm
     \<and> update_authorized en ctx (perm\<lparr>up_check := None\<rparr>) u)"
| "v1_authorized en (Delete _ d) \<longleftrightarrow> (\<exists>idx ctx perm. mutation_table_ctx (en_planner en) idx = Some ctx
     \<and> own_entry (en_session en) (te_delete_permissions (tx_entry ctx)) perm \<and> delete_authorized en ctx perm d)"
| "v1_authorized en _ \<longleftrightarrow> False"

definition v1_plans :: "extern \<Rightarrow> planner \<Rightarrow> json \<Rightarrow> session \<Rightarrow> mutation_root \<Rightarrow> bool" where
  "v1_plans x pl args session r \<longleftrightarrow>
     (case r of Insert _ i \<Rightarrow> plan_v1_insert x pl args session = Inr i
      | Update _ u \<Rightarrow> plan_v1_update x pl args session = Inr u
      | Delete _ d \<Rightarrow> plan_v1_delete x pl args session = Inr d
      | _ \<Rightarrow> False)"

lemma find_own_entry: "find (\<lambda>p. pe_role p = se_role session) entries = Some e \<Longrightarrow> own_entry session entries (pe_permission e)"
  by (auto simp: own_entry_def dest!: find_Some_in)

lemma v1_delete_authorized:
  assumes "plan_v1_delete x pl args session = Inr d"
  shows "v1_authorized (v1_env x pl session) (Delete a d)"
proof -
  obtain table ctx e ws fs where ctx: "v1_tracked_ctx x pl args session = Inr (table, ctx)"
    and e: "find (\<lambda>p. pe_role p = se_role session) (te_delete_permissions (tx_entry ctx)) = Some e"
    and fs: "v1_filter x pl ctx (dp_filter (pe_permission e)) session = Inr fs"
    and d: "dm_table d = ctx_table ctx" "dm_predicate d = predicate_of (ws @ fs)"
    using assms by (auto simp: plan_v1_delete_def fail_new_def split: option.splits)
  obtain idx where idx: "mutation_table_ctx pl idx = Some ctx" "filter_ctx_of ctx = ctx" by (rule tracked_ctx [OF ctx])
  obtain f where f: "parse_filter_exp (v1_env x pl session) (dp_filter (pe_permission e)) ctx ''$'' = Inr f" "fs = opt_list f"
    by (rule v1_filter_Inr [OF fs idx(2)])
  have "rows_admitted (v1_env x pl session) ctx (dp_filter (pe_permission e)) (dm_predicate d)"
    unfolding d by (rule rows_admitted_predicate [OF f(1)]) (simp add: f(2))
  then have "delete_authorized (v1_env x pl session) ctx (pe_permission e) d" using d(1) by (simp add: delete_authorized_def)
  then show ?thesis using idx(1) find_own_entry [OF e] by auto
qed

lemma v1_update_authorized:
  assumes "plan_v1_update x pl args session = Inr u"
  shows "v1_authorized (v1_env x pl session) (Update a u)"
proof -
  obtain table ctx e sets ps ws fs where ctx: "v1_tracked_ctx x pl args session = Inr (table, ctx)"
    and e: "find (\<lambda>p. pe_role p = se_role session) (te_update_permissions (tx_entry ctx)) = Some e"
    and sets: "v1_sets ctx session (pe_permission e) args = Inr sets"
    and ps: "v1_presets ctx session (up_set (pe_permission e)) = Inr ps"
    and fs: "v1_filter x pl ctx (up_filter (pe_permission e)) session = Inr fs"
    and u: "um_table u = ctx_table ctx" "um_predicate u = predicate_of (ws @ fs)" "um_sets u = sets @ preset_sets ps" "um_check u = None"
    using assms by (auto simp: plan_v1_update_def fail_new_def err_validation_def Let_def split: option.splits if_splits)
  let ?p = "pe_permission e"
  obtain idx where idx: "mutation_table_ctx pl idx = Some ctx" "filter_ctx_of ctx = ctx" by (rule tracked_ctx [OF ctx])
  obtain f where f: "parse_filter_exp (v1_env x pl session) (up_filter ?p) ctx ''$'' = Inr f" "fs = opt_list f"
    by (rule v1_filter_Inr [OF fs idx(2)])
  have "rows_admitted (v1_env x pl session) ctx (up_filter ?p) (um_predicate u)"
    unfolding u by (rule rows_admitted_predicate [OF f(1)]) (simp add: f(2))
  moreover have "list_all (\<lambda>s. writable (up_columns ?p) (up_set ?p) ctx (set_op_column s)) (um_sets u)"
    using preset_sets_writable [OF ps [unfolded v1_presets_eq]] v1_sets_granted [OF sets] u(3) by (auto simp: writable_def list_all_iff)
  ultimately have "update_authorized (v1_env x pl session) ctx (?p\<lparr>up_check := None\<rparr>) u" using u by (simp add: update_authorized_def)
  then show ?thesis using idx(1) find_own_entry [OF e] by auto
qed

lemma v1_objects_granted:
  assumes "foldR (v1_insert_object perm ctx session) [] objs = Inr cols"
  shows "list_all (columns_grant (ip_columns perm) ctx) cols"
proof (rule foldR_invariant [OF assms])
  fix s obj t
  assume s: "list_all (columns_grant (ip_columns perm) ctx) s" and t: "v1_insert_object perm ctx session s obj = Inr t"
  obtain m where m: "foldR (v1_insert_key perm ctx session) s m = Inr t"
    using t by (auto simp: v1_insert_object_def err_validation_def split: option.splits)
  show "list_all (columns_grant (ip_columns perm) ctx) t"
    by (rule foldR_invariant [OF m, where I = "list_all (columns_grant (ip_columns perm) ctx)"])
      (use s in \<open>auto simp: v1_insert_key_def push_new_def fail_new_def split: if_splits\<close>)
qed simp

lemma v1_insert_authorized:
  assumes "plan_v1_insert x pl args session = Inr i"
  shows "v1_authorized (v1_env x pl session) (Insert a i)"
proof -
  obtain table ctx e objects cols ps tcs fs where ctx: "v1_tracked_ctx x pl args session = Inr (table, ctx)"
    and e: "find (\<lambda>p. pe_role p = se_role session \<and> insert_usable session (pe_permission p)) (te_insert_permissions (tx_entry ctx)) = Some e"
    and cols: "foldR (v1_insert_object (pe_permission e) ctx session) [] objects = Inr cols"
    and ps: "presets ctx session (ip_set (pe_permission e)) = Inr ps"
    and tcs: "traverse (typed_column ctx) (foldl push_new cols (map fst ps)) = Inr tcs"
    and fs: "v1_filter x pl ctx (ip_check (pe_permission e)) session = Inr fs"
    and i: "im_table i = ctx_table ctx" "im_columns i = tcs" "im_check i = predicate_of fs"
      "im_rows i = map (\<lambda>obj. map (insert_cell ps (object_map obj)) tcs) objects"
    using assms by (auto simp: plan_v1_insert_def v1_presets_eq fail_new_def err_validation_def Let_def split: option.splits if_splits)
  obtain idx where idx: "mutation_table_ctx pl idx = Some ctx" "filter_ctx_of ctx = ctx" by (rule tracked_ctx [OF ctx])
  obtain f where f: "parse_filter_exp (v1_env x pl session) (ip_check (pe_permission e)) ctx ''$'' = Inr f" "fs = opt_list f"
    by (rule v1_filter_Inr [OF fs idx(2)])
  have "predicate_of fs = f" using f(2) by (cases f) (simp_all add: opt_list_def)
  then have "checks (v1_env x pl session) ctx (ip_check (pe_permission e)) (im_check i)"
    using parse_check_checks [of "v1_env x pl session", unfolded parse_check_exp_def, OF f(1)] i(3) by simp
  then have "insert_authorized (v1_env x pl session) ctx (pe_permission e) i"
    using insert_parts_authorized [OF _ _ _ i(1,2,4)] find_Some_in [OF e] ps tcs v1_objects_granted [OF cols] by simp
  then show ?thesis using idx(1) find_Some_in [OF e] by (auto simp: own_entry_def)
qed

lemma v1_ctx_role: "v1_table_ctx x pl args session path = Inr (table, ctx) \<Longrightarrow> role_ctx (v1_env x pl session) ctx"
  using role_ctx_by_name [of "v1_env x pl session" table ctx]
  by (auto simp: v1_table_ctx_def select_denied_def fail_new_def split: option.splits)

lemma v1_select_ctx:
  assumes "plan_v1_select x pl args session = Inr q"
  obtains ctx where "role_ctx (v1_env x pl session) ctx" "v1_select_on x pl ctx args session ''$'' = Inr q"
  using assms by (auto simp: plan_v1_select_def dest: v1_ctx_role)

section \<open>Properties\<close>


definition v1_article :: "string \<Rightarrow> json" where
  "v1_article title = JObject [(''table'', JString ''article''),
     (''columns'', JArray [JString ''id'', JObject [(''name'', JString ''author''), (''columns'', JArray [JString ''name''])]]),
     (''where'', JObject [(''title'', JObject [(''_eq'', JString title)])]), (''order_by'', JString ''-id'')]"

definition v1_article_query :: "string \<Rightarrow> select_query" where
  "v1_article_query title = SelectQuery (FromTable \<lparr>it_schema = ''public'', it_name = ''article''\<rparr>)
     [OutputField ''id'' (FColumn ''id'' ''int4''),
      OutputField ''author'' (FObject (SelectQuery (FromTable \<lparr>it_schema = ''public'', it_name = ''author''\<rparr>)
        [OutputField ''name'' (FColumn ''name'' ''text'')] None [] None None None [] True) [(''author_id'', ''id'')])]
     (Some (And [Compare ''title'' ''text'' (Eq (Scalar (JString title))), own_filter]))
     [\<lparr>ob_target = OrderColumn ''id'', ob_direction = Desc, ob_nulls = NullsFirst\<rparr>] (Some 10) None None [] False"

lemma v1_article_planned:
  "plan_v1_select sample_extern sample_planner (v1_article ''Ann'') (sample_session ''user'') = Inr (v1_article_query ''Ann'')"
  "plan_v1_select sample_extern sample_planner (v1_article hostile) (sample_session ''user'') = Inr (v1_article_query hostile)"
  by code_simp+


text \<open>
  Selects of the legacy API have SQL, and two of them that differ only in
  the contents of strings have SQL with the same token skeleton: no string of
  a request reaches the SQL unquoted.
\<close>

theorem v1_select_injection_free:
  assumes "numbers_plain y"
    and plans: "plan_v1_select x pl args session = Inr q" "plan_v1_select x' pl' args' session' = Inr q'"
    and "blank_query q = blank_query q'"
  shows "\<exists>s s'. operation_to_sql_opts y [RSelect a q] st = Inr s \<and> operation_to_sql_opts y [RSelect a q'] st = Inr s'
    \<and> skeleton s = skeleton s' \<and> TBad \<notin> set (sql_scan s)"
proof -
  have ok: "query_raw_ok q \<and> query_wf False q" if plan: "plan_v1_select x pl args session = Inr q" for x pl args session q
  proof -
    obtain ctx where q: "v1_select_on x pl ctx args session ''$'' = Inr q" using v1_select_ctx [OF plan] by blast
    obtain fs where fs: "v1_shell x pl ctx args session ''$'' fs = Inr q" "list_all field_raw_ok fs"
      using v1_safe.select_ok [OF TrueI q] by blast
    obtain gs where gs: "v1_shell x pl ctx args session ''$'' gs = Inr q" "list_all field_wf gs"
      using v1_wf.select_ok [OF TrueI q] by blast
    have "query_wf False q" using v1_shell_parts(1,2) [OF gs(1)] gs(2) by (cases q) (simp add: fields_wf_not_aggregate)
    then show ?thesis using v1_shell_raw_ok(1) [OF fs] by simp
  qed
  obtain s s' where s: "operation_to_sql_opts y [RSelect a q] st = Inr s" "operation_to_sql_opts y [RSelect a q'] st = Inr s'"
    using operation_total [of "[RSelect a q]" y st] operation_total [of "[RSelect a q']" y st] ok [OF plans(1)] ok [OF plans(2)] by auto
  then show ?thesis
    using shape_operation [OF assms(1) _ s(1)] shape_operation [OF assms(1) _ s(2)] ok [OF plans(1)] ok [OF plans(2)] assms(4)
    by (auto dest: shape_common)
qed

theorem v1_select_injection_free_witness:
  "\<exists>s s'. operation_to_sql_opts sample_extern [RSelect ''rows'' (v1_article_query hostile)] False = Inr s
    \<and> operation_to_sql_opts sample_extern [RSelect ''rows'' (v1_article_query ''Ann'')] False = Inr s'
    \<and> skeleton s = skeleton s' \<and> TBad \<notin> set (sql_scan s)"
  by (rule v1_select_injection_free [OF sample_numbers_plain v1_article_planned(2,1)])
    (simp add: v1_article_query_def blank_scalar_def hostile_def trim_start_def starts_with_def)



section \<open>Where the legacy API is weaker\<close>

text \<open>
  Columns of an inherited role are not guarded: \<open>both\<close> reads \<open>secret\<close> of the
  rows that only \<open>user\<close>, who may not read it, sees. GraphQL guards the column.
\<close>

theorem v1_inherited_unguarded:
  "(case plan_v1_select sample_extern sample_planner
        (JObject [(''table'', JString ''article''), (''columns'', JArray [JString ''secret''])]) (sample_session ''both'') of
      Inr q \<Rightarrow> sq_fields q = [OutputField ''secret'' (FColumn ''secret'' ''text'')] | _ \<Rightarrow> False) = True
   \<and> (case plan_query 9 (sample_env ''both'' []) [nested_field ''article'' [] [leaf_field ''secret'']] of
      Inr (RSelect a q # rs) \<Rightarrow> (case sq_fields q of OutputField b (FColumnGuarded c ty g) # fs \<Rightarrow> c = ''secret'' | _ \<Rightarrow> False)
    | _ \<Rightarrow> False) = True"
  by (intro conjI) code_simp+

text \<open>An update with \<open>$mul\<close> overwrites the column.\<close>

theorem v1_mul_overwrites:
  "(case plan_v1_update sample_extern sample_planner
        (JObject [(''table'', JString ''article''), (''$mul'', JObject [(''title'', JNumber (PosInt 2))])]) (sample_session ''user'') of
      Inr u \<Rightarrow> um_sets u = [SetOp ''title'' ''text'' (Scalar (JNumber (PosInt 2)))] | _ \<Rightarrow> False) = True"
  by code_simp

end
