(* ===== verification/Jwt.thy ===== *)
theory Jwt
  imports Plan_Args
begin

text \<open>
  JWT authentication, \<open>crates/server/src/jwt.rs\<close>: the configuration read from
  the environment, the choice of the verification key, and the session built
  from the claims of a verified token. The crate \<open>jsonwebtoken\<close> is a
  parameter: its functions are the fields of \<open>jwt_lib\<close>, over an
  uninterpreted type of keys.
\<close>

section \<open>The library\<close>

datatype algorithm = HS256 | HS384 | HS512 | RS256 | RS384 | RS512 | EdDSA | ES256 | ES384

datatype jwt_kind =
    ExpiredSignature | InvalidSignature | InvalidAlgorithm | InvalidAudience | InvalidIssuer | InvalidToken
  | OtherKind string

text \<open>The settings of \<open>Validation\<close> the engine writes; the required claims are always cleared.\<close>

record validation =
  vd_algorithms :: "algorithm list"
  vd_leeway :: u64
  vd_aud :: "string list option"
  vd_validate_aud :: bool
  vd_iss :: "string list option"

record 'k jwt_lib =
  jl_from_secret :: "string \<Rightarrow> 'k"
  jl_from_rsa_pem :: "string \<Rightarrow> 'k option"
  jl_from_ed_pem :: "string \<Rightarrow> 'k option"
  jl_from_ec_pem :: "string \<Rightarrow> 'k option"
  jl_decode :: "string \<Rightarrow> 'k \<Rightarrow> validation \<Rightarrow> jwt_kind + json"
  jl_header_kid :: "string \<Rightarrow> jwt_kind + string option"

section \<open>Configuration\<close>

record 'k jwk_key =
  jk_kid :: "string option"
  jk_alg :: algorithm
  jk_key :: 'k

datatype 'k key_source = StaticKey 'k algorithm | Jwks "'k jwk_key list"

datatype token_location = Authorization_Header | Cookie string | CustomHeader string

record 'k jwt_config =
  jc_keys :: "'k key_source"
  jc_validation :: validation
  jc_namespace :: string
  jc_namespace_path :: "string list option"
  jc_claims_map :: "jmap option"
  jc_stringified :: bool
  jc_header :: token_location
  jc_jwk_url :: "string option"

record jwt_session =
  js_role :: string
  js_vars :: "(string \<times> string) list"

record jwt_error =
  je_code :: string
  je_message :: string

section \<open>JSON paths\<close>

text \<open>What follows the first \<open>c\<close>, nothing when there is none.\<close>

definition after :: "char \<Rightarrow> string \<Rightarrow> string" where
  "after c s = drop 1 (dropWhile (\<lambda>d. d \<noteq> c) s)"

lemma length_after_le: "length (after c s) \<le> length s"
  using length_dropWhile_le [of "\<lambda>d. d \<noteq> c" s] by (simp add: after_def)

text \<open>After the opening bracket: the segment and what follows it.\<close>

definition bracket_segment :: "string \<Rightarrow> string \<times> string" where
  "bracket_segment cs =
     (case cs of
        q # rest \<Rightarrow>
          if q = CHR 0x27 \<or> q = CHR 0x22 then (takeWhile (\<lambda>c. c \<noteq> q) rest, after CHR '']'' (after q rest))
          else (takeWhile (\<lambda>c. c \<noteq> CHR '']'') cs, after CHR '']'' cs)
      | [] \<Rightarrow> ([], []))"

lemma bracket_segment_shorter: "length (snd (bracket_segment cs)) \<le> length cs"
proof (cases cs)
  case (Cons q rest)
  have "length (after CHR '']'' (after q rest)) \<le> Suc (length rest)"
    using length_after_le [of "CHR '']''" "after q rest"] length_after_le [of q rest] by simp
  then show ?thesis using Cons length_after_le [of "CHR '']''" cs] by (simp add: bracket_segment_def)
qed (simp add: bracket_segment_def)

function json_path_segments :: "string \<Rightarrow> string list" where
  "json_path_segments [] = []"
| "json_path_segments (c # cs) =
     (if c = CHR ''.'' then
        (let seg = takeWhile (\<lambda>n. n \<noteq> CHR ''.'' \<and> n \<noteq> CHR ''['') cs;
             rest = dropWhile (\<lambda>n. n \<noteq> CHR ''.'' \<and> n \<noteq> CHR ''['') cs
         in if seg = [] then json_path_segments rest else seg # json_path_segments rest)
      else if c = CHR ''['' then
        fst (bracket_segment cs) # json_path_segments (snd (bracket_segment cs))
      else json_path_segments cs)"
  by pat_completeness auto
termination
  by (relation "measure length") (simp_all add: le_imp_less_Suc length_dropWhile_le bracket_segment_shorter)

definition parse_json_path :: "string \<Rightarrow> string list" where
  "parse_json_path path = json_path_segments (dropWhile (\<lambda>c. c = CHR ''$'') path)"

definition is_digit :: "char \<Rightarrow> bool" where
  "is_digit c \<longleftrightarrow> 48 \<le> (of_char c :: nat) \<and> (of_char c :: nat) \<le> 57"

text \<open>\<open>str::parse\<close> for 64-bit unsigned integers: an optional plus sign, digits, no overflow.\<close>

definition parse_u64 :: "string \<Rightarrow> u64 option" where
  "parse_u64 s =
     (let digits = (case strip_prefix ''+'' s of Some r \<Rightarrow> r | None \<Rightarrow> s) in
      if digits \<noteq> [] \<and> list_all is_digit digits \<and> str_nat 0 digits < 2 ^ 64
      then Some (of_nat (str_nat 0 digits)) else None)"

fun walk_json_path :: "json \<Rightarrow> string list \<Rightarrow> json option" where
  "walk_json_path current [] = Some current"
| "walk_json_path (JObject m) (segment # path) = Option.bind (jmap_get m segment) (\<lambda>v. walk_json_path v path)"
| "walk_json_path (JArray items) (segment # path) =
     Option.bind (parse_u64 segment) (\<lambda>i.
       if unat i < length items then walk_json_path (items ! unat i) path else None)"
| "walk_json_path _ (segment # path) = None"

section \<open>Reading the configuration\<close>

definition get_str :: "json \<Rightarrow> string \<Rightarrow> string option" where
  "get_str v k = Option.bind (json_get v k) as_str"

definition config_validation :: "json \<Rightarrow> algorithm \<Rightarrow> validation" where
  "config_validation config alg =
     (let base = \<lparr>vd_algorithms = [alg],
                  vd_leeway = (case Option.bind (json_get config ''allowed_skew'') as_u64 of Some n \<Rightarrow> n | None \<Rightarrow> 0),
                  vd_aud = None, vd_validate_aud = False, vd_iss = None\<rparr>;
          with_aud = (case json_get config ''audience'' of
             Some (JString aud) \<Rightarrow> base\<lparr>vd_aud := Some [aud], vd_validate_aud := True\<rparr>
           | Some (JArray auds) \<Rightarrow> base\<lparr>vd_aud := Some (List.map_filter as_str auds), vd_validate_aud := True\<rparr>
           | _ \<Rightarrow> base)
      in case get_str config ''issuer'' of
           Some iss \<Rightarrow> with_aud\<lparr>vd_iss := Some [iss]\<rparr>
         | None \<Rightarrow> with_aud)"

definition config_namespace :: "json \<Rightarrow> string" where
  "config_namespace config =
     (case get_str config ''claims_namespace'' of Some n \<Rightarrow> n | None \<Rightarrow> ''https://hasura.io/jwt/claims'')"

definition config_claims_map :: "json \<Rightarrow> jmap option" where
  "config_claims_map config = Option.bind (json_get config ''claims_map'') as_object"

definition config_header :: "json \<Rightarrow> token_location" where
  "config_header config =
     (case (Option.bind (json_get config ''header'') (\<lambda>h. get_str h ''type''),
            Option.bind (json_get config ''header'') (\<lambda>h. get_str h ''name'')) of
        (Some ty, Some name) \<Rightarrow>
          (if ty = ''Cookie'' then Cookie name
           else if ty = ''CustomHeader'' then CustomHeader name else Authorization_Header)
      | _ \<Rightarrow> Authorization_Header)"

text \<open>The key named by \<open>type\<close> and \<open>key\<close>.\<close>

definition static_key :: "'k jwt_lib \<Rightarrow> string \<Rightarrow> string \<Rightarrow> (algorithm \<times> 'k) option" where
  "static_key lib key_type key_data =
     (if key_type = ''HS256'' then Some (HS256, jl_from_secret lib key_data)
      else if key_type = ''HS384'' then Some (HS384, jl_from_secret lib key_data)
      else if key_type = ''HS512'' then Some (HS512, jl_from_secret lib key_data)
      else if key_type = ''RS256'' then map_option (Pair RS256) (jl_from_rsa_pem lib key_data)
      else if key_type = ''RS384'' then map_option (Pair RS384) (jl_from_rsa_pem lib key_data)
      else if key_type = ''RS512'' then map_option (Pair RS512) (jl_from_rsa_pem lib key_data)
      else if key_type = ''Ed25519'' then map_option (Pair EdDSA) (jl_from_ed_pem lib key_data)
      else if key_type = ''ES256'' then map_option (Pair ES256) (jl_from_ec_pem lib key_data)
      else if key_type = ''ES384'' then map_option (Pair ES384) (jl_from_ec_pem lib key_data)
      else None)"

definition from_jwk_url :: "string \<Rightarrow> json \<Rightarrow> 'k jwt_config" where
  "from_jwk_url url config =
     \<lparr>jc_keys = Jwks [], jc_validation = config_validation config RS256,
      jc_namespace = config_namespace config,
      jc_namespace_path = map_option parse_json_path (get_str config ''claims_namespace_path''),
      jc_claims_map = config_claims_map config,
      jc_stringified = (get_str config ''claims_format'' = Some ''stringified_json''),
      jc_header = Authorization_Header, jc_jwk_url = Some url\<rparr>"

definition from_env_value :: "extern \<Rightarrow> 'k jwt_lib \<Rightarrow> string \<Rightarrow> 'k jwt_config option" where
  "from_env_value x lib raw =
     Option.bind (json_parse x raw) (\<lambda>config.
       case get_str config ''jwk_url'' of
         Some url \<Rightarrow> Some (from_jwk_url url config)
       | None \<Rightarrow>
           Option.bind (get_str config ''type'') (\<lambda>key_type.
           Option.bind (get_str config ''key'') (\<lambda>key_data.
           Option.bind (static_key lib key_type key_data) (\<lambda>(alg, key).
             Some \<lparr>jc_keys = StaticKey key alg, jc_validation = config_validation config alg,
                   jc_namespace = config_namespace config,
                   jc_namespace_path = map_option parse_json_path (get_str config ''claims_namespace_path''),
                   jc_claims_map = config_claims_map config,
                   jc_stringified = (get_str config ''claims_format'' = Some ''stringified_json''),
                   jc_header = config_header config, jc_jwk_url = None\<rparr>))))"

section \<open>The key set of a URL\<close>

text \<open>
  A poll of the URL gives for each key its id, its algorithm when it names one
  the library knows, and the key when the library accepts it; an unreadable
  answer gives nothing. An answer without usable keys keeps the old ones.
\<close>

type_synonym 'k jwk = "string option \<times> algorithm option \<times> 'k option"

definition usable_keys :: "'k jwk list \<Rightarrow> 'k jwk_key list" where
  "usable_keys jwks = List.map_filter (\<lambda>(kid, alg, key).
     map_option (\<lambda>k. \<lparr>jk_kid = kid, jk_alg = (case alg of Some a \<Rightarrow> a | None \<Rightarrow> RS256), jk_key = k\<rparr>) key) jwks"

definition refresh_keys :: "'k key_source \<Rightarrow> 'k jwk list option \<Rightarrow> 'k key_source" where
  "refresh_keys ks answer =
     (case (ks, answer) of
        (Jwks keys, Some jwks) \<Rightarrow> if usable_keys jwks = [] then ks else Jwks (usable_keys jwks)
      | _ \<Rightarrow> ks)"

fun contains_str :: "string \<Rightarrow> string \<Rightarrow> bool" where
  "contains_str [] p = (p = [])"
| "contains_str (c # cs) p = (starts_with (c # cs) p \<or> contains_str cs p)"

definition max_ages :: "string \<Rightarrow> u64 list" where
  "max_ages cache_control =
     List.map_filter (\<lambda>p. Option.bind (strip_prefix ''max-age='' (trim p)) parse_u64) (split_char CHR '','' cache_control)"

definition jwk_refresh_interval :: "string \<Rightarrow> bool \<Rightarrow> u64" where
  "jwk_refresh_interval cache_control has_expires =
     (if contains_str cache_control ''no-store'' then 1
      else if contains_str cache_control ''no-cache'' then 2
      else case max_ages cache_control of
        max_age # _ \<Rightarrow> max max_age 1
      | [] \<Rightarrow> if has_expires then 3 else 1)"

section \<open>Verification\<close>

fun try_keys :: "'k jwt_lib \<Rightarrow> validation \<Rightarrow> string \<Rightarrow> string option \<Rightarrow> 'k jwk_key list \<Rightarrow> jwt_kind \<Rightarrow> jwt_kind + json" where
  "try_keys lib v token tkid [] last_err = Inl last_err"
| "try_keys lib v token tkid (k # ks) last_err =
     (if (case (jk_kid k, tkid) of (Some kid, Some t) \<Rightarrow> kid \<noteq> t | _ \<Rightarrow> False) then try_keys lib v token tkid ks last_err
      else case jl_decode lib token (jk_key k) (v\<lparr>vd_algorithms := [jk_alg k]\<rparr>) of
        Inr data \<Rightarrow> Inr data
      | Inl e \<Rightarrow> try_keys lib v token tkid ks e)"

definition jwt_decode :: "'k jwt_lib \<Rightarrow> 'k jwt_config \<Rightarrow> string \<Rightarrow> jwt_kind + json" where
  "jwt_decode lib c token =
     (case jc_keys c of
        StaticKey key alg \<Rightarrow> jl_decode lib token key ((jc_validation c)\<lparr>vd_algorithms := [alg]\<rparr>)
      | Jwks keys \<Rightarrow>
          bindR (jl_header_kid lib token) (\<lambda>kid. try_keys lib (jc_validation c) token kid keys InvalidToken))"

definition token_expiry :: "'k jwt_lib \<Rightarrow> 'k jwt_config \<Rightarrow> string \<Rightarrow> u64 option" where
  "token_expiry lib c token =
     (case jwt_decode lib c token of Inr claims \<Rightarrow> Option.bind (json_get claims ''exp'') as_u64 | Inl _ \<Rightarrow> None)"

fun kind_reason :: "jwt_kind \<Rightarrow> string" where
  "kind_reason ExpiredSignature = ''JWTExpired''"
| "kind_reason InvalidSignature = ''JWSError JWSInvalidSignature''"
| "kind_reason InvalidAlgorithm = ''JWSError JWSInvalidSignature''"
| "kind_reason InvalidAudience = ''JWTNotInAudience''"
| "kind_reason InvalidIssuer = ''JWTNotInIssuer''"
| "kind_reason InvalidToken = ''InvalidToken''"
| "kind_reason (OtherKind debug) = debug"

section \<open>The session of a token\<close>

definition jwt_fail :: "string \<Rightarrow> string \<Rightarrow> jwt_error + 'a" where
  "jwt_fail code message = Inl \<lparr>je_code = code, je_message = message\<rparr>"

definition no_allowed :: "jwt_error + 'a" where
  "no_allowed = jwt_fail ''jwt-missing-role-claims'' ''JWT claim does not contain x-hasura-allowed-roles''"

definition no_default :: "jwt_error + 'a" where
  "no_default = jwt_fail ''jwt-missing-role-claims'' ''JWT claim does not contain x-hasura-default-role''"

definition claim :: "jmap \<Rightarrow> string \<Rightarrow> json option" where
  "claim claims name = map_option snd (find (\<lambda>e. eq_ignore_ascii_case (fst e) name) claims)"

definition render_claim :: "extern \<Rightarrow> json \<Rightarrow> string" where
  "render_claim x v = (case v of JString s \<Rightarrow> s | other \<Rightarrow> json_display x other)"

definition choose_role :: "string option \<Rightarrow> string list \<Rightarrow> string \<Rightarrow> jwt_error + string" where
  "choose_role requested allowed default_role =
     (case requested of
        Some role \<Rightarrow>
          (if role \<in> set allowed then Inr role
           else jwt_fail ''access-denied'' ''Your requested role is not in allowed roles'')
      | None \<Rightarrow> Inr default_role)"

fun encountered :: "json \<Rightarrow> string" where
  "encountered (JString _) = ''String''"
| "encountered (JNumber _) = ''Number''"
| "encountered (JBool _) = ''Boolean''"
| "encountered JNull = ''Null''"
| "encountered _ = ''Object''"

definition allowed_roles :: "json option \<Rightarrow> jwt_error + string list" where
  "allowed_roles v =
     (case v of
        None \<Rightarrow> no_allowed
      | Some (JArray a) \<Rightarrow> Inr (List.map_filter as_str a)
      | Some other \<Rightarrow> jwt_fail ''jwt-invalid-claims''
          (''invalid x-hasura-allowed-roles; should be a list of roles: parsing [] failed, expected Array, but encountered ''
            @ encountered other))"

text \<open>The session variables of an object: its \<open>x-hasura-\<close> keys in lower case, a later key winning.\<close>

definition hasura_vars :: "extern \<Rightarrow> jmap \<Rightarrow> (string \<times> string) list" where
  "hasura_vars x m = foldl (\<lambda>vars (k, v).
     let key = to_ascii_lowercase k in
     if starts_with key ''x-hasura-'' then hm_insert key (render_claim x v) vars else vars) [] m"

definition claims_session :: "extern \<Rightarrow> jmap \<Rightarrow> string option \<Rightarrow> jwt_error + jwt_session" where
  "claims_session x claims requested =
     bindR (allowed_roles (claim claims ''x-hasura-allowed-roles'')) (\<lambda>allowed.
     case Option.bind (claim claims ''x-hasura-default-role'') as_str of
       None \<Rightarrow> no_default
     | Some default_role \<Rightarrow>
         bindR (choose_role requested allowed default_role) (\<lambda>role.
           Inr \<lparr>js_role = role, js_vars = hm_insert ''x-hasura-role'' role (hasura_vars x claims)\<rparr>))"

definition resolve_claim_spec :: "json \<Rightarrow> json \<Rightarrow> json option" where
  "resolve_claim_spec payload spec =
     (case spec of
        JObject obj \<Rightarrow>
          (case jmap_get obj ''path'' of
             None \<Rightarrow> Some spec
           | Some p \<Rightarrow>
               Option.bind (as_str p) (\<lambda>s.
                 case walk_json_path payload (parse_json_path s) of
                   Some v \<Rightarrow> Some v
                 | None \<Rightarrow> jmap_get obj ''default''))
      | literal \<Rightarrow> Some literal)"

record mapped_claims =
  mc_vars :: "(string \<times> string) list"
  mc_allowed :: "string list"
  mc_default :: "string option"

definition map_claim :: "extern \<Rightarrow> json \<Rightarrow> mapped_claims \<Rightarrow> string \<times> json \<Rightarrow> jwt_error + mapped_claims" where
  "map_claim x payload mc e =
     (let key_lc = to_ascii_lowercase (fst e) in
      case resolve_claim_spec payload (snd e) of
        None \<Rightarrow> jwt_fail ''jwt-invalid-claims'' (''invalid claims_map entry for '' @ fst e)
      | Some value \<Rightarrow>
          if key_lc = ''x-hasura-allowed-roles'' then
            (case as_array value of
               Some a \<Rightarrow> Inr (mc\<lparr>mc_allowed := List.map_filter as_str a\<rparr>)
             | None \<Rightarrow> no_allowed)
          else if key_lc = ''x-hasura-default-role'' then Inr (mc\<lparr>mc_default := as_str value\<rparr>)
          else Inr (mc\<lparr>mc_vars := hm_insert key_lc (render_claim x value) (mc_vars mc)\<rparr>))"

definition session_from_claims_map :: "extern \<Rightarrow> jmap \<Rightarrow> json \<Rightarrow> string option \<Rightarrow> jwt_error + jwt_session" where
  "session_from_claims_map x m payload requested =
     bindR (foldR (map_claim x payload) \<lparr>mc_vars = [], mc_allowed = [], mc_default = None\<rparr> m) (\<lambda>mc.
     if mc_allowed mc = [] then no_allowed
     else case mc_default mc of
       None \<Rightarrow> no_default
     | Some default_role \<Rightarrow>
         bindR (choose_role requested (mc_allowed mc) default_role) (\<lambda>role.
           Inr \<lparr>js_role = role, js_vars = hm_insert ''x-hasura-role'' role (mc_vars mc)\<rparr>))"

text \<open>The claims of a payload under the configured namespace.\<close>

definition namespace_claims :: "extern \<Rightarrow> 'k jwt_config \<Rightarrow> json \<Rightarrow> jwt_error + jmap" where
  "namespace_claims x c payload =
     bindR (case jc_namespace_path c of
         Some path \<Rightarrow> (case walk_json_path payload path of
             Some v \<Rightarrow> Inr v
           | None \<Rightarrow> jwt_fail ''jwt-missing-role-claims'' ''claims not found at claims_namespace_path'')
       | None \<Rightarrow> (case json_get payload (jc_namespace c) of
             Some v \<Rightarrow> Inr v
           | None \<Rightarrow> jwt_fail ''jwt-missing-role-claims'' (''claims key: '' @ quoted (jc_namespace c) @ '' not found''))) (\<lambda>raw.
     bindR (if jc_stringified c then
              (case Option.bind (as_str raw) (json_parse x) of
                 Some v \<Rightarrow> Inr v
               | None \<Rightarrow> jwt_fail ''jwt-invalid-claims'' ''invalid stringified claims'')
            else Inr raw) (\<lambda>claims.
       case as_object claims of
         Some m \<Rightarrow> Inr m
       | None \<Rightarrow> jwt_fail ''jwt-invalid-claims'' ''claims must be an object''))"

definition jwt_session_of :: "extern \<Rightarrow> 'k jwt_lib \<Rightarrow> 'k jwt_config \<Rightarrow> string \<Rightarrow> string option \<Rightarrow> jwt_error + jwt_session" where
  "jwt_session_of x lib c token requested =
     (case jwt_decode lib c token of
        Inl kind \<Rightarrow> jwt_fail ''invalid-jwt'' (''Could not verify JWT: '' @ kind_reason kind)
      | Inr payload \<Rightarrow>
          (case jc_claims_map c of
             Some m \<Rightarrow> session_from_claims_map x m payload requested
           | None \<Rightarrow> bindR (namespace_claims x c payload) (\<lambda>claims. claims_session x claims requested)))"

end
