(* ===== verification/Auth.thy ===== *)
theory Auth
  imports Jwt
begin

text \<open>
  From HTTP headers to a session: the first half of
  \<open>crates/server/src/gql.rs\<close>. Headers are the pairs a \<open>HeaderMap\<close>
  iterates over: names in lower case, values as \<open>to_str\<close> gives them
  (\<open>None\<close> for bytes that are no visible ASCII). The authentication webhook
  is a parameter.
\<close>

unbundle bit_operations_syntax

section \<open>Guards\<close>

definition MAX_QUERY_DEPTH :: nat where
  "MAX_QUERY_DEPTH = 100"

definition opens :: "char \<Rightarrow> bool" where
  "opens c \<longleftrightarrow> c = CHR 0x7B \<or> c = CHR ''('' \<or> c = CHR ''[''"

definition closes :: "char \<Rightarrow> bool" where
  "closes c \<longleftrightarrow> c = CHR 0x7D \<or> c = CHR '')'' \<or> c = CHR '']''"

text \<open>The loop with its two counters; subtraction of naturals saturates, as in the code.\<close>

fun depth_loop :: "string \<Rightarrow> nat \<Rightarrow> nat \<Rightarrow> nat" where
  "depth_loop [] depth mx = mx"
| "depth_loop (b # bs) depth mx =
     (if opens b then depth_loop bs (depth + 1) (max mx (depth + 1))
      else if closes b then depth_loop bs (depth - 1) mx
      else depth_loop bs depth mx)"

definition query_too_deep :: "string \<Rightarrow> bool" where
  "query_too_deep query \<longleftrightarrow> depth_loop query 0 0 > MAX_QUERY_DEPTH"

type_synonym u8 = "8 word"

definition as_bytes :: "string \<Rightarrow> u8 list" where
  "as_bytes s = map (\<lambda>c. word_of_nat (of_char c)) s"

definition ct_eq :: "u8 list \<Rightarrow> u8 list \<Rightarrow> bool" where
  "ct_eq a b =
     (if length a \<noteq> length b then False
      else foldl (\<lambda>diff (x, y). diff OR (x XOR y)) 0 (zip a b) = 0)"

section \<open>Errors\<close>

definition error_at :: "string \<Rightarrow> string \<Rightarrow> string \<Rightarrow> json" where
  "error_at path code message =
     JObject [(''errors'', JArray [JObject
       [(''extensions'', JObject [(''path'', JString path), (''code'', JString code)]), (''message'', JString message)]])]"

definition error_json :: "string \<Rightarrow> string \<Rightarrow> json" where
  "error_json code message = error_at ''$'' code message"

section \<open>Header authentication\<close>

type_synonym headers = "(string \<times> string option) list"

definition header_get :: "headers \<Rightarrow> string \<Rightarrow> string option" where
  "header_get hs name = Option.bind (map_of hs name) id"

definition guest :: "string \<Rightarrow> session" where
  "guest role = \<lparr>se_role = role, se_vars = [], se_backend_request = False\<rparr>"

text \<open>The loop over the headers collects the variables and the last role.\<close>

fun header_vars :: "headers \<Rightarrow> string option \<Rightarrow> (string \<times> string) list \<Rightarrow> string option \<times> (string \<times> string) list" where
  "header_vars [] role vars = (role, vars)"
| "header_vars ((name0, value) # hs) role vars =
     (let name = to_ascii_lowercase name0 in
      if \<not> starts_with name ''x-hasura-'' \<or> name = ''x-hasura-admin-secret'' then header_vars hs role vars
      else case value of
        None \<Rightarrow> header_vars hs role vars
      | Some v \<Rightarrow> header_vars hs (if name = ''x-hasura-role'' then Some v else role) (hm_insert name v vars))"

definition truthy :: "string \<Rightarrow> bool" where
  "truthy raw \<longleftrightarrow> to_ascii_lowercase raw \<in> {''true'', ''t'', ''yes'', ''y''}"

definition falsy :: "string \<Rightarrow> bool" where
  "falsy raw \<longleftrightarrow> to_ascii_lowercase raw \<in> {''false'', ''f'', ''no'', ''n''}"

definition session_from_headers :: "headers \<Rightarrow> string option \<Rightarrow> bool \<Rightarrow> json + session" where
  "session_from_headers hs unauthorized_role trusted =
     (if \<not> trusted then
        (case unauthorized_role of
           Some role \<Rightarrow> Inr (guest role)
         | None \<Rightarrow> Inl (error_json ''access-denied'' ''x-hasura-admin-secret required, but not found''))
      else
        (let (role, vars) = header_vars hs None [] in
         bindR (case map_of vars ''x-hasura-use-backend-only-permissions'' of
             None \<Rightarrow> Inr False
           | Some raw \<Rightarrow>
               if truthy raw then Inr True
               else if falsy raw then Inr False
               else Inl (error_json ''bad-request''
                 (''x-hasura-use-backend-only-permissions:  Not a valid boolean text. True values are [''
                  @ dquoted ''true'' @ '','' @ dquoted ''t'' @ '','' @ dquoted ''yes'' @ '','' @ dquoted ''y''
                  @ ''] and  False values are ['' @ dquoted ''false'' @ '','' @ dquoted ''f'' @ '','' @ dquoted ''no'' @ '','' @ dquoted ''n''
                  @ '']. All values are case insensitive''))) (\<lambda>backend.
         case (case role of Some r \<Rightarrow> Some r | None \<Rightarrow> unauthorized_role) of
           Some r \<Rightarrow> Inr \<lparr>se_role = r, se_vars = vars, se_backend_request = backend\<rparr>
         | None \<Rightarrow> Inl (error_json ''access-denied'' ''x-hasura-role header is required (this engine has no admin role)''))))"

section \<open>The authentication webhook\<close>

text \<open>A call fails to be sent, or answers with a status and a body (\<open>null\<close> when it is no JSON).\<close>

datatype hook_reply = HookFailed string | HookReply nat json

type_synonym auth_hook = "string \<Rightarrow> bool \<Rightarrow> jmap \<Rightarrow> hook_reply"

definition header_map :: "headers \<Rightarrow> jmap" where
  "header_map hs = foldl (\<lambda>m (k, v). case v of Some s \<Rightarrow> jmap_insert m k (JString s) | None \<Rightarrow> m) [] hs"

definition object_of :: "json \<Rightarrow> jmap" where
  "object_of v = (case as_object v of Some m \<Rightarrow> m | None \<Rightarrow> [])"

definition webhook_session ::
  "extern \<Rightarrow> auth_hook \<Rightarrow> string option \<Rightarrow> string \<Rightarrow> string \<Rightarrow> headers \<Rightarrow> (nat \<times> json) + session" where
  "webhook_session x hook unauthorized_role url mode hs =
     (case hook url (eq_ignore_ascii_case mode ''POST'') (header_map hs) of
        HookFailed e \<Rightarrow> Inl (500, error_json ''unexpected'' (''webhook authentication request failed: '' @ e))
      | HookReply status body \<Rightarrow>
          if status = 401 then
            (case unauthorized_role of
               Some role \<Rightarrow> Inr (guest role)
             | None \<Rightarrow> Inl (401, error_json ''access-denied'' ''Authentication hook unauthorized this request''))
          else
            (let vars = hasura_vars x (object_of body) in
             case map_of vars ''x-hasura-role'' of
               None \<Rightarrow> Inl (500, error_json ''unexpected'' ''webhook response did not include x-hasura-role'')
             | Some role \<Rightarrow> Inr \<lparr>se_role = role, se_vars = vars, se_backend_request = False\<rparr>))"

section \<open>Session resolution\<close>

text \<open>The part of the server state that authentication reads.\<close>

record 'k auth_config =
  ac_admin_secret :: "string option"
  ac_unauthorized_role :: "string option"
  ac_jwt :: "'k jwt_config option"
  ac_auth_hook :: "(string \<times> string) option"

definition secret_ok :: "string option \<Rightarrow> headers \<Rightarrow> bool" where
  "secret_ok admin_secret hs =
     (case admin_secret of
        None \<Rightarrow> True
      | Some expected \<Rightarrow>
          (case header_get hs ''x-hasura-admin-secret'' of
             Some provided \<Rightarrow> ct_eq (as_bytes provided) (as_bytes expected)
           | None \<Rightarrow> False))"

fun cookie_value :: "string \<Rightarrow> string list \<Rightarrow> string option" where
  "cookie_value name [] = None"
| "cookie_value name (c # cs) =
     (case strip_prefix (name @ ''='') (trim c) of Some v \<Rightarrow> Some v | None \<Rightarrow> cookie_value name cs)"

definition find_token :: "token_location \<Rightarrow> headers \<Rightarrow> string option" where
  "find_token loc hs =
     (case loc of
        Authorization_Header \<Rightarrow> Option.bind (header_get hs ''authorization'') (strip_prefix ''Bearer '')
      | Cookie name \<Rightarrow> Option.bind (header_get hs ''cookie'') (\<lambda>cookies. cookie_value name (split_char CHR '';'' cookies))
      | CustomHeader name \<Rightarrow> header_get hs (to_ascii_lowercase name))"

definition backend_header :: "headers \<Rightarrow> bool" where
  "backend_header hs = (case header_get hs ''x-hasura-use-backend-only-permissions'' of Some v \<Rightarrow> truthy v | None \<Rightarrow> False)"

definition bearer_session ::
  "extern \<Rightarrow> 'k jwt_lib \<Rightarrow> 'k jwt_config \<Rightarrow> string option \<Rightarrow> headers \<Rightarrow> (nat \<times> json) + session" where
  "bearer_session x lib jwt unauthorized_role hs =
     (case find_token (jc_header jwt) hs of
        None \<Rightarrow>
          (case unauthorized_role of
             Some role \<Rightarrow> Inr (guest role)
           | None \<Rightarrow> Inl (200, error_json ''invalid-headers''
               (''Missing '' @ quoted ''Authorization'' @ '' or '' @ quoted ''Cookie'' @ '' header in JWT authentication mode'')))
      | Some token \<Rightarrow>
          (case jwt_session_of x lib jwt token (header_get hs ''x-hasura-role'') of
             Inr s \<Rightarrow> Inr \<lparr>se_role = js_role s, se_vars = js_vars s, se_backend_request = backend_header hs\<rparr>
           | Inl e \<Rightarrow> Inl (200, error_json (je_code e) (je_message e))))"

definition trusted_session :: "'k auth_config \<Rightarrow> headers \<Rightarrow> bool \<Rightarrow> (nat \<times> json) + session" where
  "trusted_session cfg hs trusted =
     (case session_from_headers hs (ac_unauthorized_role cfg) trusted of Inr s \<Rightarrow> Inr s | Inl e \<Rightarrow> Inl (200, e))"

definition resolve_request_session ::
  "extern \<Rightarrow> 'k jwt_lib \<Rightarrow> auth_hook \<Rightarrow> 'k auth_config \<Rightarrow> headers \<Rightarrow> (nat \<times> json) + session" where
  "resolve_request_session x lib hook cfg hs =
     (let ok = secret_ok (ac_admin_secret cfg) hs;
          admin = (ac_admin_secret cfg \<noteq> None \<and> ok)
      in case ac_auth_hook cfg of
           Some (url, mode) \<Rightarrow>
             if admin then trusted_session cfg hs True
             else webhook_session x hook (ac_unauthorized_role cfg) url mode hs
         | None \<Rightarrow>
             (case ac_jwt cfg of
                Some jwt \<Rightarrow>
                  if admin then trusted_session cfg hs True
                  else bearer_session x lib jwt (ac_unauthorized_role cfg) hs
              | None \<Rightarrow> trusted_session cfg hs ok))"

end
