(* ===== verification/Auth_Properties.thy ===== *)
theory Auth_Properties
  imports Auth Plan_Walk Samples "HOL-Library.Sublist"
begin

text \<open>
  What a session proves: where its role and variables come from in each
  authentication mode, and the guards a request passes before.
\<close>

section \<open>Guards\<close>

lemma xor_zero: "xor x y = (0 :: u8) \<longleftrightarrow> x = y"
  by (simp add: bit_eq_iff bit_xor_iff)

lemma fold_or_zero: "foldl (\<lambda>diff (x, y). or diff (xor x y)) d ps = (0 :: u8) \<longleftrightarrow> d = 0 \<and> list_all (\<lambda>(x, y). x = y) ps"
proof (induction ps arbitrary: d)
  case (Cons p ps)
  have "or d (xor (fst p) (snd p)) = 0 \<longleftrightarrow> d = 0 \<and> fst p = snd p"
    by (simp add: or_eq_0_iff xor_zero)
  then show ?case using Cons by (simp add: case_prod_beta)
qed simp

lemma ct_eq_iff: "ct_eq a b \<longleftrightarrow> a = b"
  by (auto simp: ct_eq_def fold_or_zero list_eq_iff_zip_eq list_all_iff)

lemma as_bytes_inject: "as_bytes s = as_bytes t \<longleftrightarrow> s = t"
proof -
  have "inj (\<lambda>c. word_of_nat (of_char c) :: u8)"
  proof (rule injI)
    fix c d :: char
    assume "(word_of_nat (of_char c) :: u8) = word_of_nat (of_char d)"
    then have "(of_char c :: nat) mod 256 = of_char d mod 256"
      by (drule_tac f = unat in arg_cong) (simp add: unat_of_nat)
    then show "c = d" by simp
  qed
  then show ?thesis by (simp add: as_bytes_def inj_map_eq_map)
qed

text \<open>The nesting of a run of text: how many more brackets it opens than it closes.\<close>

definition excess :: "string \<Rightarrow> int" where
  "excess s = int (length (filter opens s)) - int (length (filter closes s))"

lemma opens_not_closes: "opens c \<Longrightarrow> \<not> closes c"
  by (auto simp: opens_def closes_def)

lemma excess_simps [simp]: "excess [] = 0" "excess (c # s) = (if opens c then 1 else if closes c then -1 else 0) + excess s"
  using opens_not_closes by (auto simp: excess_def)


definition deep_from :: "int \<Rightarrow> int \<Rightarrow> string \<Rightarrow> bool" where
  "deep_from m d s \<longleftrightarrow> (\<exists>pre. prefix pre s \<and> m < d + excess pre)"

definition deep_within :: "int \<Rightarrow> string \<Rightarrow> bool" where
  "deep_within m s \<longleftrightarrow> (\<exists>mid. sublist mid s \<and> m < excess mid)"

lemma deep_from_Nil: "deep_from m d [] \<longleftrightarrow> m < d"
  by (simp add: deep_from_def)

lemma deep_from_Cons: "deep_from m d (c # s) \<longleftrightarrow> m < d \<or> deep_from m (d + excess [c]) s"
proof -
  have "deep_from m d (c # s) \<longleftrightarrow> m < d + excess [] \<or> (\<exists>pre. prefix pre s \<and> m < d + excess (c # pre))"
    unfolding deep_from_def by (auto simp only: prefix_Cons)
  then show ?thesis by (simp add: deep_from_def add.assoc)
qed

lemma deep_from_start: "m < d \<Longrightarrow> deep_from m d s"
  unfolding deep_from_def by (rule exI [of _ "[]"]) simp

lemma deep_from_mono: "deep_from m d s \<Longrightarrow> d \<le> d' \<Longrightarrow> deep_from m d' s"
  by (force simp: deep_from_def)

lemma deep_within_Nil: "0 \<le> m \<Longrightarrow> \<not> deep_within m []"
  by (simp add: deep_within_def)

lemma deep_within_Cons: "deep_within m (c # s) \<longleftrightarrow> deep_from m 0 (c # s) \<or> deep_within m s"
  by (auto simp: deep_within_def deep_from_def sublist_Cons_right)

lemma deep_from_within: "deep_from m 0 s \<Longrightarrow> deep_within m s"
  by (auto simp: deep_within_def deep_from_def)

text \<open>
  From a depth at most the maximum so far, the loop finds a depth over \<open>m\<close>
  when a prefix leads there from the current depth or some run opens that
  many more brackets than it closes.
\<close>

lemma depth_loop_deep:
  "d \<le> mx \<Longrightarrow> m < depth_loop s d mx \<longleftrightarrow> m < mx \<or> deep_from (int m) (int d) s \<or> deep_within (int m) s"
proof (induction s arbitrary: d mx)
  case Nil
  then show ?case by (auto simp: deep_from_Nil deep_within_Nil)
next
  case (Cons c s)
  consider "opens c" | "\<not> opens c" "closes c" | "\<not> opens c" "\<not> closes c" by blast
  then show ?case
  proof cases
    case 1
    then show ?thesis
      using Cons.IH [of "d + 1" "max mx (d + 1)"] Cons.prems deep_from_mono [of "int m" 1 s "int d + 1"] deep_from_start [of "int m" "int d + 1" s]
      by (auto simp: deep_within_Cons deep_from_Cons add.commute)
  next
    case 2
    have down: "deep_from (int m) (int d - 1) s \<or> deep_within (int m) s \<longleftrightarrow> deep_from (int m) (int (d - 1)) s \<or> deep_within (int m) s"
      using deep_from_mono [of "int m" "-1" s 0] deep_from_within [of "int m" s] by (cases d) auto
    have "deep_from (int m) (-1) s \<Longrightarrow> deep_within (int m) s"
      using deep_from_mono [of "int m" "-1" s 0] deep_from_within by simp
    then show ?thesis using 2 Cons.IH [of "d - 1" mx] Cons.prems down
      by (auto simp: deep_within_Cons deep_from_Cons)
  next
    case 3
    then show ?thesis using Cons.IH [of d mx] Cons.prems deep_from_within [of "int m" s]
      by (auto simp: deep_within_Cons deep_from_Cons)
  qed
qed

lemma query_too_deep_iff: "query_too_deep q \<longleftrightarrow> (\<exists>run. sublist run q \<and> 100 < excess run)"
  using depth_loop_deep [of 0 0 "MAX_QUERY_DEPTH" q] deep_from_within [of 100 q]
  by (auto simp: query_too_deep_def MAX_QUERY_DEPTH_def deep_within_def)

section \<open>Tokens\<close>

text \<open>The keys of a configuration, each with the one algorithm it verifies.\<close>

definition configured_key :: "'k jwt_config \<Rightarrow> 'k \<Rightarrow> algorithm \<Rightarrow> bool" where
  "configured_key c key alg \<longleftrightarrow>
     (case jc_keys c of
        StaticKey k a \<Rightarrow> k = key \<and> a = alg
      | Jwks ks \<Rightarrow> (\<exists>j \<in> set ks. jk_key j = key \<and> jk_alg j = alg))"

lemma try_keys_Inr:
  "try_keys lib v token kid ks e = Inr payload \<Longrightarrow>
     \<exists>j \<in> set ks. jl_decode lib token (jk_key j) (v\<lparr>vd_algorithms := [jk_alg j]\<rparr>) = Inr payload"
  by (induction lib v token kid ks e rule: try_keys.induct) (auto split: if_splits sum.splits)

lemma jwt_decode_Inr:
  assumes "jwt_decode lib c token = Inr payload"
  shows "\<exists>key alg. configured_key c key alg \<and> jl_decode lib token key ((jc_validation c)\<lparr>vd_algorithms := [alg]\<rparr>) = Inr payload"
  using assms by (fastforce simp: jwt_decode_def configured_key_def dest!: try_keys_Inr split: key_source.splits)

text \<open>What a verified payload claims, under either way of locating claims.\<close>

definition claims :: "extern \<Rightarrow> 'k jwt_config \<Rightarrow> json \<Rightarrow> string \<Rightarrow> json \<Rightarrow> bool" where
  "claims x c payload k w \<longleftrightarrow>
     (case jc_claims_map c of
        Some m \<Rightarrow> (\<exists>e \<in> set m. to_ascii_lowercase (fst e) = k \<and> resolve_claim_spec payload (snd e) = Some w)
      | None \<Rightarrow> (\<exists>cs. namespace_claims x c payload = Inr cs \<and> (\<exists>e \<in> set cs. to_ascii_lowercase (fst e) = k \<and> snd e = w)))"

definition vouches :: "extern \<Rightarrow> 'k jwt_config \<Rightarrow> json \<Rightarrow> string option \<Rightarrow> string \<Rightarrow> (string \<times> string) list \<Rightarrow> bool" where
  "vouches x c payload requested role vars \<longleftrightarrow>
     (case requested of
        Some r \<Rightarrow> role = r \<and> (\<exists>a. claims x c payload ''x-hasura-allowed-roles'' (JArray a) \<and> JString role \<in> set a)
      | None \<Rightarrow> claims x c payload ''x-hasura-default-role'' (JString role))
     \<and> map_of vars ''x-hasura-role'' = Some role
     \<and> list_all (\<lambda>(k, v). k = ''x-hasura-role'' \<or> (\<exists>w. claims x c payload k w \<and> v = render_claim x w)) vars"

lemma claim_member: "claim cs name = Some w \<Longrightarrow> \<exists>e \<in> set cs. to_ascii_lowercase (fst e) = to_ascii_lowercase name \<and> snd e = w"
  by (auto simp: claim_def eq_ignore_ascii_case_def dest!: find_Some_in)

lemma hasura_vars_sound:
  "(k, v) \<in> set (hasura_vars x m) \<Longrightarrow> starts_with k ''x-hasura-'' \<and> (\<exists>e \<in> set m. to_ascii_lowercase (fst e) = k \<and> v = render_claim x (snd e))"
proof (induction m arbitrary: k v rule: rev_induct)
  case (snoc e m)
  let ?step = "\<lambda>vars (k, v). let key = to_ascii_lowercase k in
    if starts_with key ''x-hasura-'' then hm_insert key (render_claim x v) vars else vars"
  have "hasura_vars x (m @ [e]) = ?step (hasura_vars x m) e" by (simp only: hasura_vars_def foldl_append foldl.simps)
  then consider "(k, v) \<in> set (hasura_vars x m)"
    | "starts_with k ''x-hasura-''" "k = to_ascii_lowercase (fst e)" "v = render_claim x (snd e)"
    using snoc.prems by (auto simp: Let_def case_prod_beta dest!: set_hm_insert split: if_splits)
  then show ?case using snoc.IH by cases auto
qed (simp add: hasura_vars_def)

lemma choose_role_Inr:
  "choose_role requested allowed d = Inr role \<longleftrightarrow> (case requested of Some r \<Rightarrow> role = r \<and> r \<in> set allowed | None \<Rightarrow> role = d)"
  by (auto simp: choose_role_def jwt_fail_def split: option.splits)

lemma lower_ids [simp]:
  "to_ascii_lowercase ''x-hasura-allowed-roles'' = ''x-hasura-allowed-roles''"
  "to_ascii_lowercase ''x-hasura-default-role'' = ''x-hasura-default-role''"
  "to_ascii_lowercase ''x-hasura-role'' = ''x-hasura-role''"
  by code_simp+

lemma claims_session_vouches:
  assumes "jc_claims_map c = None" "namespace_claims x c payload = Inr cs" "claims_session x cs requested = Inr s"
  shows "vouches x c payload requested (js_role s) (js_vars s)"
proof -
  obtain a d where a: "claim cs ''x-hasura-allowed-roles'' = Some (JArray a)"
    and d: "claim cs ''x-hasura-default-role'' = Some (JString d)"
    and role: "choose_role requested (List.map_filter as_str a) d = Inr (js_role s)"
    and vars: "js_vars s = hm_insert ''x-hasura-role'' (js_role s) (hasura_vars x cs)"
    using assms(3)
    by (auto simp: claims_session_def allowed_roles_def no_allowed_def no_default_def jwt_fail_def bind_eq_Some_conv
        split: option.splits json.splits)
  have c: "claims x c payload k w \<longleftrightarrow> (\<exists>e \<in> set cs. to_ascii_lowercase (fst e) = k \<and> snd e = w)" for k w
    using assms(1,2) by (simp add: claims_def)
  have "claims x c payload ''x-hasura-allowed-roles'' (JArray a)" "claims x c payload ''x-hasura-default-role'' (JString d)"
    using claim_member [OF a] claim_member [OF d] by (simp_all add: c)
  moreover have "list_all (\<lambda>(k, v). k = ''x-hasura-role'' \<or> (\<exists>w. claims x c payload k w \<and> v = render_claim x w)) (js_vars s)"
    unfolding vars list_all_iff using hasura_vars_sound [of _ _ x cs] by (fastforce simp: c dest!: set_hm_insert)
  ultimately show ?thesis using role vars
    by (auto simp: vouches_def choose_role_Inr in_map_filter split: option.splits)
qed

definition mapped_ok :: "extern \<Rightarrow> 'k jwt_config \<Rightarrow> json \<Rightarrow> mapped_claims \<Rightarrow> bool" where
  "mapped_ok x c payload mc \<longleftrightarrow>
     (mc_allowed mc = [] \<or> (\<exists>a. claims x c payload ''x-hasura-allowed-roles'' (JArray a) \<and> mc_allowed mc = List.map_filter as_str a))
     \<and> (\<forall>d. mc_default mc = Some d \<longrightarrow> claims x c payload ''x-hasura-default-role'' (JString d))
     \<and> list_all (\<lambda>(k, v). \<exists>w. claims x c payload k w \<and> v = render_claim x w) (mc_vars mc)"

lemma map_claim_ok:
  assumes "jc_claims_map c = Some m" "e \<in> set m" "map_claim x payload mc e = Inr mc'" "mapped_ok x c payload mc"
  shows "mapped_ok x c payload mc'"
proof -
  obtain w where w: "resolve_claim_spec payload (snd e) = Some w"
    using assms(3) by (auto simp: map_claim_def jwt_fail_def Let_def split: option.splits)
  then have c: "claims x c payload (to_ascii_lowercase (fst e)) w" using assms(1,2) by (auto simp: claims_def)
  show ?thesis
    using assms(3,4) w c
    by (auto simp: map_claim_def mapped_ok_def no_allowed_def jwt_fail_def Let_def list_all_iff
        dest!: set_hm_insert split: if_splits option.splits)
qed

lemma claims_map_vouches:
  assumes "jc_claims_map c = Some m" "session_from_claims_map x m payload requested = Inr s"
  shows "vouches x c payload requested (js_role s) (js_vars s)"
proof -
  obtain mc d where mc: "foldR (map_claim x payload) \<lparr>mc_vars = [], mc_allowed = [], mc_default = None\<rparr> m = Inr mc"
    and ne: "mc_allowed mc \<noteq> []" and d: "mc_default mc = Some d"
    and role: "choose_role requested (mc_allowed mc) d = Inr (js_role s)"
    and vars: "js_vars s = hm_insert ''x-hasura-role'' (js_role s) (mc_vars mc)"
    using assms(2) by (auto simp: session_from_claims_map_def no_allowed_def no_default_def jwt_fail_def split: option.splits if_splits)
  have ok: "mapped_ok x c payload mc"
    by (rule foldR_invariant [OF mc]) (simp add: mapped_ok_def, rule map_claim_ok [OF assms(1)])
  have "list_all (\<lambda>(k, v). k = ''x-hasura-role'' \<or> (\<exists>w. claims x c payload k w \<and> v = render_claim x w)) (js_vars s)"
    using ok unfolding vars mapped_ok_def list_all_iff by (fastforce dest!: set_hm_insert)
  then show ?thesis using ok ne d role vars
    by (auto simp: vouches_def mapped_ok_def choose_role_Inr in_map_filter split: option.splits)
qed

lemma jwt_session_vouches:
  assumes "jwt_session_of x lib c token requested = Inr s"
  shows "\<exists>payload. jwt_decode lib c token = Inr payload \<and> vouches x c payload requested (js_role s) (js_vars s)"
proof -
  obtain payload where p: "jwt_decode lib c token = Inr payload"
    using assms by (auto simp: jwt_session_of_def jwt_fail_def split: sum.splits)
  have "vouches x c payload requested (js_role s) (js_vars s)"
  proof (cases "jc_claims_map c")
    case None
    then obtain cs where cs: "namespace_claims x c payload = Inr cs" "claims_session x cs requested = Inr s"
      using assms p by (auto simp: jwt_session_of_def)
    then show ?thesis by (rule claims_session_vouches [OF None])
  next
    case (Some m)
    then have "session_from_claims_map x m payload requested = Inr s" using assms p by (simp add: jwt_session_of_def)
    then show ?thesis by (rule claims_map_vouches [OF Some])
  qed
  with p show ?thesis by blast
qed

section \<open>Headers\<close>

text \<open>The last readable value a request sends under a name.\<close>

definition sent :: "headers \<Rightarrow> string \<Rightarrow> string option" where
  "sent hs name = map_of (rev (List.map_filter (\<lambda>(n, v). map_option (Pair (to_ascii_lowercase n)) v) hs)) name"

definition exposed :: "string \<Rightarrow> bool" where
  "exposed name \<longleftrightarrow> starts_with name ''x-hasura-'' \<and> name \<noteq> ''x-hasura-admin-secret''"

lemma sent_Cons:
  "sent ((n, v) # hs) name = (case sent hs name of Some w \<Rightarrow> Some w | None \<Rightarrow> if to_ascii_lowercase n = name then v else None)"
  by (cases v) (auto simp: sent_def map_filter_simps map_add_def split: option.splits)

lemma sent_Nil [simp]: "sent [] name = None"
  by (simp add: sent_def map_filter_simps)

lemma exposed_role [simp]: "exposed ''x-hasura-role''"
  by (simp add: exposed_def starts_with_def)

lemma header_vars_get:
  "map_of (snd (header_vars hs role vars)) name =
     (case (if exposed name then sent hs name else None) of Some v \<Rightarrow> Some v | None \<Rightarrow> map_of vars name)"
proof (induction hs role vars rule: header_vars.induct)
  case (2 n v hs role vars)
  let ?n = "to_ascii_lowercase n"
  show ?case
  proof (cases "exposed ?n")
    case True
    then have e: "\<not> (\<not> starts_with ?n ''x-hasura-'' \<or> ?n = ''x-hasura-admin-secret'')" by (simp add: exposed_def)
    show ?thesis
      using 2 e True by (cases v) (auto simp: sent_Cons Let_def split: option.splits)
  next
    case False
    then have "\<not> starts_with ?n ''x-hasura-'' \<or> ?n = ''x-hasura-admin-secret''" by (auto simp: exposed_def)
    then show ?thesis using 2(1) False by (auto simp: sent_Cons Let_def split: option.splits)
  qed
qed simp

lemma header_vars_role:
  "fst (header_vars hs role vars) = (case sent hs ''x-hasura-role'' of Some v \<Rightarrow> Some v | None \<Rightarrow> role)"
proof (induction hs role vars rule: header_vars.induct)
  case (2 n v hs role vars)
  let ?n = "to_ascii_lowercase n"
  show ?case
  proof (cases "exposed ?n")
    case True
    then have "\<not> (\<not> starts_with ?n ''x-hasura-'' \<or> ?n = ''x-hasura-admin-secret'')" by (simp add: exposed_def)
    then show ?thesis using 2 by (cases v) (auto simp: sent_Cons Let_def split: option.splits)
  next
    case False
    then have "\<not> starts_with ?n ''x-hasura-'' \<or> ?n = ''x-hasura-admin-secret''" "?n \<noteq> ''x-hasura-role''"
      by (auto simp: exposed_def starts_with_def)
    then show ?thesis using 2(1) by (auto simp: sent_Cons Let_def split: option.splits)
  qed
qed simp

text \<open>A session of the headers: the variables are the exposed headers, the role one of them or the fallback.\<close>

definition header_session :: "headers \<Rightarrow> string option \<Rightarrow> session \<Rightarrow> bool" where
  "header_session hs fallback s \<longleftrightarrow>
     (\<forall>name. session_var s name = (if exposed (to_ascii_lowercase name) then sent hs (to_ascii_lowercase name) else None))
     \<and> (case sent hs ''x-hasura-role'' of Some r \<Rightarrow> se_role s = r | None \<Rightarrow> fallback = Some (se_role s))
     \<and> (se_backend_request s \<longrightarrow> (\<exists>v. sent hs ''x-hasura-use-backend-only-permissions'' = Some v \<and> truthy v))"

lemma trusted_header_session:
  assumes "session_from_headers hs fallback True = Inr s"
  shows "header_session hs fallback s"
proof -
  obtain role vars where rv: "header_vars hs None [] = (role, vars)" by fastforce
  have get: "map_of vars name = (if exposed name then sent hs name else None)" for name
    using header_vars_get [of hs None "[]" name] rv by (auto split: option.splits)
  have role: "role = sent hs ''x-hasura-role''"
    using header_vars_role [of hs None "[]"] rv by (auto split: option.splits)
  have "exposed ''x-hasura-use-backend-only-permissions''" by (simp add: exposed_def starts_with_def)
  then show ?thesis
    using assms rv get role
    by (auto simp: session_from_headers_def header_session_def session_var_def split: option.splits if_splits)
qed

section \<open>Where sessions come from\<close>

definition hook_vouches :: "extern \<Rightarrow> json \<Rightarrow> session \<Rightarrow> bool" where
  "hook_vouches x body s \<longleftrightarrow> \<not> se_backend_request s \<and> map_of (se_vars s) ''x-hasura-role'' = Some (se_role s)
     \<and> list_all (\<lambda>(k, v). \<exists>e \<in> set (object_of body). to_ascii_lowercase (fst e) = k \<and> v = render_claim x (snd e)) (se_vars s)"

text \<open>
  A session is authentic when the request carries the administrator's secret
  (or nothing is configured to authenticate against) and the session is that
  of its headers; when it is the fallback role's, empty; when a configured key
  verifies the request's token and its payload vouches for the session; or
  when the webhook does.
\<close>

inductive authentic ::
  "extern \<Rightarrow> 'k jwt_lib \<Rightarrow> auth_hook \<Rightarrow> 'k auth_config \<Rightarrow> headers \<Rightarrow> session \<Rightarrow> bool"
for x lib hook cfg hs where
  au_admin: "ac_admin_secret cfg = Some e \<Longrightarrow> header_get hs ''x-hasura-admin-secret'' = Some e \<Longrightarrow>
    header_session hs (ac_unauthorized_role cfg) s \<Longrightarrow> authentic x lib hook cfg hs s"
| au_open: "ac_admin_secret cfg = None \<Longrightarrow> ac_jwt cfg = None \<Longrightarrow> ac_auth_hook cfg = None \<Longrightarrow>
    header_session hs (ac_unauthorized_role cfg) s \<Longrightarrow> authentic x lib hook cfg hs s"
| au_guest: "ac_unauthorized_role cfg = Some r \<Longrightarrow> authentic x lib hook cfg hs (guest r)"
| au_token: "ac_jwt cfg = Some jwt \<Longrightarrow> find_token (jc_header jwt) hs = Some token \<Longrightarrow> configured_key jwt key alg \<Longrightarrow>
    jl_decode lib token key ((jc_validation jwt)\<lparr>vd_algorithms := [alg]\<rparr>) = Inr payload \<Longrightarrow>
    vouches x jwt payload (header_get hs ''x-hasura-role'') (se_role s) (se_vars s) \<Longrightarrow>
    se_backend_request s = backend_header hs \<Longrightarrow> authentic x lib hook cfg hs s"
| au_hook: "ac_auth_hook cfg = Some (url, mode) \<Longrightarrow>
    hook url (eq_ignore_ascii_case mode ''POST'') (header_map hs) = HookReply status body \<Longrightarrow> status \<noteq> 401 \<Longrightarrow>
    hook_vouches x body s \<Longrightarrow> authentic x lib hook cfg hs s"

lemma secret_ok_iff:
  "secret_ok admin_secret hs \<longleftrightarrow> (case admin_secret of None \<Rightarrow> True | Some e \<Rightarrow> header_get hs ''x-hasura-admin-secret'' = Some e)"
  by (auto simp: secret_ok_def ct_eq_iff as_bytes_inject split: option.splits)

lemma trusted_session_Inr:
  "trusted_session cfg hs trusted = Inr s \<Longrightarrow>
     (if trusted then header_session hs (ac_unauthorized_role cfg) s else \<exists>r. ac_unauthorized_role cfg = Some r \<and> s = guest r)"
  using trusted_header_session [of hs "ac_unauthorized_role cfg" s]
  by (auto simp: trusted_session_def session_from_headers_def split: sum.splits option.splits if_splits)

lemma webhook_authentic:
  assumes "webhook_session x hook (ac_unauthorized_role cfg) url mode hs = Inr s" "ac_auth_hook cfg = Some (url, mode)"
  shows "authentic x lib hook cfg hs s"
proof (cases "hook url (eq_ignore_ascii_case mode ''POST'') (header_map hs)")
  case (HookReply status body)
  show ?thesis
  proof (cases "status = 401")
    case True
    then show ?thesis using assms(1) HookReply by (auto simp: webhook_session_def intro: au_guest split: option.splits)
  next
    case False
    have "hook_vouches x body s"
      using assms(1) HookReply False hasura_vars_sound [of _ _ x "object_of body"]
      by (fastforce simp: webhook_session_def hook_vouches_def list_all_iff Let_def split: option.splits)
    then show ?thesis by (rule au_hook [where hook = hook, OF assms(2) HookReply False])
  qed
qed (use assms in \<open>simp add: webhook_session_def\<close>)

lemma bearer_authentic:
  assumes "bearer_session x lib jwt (ac_unauthorized_role cfg) hs = Inr s" "ac_jwt cfg = Some jwt"
  shows "authentic x lib hook cfg hs s"
proof (cases "find_token (jc_header jwt) hs")
  case None
  then show ?thesis using assms(1) by (auto simp: bearer_session_def intro: au_guest split: option.splits)
next
  case (Some token)
  then obtain js where js: "jwt_session_of x lib jwt token (header_get hs ''x-hasura-role'') = Inr js"
    and s: "s = \<lparr>se_role = js_role js, se_vars = js_vars js, se_backend_request = backend_header hs\<rparr>"
    using assms(1) by (auto simp: bearer_session_def split: sum.splits)
  obtain payload where p: "jwt_decode lib jwt token = Inr payload"
    "vouches x jwt payload (header_get hs ''x-hasura-role'') (se_role s) (se_vars s)"
    using jwt_session_vouches [OF js] s by auto
  then show ?thesis using jwt_decode_Inr [OF p(1)] au_token [OF assms(2) Some _ _ p(2)] s by auto
qed

lemma resolve_authentic:
  assumes "resolve_request_session x lib hook cfg hs = Inr s"
  shows "authentic x lib hook cfg hs s"
proof (cases "\<exists>e. ac_admin_secret cfg = Some e \<and> header_get hs ''x-hasura-admin-secret'' = Some e")
  case True
  then have "trusted_session cfg hs True = Inr s"
    using assms by (auto simp: resolve_request_session_def Let_def secret_ok_iff split: option.splits if_splits)
  then have "header_session hs (ac_unauthorized_role cfg) s" using trusted_session_Inr [of cfg hs True s] by simp
  then show ?thesis using True by (auto intro: au_admin)
next
  case False
  then have no: "\<not> (ac_admin_secret cfg \<noteq> None \<and> secret_ok (ac_admin_secret cfg) hs)" by (auto simp: secret_ok_iff)
  show ?thesis
  proof (cases "ac_auth_hook cfg")
    case (Some um)
    then show ?thesis using assms no by (cases um) (auto simp: resolve_request_session_def Let_def intro: webhook_authentic)
  next
    case None
    show ?thesis
    proof (cases "ac_jwt cfg")
      case (Some jwt)
      then show ?thesis using assms no None by (auto simp: resolve_request_session_def Let_def intro: bearer_authentic)
    next
      case None
      then have "trusted_session cfg hs (secret_ok (ac_admin_secret cfg) hs) = Inr s"
        using assms \<open>ac_auth_hook cfg = None\<close> by (simp add: resolve_request_session_def Let_def)
      then have "if secret_ok (ac_admin_secret cfg) hs then header_session hs (ac_unauthorized_role cfg) s
          else \<exists>r. ac_unauthorized_role cfg = Some r \<and> s = guest r"
        by (rule trusted_session_Inr)
      then show ?thesis using no None \<open>ac_auth_hook cfg = None\<close>
        by (cases "secret_ok (ac_admin_secret cfg) hs") (auto intro: au_open au_guest)
    qed
  qed
qed

section \<open>Paths\<close>

text \<open>Printing a path: a plain segment after a dot, any other in quoted brackets.\<close>

definition plain_segment :: "string \<Rightarrow> bool" where
  "plain_segment seg \<longleftrightarrow> seg \<noteq> [] \<and> CHR ''.'' \<notin> set seg \<and> CHR ''['' \<notin> set seg"

definition print_segment :: "string \<Rightarrow> string" where
  "print_segment seg = (if plain_segment seg then CHR ''.'' # seg else ''['' @ [CHR 0x22] @ seg @ [CHR 0x22] @ '']'')"

definition print_path :: "string list \<Rightarrow> string" where
  "print_path segs = CHR ''$'' # concat (map print_segment segs)"

lemma takeWhile_stops: "list_all P xs \<Longrightarrow> ys = [] \<or> \<not> P (hd ys) \<Longrightarrow> takeWhile P (xs @ ys) = xs \<and> dropWhile P (xs @ ys) = ys"
  by (induction xs) (auto simp: takeWhile_eq_Nil_iff dropWhile_eq_self_iff)

lemma printed_start: "concat (map print_segment segs) = [] \<or> hd (concat (map print_segment segs)) \<in> {CHR ''.'', CHR ''[''}"
  by (cases segs) (auto simp: print_segment_def)

lemma segments_print: "list_all (\<lambda>seg. CHR 0x22 \<notin> set seg) segs \<Longrightarrow> json_path_segments (concat (map print_segment segs)) = segs"
proof (induction segs)
  case (Cons seg segs)
  let ?rest = "concat (map print_segment segs)"
  show ?case
  proof (cases "plain_segment seg")
    case True
    let ?P = "\<lambda>n. n \<noteq> CHR ''.'' \<and> n \<noteq> CHR ''[''"
    have "takeWhile ?P (seg @ ?rest) = seg \<and> dropWhile ?P (seg @ ?rest) = ?rest"
      by (rule takeWhile_stops) (use True printed_start [of segs] in \<open>auto simp: plain_segment_def list_all_iff\<close>)
    moreover have "print_segment seg = CHR ''.'' # seg" "seg \<noteq> []" using True by (simp_all add: print_segment_def plain_segment_def)
    ultimately show ?thesis using Cons by (simp add: Let_def)
  next
    case False
    have tail: "takeWhile (\<lambda>c. c \<noteq> CHR 0x22) (seg @ CHR 0x22 # CHR '']'' # ?rest) = seg
        \<and> dropWhile (\<lambda>c. c \<noteq> CHR 0x22) (seg @ CHR 0x22 # CHR '']'' # ?rest) = CHR 0x22 # CHR '']'' # ?rest"
      by (rule takeWhile_stops) (use Cons.prems in \<open>auto simp: list_all_iff\<close>)
    have "bracket_segment (CHR 0x22 # seg @ CHR 0x22 # CHR '']'' # ?rest) = (seg, ?rest)"
      using tail by (simp add: bracket_segment_def after_def)
    moreover have "print_segment seg = CHR ''['' # CHR 0x22 # seg @ [CHR 0x22, CHR '']'']" using False by (simp add: print_segment_def)
    ultimately show ?thesis using Cons by simp
  qed
qed simp

section \<open>Properties\<close>


definition sample_claims :: json where
  "sample_claims = JObject [(''sub'', JString ''abc''), (''https://hasura.io/jwt/claims'', JObject
     [(''X-Hasura-Allowed-Roles'', JArray [JString ''user'', JString ''editor'']), (''x-hasura-default-role'', JString ''user''),
      (''x-hasura-user-id'', JString ''42''), (''other'', JBool True)])]"

definition sample_lib :: "string jwt_lib" where
  "sample_lib = \<lparr>jl_from_secret = id, jl_from_rsa_pem = (\<lambda>_. None), jl_from_ed_pem = (\<lambda>_. None), jl_from_ec_pem = (\<lambda>_. None),
     jl_decode = (\<lambda>token key v. if token = ''tok'' \<and> key = ''top-secret'' \<and> vd_algorithms v = [HS256] then Inr sample_claims else Inl InvalidSignature),
     jl_header_kid = (\<lambda>_. Inr None)\<rparr>"

definition sample_jwt :: "string jwt_config" where
  "sample_jwt = \<lparr>jc_keys = StaticKey ''top-secret'' HS256,
     jc_validation = \<lparr>vd_algorithms = [HS256], vd_leeway = 0, vd_aud = None, vd_validate_aud = False, vd_iss = None\<rparr>,
     jc_namespace = ''https://hasura.io/jwt/claims'', jc_namespace_path = None, jc_claims_map = None, jc_stringified = False,
     jc_header = Authorization_Header, jc_jwk_url = None\<rparr>"

definition sample_auth :: "string auth_config" where
  "sample_auth = \<lparr>ac_admin_secret = Some ''shh'', ac_unauthorized_role = None, ac_jwt = Some sample_jwt, ac_auth_hook = None\<rparr>"

definition sample_headers :: headers where
  "sample_headers = [(''authorization'', Some ''Bearer tok''), (''x-hasura-role'', Some ''editor''), (''x-hasura-user-id'', Some ''1''),
     (''x-hasura-use-backend-only-permissions'', Some ''true'')]"

definition sample_token_session :: session where
  "sample_token_session = \<lparr>se_role = ''editor'',
     se_vars = [(''x-hasura-role'', ''editor''), (''x-hasura-user-id'', ''42''), (''x-hasura-default-role'', ''user''),
       (''x-hasura-allowed-roles'', json_display sample_extern (JArray [JString ''user'', JString ''editor'']))],
     se_backend_request = True\<rparr>"

lemma sample_token_resolved:
  "resolve_request_session sample_extern sample_lib (\<lambda>_ _ _. HookFailed []) sample_auth sample_headers = Inr sample_token_session"
  by code_simp


text \<open>
  The constant-time comparison is equality of byte strings, so the secret
  check accepts exactly the requests whose header is the configured secret.
\<close>

theorem secret_check_exact:
  "(ct_eq a b \<longleftrightarrow> a = b) \<and>
   (secret_ok admin_secret hs \<longleftrightarrow>
     (case admin_secret of None \<Rightarrow> True | Some e \<Rightarrow> header_get hs ''x-hasura-admin-secret'' = Some e))"
  by (simp add: ct_eq_iff secret_ok_iff)

text \<open>
  C35. The depth guard rejects exactly the queries in which some run of text
  opens over a hundred more brackets than it closes; stray closing brackets
  cannot buy depth.
\<close>

theorem query_too_deep_exact:
  "query_too_deep q \<longleftrightarrow>
     (\<exists>run. sublist run q \<and> 100 + length (filter closes run) < length (filter opens run))"
proof -
  have "100 < excess run \<longleftrightarrow> 100 + length (filter closes run) < length (filter opens run)" for run
    by (auto simp: excess_def)
  then show ?thesis by (simp add: query_too_deep_iff)
qed

text \<open>
  With trusted headers a session variable is the last readable value of the
  header of that name, for every \<open>x-hasura-\<close> header except the secret, which
  no variable exposes; the role is the role header's, or the fallback.
\<close>

theorem trusted_session_exact:
  assumes "session_from_headers hs fallback True = Inr s"
  shows "header_session hs fallback s \<and> session_var s ''X-Hasura-Admin-Secret'' = None"
proof -
  have "to_ascii_lowercase ''X-Hasura-Admin-Secret'' = ''x-hasura-admin-secret''" by code_simp
  then show ?thesis using trusted_header_session [OF assms] by (auto simp: header_session_def exposed_def)
qed

theorem trusted_session_exact_witness:
  "\<exists>s. session_from_headers (sample_headers @ [(''x-hasura-admin-secret'', Some ''shh'')]) None True = Inr s
     \<and> se_role s = ''editor'' \<and> session_var s ''X-Hasura-Admin-Secret'' = None"
proof -
  have "(case session_from_headers (sample_headers @ [(''x-hasura-admin-secret'', Some ''shh'')]) None True of
      Inr s \<Rightarrow> se_role s = ''editor'' | _ \<Rightarrow> False) = True" by code_simp
  then obtain s where s: "session_from_headers (sample_headers @ [(''x-hasura-admin-secret'', Some ''shh'')]) None True = Inr s"
    "se_role s = ''editor''" by (auto split: sum.splits)
  then show ?thesis using trusted_session_exact [OF s(1)] by blast
qed

text \<open>
  C36. Polling for keys neither spins nor loses them: the interval is at least a
  second, an answer without usable keys keeps the old ones, and while there are
  none no token is accepted.
\<close>

theorem key_refresh_safe:
  "1 \<le> jwk_refresh_interval cache_control has_expires
   \<and> (refresh_keys (Jwks (k # ks)) answer \<noteq> Jwks [])
   \<and> jwt_decode lib (c\<lparr>jc_keys := Jwks []\<rparr>) token \<noteq> Inr payload"
proof (intro conjI)
  show "1 \<le> jwk_refresh_interval cache_control has_expires"
    by (auto simp: jwk_refresh_interval_def max_def split: list.splits)
  show "refresh_keys (Jwks (k # ks)) answer \<noteq> Jwks []"
    by (auto simp: refresh_keys_def split: option.splits)
  show "jwt_decode lib (c\<lparr>jc_keys := Jwks []\<rparr>) token \<noteq> Inr payload"
    by (auto simp: jwt_decode_def)
qed

text \<open>
  Claim paths round-trip: printed with dots, or in quoted brackets where a
  segment is empty or holds a dot or bracket, a path parses back to its segments.
\<close>

theorem json_path_roundtrip:
  assumes "list_all (\<lambda>seg. CHR 0x22 \<notin> set seg) segs"
  shows "parse_json_path (print_path segs) = segs"
proof -
  have "dropWhile (\<lambda>c. c = CHR ''$'') (concat (map print_segment segs)) = concat (map print_segment segs)"
    using printed_start [of segs] by (auto simp: dropWhile_eq_self_iff)
  then show ?thesis using segments_print [OF assms] by (simp add: parse_json_path_def print_path_def)
qed

theorem json_path_roundtrip_witness:
  "parse_json_path (print_path [''hasura'', ''claims.v1'', []]) = [''hasura'', ''claims.v1'', []]"
  by (rule json_path_roundtrip) simp

end
