(* ===== verification/World.thy ===== *)
theory World
  imports Auth Graphql
begin

text \<open>
  What the server calls and does not define. Pure third-party functions (the
  GraphQL parser and printer, the environment) are fields of \<open>server_lib\<close>.
  HTTP clients and the database are a \<open>world\<close>: an answer to each request
  that may depend on everything requested before. A computation threads the
  list of requests made so far, so that which requests are made, and in which
  order, is part of every result.
\<close>

section \<open>Schema documents\<close>

text \<open>The part of the SDL syntax tree (crate \<open>graphql-parser\<close>) that is read.\<close>

datatype gql_type = NamedType string | ListType gql_type | NonNullType gql_type

record sdl_input_value =
  siv_name :: string
  siv_type :: gql_type
  siv_directives :: "gql_directive list"

record sdl_field =
  sdf_name :: string
  sdf_arguments :: "sdl_input_value list"
  sdf_type :: gql_type

datatype type_definition =
    TDScalar string
  | TDObject string "sdl_field list"
  | TDInterface string "sdl_field list"
  | TDUnion string
  | TDEnum string
  | TDInputObject string "sdl_input_value list"

datatype sdl_definition = SchemaDef "string option" | TypeDef type_definition | OtherDef

type_synonym sdl_document = "sdl_definition list"

text \<open>
  Column 0 of a row: JSON, text, NULL, or a type that is neither.
  \<open>sl_decode_error\<close> is the driver's message when it cannot be decoded.
\<close>

datatype db_cell = JsonCell json | TextCell string | NullCell | OtherCell

record server_lib =
  sl_parse_query :: "string \<Rightarrow> string + gql_document"
  sl_parse_schema :: "string \<Rightarrow> sdl_document option"
  sl_doc_display :: "gql_document \<Rightarrow> string"
  sl_selection_display :: "selection list \<Rightarrow> string"
  sl_env :: "string \<Rightarrow> string option"
  sl_decode_error :: "db_cell \<Rightarrow> string"

section \<open>Requests and answers\<close>

datatype request =
    Post string json "(string \<times> string) list"
  | Query string
  | BeginTx
  | TxQuery string
  | CommitTx

datatype http_reply = HttpFailed string | HttpReply nat json

text \<open>An error of Postgres with its SQLSTATE and message, or of the client.\<close>

datatype db_error = DbError string string | ClientError string

record world =
  w_http :: "request list \<Rightarrow> http_reply"
  w_query :: "request list \<Rightarrow> db_error + db_cell"
  w_control :: "request list \<Rightarrow> db_error option"
  w_pool :: "request list \<Rightarrow> string option + unit"

text \<open>
  \<open>w_pool\<close> is the outcome of taking a connection: no source (\<open>Inl None\<close>),
  a pool error, or a connection.
\<close>

type_synonym 'a io = "request list \<Rightarrow> 'a \<times> request list"

definition returnIO :: "'a \<Rightarrow> ('e + 'a) io" where
  "returnIO v h = (Inr v, h)"

definition failIO :: "'e \<Rightarrow> ('e + 'a) io" where
  "failIO e h = (Inl e, h)"

definition liftIO :: "'e + 'a \<Rightarrow> ('e + 'a) io" where
  "liftIO r h = (r, h)"

definition bindIO :: "('e + 'a) io \<Rightarrow> ('a \<Rightarrow> ('e + 'b) io) \<Rightarrow> ('e + 'b) io" where
  "bindIO m f h = (case m h of (Inl e, h') \<Rightarrow> (Inl e, h') | (Inr v, h') \<Rightarrow> f v h')"

fun traverseIO :: "('a \<Rightarrow> ('e + 'b) io) \<Rightarrow> 'a list \<Rightarrow> ('e + 'b list) io" where
  "traverseIO f [] = returnIO []"
| "traverseIO f (v # vs) = bindIO (f v) (\<lambda>w. bindIO (traverseIO f vs) (\<lambda>ws. returnIO (w # ws)))"

definition ask :: "(request list \<Rightarrow> 'r) \<Rightarrow> request \<Rightarrow> ('e + 'r) io" where
  "ask answer r h = (Inr (answer (h @ [r])), h @ [r])"

lemma bindIO_cong [fundef_cong]:
  assumes "m = m'" "\<And>v. f v = f' v"
  shows "bindIO m f = bindIO m' f'"
proof -
  have "f = f'" using assms(2) by (rule ext)
  then show ?thesis using assms(1) by simp
qed

lemma traverseIO_cong [fundef_cong]:
  assumes "vs = vs'" "\<And>v. v \<in> set vs' \<Longrightarrow> f v = f' v"
  shows "traverseIO f vs = traverseIO f' vs'"
proof -
  have "(\<And>v. v \<in> set vs' \<Longrightarrow> f v = f' v) \<Longrightarrow> traverseIO f vs' = traverseIO f' vs'" by (induction vs') simp_all
  then show ?thesis using assms by simp
qed

text \<open>Requests are only ever added.\<close>

definition extends :: "'a io \<Rightarrow> (request \<Rightarrow> bool) \<Rightarrow> bool" where
  "extends m P \<longleftrightarrow> (\<forall>h. \<exists>new. snd (m h) = h @ new \<and> list_all P new)"

lemma extends_return [intro]: "extends (returnIO v) P" "extends (failIO e) P" "extends (liftIO r) P"
  by (auto simp: extends_def returnIO_def failIO_def liftIO_def)

lemma extends_ask [intro]: "P r \<Longrightarrow> extends (ask answer r) P"
  by (auto simp: extends_def ask_def)

lemma extends_bind [intro]:
  assumes "extends m P" "\<And>v. extends (f v) P"
  shows "extends (bindIO m f) P"
  unfolding extends_def
proof
  fix h
  obtain r1 h1 where m: "m h = (r1, h1)" by fastforce
  obtain new1 where new1: "h1 = h @ new1" "list_all P new1" using assms(1) m unfolding extends_def by (metis snd_conv)
  show "\<exists>new. snd (bindIO m f h) = h @ new \<and> list_all P new"
  proof (cases r1)
    case (Inl e)
    then show ?thesis using m new1 by (auto simp: bindIO_def)
  next
    case (Inr v)
    obtain new2 where "snd (f v h1) = h1 @ new2" "list_all P new2" using assms(2) [of v] unfolding extends_def by blast
    then show ?thesis using Inr m new1 by (auto simp: bindIO_def)
  qed
qed

lemma extends_traverse [intro]: "(\<And>v. v \<in> set vs \<Longrightarrow> extends (f v) P) \<Longrightarrow> extends (traverseIO f vs) P"
  by (induction vs) (auto intro!: extends_bind)

lemma extends_mono: "extends m P \<Longrightarrow> (\<And>r. P r \<Longrightarrow> Q r) \<Longrightarrow> extends m Q"
  unfolding extends_def list_all_iff by metis

end
