(* ===== verification/Dict.thy ===== *)
theory Dict
  imports Json
begin

text \<open>
  The maps of the program: \<open>HashMap\<close>, \<open>serde_json::Map\<close> and
  \<open>BTreeMap\<close>, each an association list with its own insertion. What their
  clients rely on is one interface: what a lookup finds after an insertion.
\<close>

section \<open>Byte order\<close>

fun str_less :: "string \<Rightarrow> string \<Rightarrow> bool" where
  "str_less [] [] = False"
| "str_less [] (_ # _) = True"
| "str_less (_ # _) [] = False"
| "str_less (a # as) (b # bs) = ((of_char a :: nat) < of_char b \<or> a = b \<and> str_less as bs)"

lemma str_less_irrefl [simp]: "\<not> str_less s s"
  by (induction s) auto

lemma str_less_trans: "str_less a b \<Longrightarrow> str_less b c \<Longrightarrow> str_less a c"
proof (induction a b arbitrary: c rule: str_less.induct)
  case (2 b bs)
  then show ?case by (cases c) auto
next
  case (4 a as b bs)
  then show ?case by (cases c) auto
qed auto

lemma str_less_total: "str_less a b \<or> a = b \<or> str_less b a"
proof (induction a b rule: str_less.induct)
  case (4 a as b bs)
  have "(of_char a :: nat) = of_char b \<longleftrightarrow> a = b" by simp
  then show ?case using 4 by (metis linorder_neqE_nat str_less.simps(4))
qed auto

fun btree_insert :: "string \<Rightarrow> 'v \<Rightarrow> (string \<times> 'v) list \<Rightarrow> (string \<times> 'v) list" where
  "btree_insert k v [] = [(k, v)]"
| "btree_insert k v ((k', v') # m) =
     (if k = k' then (k, v) # m else if str_less k k' then (k, v) # (k', v') # m else (k', v') # btree_insert k v m)"

text \<open>A \<open>BTreeSet\<close>: keys only.\<close>

fun bset_insert :: "string \<Rightarrow> string list \<Rightarrow> string list" where
  "bset_insert k [] = [k]"
| "bset_insert k (k' # ks) = (if k = k' then k # ks else if str_less k k' then k # k' # ks else k' # bset_insert k ks)"

abbreviation in_order :: "string list \<Rightarrow> bool" where
  "in_order \<equiv> sorted_wrt str_less"

lemma bset_insert_set: "set (bset_insert k ks) = insert k (set ks)"
  by (induction k ks rule: bset_insert.induct) auto

lemma bset_insert_order: "in_order ks \<Longrightarrow> in_order (bset_insert k ks)"
proof (induction k ks rule: bset_insert.induct)
  case (2 k k' ks)
  then show ?case using str_less_total [of k k'] str_less_trans [of k k'] by (auto simp: bset_insert_set)
qed simp

lemma btree_insert_keys: "map fst (btree_insert k v m) = bset_insert k (map fst m)"
  by (induction k v m rule: btree_insert.induct) auto

section \<open>The interface\<close>

definition put_all :: "(string \<Rightarrow> 'v \<Rightarrow> 'm \<Rightarrow> 'm) \<Rightarrow> (string \<times> 'v) list \<Rightarrow> 'm \<Rightarrow> 'm" where
  "put_all put kvs m = foldl (\<lambda>acc (k, v). put k v acc) m kvs"

text \<open>Adding what is missing, in order.\<close>

definition put_missing :: "('m \<Rightarrow> string \<Rightarrow> 'v option) \<Rightarrow> (string \<Rightarrow> 'v \<Rightarrow> 'm \<Rightarrow> 'm) \<Rightarrow> (string \<times> 'v) list \<Rightarrow> 'm \<Rightarrow> 'm" where
  "put_missing get put kvs m = foldl (\<lambda>acc (k, v). if get acc k \<noteq> None then acc else put k v acc) m kvs"

locale dictionary =
  fixes get :: "'m \<Rightarrow> string \<Rightarrow> 'v option"
    and put :: "string \<Rightarrow> 'v \<Rightarrow> 'm \<Rightarrow> 'm"
  assumes get_put: "get (put k v m) k' = (if k' = k then Some v else get m k')"
begin

lemma get_put_all: "get (put_all put kvs m) k = (case map_of (rev kvs) k of Some v \<Rightarrow> Some v | None \<Rightarrow> get m k)"
proof (induction kvs rule: rev_induct)
  case (snoc kv kvs)
  have "put_all put (kvs @ [kv]) m = put (fst kv) (snd kv) (put_all put kvs m)"
    by (simp add: put_all_def case_prod_beta)
  then show ?case using snoc by (auto simp: get_put)
qed (simp add: put_all_def)

lemma get_put_missing: "get (put_missing get put kvs m) k = (case get m k of Some v \<Rightarrow> Some v | None \<Rightarrow> map_of kvs k)"
proof (induction kvs arbitrary: m)
  case (Cons kv kvs)
  have "put_missing get put (kv # kvs) m = put_missing get put kvs (if get m (fst kv) \<noteq> None then m else put (fst kv) (snd kv) m)"
    by (simp add: put_missing_def case_prod_beta)
  then show ?case using Cons by (auto simp: get_put split: option.splits)
qed (simp add: put_missing_def split: option.splits)

end

interpretation hm: dictionary "\<lambda>m. map_of m" hm_insert
  by unfold_locales simp

interpretation jmap: dictionary jmap_get "\<lambda>k v m. jmap_insert m k v"
  by unfold_locales (simp add: jmap_get_insert)

interpretation btree: dictionary "\<lambda>m. map_of m" btree_insert
proof
  show "map_of (btree_insert k v m) k' = (if k' = k then Some v else map_of m k')" for k v m k'
    by (induction k v m rule: btree_insert.induct) auto
qed

end
