(* ===== verification/Remote.thy ===== *)
theory Remote
  imports World Dict Bool_Exps Plan_Args
begin

text \<open>
  Remote schemas, \<open>crates/server/src/remote.rs\<close>: which operations go to a
  remote server, their validation against the role's SDL, the translation of
  customized names, preset arguments, and forwarding. Errors are
  \<open>GqlError\<close> values, represented by the planner's error record.
\<close>

section \<open>URL templates\<close>

fun split_at_str :: "string \<Rightarrow> string \<Rightarrow> (string \<times> string) option" where
  "split_at_str p [] = (if p = [] then Some ([], []) else None)"
| "split_at_str p (c # cs) =
     (case strip_prefix p (c # cs) of
        Some rest \<Rightarrow> Some ([], rest)
      | None \<Rightarrow> map_option (\<lambda>(a, b). (c # a, b)) (split_at_str p cs))"

lemma split_at_str_Some: "split_at_str p s = Some (a, b) \<Longrightarrow> s = a @ p @ b"
  by (induction p s arbitrary: a rule: split_at_str.induct) (auto simp: strip_prefix_Some_iff split: if_splits option.splits)

function resolve_url_template :: "(string \<Rightarrow> string option) \<Rightarrow> string \<Rightarrow> string" where
  "resolve_url_template env rest =
     (case split_at_str ''{{'' rest of
        None \<Rightarrow> rest
      | Some (before, tail) \<Rightarrow>
          (case split_at_str ''}}'' tail of
             Some (var, rest') \<Rightarrow>
               before @ (case env (trim var) of Some v \<Rightarrow> v | None \<Rightarrow> []) @ resolve_url_template env rest'
           | None \<Rightarrow> before @ ''{{'' @ resolve_url_template env tail))"
  by pat_completeness auto
termination
  by (relation "measure (\<lambda>(env, rest). length rest)") (auto dest!: split_at_str_Some)

declare resolve_url_template.simps [simp del]

section \<open>Types of the role's schema\<close>

type_synonym types = "(string \<times> type_definition) list"

fun td_name :: "type_definition \<Rightarrow> string" where
  "td_name (TDScalar n) = n"
| "td_name (TDObject n _) = n"
| "td_name (TDInterface n _) = n"
| "td_name (TDUnion n) = n"
| "td_name (TDEnum n) = n"
| "td_name (TDInputObject n _) = n"

definition type_map :: "sdl_document \<Rightarrow> types" where
  "type_map sdl = foldl (\<lambda>m d. case d of TypeDef td \<Rightarrow> hm_insert (td_name td) td m | _ \<Rightarrow> m) [] sdl"

fun schema_query :: "sdl_document \<Rightarrow> string option" where
  "schema_query [] = None"
| "schema_query (SchemaDef (Some q) # ds) = Some q"
| "schema_query (_ # ds) = schema_query ds"

definition root_type_name :: "sdl_document \<Rightarrow> types \<Rightarrow> string option" where
  "root_type_name sdl types =
     (case schema_query sdl of
        Some q \<Rightarrow> Some q
      | None \<Rightarrow> if map_of types ''Query'' \<noteq> None then Some ''Query'' else None)"

fun unwrap_type :: "gql_type \<Rightarrow> string" where
  "unwrap_type (NamedType n) = n"
| "unwrap_type (ListType t) = unwrap_type t"
| "unwrap_type (NonNullType t) = unwrap_type t"

definition field_on_type :: "types \<Rightarrow> string \<Rightarrow> string \<Rightarrow> sdl_field option" where
  "field_on_type types type_name field =
     (case map_of types type_name of
        Some (TDObject _ fs) \<Rightarrow> find (\<lambda>f. sdf_name f = field) fs
      | Some (TDInterface _ fs) \<Rightarrow> find (\<lambda>f. sdf_name f = field) fs
      | _ \<Rightarrow> None)"

section \<open>Validation\<close>

definition gql_fail :: "string \<Rightarrow> string \<Rightarrow> string \<Rightarrow> 'a plan_result" where
  "gql_fail path code message = Inl (Fail (plan_error_new path code message))"

definition has_preset :: "gql_directive list \<Rightarrow> bool" where
  "has_preset ds = list_ex (\<lambda>d. gd_name d = ''preset'') ds"

definition visible_argument :: "sdl_field \<Rightarrow> bool \<Rightarrow> string \<Rightarrow> bool" where
  "visible_argument fdef internal arg =
     list_ex (\<lambda>a. siv_name a = arg \<and> (internal \<or> \<not> has_preset (siv_directives a))) (sdf_arguments fdef)"

definition validate_arguments :: "sdl_field \<Rightarrow> bool \<Rightarrow> gql_field \<Rightarrow> string \<Rightarrow> unit plan_result" where
  "validate_arguments fdef internal field path =
     (case find (\<lambda>a. \<not> visible_argument fdef internal (fst a)) (gf_arguments field) of
        None \<Rightarrow> Inr ()
      | Some (arg, _) \<Rightarrow> gql_fail path ''validation-failed''
          (quoted (gf_name field) @ '' has no argument named '' @ quoted arg))"

fun validate_field :: "types \<Rightarrow> string \<Rightarrow> gql_field \<Rightarrow> string \<Rightarrow> bool \<Rightarrow> unit plan_result"
and validate_selection :: "types \<Rightarrow> string \<Rightarrow> selection \<Rightarrow> string \<Rightarrow> bool \<Rightarrow> unit plan_result" where
  "validate_field types parent_type (GqlField alias name args ds sel) path internal =
     (case field_on_type types parent_type name of
        None \<Rightarrow> gql_fail path ''validation-failed''
          (''field '' @ quoted name @ '' not found in type: '' @ quoted parent_type)
      | Some fdef \<Rightarrow>
          bindR (validate_arguments fdef internal (GqlField alias name args ds sel) path) (\<lambda>_.
          bindR (traverse (\<lambda>item. validate_selection types (unwrap_type (sdf_type fdef)) item path internal) sel)
            (\<lambda>_. Inr ())))"
| "validate_selection types inner (SField sub) path internal =
     (if gf_name sub = ''__typename'' then Inr ()
      else validate_field types inner sub (path @ ''.selectionSet.'' @ gf_name sub) internal)"
| "validate_selection types inner (SFragmentSpread _ _) path internal = Inr ()"
| "validate_selection types inner (SInlineFragment _ _ _) path internal = Inr ()"

section \<open>Customized names\<close>

definition strip_affixes :: "string option \<Rightarrow> string option \<Rightarrow> string \<Rightarrow> string" where
  "strip_affixes prefix suffix name =
     (let out = (case prefix of
                   Some p \<Rightarrow> (case strip_prefix p name of Some r \<Rightarrow> r | None \<Rightarrow> name)
                 | None \<Rightarrow> name)
      in case suffix of
           Some s \<Rightarrow> (case strip_suffix s out of Some r \<Rightarrow> r | None \<Rightarrow> out)
         | None \<Rightarrow> out)"

definition strip_type :: "remote_schema_customization \<Rightarrow> string \<Rightarrow> string" where
  "strip_type c name =
     (case rsc_type_names c of
        Some tn \<Rightarrow> strip_affixes (nc_prefix tn) (nc_suffix tn) name
      | None \<Rightarrow> name)"

fun strip_field_rules :: "field_name_customization list \<Rightarrow> string \<Rightarrow> string" where
  "strip_field_rules [] name = name"
| "strip_field_rules (rule # rules) name =
     (case Option.bind (fnc_prefix rule) (\<lambda>p. strip_prefix p name) of
        Some rest \<Rightarrow> rest
      | None \<Rightarrow>
          (case Option.bind (fnc_suffix rule) (\<lambda>s. strip_suffix s name) of
             Some rest \<Rightarrow> rest
           | None \<Rightarrow> strip_field_rules rules name))"

definition strip_field :: "remote_schema_customization \<Rightarrow> string \<Rightarrow> string" where
  "strip_field c name = strip_field_rules (rsc_field_names c) name"

fun walk_field :: "remote_schema_customization \<Rightarrow> gql_field \<Rightarrow> gql_field"
and walk_selection :: "remote_schema_customization \<Rightarrow> selection \<Rightarrow> selection" where
  "walk_field c (GqlField alias name args ds sel) =
     (let upstream = strip_field c name in
      GqlField (if upstream \<noteq> name \<and> alias = None then Some name else alias) upstream args ds (map (walk_selection c) sel))"
| "walk_selection c (SField f) = SField (walk_field c f)"
| "walk_selection c (SFragmentSpread n ds) = SFragmentSpread n ds"
| "walk_selection c (SInlineFragment t ds sel) = SInlineFragment (map_option (strip_type c) t) ds (map (walk_selection c) sel)"

text \<open>The selection under the namespace root, when one is configured.\<close>

definition unwrap_namespace :: "remote_schema_customization \<Rightarrow> selection list \<Rightarrow> selection list option" where
  "unwrap_namespace c items =
     (case rsc_root_fields_namespace c of
        None \<Rightarrow> Some items
      | Some ns \<Rightarrow>
          (case items of
             [SField f] \<Rightarrow> if gf_name f = ns then Some (gf_selection_set f) else None
           | _ \<Rightarrow> None))"

definition decustomize_set :: "remote_schema_customization \<Rightarrow> selection list \<Rightarrow> selection list option" where
  "decustomize_set c items = map_option (map (walk_selection c)) (unwrap_namespace c items)"

fun decustomize_def :: "remote_schema_customization \<Rightarrow> gql_definition \<Rightarrow> gql_definition option" where
  "decustomize_def c (DefOperation (OpQuery n vds sel)) =
     map_option (\<lambda>s. DefOperation (OpQuery n vds s)) (decustomize_set c sel)"
| "decustomize_def c (DefOperation (OpSelectionSet sel)) =
     map_option (\<lambda>s. DefOperation (OpSelectionSet s)) (decustomize_set c sel)"
| "decustomize_def c (DefOperation _) = None"
| "decustomize_def c (DefFragment f) =
     Some (DefFragment (f\<lparr>fr_type_condition := strip_type c (fr_type_condition f),
                           fr_selection_set := map (walk_selection c) (fr_selection_set f)\<rparr>))"

fun all_some :: "'a option list \<Rightarrow> 'a list option" where
  "all_some [] = Some []"
| "all_some (None # xs) = None"
| "all_some (Some x # xs) = map_option (Cons x) (all_some xs)"

definition has_operation :: "gql_document \<Rightarrow> bool" where
  "has_operation doc = list_ex (\<lambda>d. case d of DefOperation _ \<Rightarrow> True | _ \<Rightarrow> False) doc"

definition decustomize :: "gql_document \<Rightarrow> remote_schema_customization \<Rightarrow> (gql_document \<times> string option) option" where
  "decustomize doc c =
     map_option (\<lambda>d. (d, if has_operation doc then rsc_root_fields_namespace c else None))
       (all_some (map (decustomize_def c) doc))"

section \<open>Root fields\<close>

definition is_intro :: "string \<Rightarrow> bool" where
  "is_intro name \<longleftrightarrow> name \<in> {''__schema'', ''__type'', ''__typename''}"

definition fields_of :: "selection list \<Rightarrow> gql_field list" where
  "fields_of items = List.map_filter (\<lambda>item. case item of SField f \<Rightarrow> Some f | _ \<Rightarrow> None) items"

lemma fields_of_set: "f \<in> set (fields_of items) \<longleftrightarrow> SField f \<in> set items"
  unfolding fields_of_def by (force simp: map_filter_def split: selection.splits)

text \<open>The fields of all query operations; \<open>None\<close> when the document has another kind of operation.\<close>

fun query_fields :: "gql_document \<Rightarrow> gql_field list option" where
  "query_fields [] = Some []"
| "query_fields (DefOperation (OpQuery _ _ sel) # ds) = map_option (append (fields_of sel)) (query_fields ds)"
| "query_fields (DefOperation (OpSelectionSet sel) # ds) = map_option (append (fields_of sel)) (query_fields ds)"
| "query_fields (DefOperation _ # ds) = None"
| "query_fields (DefFragment _ # ds) = query_fields ds"

fun data_roots :: "gql_document \<Rightarrow> gql_field list" where
  "data_roots [] = []"
| "data_roots (DefOperation (OpQuery _ _ sel) # ds) = filter (\<lambda>f. \<not> is_intro (gf_name f)) (fields_of sel) @ data_roots ds"
| "data_roots (DefOperation (OpSelectionSet sel) # ds) = filter (\<lambda>f. \<not> is_intro (gf_name f)) (fields_of sel) @ data_roots ds"
| "data_roots (_ # ds) = data_roots ds"

fun map_roots :: "(selection list \<Rightarrow> selection list) \<Rightarrow> gql_definition \<Rightarrow> gql_definition" where
  "map_roots g (DefOperation (OpQuery n vds sel)) = DefOperation (OpQuery n vds (g sel))"
| "map_roots g (DefOperation (OpSelectionSet sel)) = DefOperation (OpSelectionSet (g sel))"
| "map_roots g d = d"

fun is_intro_selection :: "selection \<Rightarrow> bool" where
  "is_intro_selection (SField f) = is_intro (gf_name f)"
| "is_intro_selection _ = False"

definition strip_introspection_roots :: "gql_document \<Rightarrow> gql_document" where
  "strip_introspection_roots doc = map (map_roots (filter (\<lambda>i. \<not> is_intro_selection i))) doc"

definition keep_introspection_roots :: "gql_document \<Rightarrow> gql_document" where
  "keep_introspection_roots doc = map (map_roots (filter is_intro_selection)) doc"

section \<open>Preset arguments\<close>

definition preset_value :: "gql_directive \<Rightarrow> gql_value option" where
  "preset_value d = (if gd_name d = ''preset'' then map_option snd (find (\<lambda>a. fst a = ''value'') (gd_arguments d)) else None)"

definition input_presets :: "types \<Rightarrow> string \<Rightarrow> (string \<times> gql_value) list" where
  "input_presets types type_name =
     (case map_of types type_name of
        Some (TDInputObject _ fs) \<Rightarrow>
          concat (map (\<lambda>f. map (Pair (siv_name f)) (List.map_filter preset_value (siv_directives f))) fs)
      | _ \<Rightarrow> [])"

fun preset_to_json :: "gql_value \<Rightarrow> json" where
  "preset_to_json (GInt n) = json_of_i64 n"
| "preset_to_json (GFloat w) = json_of_f64 w"
| "preset_to_json (GString s) = JString s"
| "preset_to_json (GBoolean b) = JBool b"
| "preset_to_json GNull = JNull"
| "preset_to_json (GEnum e) = JString e"
| "preset_to_json (GList items) = JArray (map preset_to_json items)"
| "preset_to_json (GObject m) = JObject (obj_insert_all (map (\<lambda>e. (fst e, preset_to_json (snd e))) m))"
| "preset_to_json (GVariable _) = JNull"

text \<open>Integers go through \<open>as i32\<close>.\<close>

definition as_i32 :: "int \<Rightarrow> int" where
  "as_i32 n = (n + 2 ^ 31) mod 2 ^ 32 - 2 ^ 31"

fun schema_value_to_query :: "gql_value \<Rightarrow> gql_value" where
  "schema_value_to_query (GInt n) = GInt (as_i32 n)"
| "schema_value_to_query (GList items) = GList (map schema_value_to_query items)"
| "schema_value_to_query (GObject m) = GObject (map (\<lambda>e. (fst e, schema_value_to_query (snd e))) m)"
| "schema_value_to_query v = v"

text \<open>\<open>str::parse::<i32>\<close>: an optional sign, digits, in range.\<close>

definition parse_i32 :: "string \<Rightarrow> int option" where
  "parse_i32 s =
     (let (neg, digits) = (case s of
            c # r \<Rightarrow> if c = CHR ''-'' then (True, r) else if c = CHR ''+'' then (False, r) else (False, s)
          | [] \<Rightarrow> (False, []));
          n = (if neg then - int (str_nat 0 digits) else int (str_nat 0 digits))
      in if digits \<noteq> [] \<and> list_all is_digit digits \<and> - (2 ^ 31) \<le> n \<and> n < 2 ^ 31 then Some n else None)"

definition is_session_ref :: "string \<Rightarrow> bool plan_result" where
  "is_session_ref s =
     (if length s < 8 then Inr False
      else if \<not> char_boundary s 8 then Inl Panic
      else Inr (eq_ignore_ascii_case (take 8 s) ''x-hasura''))"

definition coerce_preset :: "extern \<Rightarrow> string \<Rightarrow> string \<Rightarrow> gql_value plan_result" where
  "coerce_preset x base found =
     (if base = ''Int'' then
        (case parse_i32 found of
           Some n \<Rightarrow> Inr (GInt n)
         | None \<Rightarrow> gql_fail ''$'' ''coercion-error'' (str_debug x found @ '' cannot be coerced into an Int value''))
      else if base = ''Boolean'' then Inr (GBoolean (found = ''true''))
      else Inr (GString found))"

definition resolve_preset_arg :: "extern \<Rightarrow> session \<Rightarrow> sdl_input_value \<Rightarrow> gql_value \<Rightarrow> gql_value plan_result" where
  "resolve_preset_arg x session arg raw =
     (case raw of
        GString s \<Rightarrow>
          bindR (is_session_ref s) (\<lambda>ref.
            if ref then
              (case session_var session s of
                 None \<Rightarrow> gql_fail ''$'' ''not-found''
                   (dquoted (to_ascii_lowercase s) @ '' session variable expected, but not found'')
               | Some found \<Rightarrow> coerce_preset x (unwrap_type (siv_type arg)) found)
            else Inr (schema_value_to_query raw))
      | other \<Rightarrow> Inr (schema_value_to_query other))"

text \<open>The state of the walk: whether anything changed, and the variables.\<close>

type_synonym preset_state = "bool \<times> jmap"

definition add_preset ::
  "extern \<Rightarrow> session \<Rightarrow> sdl_input_value \<Rightarrow> (string \<times> gql_value) list \<times> bool \<Rightarrow> gql_directive \<Rightarrow> ((string \<times> gql_value) list \<times> bool) plan_result" where
  "add_preset x session arg acc d =
     (case preset_value d of
        None \<Rightarrow> Inr acc
      | Some raw \<Rightarrow>
          bindR (resolve_preset_arg x session arg raw) (\<lambda>value.
            if list_ex (\<lambda>a. fst a = siv_name arg) (fst acc) then Inr acc
            else Inr (fst acc @ [(siv_name arg, value)], True)))"

definition preset_arguments ::
  "extern \<Rightarrow> session \<Rightarrow> sdl_field \<Rightarrow> (string \<times> gql_value) list \<Rightarrow> bool \<Rightarrow> ((string \<times> gql_value) list \<times> bool) plan_result" where
  "preset_arguments x session fdef args changed =
     foldR (\<lambda>acc arg. foldR (add_preset x session arg) acc (siv_directives arg)) (args, changed) (sdf_arguments fdef)"

fun map_first_arg :: "string \<Rightarrow> gql_value \<Rightarrow> (string \<times> gql_value) list \<Rightarrow> (string \<times> gql_value) list" where
  "map_first_arg k v [] = []"
| "map_first_arg k v ((k', v') # args) = (if k' = k then (k, v) # args else (k', v') # map_first_arg k v args)"

definition json_entry :: "jmap \<Rightarrow> string \<Rightarrow> json" where
  "json_entry vars k = (case jmap_get vars k of Some v \<Rightarrow> v | None \<Rightarrow> JObject [])"

text \<open>Presets of the fields of an input object, merged into the argument or its variable.\<close>

definition merge_input ::
  "types \<Rightarrow> (string \<times> gql_value) list \<times> preset_state \<Rightarrow> sdl_input_value \<Rightarrow> (string \<times> gql_value) list \<times> preset_state" where
  "merge_input types st arg =
     (let (args, changed, vars) = st;
          presets = input_presets types (unwrap_type (siv_type arg)) in
      if presets = [] then st
      else case find (\<lambda>a. fst a = siv_name arg) args of
        Some (_, GVariable var) \<Rightarrow>
          (case json_entry vars var of
             JObject m \<Rightarrow>
               (args, True, jmap_insert vars var (JObject (put_missing jmap_get (\<lambda>k v m. jmap_insert m k v)
                  (map (\<lambda>p. (fst p, preset_to_json (snd p))) presets) m)))
           | _ \<Rightarrow> st)
      | Some (_, GObject m) \<Rightarrow>
          (map_first_arg (siv_name arg) (GObject (put_missing map_of btree_insert
             (map (\<lambda>p. (fst p, schema_value_to_query (snd p))) presets) m)) args, True, vars)
      | Some _ \<Rightarrow> st
      | None \<Rightarrow>
          (args @ [(siv_name arg, GObject (put_all btree_insert (map (\<lambda>p. (fst p, schema_value_to_query (snd p))) presets) []))], True, vars))"

definition field_presets ::
  "extern \<Rightarrow> types \<Rightarrow> session \<Rightarrow> sdl_field \<Rightarrow> (string \<times> gql_value) list \<Rightarrow> preset_state \<Rightarrow> ((string \<times> gql_value) list \<times> preset_state) plan_result" where
  "field_presets x types session fdef args st =
     bindR (preset_arguments x session fdef args (fst st)) (\<lambda>(args1, changed1).
       Inr (foldl (merge_input types) (args1, changed1, snd st) (sdf_arguments fdef)))"

function (sequential) preset_field :: "extern \<Rightarrow> types \<Rightarrow> string \<Rightarrow> session \<Rightarrow> gql_field \<Rightarrow> preset_state \<Rightarrow> (gql_field \<times> preset_state) plan_result"
and preset_selections :: "extern \<Rightarrow> types \<Rightarrow> string \<Rightarrow> session \<Rightarrow> selection list \<Rightarrow> preset_state \<Rightarrow> (selection list \<times> preset_state) plan_result" where
  "preset_field x types parent_type session (GqlField alias name args ds sel) st =
     (case field_on_type types parent_type name of
        None \<Rightarrow> Inr (GqlField alias name args ds sel, st)
      | Some fdef \<Rightarrow>
          bindR (field_presets x types session fdef args st) (\<lambda>(args', st').
          bindR (preset_selections x types (unwrap_type (sdf_type fdef)) session sel st') (\<lambda>(sel', st'').
            Inr (GqlField alias name args' ds sel', st''))))"
| "preset_selections x types parent_type session [] st = Inr ([], st)"
| "preset_selections x types parent_type session (SField f # items) st =
     bindR (preset_field x types parent_type session f st) (\<lambda>(f', st').
     bindR (preset_selections x types parent_type session items st') (\<lambda>(items', st''). Inr (SField f' # items', st'')))"
| "preset_selections x types parent_type session (item # items) st =
     bindR (preset_selections x types parent_type session items st) (\<lambda>(items', st'). Inr (item # items', st'))"
  by pat_completeness auto
termination
  by (relation "measure (case_sum (\<lambda>(x, types, p, se, f, st). size f) (\<lambda>(x, types, p, se, items, st). size_list size items))") simp_all

definition preset_definition ::
  "extern \<Rightarrow> types \<Rightarrow> string \<Rightarrow> session \<Rightarrow> gql_document \<times> preset_state \<Rightarrow> gql_definition \<Rightarrow> (gql_document \<times> preset_state) plan_result" where
  "preset_definition x types query_type session acc d =
     (let (prefix_defs, st) = acc in
      case d of
        DefOperation (OpQuery n vds sel) \<Rightarrow>
          bindR (preset_selections x types query_type session sel st) (\<lambda>(sel', st').
            Inr (prefix_defs @ [DefOperation (OpQuery n vds sel')], st'))
      | DefOperation (OpSelectionSet sel) \<Rightarrow>
          bindR (preset_selections x types query_type session sel st) (\<lambda>(sel', st').
            Inr (prefix_defs @ [DefOperation (OpSelectionSet sel')], st'))
      | _ \<Rightarrow> Inr (prefix_defs @ [d], st))"

definition apply_presets ::
  "extern \<Rightarrow> gql_document \<Rightarrow> types \<Rightarrow> string \<Rightarrow> session \<Rightarrow> jmap \<Rightarrow> (gql_document \<times> preset_state) plan_result" where
  "apply_presets x doc types query_type session vars =
     foldR (preset_definition x types query_type session) ([], False, vars) doc"

section \<open>Routing\<close>

record remote_target =
  rt_url :: string
  rt_forward_client_headers :: bool
  rt_rewritten_query :: "string option"
  rt_has_introspection :: bool
  rt_namespace :: "string option"

definition remote_url :: "server_lib \<Rightarrow> remote_schema_definition \<Rightarrow> string" where
  "remote_url lib rdef =
     resolve_url_template (sl_env lib)
       (case rsd_url rdef of
          Some url \<Rightarrow> url
        | None \<Rightarrow> (case Option.bind (rsd_url_from_env rdef) (sl_env lib) of Some u \<Rightarrow> u | None \<Rightarrow> []))"

text \<open>The document as the remote server knows it, and the namespace; \<open>None\<close> when it does not fit.\<close>

definition upstream_doc :: "remote_schema \<Rightarrow> gql_document \<Rightarrow> (gql_document \<times> string option) option" where
  "upstream_doc schema doc =
     (case rsd_customization (rs_definition schema) of
        Some c \<Rightarrow> decustomize doc c
      | None \<Rightarrow> Some (doc, None))"

text \<open>
  The document translated for a customized schema stays in a variable outside
  the loop over the schemas, and is sent when nothing was rewritten.
\<close>

definition storage_after :: "remote_schema \<Rightarrow> gql_document \<Rightarrow> gql_document option \<Rightarrow> gql_document option" where
  "storage_after schema doc storage =
     (case rsd_customization (rs_definition schema) of
        Some c \<Rightarrow> (case decustomize doc c of Some (d, _) \<Rightarrow> Some d | None \<Rightarrow> storage)
      | None \<Rightarrow> storage)"

definition validate_roots :: "types \<Rightarrow> string \<Rightarrow> bool \<Rightarrow> gql_field list \<Rightarrow> unit plan_result" where
  "validate_roots types query_type internal roots =
     bindR (traverse (\<lambda>f. validate_field types query_type f (''$.selectionSet.'' @ gf_name f) internal) roots) (\<lambda>_. Inr ())"

text \<open>
  One schema of the loop: \<open>None\<close> continues with the next; the result carries
  the variables as the presets leave them.
\<close>

definition try_remote_schema ::
  "extern \<Rightarrow> server_lib \<Rightarrow> session \<Rightarrow> bool \<Rightarrow> bool \<Rightarrow> jmap \<Rightarrow> gql_document \<Rightarrow> remote_schema \<Rightarrow> gql_document option
    \<Rightarrow> (remote_target \<times> jmap) plan_result option" where
  "try_remote_schema x lib session internal has_introspection vars doc0 schema storage =
     Option.bind (find (\<lambda>p. rsp_role p = se_role session) (rs_permissions schema)) (\<lambda>permission.
     Option.bind (upstream_doc schema doc0) (\<lambda>(doc, namespace).
     let roots = data_roots doc in
     if roots = [] then None else
     Option.bind (sl_parse_schema lib (rsp_schema permission)) (\<lambda>sdl.
     let types = type_map sdl in
     Option.bind (root_type_name sdl types) (\<lambda>query_type.
     if \<not> list_all (\<lambda>f. field_on_type types query_type (gf_name f) \<noteq> None) roots then None
     else Some (
       bindR (validate_roots types query_type internal roots) (\<lambda>_.
       bindR (apply_presets x (if has_introspection then strip_introspection_roots doc else doc) types query_type session vars)
         (\<lambda>(rewritten, changed, vars').
           Inr (\<lparr>rt_url = remote_url lib (rs_definition schema),
                 rt_forward_client_headers = rsd_forward_client_headers (rs_definition schema),
                 rt_rewritten_query =
                   (if changed \<or> has_introspection then Some (sl_doc_display lib rewritten)
                    else map_option (sl_doc_display lib) storage),
                 rt_has_introspection = has_introspection, rt_namespace = namespace\<rparr>, vars'))))))))"

fun match_schemas ::
  "extern \<Rightarrow> server_lib \<Rightarrow> session \<Rightarrow> bool \<Rightarrow> bool \<Rightarrow> jmap \<Rightarrow> gql_document \<Rightarrow> remote_schema list \<Rightarrow> gql_document option
    \<Rightarrow> (remote_target \<times> jmap) plan_result option" where
  "match_schemas x lib session internal intro vars doc [] storage = None"
| "match_schemas x lib session internal intro vars doc (schema # schemas) storage =
     (let permitted = list_ex (\<lambda>p. rsp_role p = se_role session) (rs_permissions schema);
          storage' = (if permitted then storage_after schema doc storage else storage)
      in case try_remote_schema x lib session internal intro vars doc schema storage' of
           Some r \<Rightarrow> Some r
         | None \<Rightarrow> match_schemas x lib session internal intro vars doc schemas storage')"

definition match_remote_with ::
  "extern \<Rightarrow> server_lib \<Rightarrow> metadata \<Rightarrow> session \<Rightarrow> gql_document \<Rightarrow> jmap \<Rightarrow> bool \<Rightarrow> (remote_target \<times> jmap) plan_result option" where
  "match_remote_with x lib md session doc vars internal =
     Option.bind (query_fields doc) (\<lambda>root_fields.
       let data_fields = filter (\<lambda>f. \<not> is_intro (gf_name f)) root_fields in
       if root_fields = [] \<or> data_fields = [] then None
       else match_schemas x lib session internal (length data_fields \<noteq> length root_fields) vars doc (md_remote_schemas md) None)"

definition match_remote ::
  "extern \<Rightarrow> server_lib \<Rightarrow> metadata \<Rightarrow> session \<Rightarrow> gql_document \<Rightarrow> jmap \<Rightarrow> (remote_target \<times> jmap) plan_result option" where
  "match_remote x lib md session doc vars = match_remote_with x lib md session doc vars False"

section \<open>Forwarding\<close>

text \<open>Assignment to a key of a JSON object (a body is one wherever it is assigned to).\<close>

definition json_set :: "json \<Rightarrow> string \<Rightarrow> json \<Rightarrow> json" where
  "json_set v k w = JObject (jmap_insert (object_of v) k w)"

definition forwarded_headers :: "(string \<Rightarrow> bool) \<Rightarrow> headers \<Rightarrow> (string \<times> string) list" where
  "forwarded_headers wanted hs = List.map_filter (\<lambda>(n, v). if wanted n then map_option (Pair n) v else None) hs"

definition forward :: "world \<Rightarrow> remote_target \<Rightarrow> json \<Rightarrow> headers \<Rightarrow> ('e + nat \<times> json) io" where
  "forward w target body hs =
     (let payload = (case rt_rewritten_query target of Some q \<Rightarrow> json_set body ''query'' (JString q) | None \<Rightarrow> body);
          sent_headers = (if rt_forward_client_headers target
            then forwarded_headers (\<lambda>n. starts_with n ''x-hasura-'' \<or> n = ''authorization'' \<or> n = ''cookie'') hs else [])
      in bindIO (ask (w_http w) (Post (rt_url target) payload sent_headers)) (\<lambda>reply.
        returnIO (case reply of
          HttpReply status b \<Rightarrow> (status, b)
        | HttpFailed e \<Rightarrow> (200, error_json ''unexpected'' (''remote schema request failed: '' @ e)))))"

end
