(* ===== verification/Introspection.thy ===== *)
theory Introspection
  imports Dict Plan_Mutation
begin

text \<open>
  GraphQL introspection, \<open>crates/schema/src/introspection.rs\<close>: the type
  system of a role as JSON, and its projection through a selection set.
\<close>

section \<open>Type descriptions\<close>

definition scalar_name :: "string \<Rightarrow> string" where
  "scalar_name pg_type =
     (if pg_type \<in> {''int2'', ''int4'', ''serial''} then ''Int''
      else if pg_type \<in> {''float4'', ''float8''} then ''Float''
      else if pg_type \<in> {''text'', ''varchar'', ''bpchar'', ''name'', ''citext''} then ''String''
      else if pg_type = ''bool'' then ''Boolean''
      else pg_type)"

definition named :: "string \<Rightarrow> string \<Rightarrow> json" where
  "named kind name = JObject [(''__typename'', JString ''__Type''), (''kind'', JString kind), (''name'', JString name), (''ofType'', JNull)]"

definition non_null_type :: "json \<Rightarrow> json" where
  "non_null_type inner = JObject [(''__typename'', JString ''__Type''), (''kind'', JString ''NON_NULL''), (''name'', JNull), (''ofType'', inner)]"

definition list_of :: "json \<Rightarrow> json" where
  "list_of inner = JObject [(''__typename'', JString ''__Type''), (''kind'', JString ''LIST''), (''name'', JNull), (''ofType'', inner)]"

definition field_json :: "string \<Rightarrow> json list \<Rightarrow> json \<Rightarrow> json" where
  "field_json name args ty = JObject [(''__typename'', JString ''__Field''), (''name'', JString name), (''description'', JNull),
     (''args'', JArray args), (''type'', ty), (''isDeprecated'', JBool False), (''deprecationReason'', JNull)]"

definition input_value :: "string \<Rightarrow> json \<Rightarrow> json" where
  "input_value name ty = JObject [(''__typename'', JString ''__InputValue''), (''name'', JString name), (''description'', JNull),
     (''type'', ty), (''defaultValue'', JNull)]"

text \<open>The five functions for types share their nine keys.\<close>

definition type_json :: "string \<Rightarrow> string \<Rightarrow> json \<Rightarrow> json \<Rightarrow> json \<Rightarrow> json \<Rightarrow> json" where
  "type_json kind name fs ins ifaces enums = JObject [(''__typename'', JString ''__Type''), (''kind'', JString kind), (''name'', JString name),
     (''description'', JNull), (''fields'', fs), (''inputFields'', ins), (''interfaces'', ifaces), (''enumValues'', enums),
     (''possibleTypes'', JNull)]"

definition object_type_json :: "string \<Rightarrow> json list \<Rightarrow> json" where
  "object_type_json name fs = type_json ''OBJECT'' name (JArray fs) JNull (JArray []) JNull"

definition input_object_json :: "string \<Rightarrow> json list \<Rightarrow> json" where
  "input_object_json name ins = type_json ''INPUT_OBJECT'' name JNull (JArray ins) JNull JNull"

definition scalar_type_json :: "string \<Rightarrow> json" where
  "scalar_type_json name = type_json ''SCALAR'' name JNull JNull JNull JNull"

definition enum_type_json :: "string \<Rightarrow> string list \<Rightarrow> json" where
  "enum_type_json name values = type_json ''ENUM'' name JNull JNull JNull
     (JArray (map (\<lambda>v. JObject [(''__typename'', JString ''__EnumValue''), (''name'', JString v), (''description'', JNull),
        (''isDeprecated'', JBool False), (''deprecationReason'', JNull)]) values))"

definition ORDER_BY_VALUES :: "string list" where
  "ORDER_BY_VALUES = [''asc'', ''asc_nulls_first'', ''asc_nulls_last'', ''desc'', ''desc_nulls_first'', ''desc_nulls_last'']"

definition select_args :: "string \<Rightarrow> json list" where
  "select_args base =
     [input_value ''where'' (named ''INPUT_OBJECT'' (base @ ''_bool_exp'')),
      input_value ''order_by'' (list_of (non_null_type (named ''INPUT_OBJECT'' (base @ ''_order_by'')))),
      input_value ''limit'' (named ''SCALAR'' ''Int''),
      input_value ''offset'' (named ''SCALAR'' ''Int''),
      input_value ''distinct_on'' (list_of (non_null_type (named ''ENUM'' (base @ ''_select_column''))))]"

section \<open>One table\<close>

definition object_rel_is_non_null :: "object_relationship \<Rightarrow> table_info \<Rightarrow> bool" where
  "object_rel_is_non_null rel info =
     (case oru_foreign_key_constraint_on (or_using rel) of
        None \<Rightarrow> False
      | Some fk \<Rightarrow>
          (let cols = (case fk of Single c \<Rightarrow> [c] | Multiple cs \<Rightarrow> cs) in
           cols \<noteq> [] \<and> list_all (\<lambda>c. case table_column info c of Some col \<Rightarrow> \<not> ci_nullable col | None \<Rightarrow> False) cols))"

definition allowed_columns :: "table_ctx \<Rightarrow> column_info list" where
  "allowed_columns ctx = filter (\<lambda>c. column_allowed ctx (ci_name c)) (ti_columns (tx_info ctx))"

definition column_fields :: "table_ctx \<Rightarrow> json list" where
  "column_fields ctx = map (\<lambda>c.
     let ty = named ''SCALAR'' (scalar_name (ci_pg_type c))
     in field_json (ci_name c) [] (if ci_nullable c then ty else non_null_type ty)) (allowed_columns ctx)"

text \<open>The entry a relationship leads to, when the role may select from it.\<close>

definition visible_target :: "planner \<Rightarrow> session \<Rightarrow> table_ctx \<Rightarrow> string \<Rightarrow> table_entry option" where
  "visible_target pl session ctx name =
     Option.bind (relationship_target pl ctx name ''$'') (\<lambda>(remote, _).
     Option.bind (entry_for pl remote) (\<lambda>remote_entry.
       if table_ctx_by_name pl remote (se_role session) \<noteq> None then Some remote_entry else None))"

definition object_rel_fields :: "planner \<Rightarrow> session \<Rightarrow> table_ctx \<Rightarrow> table_entry \<Rightarrow> json list" where
  "object_rel_fields pl session ctx entry =
     List.map_filter (\<lambda>rel. map_option (\<lambda>remote_entry.
       let ty = named ''OBJECT'' (table_base_name remote_entry)
       in field_json (or_name rel) [] (if object_rel_is_non_null rel (tx_info ctx) then non_null_type ty else ty))
       (visible_target pl session ctx (or_name rel))) (te_object_relationships entry)"

definition array_rel_fields :: "planner \<Rightarrow> session \<Rightarrow> table_ctx \<Rightarrow> table_entry \<Rightarrow> json list" where
  "array_rel_fields pl session ctx entry =
     List.map_filter (\<lambda>rel. map_option (\<lambda>remote_entry.
       let remote_base = table_base_name remote_entry
       in field_json (ar_name rel) (select_args remote_base)
            (non_null_type (list_of (non_null_type (named ''OBJECT'' remote_base)))))
       (visible_target pl session ctx (ar_name rel))) (te_array_relationships entry)"

definition bool_exp_inputs :: "string \<Rightarrow> table_ctx \<Rightarrow> json list" where
  "bool_exp_inputs base ctx =
     [input_value ''_and'' (list_of (non_null_type (named ''INPUT_OBJECT'' (base @ ''_bool_exp'')))),
      input_value ''_or'' (list_of (non_null_type (named ''INPUT_OBJECT'' (base @ ''_bool_exp'')))),
      input_value ''_not'' (named ''INPUT_OBJECT'' (base @ ''_bool_exp''))]
     @ map (\<lambda>c. input_value (ci_name c) (named ''INPUT_OBJECT'' (scalar_name (ci_pg_type c) @ ''_comparison_exp''))) (allowed_columns ctx)"

definition column_inputs :: "table_ctx \<Rightarrow> json list" where
  "column_inputs ctx = map (\<lambda>c. input_value (ci_name c) (named ''SCALAR'' (scalar_name (ci_pg_type c)))) (ti_columns (tx_info ctx))"

text \<open>What the loop over the tables accumulates.\<close>

record schema_parts =
  sc_types :: "json list"
  sc_scalars :: "string list"
  sc_queries :: "json list"
  sc_mutations :: "json list"

definition select_types :: "planner \<Rightarrow> session \<Rightarrow> table_ctx \<Rightarrow> table_entry \<Rightarrow> string \<Rightarrow> json list" where
  "select_types pl session ctx entry base =
     [object_type_json base (column_fields ctx @ object_rel_fields pl session ctx entry @ array_rel_fields pl session ctx entry),
      enum_type_json (base @ ''_select_column'') (map ci_name (allowed_columns ctx)),
      input_object_json (base @ ''_bool_exp'') (bool_exp_inputs base ctx),
      input_object_json (base @ ''_order_by'') (map (\<lambda>c. input_value (ci_name c) (named ''ENUM'' ''order_by'')) (allowed_columns ctx))]"

definition by_pk_field :: "table_ctx \<Rightarrow> string \<Rightarrow> string \<Rightarrow> json list" where
  "by_pk_field ctx name base =
     (let pk = ti_primary_key (tx_info ctx) in
      if pk \<noteq> [] \<and> list_all (column_allowed ctx) pk then
        [field_json name
           (map (\<lambda>c. input_value c (non_null_type (named ''SCALAR''
              (scalar_name (case table_column (tx_info ctx) c of Some i \<Rightarrow> ci_pg_type i | None \<Rightarrow> []))))) pk)
           (named ''OBJECT'' base)]
      else [])"

definition rows_type :: "string \<Rightarrow> json" where
  "rows_type base = non_null_type (list_of (non_null_type (named ''OBJECT'' base)))"

definition aggregate_types :: "string \<Rightarrow> json list" where
  "aggregate_types base =
     [object_type_json (base @ ''_aggregate'')
        [field_json ''aggregate'' [] (named ''OBJECT'' (base @ ''_aggregate_fields'')), field_json ''nodes'' [] (rows_type base)],
      object_type_json (base @ ''_aggregate_fields'') [field_json ''count'' [] (non_null_type (named ''SCALAR'' ''Int''))]]"

definition insert_types :: "table_ctx \<Rightarrow> string \<Rightarrow> json list" where
  "insert_types ctx base =
     [input_object_json (base @ ''_insert_input'') (column_inputs ctx),
      object_type_json (base @ ''_mutation_response'')
        [field_json ''affected_rows'' [] (non_null_type (named ''SCALAR'' ''Int'')), field_json ''returning'' [] (rows_type base)]]"

definition response_type :: "string \<Rightarrow> json" where
  "response_type base = named ''OBJECT'' (base @ ''_mutation_response'')"

definition where_arg :: "string \<Rightarrow> json" where
  "where_arg base = input_value ''where'' (non_null_type (named ''INPUT_OBJECT'' (base @ ''_bool_exp'')))"

definition add_table_schema ::
  "planner \<Rightarrow> perm_eq \<Rightarrow> session \<Rightarrow> schema_parts \<Rightarrow> nat \<times> table_entry \<Rightarrow> schema_parts" where
  "add_table_schema pl pq session sc ie =
     (let (idx, entry) = ie in
      case table_ctx_of pl idx (se_role session) of
        None \<Rightarrow> sc
      | Some ctx \<Rightarrow>
          (let base = table_base_name entry;
               names = root_names_of entry;
               inh = pl_inherited_roles pl;
               ins = resolve_role_perm inh (pq_insert pq) (te_insert_permissions entry) (insert_usable session) (se_role session) \<noteq> None;
               upd = resolve_role_perm inh (pq_update pq) (te_update_permissions entry) (\<lambda>_. True) (se_role session) \<noteq> None;
               del = resolve_role_perm inh (pq_delete pq) (te_delete_permissions entry) (\<lambda>_. True) (se_role session) \<noteq> None;
               agg = allow_aggregations ctx
           in sc\<lparr>sc_types := sc_types sc @ select_types pl session ctx entry base
                   @ (if agg then aggregate_types base else [])
                   @ (if ins then insert_types ctx base else [])
                   @ (if upd then [input_object_json (base @ ''_set_input'') (column_inputs ctx)] else []),
                 sc_scalars := foldl (\<lambda>s c. bset_insert (scalar_name (ci_pg_type c)) s) (sc_scalars sc) (allowed_columns ctx),
                 sc_queries := sc_queries sc @ [field_json (rn_select names) (select_args base) (rows_type base)]
                   @ by_pk_field ctx (rn_select_by_pk names) base
                   @ (if agg then [field_json (rn_select_aggregate names) (select_args base)
                        (non_null_type (named ''OBJECT'' (base @ ''_aggregate'')))] else []),
                 sc_mutations := sc_mutations sc
                   @ (if ins then [field_json (''insert_'' @ base)
                        [input_value ''objects'' (non_null_type (list_of (non_null_type (named ''INPUT_OBJECT'' (base @ ''_insert_input'')))))]
                        (response_type base)] else [])
                   @ (if upd then [field_json (''update_'' @ base)
                        [where_arg base, input_value ''_set'' (named ''INPUT_OBJECT'' (base @ ''_set_input''))] (response_type base)] else [])
                   @ (if del then [field_json (''delete_'' @ base) [where_arg base] (response_type base)] else [])\<rparr>))"

section \<open>The schema\<close>

definition comparison_types :: "string \<Rightarrow> json list" where
  "comparison_types scalar =
     (let s = named ''SCALAR'' scalar in
      [input_object_json (scalar @ ''_comparison_exp'')
         (map (\<lambda>n. input_value n s) [''_eq'', ''_neq'', ''_gt'', ''_gte'', ''_lt'', ''_lte'']
          @ [input_value ''_in'' (list_of (non_null_type s)), input_value ''_nin'' (list_of (non_null_type s)),
             input_value ''_is_null'' (named ''SCALAR'' ''Boolean'')]),
       scalar_type_json scalar])"

definition root_type :: "string \<Rightarrow> json" where
  "root_type name = JObject [(''__typename'', JString ''__Type''), (''name'', JString name), (''kind'', JString ''OBJECT'')]"

definition directive_json :: "string \<Rightarrow> json" where
  "directive_json name = JObject [(''__typename'', JString ''__Directive''), (''name'', JString name), (''description'', JNull),
     (''locations'', JArray [JString ''FIELD'', JString ''FRAGMENT_SPREAD'', JString ''INLINE_FRAGMENT'']),
     (''args'', JArray [input_value ''if'' (non_null_type (named ''SCALAR'' ''Boolean''))]), (''isRepeatable'', JBool False)]"

definition schema_parts_of :: "planner \<Rightarrow> perm_eq \<Rightarrow> session \<Rightarrow> schema_parts" where
  "schema_parts_of pl pq session =
     foldl (add_table_schema pl pq session)
       \<lparr>sc_types = [enum_type_json ''order_by'' ORDER_BY_VALUES],
        sc_scalars = foldl (\<lambda>s k. bset_insert k s) [] [''Int'', ''Float'', ''String'', ''Boolean'', ''ID''],
        sc_queries = [], sc_mutations = []\<rparr>
       (enumerate 0 (pl_tables pl))"

definition build_schema_json :: "planner \<Rightarrow> perm_eq \<Rightarrow> session \<Rightarrow> json" where
  "build_schema_json pl pq session =
     (let sc = schema_parts_of pl pq session;
          types = sc_types sc @ concat (map comparison_types (sc_scalars sc))
            @ [object_type_json ''query_root'' (sc_queries sc), object_type_json ''subscription_root'' (sc_queries sc)]
            @ (if sc_mutations sc \<noteq> [] then [object_type_json ''mutation_root'' (sc_mutations sc)] else [])
      in JObject [(''__typename'', JString ''__Schema''), (''queryType'', root_type ''query_root''),
           (''mutationType'', if sc_mutations sc \<noteq> [] then root_type ''mutation_root'' else JNull),
           (''subscriptionType'', root_type ''subscription_root''), (''types'', JArray types),
           (''directives'', JArray [directive_json ''include'', directive_json ''skip''])])"

section \<open>Projection\<close>

definition entry_or_null :: "jmap \<Rightarrow> string \<Rightarrow> json" where
  "entry_or_null m k = (case jmap_get m k of Some v \<Rightarrow> v | None \<Rightarrow> JNull)"

lemma size_entry_or_null: "size (entry_or_null m k) < size (JObject m)"
  using size_json_get [of "JObject m" k] by (auto simp: entry_or_null_def split: option.splits)

function (sequential) project :: "nat \<Rightarrow> fragments \<Rightarrow> jmap \<Rightarrow> json \<Rightarrow> selection list \<Rightarrow> json plan_result" where
  "project fuel frs vars (JArray items) sel =
     bindR (traverse (\<lambda>item. project fuel frs vars item sel) items) (\<lambda>vs. Inr (JArray vs))"
| "project fuel frs vars (JObject m) sel =
     bindR (flatten fuel sel frs vars None) (\<lambda>fs.
     bindR (traverse (\<lambda>f. bindR
              (if gf_selection_set f = [] then Inr (entry_or_null m (gf_name f))
               else project fuel frs vars (entry_or_null m (gf_name f)) (gf_selection_set f))
              (\<lambda>v. Inr (field_alias f, v))) fs)
       (\<lambda>kvs. Inr (JObject (obj_insert_all kvs))))"
| "project fuel frs vars scalar sel = Inr scalar"
  by pat_completeness auto
termination
  by (relation "measure (\<lambda>(fuel, frs, vars, node, sel). size node)")
     (auto simp: size_entry_or_null size_json_element simp del: json.size)

section \<open>Queries of the schema\<close>

text \<open>The operation looked at: a named one must be a query, an unnamed one the only one.\<close>

definition introspected_operation :: "gql_operation list \<Rightarrow> string option \<Rightarrow> gql_operation option" where
  "introspected_operation ops wanted =
     (case wanted of
        Some n \<Rightarrow> find (\<lambda>op. case op of OpQuery (Some n') _ _ \<Rightarrow> n' = n | _ \<Rightarrow> False) ops
      | None \<Rightarrow> if length ops = 1 then Some (hd ops) else None)"

fun query_selection :: "gql_operation \<Rightarrow> selection list option" where
  "query_selection (OpQuery _ _ sel) = Some sel"
| "query_selection (OpSelectionSet sel) = Some sel"
| "query_selection _ = None"

definition find_type :: "json \<Rightarrow> string \<Rightarrow> json option" where
  "find_type schema n =
     Option.bind (Option.bind (json_get schema ''types'') as_array)
       (find (\<lambda>t. json_get t ''name'' = Some (JString n)))"

definition type_name_arg :: "gql_field \<Rightarrow> jmap \<Rightarrow> string option" where
  "type_name_arg root vars =
     Option.bind (find (\<lambda>a. fst a = ''name'') (gf_arguments root)) (\<lambda>a.
       case value_to_json (snd a) vars ''$'' of Inr v \<Rightarrow> as_str v | Inl _ \<Rightarrow> None)"

definition introspect_root ::
  "nat \<Rightarrow> fragments \<Rightarrow> jmap \<Rightarrow> json \<Rightarrow> gql_field \<Rightarrow> json plan_result" where
  "introspect_root fuel frs vars schema root =
     (let name = gf_name root in
      if name = ''__typename'' then Inr (JString ''query_root'')
      else if name = ''__schema'' then project fuel frs vars schema (gf_selection_set root)
      else if name = ''__type'' then
        (case Option.bind (type_name_arg root vars) (find_type schema) of
           Some t \<Rightarrow> project fuel frs vars t (gf_selection_set root)
         | None \<Rightarrow> Inr JNull)
      else err_validation ''$'' (''cannot mix '' @ quoted name @ '' with introspection fields''))"

definition is_introspection :: "gql_field list \<Rightarrow> bool" where
  "is_introspection roots = list_ex (\<lambda>f. gf_name f = ''__schema'' \<or> gf_name f = ''__type'') roots"

definition execute_introspection ::
  "nat \<Rightarrow> planner \<Rightarrow> perm_eq \<Rightarrow> session \<Rightarrow> gql_document \<Rightarrow> string option \<Rightarrow> jmap \<Rightarrow> json plan_result option" where
  "execute_introspection fuel pl pq session doc wanted vars =
     (let frs = fragments_of doc in
      Option.bind (Option.bind (introspected_operation (operations_of doc) wanted) query_selection) (\<lambda>sel.
        case flatten fuel sel frs vars None of
          Inl (Fail _) \<Rightarrow> None
        | Inl e \<Rightarrow> Some (Inl e)
        | Inr roots \<Rightarrow>
            if is_introspection roots then
              (let schema = build_schema_json pl pq session in
               Some (bindR (traverse (\<lambda>root. bindR (introspect_root fuel frs vars schema root) (\<lambda>v. Inr (field_alias root, v))) roots)
                 (\<lambda>kvs. Inr (JObject (obj_insert_all kvs)))))
            else None))"

end
