(* ===== verification/Joins.thy ===== *)
theory Joins
  imports Remote Introspection Sqlgen_Select
begin

text \<open>
  Executing a planned select, \<open>crates/server/src/gql.rs\<close>: the server's
  state, errors of the database, the joins with remote schemas, and
  \<open>execute_select_internal\<close>. An early return of the source is a value of
  \<open>stop\<close>: the reply that is sent, or the end of the task (a panic, or the
  stack overflow of a recursion the client drives).
\<close>

section \<open>State\<close>

text \<open>
  \<open>sv_fuel\<close> is the depth of fragment spreads the stack allows;
  \<open>sv_gql_display\<close> and \<open>sv_perm_eq\<close> are what the planner takes.
\<close>

record server =
  sv_extern :: extern
  sv_lib :: server_lib
  sv_world :: world
  sv_perm_eq :: perm_eq
  sv_gql_display :: "gql_value \<Rightarrow> string"
  sv_fuel :: nat
  sv_metadata :: metadata
  sv_catalogs :: "(string \<times> catalog) list"
  sv_stringify_numerics :: bool
  sv_infer_function_permissions :: bool
  sv_allowlist_enabled :: bool

definition no_catalog :: catalog where
  "no_catalog = \<lparr>cat_tables = [], cat_functions = []\<rparr>"

definition default_catalog :: "server \<Rightarrow> catalog" where
  "default_catalog sv =
     (case map_of (sv_catalogs sv) ''default'' of
        Some c \<Rightarrow> c
      | None \<Rightarrow>
          (case md_sources (sv_metadata sv) of
             [] \<Rightarrow> no_catalog
           | s # _ \<Rightarrow> (case map_of (sv_catalogs sv) (src_name s) of Some c \<Rightarrow> c | None \<Rightarrow> no_catalog)))"

definition server_planner :: "server \<Rightarrow> bool \<Rightarrow> planner" where
  "server_planner sv relay =
     (planner_new (sv_metadata sv) (default_catalog sv))
       \<lparr>pl_infer_function_permissions := sv_infer_function_permissions sv, pl_relay := relay\<rparr>"

definition server_plan :: "server \<Rightarrow> bool \<Rightarrow> session \<Rightarrow> gql_document \<Rightarrow> string option \<Rightarrow> jmap \<Rightarrow> plan plan_result" where
  "server_plan sv relay session doc operation_name variables =
     plan_document (sv_fuel sv) (sv_extern sv) (sv_gql_display sv) (sv_perm_eq sv) (server_planner sv relay)
       doc operation_name variables session"

section \<open>Replies\<close>

datatype stop = Reply nat json | Abort

type_synonym 'a run = "(stop + 'a) io"

definition to_graphql :: "plan_error \<Rightarrow> json" where
  "to_graphql e = error_at (err_path e) (err_code e) (err_message e)"

fun plan_stop :: "plan_failure \<Rightarrow> stop" where
  "plan_stop (Fail e) = Reply 200 (to_graphql e)"
| "plan_stop Panic = Abort"
| "plan_stop StackOverflow = Abort"

definition run_plan :: "'a plan_result \<Rightarrow> 'a run" where
  "run_plan r = (case r of Inl e \<Rightarrow> failIO (plan_stop e) | Inr v \<Rightarrow> returnIO v)"

definition run_sql :: "sql_panic + 'a \<Rightarrow> 'a run" where
  "run_sql r = (case r of Inl _ \<Rightarrow> failIO Abort | Inr v \<Rightarrow> returnIO v)"

definition reply_error :: "string \<Rightarrow> string \<Rightarrow> 'a run" where
  "reply_error code message = failIO (Reply 200 (error_json code message))"

definition db_message_code :: "string \<Rightarrow> string \<Rightarrow> string \<times> string" where
  "db_message_code code message =
     (if code = ''23514'' then (''permission-error'', message)
      else if code = ''23505'' then (''constraint-violation'', ''Uniqueness violation. '' @ message)
      else if code = ''23503'' then (''constraint-violation'', ''Foreign key violation. '' @ message)
      else if code = ''23502'' then (''constraint-violation'', ''Not-NULL violation. '' @ message)
      else (''data-exception'', message))"

text \<open>The path and message of a failed permission check travel in the message, as JSON.\<close>

definition check_payload :: "extern \<Rightarrow> string \<Rightarrow> string \<Rightarrow> (string \<times> string) option" where
  "check_payload x code message =
     (if code \<noteq> ''23514'' then None
      else Option.bind (json_parse x message) (\<lambda>payload.
        case (Option.bind (json_get payload ''path'') as_str, Option.bind (json_get payload ''message'') as_str) of
          (Some path, Some m) \<Rightarrow> Some (path, m)
        | _ \<Rightarrow> None))"

fun db_error_json :: "extern \<Rightarrow> db_error \<Rightarrow> json" where
  "db_error_json x (ClientError message) = error_json ''unexpected'' message"
| "db_error_json x (DbError code message) =
     (case check_payload x code message of
        Some (path, m) \<Rightarrow> error_at path ''permission-error'' m
      | None \<Rightarrow> (let (c, m) = db_message_code code message in error_json c m))"

section \<open>Connections and queries\<close>

definition take_connection :: "server \<Rightarrow> unit run" where
  "take_connection sv h =
     (case w_pool (sv_world sv) h of
        Inl None \<Rightarrow> reply_error ''unexpected'' ''no default source'' h
      | Inl (Some e) \<Rightarrow> reply_error ''unexpected'' (''connection pool error: '' @ e) h
      | Inr _ \<Rightarrow> returnIO () h)"

definition decode_failed :: "server \<Rightarrow> db_cell \<Rightarrow> 'a run" where
  "decode_failed sv cell = reply_error ''unexpected'' (''cannot decode result: '' @ sl_decode_error (sv_lib sv) cell)"

definition query_one :: "server \<Rightarrow> request \<Rightarrow> db_cell run" where
  "query_one sv r =
     bindIO (ask (w_query (sv_world sv)) r) (\<lambda>answer.
       case answer of
         Inl e \<Rightarrow> failIO (Reply 200 (db_error_json (sv_extern sv) e))
       | Inr cell \<Rightarrow> returnIO cell)"

definition query_json :: "server \<Rightarrow> string \<Rightarrow> json run" where
  "query_json sv sql =
     bindIO (query_one sv (Query sql)) (\<lambda>cell.
       case cell of JsonCell v \<Rightarrow> returnIO v | _ \<Rightarrow> decode_failed sv cell)"

section \<open>JSON pointers\<close>

fun replace2 :: "char \<Rightarrow> char \<Rightarrow> string \<Rightarrow> string \<Rightarrow> string" where
  "replace2 a b r (c # d # s) = (if c = a \<and> d = b then r @ replace2 a b r s else c # replace2 a b r (d # s))"
| "replace2 a b r s = s"

definition pointer_token :: "string \<Rightarrow> string" where
  "pointer_token t = replace2 CHR ''~'' CHR ''0'' ''~'' (replace2 CHR ''~'' CHR ''1'' ''/'' t)"

definition parse_index :: "string \<Rightarrow> nat option" where
  "parse_index s =
     (if starts_with s ''+'' \<or> (starts_with s ''0'' \<and> length s \<noteq> 1) then None else map_option unat (parse_u64 s))"

fun pointer_walk :: "json \<Rightarrow> string list \<Rightarrow> json option" where
  "pointer_walk v [] = Some v"
| "pointer_walk v (t # ts) =
     (case v of
        JObject m \<Rightarrow> Option.bind (jmap_get m t) (\<lambda>w. pointer_walk w ts)
      | JArray vs \<Rightarrow> Option.bind (parse_index t) (\<lambda>i. if i < length vs then pointer_walk (vs ! i) ts else None)
      | _ \<Rightarrow> None)"

definition json_pointer :: "json \<Rightarrow> string \<Rightarrow> json option" where
  "json_pointer v p =
     (if p = [] then Some v
      else if \<not> starts_with p ''/'' then None
      else pointer_walk v (map pointer_token (tl (split_char CHR ''/'' p))))"

section \<open>Remote joins\<close>

definition join_variables :: "remote_join_spec \<Rightarrow> jmap \<Rightarrow> jmap" where
  "join_variables spec m = obj_insert_all (map (\<lambda>(var, hidden). (var, entry_or_null m hidden)) (rj_variables spec))"

text \<open>A failed validation is reported at the client's field.\<close>

definition join_error :: "remote_join_spec \<Rightarrow> string \<Rightarrow> plan_error \<Rightarrow> json" where
  "join_error spec client_field e =
     error_at (case strip_prefix (''$.selectionSet.'' @ rj_root_field spec) (err_path e) of
                 Some rest \<Rightarrow> client_field @ rest
               | None \<Rightarrow> client_field)
       (err_code e) (err_message e)"

definition forward_join :: "server \<Rightarrow> remote_join_spec \<Rightarrow> remote_target \<Rightarrow> jmap \<Rightarrow> json run" where
  "forward_join sv spec target varmap =
     (let query = (case rt_rewritten_query target of Some q \<Rightarrow> q | None \<Rightarrow> rj_query spec) in
      bindIO (forward (sv_world sv) target (JObject [(''query'', JString query), (''variables'', JObject varmap)]) []) (\<lambda>(_, resp).
        case json_get resp ''errors'' of
          Some errors \<Rightarrow> failIO (Reply 200 (JObject [(''errors'', errors)]))
        | None \<Rightarrow> returnIO (case json_pointer resp (''/data/'' @ rj_root_field spec) of Some v \<Rightarrow> v | None \<Rightarrow> JNull)))"

definition fetch_join :: "server \<Rightarrow> session \<Rightarrow> remote_join_spec \<Rightarrow> string \<Rightarrow> jmap \<Rightarrow> json run" where
  "fetch_join sv session spec client_field m =
     (case sl_parse_query (sv_lib sv) (rj_query spec) of
        Inl e \<Rightarrow> reply_error ''unexpected'' (''bad remote join: '' @ e)
      | Inr doc \<Rightarrow>
          (case match_remote_with (sv_extern sv) (sv_lib sv) (sv_metadata sv) session doc (join_variables spec m) True of
             None \<Rightarrow> returnIO JNull
           | Some (Inr (target, varmap)) \<Rightarrow> forward_join sv spec target varmap
           | Some (Inl (Fail e)) \<Rightarrow> failIO (Reply 200 (join_error spec client_field e))
           | Some (Inl _) \<Rightarrow> failIO Abort))"

definition is_hidden :: "string \<Rightarrow> bool" where
  "is_hidden k = starts_with k ''__rr__''"

definition drop_hidden :: "jmap \<Rightarrow> jmap" where
  "drop_hidden m = filter (\<lambda>e. \<not> is_hidden (fst e)) m"

lemma sq_fields_size_le: "size_list size (sq_fields q) \<le> size q"
  by (cases q) simp

lemma Suc_size_element: "v \<in> set vs \<Longrightarrow> Suc (size v) \<le> size (JArray vs)"
  using size_json_element [of v vs] by simp

function (sequential) resolve_remote_joins :: "server \<Rightarrow> session \<Rightarrow> output_field list \<Rightarrow> string \<Rightarrow> json \<Rightarrow> json run"
and join_fields :: "server \<Rightarrow> session \<Rightarrow> output_field list \<Rightarrow> string \<Rightarrow> jmap \<Rightarrow> jmap run" where
  "resolve_remote_joins sv session fs path (JArray items) =
     bindIO (traverseIO (\<lambda>item. resolve_remote_joins sv session fs path item) items) (\<lambda>vs. returnIO (JArray vs))"
| "resolve_remote_joins sv session fs path (JObject m) =
     bindIO (join_fields sv session fs path m) (\<lambda>m'. returnIO (JObject (drop_hidden m')))"
| "resolve_remote_joins sv session fs path node = returnIO node"
| "join_fields sv session [] path m = returnIO m"
| "join_fields sv session (OutputField alias (FObject q j) # fs) path m =
     (case jmap_get m alias of
        None \<Rightarrow> join_fields sv session fs path m
      | Some child \<Rightarrow>
          bindIO (resolve_remote_joins sv session (sq_fields q) (path @ ''.selectionSet.'' @ alias) child) (\<lambda>v.
            join_fields sv session fs path (jmap_insert m alias v)))"
| "join_fields sv session (OutputField alias (FArray q j b) # fs) path m =
     (case jmap_get m alias of
        None \<Rightarrow> join_fields sv session fs path m
      | Some child \<Rightarrow>
          bindIO (resolve_remote_joins sv session (sq_fields q) (path @ ''.selectionSet.'' @ alias) child) (\<lambda>v.
            join_fields sv session fs path (jmap_insert m alias v)))"
| "join_fields sv session (OutputField alias (FRemoteJoin spec) # fs) path m =
     bindIO (fetch_join sv session spec (path @ ''.selectionSet.'' @ alias) m) (\<lambda>v.
       join_fields sv session fs path (jmap_insert m alias v))"
| "join_fields sv session (f # fs) path m = join_fields sv session fs path m"
  by pat_completeness auto
termination
  by (relation "measures [case_sum (\<lambda>(sv, se, fs, p, n). size_list size fs) (\<lambda>(sv, se, fs, p, m). size_list size fs),
                          case_sum (\<lambda>(sv, se, fs, p, n). Suc (size n)) (\<lambda>_. 0)]")
     (auto simp: less_Suc_eq_le intro: Suc_size_element le_trans [OF sq_fields_size_le] simp del: json.size)

text \<open>The joins of each root of a query, in order.\<close>

fun join_roots :: "server \<Rightarrow> session \<Rightarrow> root_field list \<Rightarrow> json \<Rightarrow> json run" where
  "join_roots sv session [] data = returnIO data"
| "join_roots sv session (RSelect alias query # roots) data =
     (case json_get data alias of
        None \<Rightarrow> join_roots sv session roots data
      | Some node \<Rightarrow>
          bindIO (resolve_remote_joins sv session (sq_fields query) (''$.selectionSet.'' @ alias) node) (\<lambda>v.
            join_roots sv session roots (json_set data alias v)))"
| "join_roots sv session (_ # roots) data = join_roots sv session roots data"

definition execute_query :: "server \<Rightarrow> session \<Rightarrow> root_field list \<Rightarrow> json run" where
  "execute_query sv session roots =
     bindIO (run_sql (operation_to_sql_opts (sv_extern sv) roots (sv_stringify_numerics sv))) (\<lambda>sql.
     bindIO (take_connection sv) (\<lambda>_.
     bindIO (query_json sv sql) (\<lambda>data. join_roots sv session roots data)))"

definition execute_select_internal :: "server \<Rightarrow> session \<Rightarrow> string \<Rightarrow> jmap \<Rightarrow> json run" where
  "execute_select_internal sv session query variables =
     (case sl_parse_query (sv_lib sv) query of
        Inl e \<Rightarrow> reply_error ''unexpected'' (''internal query parse error: '' @ e)
      | Inr doc \<Rightarrow>
          bindIO (run_plan (server_plan sv False session doc None variables)) (\<lambda>plan.
            case plan of
              PlanQuery roots \<Rightarrow> execute_query sv session roots
            | PlanMutation _ \<Rightarrow> reply_error ''unexpected'' ''internal query must be a select''))"

end
