(* ===== verification/Action.thy ===== *)
theory Action
  imports Joins
begin

text \<open>
  Actions, \<open>crates/server/src/action.rs\<close>: top-level fields resolved by a
  webhook, the check and projection of the webhook's answer against the
  action's output type, and the relationships from its objects to tables.
\<close>

section \<open>Type references\<close>

datatype type_ref = TNamed string bool | TList type_ref bool

fun non_null :: "type_ref \<Rightarrow> bool" where
  "non_null (TNamed _ b) = b"
| "non_null (TList _ b) = b"

fun with_non_null :: "type_ref \<Rightarrow> type_ref" where
  "with_non_null (TNamed n _) = TNamed n True"
| "with_non_null (TList t _) = TList t True"

lemma length_trim: "length (trim s) \<le> length s"
  using length_dropWhile_le [of is_space s] length_dropWhile_le [of is_space "rev (dropWhile is_space s)"]
  by (simp add: trim_def trim_start_def trim_end_def)

lemma strip_suffix_length: "strip_suffix p s = Some t \<Longrightarrow> length s = length t + length p"
  by (auto simp: strip_suffix_def strip_prefix_Some_iff dest!: arg_cong [where f = length])

lemma bang_shorter: "strip_suffix ''!'' (trim s) = Some t \<Longrightarrow> length t < length s"
  using strip_suffix_length [of "''!''" "trim s" t] length_trim [of s] by simp

lemma brackets_shorter:
  assumes "Option.bind (strip_prefix ''['' (trim s)) (strip_suffix '']'') = Some t"
  shows "length t < length s"
proof -
  obtain m where "trim s = ''['' @ m" "strip_suffix '']'' m = Some t"
    using assms by (cases "strip_prefix ''['' (trim s)") (auto simp: strip_prefix_Some_iff)
  then show ?thesis using strip_suffix_length [of "'']''" m t] length_trim [of s] by simp
qed

function parse_type :: "string \<Rightarrow> type_ref" where
  "parse_type s =
     (let t = trim s in
      case strip_suffix ''!'' t of
        Some stripped \<Rightarrow> with_non_null (parse_type stripped)
      | None \<Rightarrow>
          (case Option.bind (strip_prefix ''['' t) (strip_suffix '']'') of
             Some inner \<Rightarrow> TList (parse_type inner) False
           | None \<Rightarrow> TNamed t False))"
  by pat_completeness auto
termination
  by (relation "measure length") (auto dest: bang_shorter brackets_shorter)

declare parse_type.simps [simp del]

section \<open>Checking an answer\<close>

fun scalar_kind :: "json \<Rightarrow> string" where
  "scalar_kind (JString _) = ''String''"
| "scalar_kind (JNumber _) = ''Number''"
| "scalar_kind (JBool _) = ''Boolean''"
| "scalar_kind _ = ''Null''"

fun is_string :: "json \<Rightarrow> bool" where
  "is_string (JString _) = True"
| "is_string _ = False"

fun is_number :: "json \<Rightarrow> bool" where
  "is_number (JNumber _) = True"
| "is_number _ = False"

fun is_boolean :: "json \<Rightarrow> bool" where
  "is_boolean (JBool _) = True"
| "is_boolean _ = False"

fun is_integer :: "json \<Rightarrow> bool" where
  "is_integer (JNumber (PosInt _)) = True"
| "is_integer (JNumber (NegInt _)) = True"
| "is_integer _ = False"

text \<open>A name that is not built in accepts every value.\<close>

definition scalar_ok :: "string \<Rightarrow> json \<Rightarrow> bool" where
  "scalar_ok name value =
     (if name = ''String'' then is_string value
      else if name = ''Int'' then is_integer value
      else if name = ''Float'' then is_number value
      else if name = ''Boolean'' then is_boolean value
      else if name = ''ID'' then is_string value \<or> is_number value
      else True)"

definition got :: "string \<Rightarrow> string \<Rightarrow> string + 'a" where
  "got what name = Inl (''got '' @ what @ '' for the action webhook response, expecting '' @ name)"

definition validate_scalar :: "string \<Rightarrow> json \<Rightarrow> string + json" where
  "validate_scalar name value =
     (if scalar_ok name value then Inr value
      else case value of
        JObject _ \<Rightarrow> got ''object'' name
      | JArray _ \<Rightarrow> got ''array'' name
      | other \<Rightarrow> got (''scalar '' @ scalar_kind other) name)"

definition object_named :: "custom_types \<Rightarrow> string \<Rightarrow> object_type option" where
  "object_named ct name = find (\<lambda>t. ot_name t = name) (ct_objects ct)"

definition declared_field :: "object_type \<Rightarrow> string \<Rightarrow> custom_type_field option" where
  "declared_field obj name = find (\<lambda>f. ctf_name f = name) (ot_fields obj)"

lemma size_jmap_get: "jmap_get m k = Some v \<Longrightarrow> size v < size (JObject m)"
  using size_json_get [of "JObject m" k v] by simp

function (sequential) validate :: "custom_types \<Rightarrow> type_ref \<Rightarrow> json \<Rightarrow> selection list \<Rightarrow> string + json"
and project_object :: "custom_types \<Rightarrow> object_type \<Rightarrow> jmap \<Rightarrow> selection list \<Rightarrow> jmap \<Rightarrow> string + json" where
  "validate ct ty JNull sel =
     (if non_null ty then Inl ''got null for the action webhook response'' else Inr JNull)"
| "validate ct (TList inner b) value sel =
     (case value of
        JArray items \<Rightarrow> bindR (traverse (\<lambda>item. validate ct inner item sel) items) (\<lambda>vs. Inr (JArray vs))
      | _ \<Rightarrow> Inl ''expecting array for the action webhook response'')"
| "validate ct (TNamed name b) value sel =
     (case object_named ct name of
        None \<Rightarrow> validate_scalar name value
      | Some obj \<Rightarrow>
          (case value of
             JArray _ \<Rightarrow> got ''array'' name
           | JObject m \<Rightarrow> project_object ct obj m sel []
           | other \<Rightarrow> got (''scalar '' @ scalar_kind other) name))"
| "project_object ct obj m [] out = Inr (JObject out)"
| "project_object ct obj m (SField field # items) out =
     (let name = gf_name field; key = field_alias field in
      if name = ''__typename'' then project_object ct obj m items (jmap_insert out key (JString (ot_name obj)))
      else case declared_field obj name of
        None \<Rightarrow> project_object ct obj m items (jmap_insert out key (entry_or_null m name))
      | Some fd \<Rightarrow>
          (let ftype = parse_type (ctf_type fd) in
           case jmap_get m name of
             None \<Rightarrow>
               if non_null ftype then Inl (''field '' @ dquoted name @ '' expected in webhook response, but not found'')
               else project_object ct obj m items (jmap_insert out key JNull)
           | Some JNull \<Rightarrow>
               if non_null ftype then Inl (''expecting not null value for field '' @ dquoted name)
               else project_object ct obj m items (jmap_insert out key JNull)
           | Some v \<Rightarrow>
               bindR (validate ct ftype v (gf_selection_set field)) (\<lambda>shaped.
                 project_object ct obj m items (jmap_insert out key shaped))))"
| "project_object ct obj m (_ # items) out = project_object ct obj m items out"
  by pat_completeness auto
termination
  by (relation "measures [case_sum (\<lambda>(ct, ty, v, sel). size v) (\<lambda>(ct, obj, m, sel, out). size (JObject m)),
                          case_sum (\<lambda>(ct, ty, v, sel). Suc (length sel)) (\<lambda>(ct, obj, m, sel, out). length sel)]")
     (auto simp: size_json_element size_jmap_get simp del: json.size)

section \<open>Arguments\<close>

text \<open>Unlike the planner, an action takes a missing variable for null.\<close>

fun action_value :: "gql_value \<Rightarrow> jmap \<Rightarrow> json" where
  "action_value (GVariable name) vars = entry_or_null vars name"
| "action_value (GInt n) vars = json_of_i64 n"
| "action_value (GFloat w) vars = json_of_f64 w"
| "action_value (GString s) vars = JString s"
| "action_value (GBoolean b) vars = JBool b"
| "action_value GNull vars = JNull"
| "action_value (GEnum e) vars = JString e"
| "action_value (GList items) vars = JArray (map (\<lambda>v. action_value v vars) items)"
| "action_value (GObject m) vars = JObject (obj_insert_all (map (\<lambda>e. (fst e, action_value (snd e) vars)) m))"

definition action_payload :: "session \<Rightarrow> action_entry \<Rightarrow> gql_field \<Rightarrow> jmap \<Rightarrow> json" where
  "action_payload session action field vars =
     JObject [(''action'', JObject [(''name'', JString (ae_name action))]),
       (''input'', JObject (obj_insert_all (map (\<lambda>a. (fst a, action_value (snd a) vars)) (gf_arguments field)))),
       (''session_variables'', JObject (obj_insert_all
          ((''x-hasura-role'', JString (se_role session)) # map (\<lambda>(k, v). (k, JString v)) (se_vars session))))]"

section \<open>Relationships of output objects\<close>

definition action_base_name :: "qualified_table \<Rightarrow> string" where
  "action_base_name t = (if qt_schema t = ''public'' then qt_name t else qt_schema t @ ''_'' @ qt_name t)"

definition relationship_query :: "server_lib \<Rightarrow> custom_type_relationship \<Rightarrow> selection list \<Rightarrow> string" where
  "relationship_query lib rel sel =
     (let base = action_base_name (ctr_remote_table rel); selset = sl_selection_display lib sel in
      if ctr_type rel = ''array'' then ''query($w: '' @ base @ ''_bool_exp){ '' @ base @ ''(where: $w) '' @ selset @ '' }''
      else ''query($w: '' @ base @ ''_bool_exp){ '' @ base @ ''(where: $w, limit: 1) '' @ selset @ '' }'')"

definition relationship_where :: "custom_type_relationship \<Rightarrow> json \<Rightarrow> json" where
  "relationship_where rel raw = JObject (obj_insert_all
     (map (\<lambda>(out_field, remote_col). (remote_col, JObject [(''_eq'',
        case json_get raw out_field of Some v \<Rightarrow> v | None \<Rightarrow> JNull)])) (ctr_field_mapping rel)))"

definition resolve_relationship :: "server \<Rightarrow> session \<Rightarrow> custom_type_relationship \<Rightarrow> json \<Rightarrow> selection list \<Rightarrow> json run" where
  "resolve_relationship sv session rel raw sel =
     bindIO (execute_select_internal sv session (relationship_query (sv_lib sv) rel sel) [(''w'', relationship_where rel raw)])
       (\<lambda>data.
         let rows = (case json_get data (action_base_name (ctr_remote_table rel)) of Some v \<Rightarrow> v | None \<Rightarrow> JNull) in
         returnIO (if ctr_type rel = ''array'' then rows
                   else case rows of JArray (row # _) \<Rightarrow> row | _ \<Rightarrow> JNull))"

definition set_in_object :: "json \<Rightarrow> string \<Rightarrow> json \<Rightarrow> json" where
  "set_in_object shaped k v = (case shaped of JObject m \<Rightarrow> JObject (jmap_insert m k v) | _ \<Rightarrow> shaped)"

function (sequential) fill_relationships :: "server \<Rightarrow> session \<Rightarrow> custom_types \<Rightarrow> type_ref \<Rightarrow> json \<Rightarrow> json \<Rightarrow> selection list \<Rightarrow> json run"
and fill_fields :: "server \<Rightarrow> session \<Rightarrow> custom_types \<Rightarrow> object_type \<Rightarrow> json \<Rightarrow> json \<Rightarrow> selection list \<Rightarrow> json run" where
  "fill_relationships sv session ct ty JNull raw sel = returnIO JNull"
| "fill_relationships sv session ct (TList inner b) shaped raw sel =
     (case (shaped, raw) of
        (JArray items, JArray raws) \<Rightarrow>
          bindIO (traverseIO (\<lambda>p. fill_relationships sv session ct inner (fst p) (snd p) sel) (zip items raws)) (\<lambda>vs.
            returnIO (JArray (vs @ drop (length raws) items)))
      | _ \<Rightarrow> returnIO shaped)"
| "fill_relationships sv session ct (TNamed name b) shaped raw sel =
     (case object_named ct name of
        None \<Rightarrow> returnIO shaped
      | Some obj \<Rightarrow> fill_fields sv session ct obj shaped raw sel)"
| "fill_fields sv session ct obj shaped raw [] = returnIO shaped"
| "fill_fields sv session ct obj shaped raw (SField (GqlField alias name args ds sel) # items) =
     (let key = (case alias of Some a \<Rightarrow> a | None \<Rightarrow> name) in
      case find (\<lambda>r. ctr_name r = name) (ot_relationships obj) of
        Some rel \<Rightarrow>
          bindIO (resolve_relationship sv session rel raw sel) (\<lambda>v.
            fill_fields sv session ct obj (set_in_object shaped key v) raw items)
      | None \<Rightarrow>
          (case declared_field obj name of
             None \<Rightarrow> fill_fields sv session ct obj shaped raw items
           | Some fd \<Rightarrow>
               (case json_get shaped key of
                  None \<Rightarrow> fill_fields sv session ct obj shaped raw items
                | Some child \<Rightarrow>
                    bindIO (fill_relationships sv session ct (parse_type (ctf_type fd)) child
                              (case json_get raw name of Some v \<Rightarrow> v | None \<Rightarrow> JNull) sel) (\<lambda>v.
                      fill_fields sv session ct obj (set_in_object shaped key v) raw items))))"
| "fill_fields sv session ct obj shaped raw (_ # items) = fill_fields sv session ct obj shaped raw items"
  by pat_completeness auto
termination
  by (relation "measures [case_sum (\<lambda>(sv, se, ct, ty, v, raw, sel). size_list size sel) (\<lambda>(sv, se, ct, obj, v, raw, sel). size_list size sel),
                          case_sum (\<lambda>(sv, se, ct, ty, v, raw, sel). Suc (size ty)) (\<lambda>_. 0)]") auto

section \<open>Calling an action\<close>

definition handler_error :: "json \<Rightarrow> json" where
  "handler_error body =
     (let message = (case Option.bind (json_get body ''message'') as_str of Some m \<Rightarrow> m | None \<Rightarrow> ''webhook returned an error'');
          code = (case Option.bind (json_get body ''code'') as_str of Some c \<Rightarrow> c | None \<Rightarrow> ''unexpected'');
          built = JObject [(''path'', JString ''$''), (''code'', JString code)];
          extensions = (case json_get body ''extensions'' of
             Some ext \<Rightarrow> if is_null ext then built else ext
           | None \<Rightarrow> built)
      in JObject [(''errors'', JArray [JObject [(''extensions'', extensions), (''message'', JString message)]])])"

definition fail_at :: "string \<Rightarrow> string \<Rightarrow> string \<Rightarrow> 'a run" where
  "fail_at path code message = failIO (Reply 200 (error_at path code message))"

definition action_headers :: "action_entry \<Rightarrow> headers \<Rightarrow> (string \<times> string) list" where
  "action_headers action hs =
     (if act_forward_client_headers (ae_definition action)
      then forwarded_headers (\<lambda>n. starts_with n ''x-hasura-'' \<or> n = ''authorization'') hs else [])"

definition call_action ::
  "server \<Rightarrow> session \<Rightarrow> action_entry \<Rightarrow> gql_field \<Rightarrow> jmap \<Rightarrow> headers \<Rightarrow> custom_types \<Rightarrow> json run" where
  "call_action sv session action field vars hs ct =
     bindIO (ask (w_http (sv_world sv))
       (Post (resolve_url_template (sl_env (sv_lib sv)) (act_handler (ae_definition action)))
          (action_payload session action field vars) (action_headers action hs))) (\<lambda>reply.
       case reply of
         HttpFailed e \<Rightarrow> fail_at (''$.selectionSet.'' @ gf_name field) ''unexpected'' (''http exception when calling webhook: '' @ e)
       | HttpReply status body \<Rightarrow>
           if \<not> (200 \<le> status \<and> status < 300) then failIO (Reply 200 (handler_error body))
           else
             (let ty = parse_type (act_output_type (ae_definition action)) in
              case validate ct ty body (gf_selection_set field) of
                Inl message \<Rightarrow> fail_at ''$'' ''unexpected'' message
              | Inr shaped \<Rightarrow> fill_relationships sv session ct ty shaped body (gf_selection_set field)))"

section \<open>Routing\<close>

definition select_operation :: "gql_document \<Rightarrow> string option \<Rightarrow> gql_operation option" where
  "select_operation doc wanted =
     (let ops = operations_of doc in
      case wanted of
        Some n \<Rightarrow> find (\<lambda>op. op_name op = Some n) ops
      | None \<Rightarrow> if length ops = 1 then Some (hd ops) else None)"

fun action_selection :: "gql_operation \<Rightarrow> (selection list \<times> bool) option" where
  "action_selection (OpQuery _ _ sel) = Some (sel, True)"
| "action_selection (OpMutation _ _ sel) = Some (sel, False)"
| "action_selection (OpSelectionSet sel) = Some (sel, True)"
| "action_selection (OpSubscription _ _ _) = None"

text \<open>Whether the operation names an action, and if so whether it is a query.\<close>

definition match_action :: "metadata \<Rightarrow> gql_document \<Rightarrow> string option \<Rightarrow> bool option" where
  "match_action md doc wanted =
     (if md_actions md = [] then None
      else Option.bind (Option.bind (select_operation doc wanted) action_selection) (\<lambda>(sel, is_query).
        if list_ex (\<lambda>item. case item of SField f \<Rightarrow> list_ex (\<lambda>a. ae_name a = gf_name f) (md_actions md) | _ \<Rightarrow> False) sel
        then Some is_query else None))"

definition action_not_found :: "gql_field \<Rightarrow> string \<Rightarrow> 'a run" where
  "action_not_found field root =
     fail_at (''$.selectionSet.'' @ gf_name field) ''validation-failed''
       (''field '' @ dquoted (gf_name field) @ '' not found in type: '' @ quoted root)"

fun resolve_items ::
  "server \<Rightarrow> session \<Rightarrow> string \<Rightarrow> jmap \<Rightarrow> headers \<Rightarrow> selection list \<Rightarrow> jmap \<Rightarrow> jmap run" where
  "resolve_items sv session root vars hs [] data = returnIO data"
| "resolve_items sv session root vars hs (SField field # items) data =
     (if gf_name field = ''__typename'' then
        resolve_items sv session root vars hs items (jmap_insert data (field_alias field) (JString root))
      else case find (\<lambda>a. ae_name a = gf_name field) (md_actions (sv_metadata sv)) of
        None \<Rightarrow> action_not_found field root
      | Some action \<Rightarrow>
          if se_role session \<notin> set (ae_permissions action) then action_not_found field root
          else bindIO (call_action sv session action field vars hs (md_custom_types (sv_metadata sv))) (\<lambda>v.
            resolve_items sv session root vars hs items (jmap_insert data (field_alias field) v)))"
| "resolve_items sv session root vars hs (_ # items) data = fail_at ''$'' ''validation-failed'' ''fragments are not supported on actions''"

definition resolve_action ::
  "server \<Rightarrow> session \<Rightarrow> bool \<Rightarrow> gql_document \<Rightarrow> jmap \<Rightarrow> string option \<Rightarrow> headers \<Rightarrow> (nat \<times> json) run" where
  "resolve_action sv session is_query doc vars wanted hs =
     (case select_operation doc wanted of
        None \<Rightarrow> fail_at ''$'' ''validation-failed'' ''no executable operation''
      | Some op \<Rightarrow>
          (case action_selection op of
             None \<Rightarrow> fail_at ''$'' ''validation-failed'' ''subscriptions are not supported''
           | Some (sel, _) \<Rightarrow>
               bindIO (resolve_items sv session (if is_query then ''query_root'' else ''mutation_root'') vars hs sel []) (\<lambda>data.
                 returnIO (200, JObject [(''data'', JObject data)]))))"

end
