(* ===== verification/Execute.thy ===== *)
theory Execute
  imports Action
begin

text \<open>
  The request path, \<open>crates/server/src/gql.rs\<close> and the handlers of
  \<open>crates/server/src/main.rs\<close>: where an operation goes (a remote schema, an
  action, introspection, the database), the allowlist, and the transaction
  of a mutation.
\<close>

section \<open>Allowlist\<close>

fun is_typename_selection :: "selection \<Rightarrow> bool" where
  "is_typename_selection (SField f) = (gf_name f = ''__typename'')"
| "is_typename_selection _ = False"

fun strip_typenames :: "selection list \<Rightarrow> selection list"
and strip_item :: "selection \<Rightarrow> selection" where
  "strip_typenames [] = []"
| "strip_typenames (item # items) =
     (if is_typename_selection item then strip_typenames items else strip_item item # strip_typenames items)"
| "strip_item (SField (GqlField alias name args ds sel)) = SField (GqlField alias name args ds (strip_typenames sel))"
| "strip_item (SInlineFragment t ds sel) = SInlineFragment t ds (strip_typenames sel)"
| "strip_item (SFragmentSpread n ds) = SFragmentSpread n ds"

fun strip_definition :: "gql_definition \<Rightarrow> gql_definition" where
  "strip_definition (DefOperation (OpQuery n vds sel)) = DefOperation (OpQuery n vds (strip_typenames sel))"
| "strip_definition (DefOperation (OpMutation n vds sel)) = DefOperation (OpMutation n vds (strip_typenames sel))"
| "strip_definition (DefOperation (OpSubscription n vds sel)) = DefOperation (OpSubscription n vds (strip_typenames sel))"
| "strip_definition (DefOperation (OpSelectionSet sel)) = DefOperation (OpSelectionSet (strip_typenames sel))"
| "strip_definition (DefFragment f) = DefFragment (f\<lparr>fr_selection_set := strip_typenames (fr_selection_set f)\<rparr>)"

definition normalize_for_allowlist :: "server_lib \<Rightarrow> gql_document \<Rightarrow> string" where
  "normalize_for_allowlist lib doc = sl_doc_display lib (map strip_definition doc)"

definition listed_queries :: "metadata \<Rightarrow> string list" where
  "listed_queries md =
     concat (map (\<lambda>entry. concat (map (\<lambda>c. if qc_name c = entry then map cq_query (qc_queries c) else []) (md_query_collections md)))
       (md_allowlist md))"

definition allowlisted :: "server \<Rightarrow> gql_document \<Rightarrow> bool" where
  "allowlisted sv doc =
     list_ex (\<lambda>q. case sl_parse_query (sv_lib sv) q of
         Inl _ \<Rightarrow> False
       | Inr d \<Rightarrow> normalize_for_allowlist (sv_lib sv) d = normalize_for_allowlist (sv_lib sv) doc)
       (listed_queries (sv_metadata sv))"

section \<open>Operations for a remote schema\<close>

fun top_level_fields :: "gql_document \<Rightarrow> (string \<times> bool) list" where
  "top_level_fields [] = []"
| "top_level_fields (DefOperation (OpQuery _ _ sel) # ds) =
     map (\<lambda>f. (field_alias f, is_intro (gf_name f))) (fields_of sel) @ top_level_fields ds"
| "top_level_fields (DefOperation (OpSelectionSet sel) # ds) =
     map (\<lambda>f. (field_alias f, is_intro (gf_name f))) (fields_of sel) @ top_level_fields ds"
| "top_level_fields (_ # ds) = top_level_fields ds"

text \<open>\<open>value[key] = v\<close>: null becomes an object, a value that is neither panics.\<close>

fun index_assign :: "json \<Rightarrow> string \<Rightarrow> json \<Rightarrow> json option" where
  "index_assign (JObject m) k v = Some (JObject (jmap_insert m k v))"
| "index_assign JNull k v = Some (JObject [(k, v)])"
| "index_assign _ k v = None"

definition introspect_locally :: "server \<Rightarrow> session \<Rightarrow> gql_document \<Rightarrow> string option \<Rightarrow> jmap \<Rightarrow> json run" where
  "introspect_locally sv session doc wanted vars =
     (case execute_introspection (sv_fuel sv) (server_planner sv False) (sv_perm_eq sv) session
             (keep_introspection_roots doc) wanted vars of
        None \<Rightarrow> returnIO (JObject [])
      | Some r \<Rightarrow> run_plan r)"

definition merge_answers :: "(string \<times> bool) list \<Rightarrow> jmap \<Rightarrow> jmap \<Rightarrow> jmap" where
  "merge_answers order intro remote = obj_insert_all (map (\<lambda>(alias, is_intro).
     (alias, entry_or_null (if is_intro then intro else remote) alias)) order)"

definition object_or_empty :: "json option \<Rightarrow> jmap" where
  "object_or_empty v = (case Option.bind v as_object of Some m \<Rightarrow> m | None \<Rightarrow> [])"

definition execute_remote ::
  "server \<Rightarrow> session \<Rightarrow> json \<Rightarrow> gql_document \<Rightarrow> string option \<Rightarrow> jmap \<Rightarrow> headers \<Rightarrow> remote_target \<Rightarrow> jmap \<Rightarrow> (nat \<times> json) run" where
  "execute_remote sv session body doc wanted vars hs target remote_vars =
     (let remote_body = json_set body ''variables'' (JObject remote_vars) in
      if rt_has_introspection target then
        bindIO (introspect_locally sv session doc wanted vars) (\<lambda>intro.
        bindIO (forward (sv_world sv) target remote_body hs) (\<lambda>(status, resp).
          if json_get resp ''errors'' \<noteq> None then returnIO (status, resp)
          else returnIO (200, JObject [(''data'', JObject
            (merge_answers (top_level_fields doc) (object_or_empty (Some intro)) (object_or_empty (json_get resp ''data''))))])))
      else
        bindIO (forward (sv_world sv) target remote_body hs) (\<lambda>(status, resp).
          case rt_namespace target of
            None \<Rightarrow> returnIO (status, resp)
          | Some ns \<Rightarrow>
              if json_get resp ''errors'' \<noteq> None then returnIO (status, resp)
              else case index_assign resp ''data'' (JObject [(ns, case json_get resp ''data'' of Some d \<Rightarrow> d | None \<Rightarrow> JNull)]) of
                Some resp' \<Rightarrow> returnIO (status, resp')
              | None \<Rightarrow> failIO Abort))"

section \<open>Mutations\<close>

fun mutation_alias :: "mutation_root \<Rightarrow> string" where
  "mutation_alias (FunctionCall a _) = a"
| "mutation_alias (Insert a _) = a"
| "mutation_alias (Update a _) = a"
| "mutation_alias (Delete a _) = a"
| "mutation_alias (MutTypename a _) = a"

definition decode_mutation :: "server \<Rightarrow> db_cell \<Rightarrow> json run" where
  "decode_mutation sv cell =
     (case cell of
        JsonCell v \<Rightarrow> returnIO v
      | NullCell \<Rightarrow> returnIO JNull
      | TextCell s \<Rightarrow> returnIO (JString s)
      | OtherCell \<Rightarrow> decode_failed sv cell)"

fun run_mutations :: "server \<Rightarrow> (string \<times> string) list \<Rightarrow> jmap \<Rightarrow> jmap run" where
  "run_mutations sv [] data = returnIO data"
| "run_mutations sv ((alias, sql) # steps) data =
     bindIO (query_one sv (TxQuery sql)) (\<lambda>cell.
     bindIO (decode_mutation sv cell) (\<lambda>v. run_mutations sv steps (jmap_insert data alias v)))"

definition control :: "server \<Rightarrow> request \<Rightarrow> unit run" where
  "control sv r =
     bindIO (ask (w_control (sv_world sv)) r) (\<lambda>answer.
       case answer of None \<Rightarrow> returnIO () | Some e \<Rightarrow> failIO (Reply 200 (db_error_json (sv_extern sv) e)))"

definition mutation_steps :: "server \<Rightarrow> mutation_root list \<Rightarrow> sql_panic + (string \<times> string) list" where
  "mutation_steps sv roots =
     traverse (\<lambda>root. bindR (mutation_to_sql_opts (sv_extern sv) root (sv_stringify_numerics sv)) (\<lambda>sql. Inr (mutation_alias root, sql))) roots"

text \<open>A transaction that is not committed is rolled back when the connection drops it.\<close>

definition execute_mutation :: "server \<Rightarrow> mutation_root list \<Rightarrow> json run" where
  "execute_mutation sv roots =
     bindIO (run_sql (mutation_steps sv roots)) (\<lambda>steps.
     bindIO (take_connection sv) (\<lambda>_.
     bindIO (control sv BeginTx) (\<lambda>_.
     bindIO (run_mutations sv steps []) (\<lambda>data.
     bindIO (control sv CommitTx) (\<lambda>_. returnIO (JObject data))))))"

section \<open>The request\<close>

definition ok_data :: "json \<Rightarrow> nat \<times> json" where
  "ok_data data = (200, JObject [(''data'', data)])"

text \<open>An operation answered by this engine.\<close>

definition execute_local ::
  "server \<Rightarrow> session \<Rightarrow> bool \<Rightarrow> gql_document \<Rightarrow> string option \<Rightarrow> jmap \<Rightarrow> (nat \<times> json) run" where
  "execute_local sv session relay doc wanted vars =
     (if sv_allowlist_enabled sv \<and> \<not> allowlisted sv doc then reply_error ''validation-failed'' ''query is not allowed''
      else case execute_introspection (sv_fuel sv) (server_planner sv relay) (sv_perm_eq sv) session doc wanted vars of
        Some r \<Rightarrow> bindIO (run_plan r) (\<lambda>data. returnIO (ok_data data))
      | None \<Rightarrow>
          bindIO (run_plan (server_plan sv relay session doc wanted vars)) (\<lambda>plan.
            case plan of
              PlanQuery roots \<Rightarrow> bindIO (execute_query sv session roots) (\<lambda>data. returnIO (ok_data data))
            | PlanMutation roots \<Rightarrow> bindIO (execute_mutation sv roots) (\<lambda>data. returnIO (ok_data data))))"

definition execute_document ::
  "server \<Rightarrow> session \<Rightarrow> json \<Rightarrow> bool \<Rightarrow> headers \<Rightarrow> gql_document \<Rightarrow> string option \<Rightarrow> jmap \<Rightarrow> (nat \<times> json) run" where
  "execute_document sv session body relay hs doc wanted vars =
     (case match_remote (sv_extern sv) (sv_lib sv) (sv_metadata sv) session doc vars of
        Some r \<Rightarrow> bindIO (run_plan r) (\<lambda>(target, remote_vars). execute_remote sv session body doc wanted vars hs target remote_vars)
      | None \<Rightarrow>
          (case match_action (sv_metadata sv) doc wanted of
             Some is_query \<Rightarrow> resolve_action sv session is_query doc vars wanted hs
           | None \<Rightarrow> execute_local sv session relay doc wanted vars))"

definition request_variables :: "json \<Rightarrow> jmap option" where
  "request_variables body =
     (case json_get body ''variables'' of
        None \<Rightarrow> Some []
      | Some JNull \<Rightarrow> Some []
      | Some (JObject m) \<Rightarrow> Some m
      | Some _ \<Rightarrow> None)"

definition execute_full :: "server \<Rightarrow> session \<Rightarrow> json \<Rightarrow> bool \<Rightarrow> headers \<Rightarrow> (nat \<times> json) run" where
  "execute_full sv session body relay hs =
     (case Option.bind (json_get body ''query'') as_str of
        None \<Rightarrow> reply_error ''validation-failed'' (''the key '' @ quoted ''query'' @ '' is missing'')
      | Some query \<Rightarrow>
          (case request_variables body of
             None \<Rightarrow> reply_error ''validation-failed'' ''variables must be an object''
           | Some vars \<Rightarrow>
               if query_too_deep query then
                 reply_error ''validation-failed'' ''query exceeds maximum nesting depth of 100''
               else case sl_parse_query (sv_lib sv) query of
                 Inl e \<Rightarrow> reply_error ''validation-failed'' (''not a valid graphql query: '' @ e)
               | Inr doc \<Rightarrow>
                   execute_document sv session body relay hs doc
                     (Option.bind (json_get body ''operationName'') as_str) vars))"

definition execute_with :: "server \<Rightarrow> session \<Rightarrow> json \<Rightarrow> bool \<Rightarrow> (nat \<times> json) run" where
  "execute_with sv session body relay = execute_full sv session body relay []"

text \<open>What is sent: \<open>None\<close> when the task ends without an answer.\<close>

fun answer_of :: "stop + nat \<times> json \<Rightarrow> (nat \<times> json) option" where
  "answer_of (Inr r) = Some r"
| "answer_of (Inl (Reply status body)) = Some (status, body)"
| "answer_of (Inl Abort) = None"

section \<open>Handlers\<close>

definition graphql_handler :: "(headers \<Rightarrow> (nat \<times> json) + session) \<Rightarrow> server \<Rightarrow> headers \<Rightarrow> json \<Rightarrow> (nat \<times> json) run" where
  "graphql_handler auth sv hs body =
     (case auth hs of
        Inl reply \<Rightarrow> returnIO reply
      | Inr session \<Rightarrow> execute_full sv session body False hs)"

text \<open>The legacy path answers 400 to a failed authentication.\<close>

definition graphql_legacy_handler :: "(headers \<Rightarrow> (nat \<times> json) + session) \<Rightarrow> server \<Rightarrow> headers \<Rightarrow> json \<Rightarrow> (nat \<times> json) run" where
  "graphql_legacy_handler auth sv hs body =
     (case auth hs of
        Inl (_, errors) \<Rightarrow> returnIO (400, errors)
      | Inr session \<Rightarrow> execute_with sv session body False)"

definition relay_handler :: "(headers \<Rightarrow> (nat \<times> json) + session) \<Rightarrow> server \<Rightarrow> headers \<Rightarrow> json \<Rightarrow> (nat \<times> json) run" where
  "relay_handler auth sv hs body =
     (case auth hs of
        Inl reply \<Rightarrow> returnIO reply
      | Inr session \<Rightarrow> execute_with sv session body True)"

end
