(* ===== verification/Request_Properties.thy ===== *)
theory Request_Properties
  imports Execute Mutation_Properties
begin

text \<open>
  What leaves the server while it answers a request: every statement sent to
  the database and every HTTP request is one the session's role may cause.
\<close>

section \<open>The specification\<close>

text \<open>The environments the server plans in.\<close>

definition served_env :: "server \<Rightarrow> session \<Rightarrow> plan_env \<Rightarrow> bool" where
  "served_env sv session en \<longleftrightarrow> en_session en = session \<and> en_extern en = sv_extern sv \<and> (\<exists>relay. en_planner en = server_planner sv relay)"

text \<open>
  A statement is the SQL of roots that are authorized for the session; a
  request goes to the handler of an action granted to the role, naming that
  action, or to a remote schema the role has a permission on.
\<close>

definition granted_action :: "server \<Rightarrow> session \<Rightarrow> string \<Rightarrow> json \<Rightarrow> bool" where
  "granted_action sv session url payload \<longleftrightarrow>
     (\<exists>action \<in> set (md_actions (sv_metadata sv)). se_role session \<in> set (ae_permissions action)
        \<and> url = resolve_url_template (sl_env (sv_lib sv)) (act_handler (ae_definition action))
        \<and> json_pointer payload ''/action/name'' = Some (JString (ae_name action)))"

definition granted_schema :: "server \<Rightarrow> session \<Rightarrow> string \<Rightarrow> bool" where
  "granted_schema sv session url \<longleftrightarrow>
     (\<exists>schema \<in> set (md_remote_schemas (sv_metadata sv)). (\<exists>p \<in> set (rs_permissions schema). rsp_role p = se_role session)
        \<and> url = remote_url (sv_lib sv) (rs_definition schema))"

fun allowed_request :: "server \<Rightarrow> session \<Rightarrow> request \<Rightarrow> bool" where
  "allowed_request sv session (Query sql) \<longleftrightarrow>
     (\<exists>en roots. served_env sv session en \<and> list_all (root_secure en) roots
        \<and> operation_to_sql_opts (sv_extern sv) roots (sv_stringify_numerics sv) = Inr sql)"
| "allowed_request sv session (TxQuery sql) \<longleftrightarrow>
     (\<exists>en root. served_env sv session en \<and> mutation_authorized en (sv_perm_eq sv) root \<and> mutation_secure en root
        \<and> mutation_to_sql_opts (sv_extern sv) root (sv_stringify_numerics sv) = Inr sql)"
| "allowed_request sv session (Post url payload hs) \<longleftrightarrow> granted_action sv session url payload \<or> granted_schema sv session url"
| "allowed_request sv session BeginTx \<longleftrightarrow> True"
| "allowed_request sv session CommitTx \<longleftrightarrow> True"

section \<open>Plans\<close>

definition server_env :: "server \<Rightarrow> bool \<Rightarrow> session \<Rightarrow> gql_document \<Rightarrow> jmap \<Rightarrow> plan_env" where
  "server_env sv relay session doc vars =
     \<lparr>en_extern = sv_extern sv, en_planner = server_planner sv relay, en_fragments = fragments_of doc, en_vars = vars,
      en_session = session, en_gql_display = sv_gql_display sv\<rparr>"

lemma served_server_env: "served_env sv session (server_env sv relay session doc vars)"
  by (auto simp: served_env_def server_env_def)

lemma server_plan_query:
  assumes "server_plan sv relay session doc wanted vars = Inr (PlanQuery roots)"
  shows "\<exists>en. served_env sv session en \<and> list_all (root_secure en) roots"
proof -
  obtain vars' sel where "plan_query (sv_fuel sv) (server_env sv relay session doc vars') sel = Inr roots"
    using assms by (auto simp: server_plan_def plan_document_def server_env_def Let_def split: prod.splits if_splits)
  then show ?thesis using plan_query_secure served_server_env by blast
qed

lemma server_plan_mutation:
  assumes "server_plan sv relay session doc wanted vars = Inr (PlanMutation roots)"
  shows "\<exists>en. served_env sv session en \<and> list_all (\<lambda>r. mutation_authorized en (sv_perm_eq sv) r \<and> mutation_secure en r) roots"
proof -
  obtain vars' sel where plan: "plan_mutation (sv_fuel sv) (server_env sv relay session doc vars') (sv_perm_eq sv) sel = Inr roots"
    using assms by (auto simp: server_plan_def plan_document_def server_env_def Let_def split: prod.splits if_splits)
  let ?en = "server_env sv relay session doc vars'"
  have "list_all (\<lambda>r. mutation_authorized ?en (sv_perm_eq sv) r \<and> mutation_secure ?en r) roots"
    using plan by (rule plan_mutation_roots) (blast intro: plan_mutation_root_authorized plan_mutation_root_secure)
  then show ?thesis using served_server_env by blast
qed

section \<open>The log of a request\<close>

lemma bindIO_return [simp]: "bindIO (returnIO v) f = f v"
  by (auto simp: bindIO_def returnIO_def)

lemma bindIO_fail [simp]: "bindIO (failIO e) f = failIO e"
  by (auto simp: bindIO_def failIO_def)

lemma extends_bind_plan: "(\<And>v. r = Inr v \<Longrightarrow> extends (f v) P) \<Longrightarrow> extends (bindIO (run_plan r) f) P"
  by (cases r) (auto simp: run_plan_def)

lemma extends_bind_sql: "(\<And>v. r = Inr v \<Longrightarrow> extends (f v) P) \<Longrightarrow> extends (bindIO (run_sql r) f) P"
  by (cases r) (auto simp: run_sql_def)

text \<open>
  A policy on requests that admits the SQL of the session's plans, calls of the
  actions of its role and of the remote schemas matched for it holds of
  everything the server sends for the session.
\<close>

locale request_policy =
  fixes sv :: server and session :: session and P :: "request \<Rightarrow> bool"
  assumes query_ok: "server_plan sv relay session doc wanted vars = Inr (PlanQuery roots) \<Longrightarrow>
      operation_to_sql_opts (sv_extern sv) roots (sv_stringify_numerics sv) = Inr sql \<Longrightarrow> P (Query sql)"
    and mutation_ok: "server_plan sv relay session doc wanted vars = Inr (PlanMutation mroots) \<Longrightarrow> root \<in> set mroots \<Longrightarrow>
      mutation_to_sql_opts (sv_extern sv) root (sv_stringify_numerics sv) = Inr sql \<Longrightarrow> P (TxQuery sql)"
    and control_ok: "P BeginTx" "P CommitTx"
    and remote_ok: "match_remote_with (sv_extern sv) (sv_lib sv) (sv_metadata sv) session doc vars internal = Some (Inr (target, vars')) \<Longrightarrow>
      P (Post (rt_url target) body hs)"
    and action_ok: "action \<in> set (md_actions (sv_metadata sv)) \<Longrightarrow> se_role session \<in> set (ae_permissions action) \<Longrightarrow>
      P (Post (resolve_url_template (sl_env (sv_lib sv)) (act_handler (ae_definition action)))
           (action_payload session action field vars) hs)"
begin

abbreviation ok_io :: "'a io \<Rightarrow> bool" where
  "ok_io m \<equiv> extends m P"

lemma ok_plan [intro]: "ok_io (run_plan r)"
  by (auto simp: run_plan_def split: sum.splits)

lemma ok_error [intro]: "ok_io (reply_error c m)" "ok_io (decode_failed sv cell)" "ok_io (fail_at path c m)"
  by (auto simp: reply_error_def decode_failed_def fail_at_def)

lemma ok_connection [intro]: "ok_io (take_connection sv)"
  by (auto simp: take_connection_def extends_def reply_error_def failIO_def returnIO_def split: sum.splits option.splits)

lemma ok_query_one: "P r \<Longrightarrow> ok_io (query_one sv r)"
  by (auto simp: query_one_def intro!: extends_bind extends_ask split: sum.splits)

lemma ok_query_json: "P (Query sql) \<Longrightarrow> ok_io (query_json sv sql)"
  by (auto simp: query_json_def split: db_cell.splits intro!: extends_bind ok_query_one)

lemma ok_control: "P r \<Longrightarrow> ok_io (control sv r)"
  by (auto simp: control_def intro!: extends_bind extends_ask split: option.splits)

lemma ok_forward:
  "match_remote_with (sv_extern sv) (sv_lib sv) (sv_metadata sv) session doc vars internal = Some (Inr (target, vars')) \<Longrightarrow>
     ok_io (forward (sv_world sv) target body hs)"
  by (auto simp: forward_def Let_def intro!: extends_bind extends_ask remote_ok)

lemma ok_fetch_join: "ok_io (fetch_join sv session spec field m)"
  by (auto simp: fetch_join_def forward_join_def Let_def intro!: extends_bind ok_forward split: sum.splits option.splits plan_failure.splits)

lemma ok_joins_any:
  "s = sv \<Longrightarrow> se = session \<Longrightarrow> ok_io (resolve_remote_joins s se fs path node)"
  "s = sv \<Longrightarrow> se = session \<Longrightarrow> ok_io (join_fields s se fs path m)"
  by (induction s se fs path node and s se fs path m rule: resolve_remote_joins_join_fields.induct)
     (auto intro!: extends_bind ok_fetch_join split: option.splits)

lemmas ok_joins = ok_joins_any [OF refl refl]

lemma ok_join_roots: "ok_io (join_roots sv session roots data)"
proof (induction roots arbitrary: data)
  case (Cons root roots)
  then show ?case by (cases root) (auto intro!: extends_bind ok_joins split: option.splits)
qed auto

lemma ok_execute_query:
  assumes "server_plan sv relay session doc wanted vars = Inr (PlanQuery roots)"
  shows "ok_io (execute_query sv session roots)"
  using query_ok [OF assms]
  by (auto simp: execute_query_def intro!: extends_bind_sql extends_bind ok_query_json ok_join_roots)

lemma ok_select_internal: "ok_io (execute_select_internal sv session q vars)"
  by (auto simp: execute_select_internal_def intro!: extends_bind_plan ok_execute_query split: sum.splits plan.splits)

lemma ok_relationship: "ok_io (resolve_relationship sv session rel raw sel)"
  by (auto simp: resolve_relationship_def Let_def intro!: extends_bind ok_select_internal)

lemma ok_fill_any:
  "s = sv \<Longrightarrow> se = session \<Longrightarrow> ok_io (fill_relationships s se ct ty shaped raw sel)"
  "s = sv \<Longrightarrow> se = session \<Longrightarrow> ok_io (fill_fields s se ct obj shaped raw sel)"
  by (induction s se ct ty shaped raw sel and s se ct obj shaped raw sel rule: fill_relationships_fill_fields.induct)
     (auto simp: Let_def intro!: extends_bind ok_relationship extends_traverse split: option.splits json.splits)

lemmas ok_fill = ok_fill_any(1) [OF refl refl]

lemma ok_call_action:
  assumes "action \<in> set (md_actions (sv_metadata sv))" "se_role session \<in> set (ae_permissions action)"
  shows "ok_io (call_action sv session action field vars hs ct)"
  using action_ok [OF assms]
  by (auto simp: call_action_def Let_def intro!: extends_bind extends_ask ok_fill split: http_reply.splits sum.splits)

lemma ok_resolve_items: "ok_io (resolve_items sv session root vars hs items data)"
proof (induction items arbitrary: data)
  case (Cons item items)
  then show ?case
    by (cases item) (auto simp: action_not_found_def dest: find_Some_in intro!: extends_bind ok_call_action split: option.splits)
qed auto

lemma ok_resolve_action: "ok_io (resolve_action sv session is_query doc vars wanted hs)"
  by (auto simp: resolve_action_def intro!: extends_bind ok_resolve_items split: option.splits)

lemma ok_execute_remote:
  assumes "match_remote_with (sv_extern sv) (sv_lib sv) (sv_metadata sv) session doc0 vars0 internal = Some (Inr (target, vars'))"
  shows "ok_io (execute_remote sv session body doc wanted vars hs target remote_vars)"
  by (auto simp: execute_remote_def introspect_locally_def Let_def intro!: extends_bind ok_forward [OF assms] split: option.splits)

lemma ok_run_mutations: "(\<And>alias sql. (alias, sql) \<in> set steps \<Longrightarrow> P (TxQuery sql)) \<Longrightarrow> ok_io (run_mutations sv steps data)"
proof (induction steps arbitrary: data)
  case (Cons step steps)
  have "ok_io (decode_mutation sv cell)" for cell by (auto simp: decode_mutation_def split: db_cell.splits)
  then show ?case using Cons by (cases step) (auto intro!: extends_bind ok_query_one)
qed auto

lemma mutation_steps_sql:
  assumes "mutation_steps s roots = Inr steps" "(alias, sql) \<in> set steps"
  shows "\<exists>root \<in> set roots. mutation_to_sql_opts (sv_extern s) root (sv_stringify_numerics s) = Inr sql"
proof -
  have "list_all2 (\<lambda>root st. mutation_to_sql_opts (sv_extern s) root (sv_stringify_numerics s) = Inr (snd st)) roots steps"
    using assms(1) unfolding mutation_steps_def traverse_Inr_iff by (rule list_all2_mono) auto
  moreover obtain i where "i < length steps" "steps ! i = (alias, sql)" using assms(2) by (auto simp: in_set_conv_nth)
  ultimately show ?thesis by (auto simp: list_all2_conv_all_nth intro!: bexI [of _ "roots ! i"])
qed

lemma ok_execute_mutation:
  assumes "server_plan sv relay session doc wanted vars = Inr (PlanMutation roots)"
  shows "ok_io (execute_mutation sv roots)"
proof -
  have "P (TxQuery sql)" if "mutation_steps sv roots = Inr steps" "(a, sql) \<in> set steps" for steps a sql
    using mutation_steps_sql [OF that] mutation_ok [OF assms] by blast
  then show ?thesis
    by (auto simp: execute_mutation_def intro!: extends_bind_sql extends_bind ok_control control_ok ok_run_mutations)
qed

lemma ok_execute_local: "ok_io (execute_local sv session relay doc wanted vars)"
  by (auto simp: execute_local_def intro!: extends_bind extends_bind_plan ok_execute_query ok_execute_mutation
      split: option.splits plan.splits)

lemma ok_execute_document: "ok_io (execute_document sv session body relay hs doc wanted vars)"
  by (auto simp: execute_document_def match_remote_def
      intro!: extends_bind_plan ok_execute_remote ok_resolve_action ok_execute_local split: option.splits)

lemma ok_execute_full: "ok_io (execute_full sv session body relay hs)"
  by (auto simp: execute_full_def intro!: ok_execute_document split: option.splits sum.splits)

end

section \<open>Remote schemas\<close>

lemma try_remote_schema_url:
  "try_remote_schema x lib session internal intro vars doc schema storage = Some (Inr (target, vars')) \<Longrightarrow>
     rt_url target = remote_url lib (rs_definition schema) \<and> (\<exists>p \<in> set (rs_permissions schema). rsp_role p = se_role session)"
  by (auto simp: try_remote_schema_def Let_def bind_eq_Some_conv dest!: find_Some_in split: if_splits prod.splits)

lemma match_schemas_url:
  "match_schemas x lib session internal intro vars doc schemas storage = Some (Inr (target, vars')) \<Longrightarrow>
     \<exists>schema \<in> set schemas. rt_url target = remote_url lib (rs_definition schema)
       \<and> (\<exists>p \<in> set (rs_permissions schema). rsp_role p = se_role session)"
proof (induction schemas arbitrary: storage)
  case (Cons schema schemas)
  then show ?case by (auto simp: Let_def dest!: try_remote_schema_url split: option.splits)
qed simp

lemma match_remote_url:
  "match_remote_with x lib md session doc vars internal = Some (Inr (target, vars')) \<Longrightarrow>
     \<exists>schema \<in> set (md_remote_schemas md). rt_url target = remote_url lib (rs_definition schema)
       \<and> (\<exists>p \<in> set (rs_permissions schema). rsp_role p = se_role session)"
  by (auto simp: match_remote_with_def bind_eq_Some_conv Let_def dest!: match_schemas_url split: if_splits)

section \<open>Properties\<close>

interpretation served: request_policy sv session "allowed_request sv session" for sv session
proof
  fix relay doc wanted vars roots sql
  assume "server_plan sv relay session doc wanted vars = Inr (PlanQuery roots)"
    "operation_to_sql_opts (sv_extern sv) roots (sv_stringify_numerics sv) = Inr sql"
  then show "allowed_request sv session (Query sql)" using server_plan_query by fastforce
next
  fix relay doc wanted vars roots root sql
  assume "server_plan sv relay session doc wanted vars = Inr (PlanMutation roots)" "root \<in> set roots"
    "mutation_to_sql_opts (sv_extern sv) root (sv_stringify_numerics sv) = Inr sql"
  then show "allowed_request sv session (TxQuery sql)" using server_plan_mutation by (fastforce simp: list_all_iff)
next
  fix doc vars internal target vars' body hs
  assume "match_remote_with (sv_extern sv) (sv_lib sv) (sv_metadata sv) session doc vars internal = Some (Inr (target, vars'))"
  then show "allowed_request sv session (Post (rt_url target) body hs)"
    using match_remote_url by (fastforce simp: granted_schema_def)
next
  fix action field vars hs
  assume "action \<in> set (md_actions (sv_metadata sv))" "se_role session \<in> set (ae_permissions action)"
  then show "allowed_request sv session (Post (resolve_url_template (sl_env (sv_lib sv)) (act_handler (ae_definition action)))
      (action_payload session action field vars) hs)"
    by (auto simp: granted_action_def action_payload_def json_pointer_def starts_with_def pointer_token_def intro!: bexI [of _ action])
qed simp_all

lemma handlers_authorized:
  "extends (graphql_handler auth sv hs body) (\<lambda>r. \<exists>s. auth hs = Inr s \<and> allowed_request sv s r)"
  "extends (graphql_legacy_handler auth sv hs body) (\<lambda>r. \<exists>s. auth hs = Inr s \<and> allowed_request sv s r)"
  "extends (relay_handler auth sv hs body) (\<lambda>r. \<exists>s. auth hs = Inr s \<and> allowed_request sv s r)"
  by (simp_all add: graphql_handler_def graphql_legacy_handler_def relay_handler_def execute_with_def served.ok_execute_full extends_return
      del: allowed_request.simps split: sum.split)


section \<open>Transactions\<close>

definition statements :: "(string \<times> string) list \<Rightarrow> request list" where
  "statements steps = map (\<lambda>st. TxQuery (snd st)) steps"

text \<open>Every statement was answered without an error.\<close>

fun answered :: "server \<Rightarrow> request list \<Rightarrow> (string \<times> string) list \<Rightarrow> bool" where
  "answered sv h [] = True"
| "answered sv h (st # steps) =
     (case w_query (sv_world sv) (h @ [TxQuery (snd st)]) of
        Inl _ \<Rightarrow> False
      | Inr _ \<Rightarrow> answered sv (h @ [TxQuery (snd st)]) steps)"

lemma run_mutations_log:
  "run_mutations sv steps data h = (r, h') \<Longrightarrow>
     \<exists>n. h' = h @ statements (take n steps) \<and> (\<forall>v. r = Inr v \<longrightarrow> h' = h @ statements steps \<and> answered sv h steps)"
proof (induction steps arbitrary: data h)
  case Nil
  then show ?case by (auto simp: returnIO_def statements_def)
next
  case (Cons st steps)
  let ?h = "h @ [TxQuery (snd st)]"
  show ?case
  proof (cases "w_query (sv_world sv) ?h")
    case (Inl e)
    then show ?thesis using Cons.prems
      by (cases st) (auto simp: bindIO_def query_one_def ask_def failIO_def statements_def intro!: exI [of _ 1])
  next
    case (Inr cell)
    show ?thesis
    proof (cases "fst (decode_mutation sv cell ?h)")
      case (Inl e)
      then have "r = Inl e \<and> h' = ?h" using Cons.prems Inr
        by (cases st; cases cell) (auto simp: bindIO_def query_one_def ask_def returnIO_def failIO_def decode_mutation_def decode_failed_def reply_error_def)
      then show ?thesis by (auto simp: statements_def intro!: exI [of _ 1])
    next
      case v: (Inr v)
      then have "run_mutations sv steps (jmap_insert data (fst st) v) ?h = (r, h')" using Cons.prems Inr
        by (cases st; cases cell) (auto simp: bindIO_def query_one_def ask_def returnIO_def failIO_def decode_mutation_def decode_failed_def reply_error_def)
      then obtain n where "h' = ?h @ statements (take n steps)"
        "\<forall>v. r = Inr v \<longrightarrow> h' = ?h @ statements steps \<and> answered sv ?h steps" using Cons.IH by blast
      then show ?thesis using Inr by (auto simp: statements_def intro!: exI [of _ "Suc n"])
    qed
  qed
qed

lemma control_log: "control sv r h = (v, h') \<Longrightarrow> h' = h @ [r] \<and> (v = Inr () \<longleftrightarrow> w_control (sv_world sv) (h @ [r]) = None)"
  by (auto simp: control_def bindIO_def ask_def returnIO_def failIO_def split: option.splits)

lemma take_connection_log: "take_connection sv h = (v, h') \<Longrightarrow> h' = h"
  by (auto simp: take_connection_def reply_error_def returnIO_def failIO_def split: sum.splits option.splits)

text \<open>
  C12. A mutation is all or nothing: the server opens one transaction, sends
  the statements of the plan in order and stops at the first that fails; it
  commits only after every statement was answered without an error, and it
  reports data only when the commit succeeded.
\<close>

theorem mutation_all_or_nothing:
  assumes "mutation_steps sv roots = Inr steps"
  shows "\<exists>sent. snd (execute_mutation sv roots h) = h @ sent
     \<and> (sent = [] \<or> (\<exists>n. sent = BeginTx # statements (take n steps))
        \<or> sent = BeginTx # statements steps @ [CommitTx] \<and> answered sv (h @ [BeginTx]) steps)
     \<and> (\<forall>data. fst (execute_mutation sv roots h) = Inr data \<longrightarrow>
          sent = BeginTx # statements steps @ [CommitTx] \<and> w_control (sv_world sv) (h @ sent) = None)"
proof -
  obtain r1 h1 where c1: "take_connection sv h = (r1, h1)" by fastforce
  obtain r2 h2 where c2: "control sv BeginTx h = (r2, h2)" by fastforce
  obtain r3 h3 where c3: "run_mutations sv steps [] (h @ [BeginTx]) = (r3, h3)" by fastforce
  obtain r4 h4 where c4: "control sv CommitTx (h @ BeginTx # statements steps) = (r4, h4)" by fastforce
  have h1: "h1 = h" using take_connection_log [OF c1] .
  have h2: "h2 = h @ [BeginTx]" using control_log [OF c2] by simp
  obtain n where h3: "h3 = h @ BeginTx # statements (take n steps)"
    "\<forall>v. r3 = Inr v \<longrightarrow> h3 = h @ BeginTx # statements steps \<and> answered sv (h @ [BeginTx]) steps"
    using run_mutations_log [OF c3] by auto
  have h4: "h4 = h @ BeginTx # statements steps @ [CommitTx]"
    "r4 = Inr () \<longleftrightarrow> w_control (sv_world sv) (h @ BeginTx # statements steps @ [CommitTx]) = None"
    using control_log [OF c4] by auto
  note run = execute_mutation_def run_sql_def bindIO_def returnIO_def assms
  consider (no_connection) e where "r1 = Inl e" | (no_begin) e where "r1 = Inr ()" "r2 = Inl e"
    | (failed) e where "r1 = Inr ()" "r2 = Inr ()" "r3 = Inl e" | (sent) data where "r1 = Inr ()" "r2 = Inr ()" "r3 = Inr data"
    by (cases r1; cases r2; cases r3) auto
  then show ?thesis
  proof cases
    case no_connection
    then show ?thesis using c1 h1 by (auto simp: run)
  next
    case no_begin
    then show ?thesis using c1 h1 c2 h2 by (auto simp: run statements_def intro!: exI [of _ 0])
  next
    case failed
    then show ?thesis using c1 h1 c2 h2 c3 h3(1) by (auto simp: run)
  next
    case sent
    then have "execute_mutation sv roots h = (case r4 of Inl e \<Rightarrow> Inl e | Inr _ \<Rightarrow> Inr (JObject data), h4)"
      using c1 h1 c2 h2 c3 h3(2) c4 by (auto simp: run split: sum.splits)
    then show ?thesis using h4 h3(2) sent by (auto split: sum.splits)
  qed
qed

text \<open>A server whose parser knows the sample document and whose database answers every statement.\<close>

definition sample_world :: world where
  "sample_world = \<lparr>w_http = (\<lambda>_. HttpReply 200 (JObject [(''data'', JObject [])])), w_query = (\<lambda>_. Inr (JsonCell (JObject []))),
     w_control = (\<lambda>_. None), w_pool = (\<lambda>_. Inr ())\<rparr>"

definition sample_server_lib :: server_lib where
  "sample_server_lib = \<lparr>sl_parse_query = (\<lambda>q. if q = ''sample'' then Inr sample_document else Inl ''unexpected token''),
     sl_parse_schema = (\<lambda>_. None), sl_doc_display = (\<lambda>_. []), sl_selection_display = (\<lambda>_. []), sl_env = (\<lambda>_. None),
     sl_decode_error = (\<lambda>_. [])\<rparr>"

definition sample_server :: server where
  "sample_server = \<lparr>sv_extern = sample_extern, sv_lib = sample_server_lib, sv_world = sample_world, sv_perm_eq = sample_perm_eq,
     sv_gql_display = (\<lambda>_. []), sv_fuel = 9, sv_metadata = sample_metadata, sv_catalogs = [(''default'', sample_catalog)],
     sv_stringify_numerics = False, sv_infer_function_permissions = True, sv_allowlist_enabled = False\<rparr>"

definition sample_roots :: "mutation_root list" where
  "sample_roots = (case plan_mutation 9 (sample_env ''user'' []) sample_perm_eq sample_delete of Inr rs \<Rightarrow> rs | Inl _ \<Rightarrow> [])"

theorem mutation_all_or_nothing_witness:
  "\<exists>steps. mutation_steps sample_server sample_roots = Inr steps \<and> map fst steps = [''delete_article'']
     \<and> snd (execute_mutation sample_server sample_roots []) = BeginTx # statements steps @ [CommitTx]"
proof -
  have "(case mutation_steps sample_server sample_roots of Inr steps \<Rightarrow> map fst steps = [''delete_article''] | Inl _ \<Rightarrow> False) = True"
    by code_simp
  then obtain steps where steps: "mutation_steps sample_server sample_roots = Inr steps" "map fst steps = [''delete_article'']"
    by (cases "mutation_steps sample_server sample_roots") auto
  have "(case fst (execute_mutation sample_server sample_roots []) of Inr v \<Rightarrow> v = JObject [(''delete_article'', JObject [])] | Inl _ \<Rightarrow> False) = True"
    by code_simp
  then have "\<exists>data. fst (execute_mutation sample_server sample_roots []) = Inr data"
    by (cases "fst (execute_mutation sample_server sample_roots [])") auto
  then show ?thesis using mutation_all_or_nothing [OF steps(1), of "[]"] steps by auto
qed

end
