(* ===== verification/Action_Properties.thy ===== *)
theory Action_Properties
  imports Action Samples
begin

text \<open>
  The typing of action outputs: which webhook answers an output type accepts,
  and what the client receives of an accepted one.
\<close>

section \<open>The specification\<close>

text \<open>A raw answer that fits a type under a selection. Fields nobody selects and undeclared ones may be anything.\<close>

inductive fits :: "custom_types \<Rightarrow> type_ref \<Rightarrow> selection list \<Rightarrow> json \<Rightarrow> bool" for ct where
  fits_null: "\<not> non_null ty \<Longrightarrow> fits ct ty sel JNull"
| fits_list: "(\<And>v. v \<in> set vs \<Longrightarrow> fits ct inner sel v) \<Longrightarrow> fits ct (TList inner b) sel (JArray vs)"
| fits_scalar: "object_named ct name = None \<Longrightarrow> v \<noteq> JNull \<Longrightarrow> scalar_ok name v \<Longrightarrow> fits ct (TNamed name b) sel v"
| fits_object: "object_named ct name = Some obj \<Longrightarrow>
    (\<And>f fd v. SField f \<in> set sel \<Longrightarrow> gf_name f \<noteq> ''__typename'' \<Longrightarrow> declared_field obj (gf_name f) = Some fd \<Longrightarrow>
       jmap_get m (gf_name f) = Some v \<Longrightarrow> fits ct (parse_type (ctf_type fd)) (gf_selection_set f) v) \<Longrightarrow>
    (\<And>f fd. SField f \<in> set sel \<Longrightarrow> gf_name f \<noteq> ''__typename'' \<Longrightarrow> declared_field obj (gf_name f) = Some fd \<Longrightarrow>
       jmap_get m (gf_name f) = None \<Longrightarrow> \<not> non_null (parse_type (ctf_type fd))) \<Longrightarrow>
    fits ct (TNamed name b) sel (JObject m)"

text \<open>
  A value of an output type as the client sees it: an object has exactly the
  selected keys, \<open>__typename\<close> is the object's name, and the declared
  fields have their types.
\<close>

inductive has_type :: "custom_types \<Rightarrow> type_ref \<Rightarrow> selection list \<Rightarrow> json \<Rightarrow> bool"
and has_field_type :: "custom_types \<Rightarrow> object_type \<Rightarrow> gql_field \<Rightarrow> json \<Rightarrow> bool"
for ct where
  type_null: "\<not> non_null ty \<Longrightarrow> has_type ct ty sel JNull"
| type_list: "(\<And>v. v \<in> set vs \<Longrightarrow> has_type ct inner sel v) \<Longrightarrow> has_type ct (TList inner b) sel (JArray vs)"
| type_scalar: "object_named ct name = None \<Longrightarrow> v \<noteq> JNull \<Longrightarrow> scalar_ok name v \<Longrightarrow> has_type ct (TNamed name b) sel v"
| type_object: "object_named ct name = Some obj \<Longrightarrow>
    (\<And>f. SField f \<in> set sel \<Longrightarrow> field_alias f \<in> set (map fst m)) \<Longrightarrow>
    (\<And>k v. (k, v) \<in> set m \<Longrightarrow> \<exists>f. SField f \<in> set sel \<and> field_alias f = k \<and> has_field_type ct obj f v) \<Longrightarrow>
    has_type ct (TNamed name b) sel (JObject m)"
| field_typename: "gf_name f = ''__typename'' \<Longrightarrow> has_field_type ct obj f (JString (ot_name obj))"
| field_declared: "gf_name f \<noteq> ''__typename'' \<Longrightarrow> declared_field obj (gf_name f) = Some fd \<Longrightarrow>
    has_type ct (parse_type (ctf_type fd)) (gf_selection_set f) v \<Longrightarrow> has_field_type ct obj f v"
| field_undeclared: "gf_name f \<noteq> ''__typename'' \<Longrightarrow> declared_field obj (gf_name f) = None \<Longrightarrow> has_field_type ct obj f v"

inductive_cases fits_listE: "fits ct (TList inner b) sel v"
inductive_cases fits_namedE: "fits ct (TNamed name b) sel v"
inductive_cases fits_nullE: "fits ct ty sel JNull"

section \<open>The loop over a selection\<close>

text \<open>One selected field of an object, and the loop as a traversal of the selected fields.\<close>

definition field_value :: "custom_types \<Rightarrow> object_type \<Rightarrow> jmap \<Rightarrow> gql_field \<Rightarrow> string + json" where
  "field_value ct obj m f =
     (if gf_name f = ''__typename'' then Inr (JString (ot_name obj))
      else case declared_field obj (gf_name f) of
        None \<Rightarrow> Inr (entry_or_null m (gf_name f))
      | Some fd \<Rightarrow>
          (case jmap_get m (gf_name f) of
             None \<Rightarrow>
               if non_null (parse_type (ctf_type fd)) then Inl (''field '' @ dquoted (gf_name f) @ '' expected in webhook response, but not found'')
               else Inr JNull
           | Some v \<Rightarrow>
               if v = JNull then
                 (if non_null (parse_type (ctf_type fd)) then Inl (''expecting not null value for field '' @ dquoted (gf_name f)) else Inr JNull)
               else validate ct (parse_type (ctf_type fd)) v (gf_selection_set f)))"

abbreviation inserted :: "(string \<times> json) list \<Rightarrow> jmap \<Rightarrow> jmap" where
  "inserted kvs out \<equiv> put_all (\<lambda>k v m. jmap_insert m k v) kvs out"

lemma put_all_Cons: "put_all put (kv # kvs) m = put_all put kvs (put (fst kv) (snd kv) m)"
  by (simp add: put_all_def case_prod_beta)

lemma project_object_eq:
  "project_object ct obj m items out =
     bindR (traverse (\<lambda>f. bindR (field_value ct obj m f) (\<lambda>v. Inr (field_alias f, v))) (fields_of items))
       (\<lambda>kvs. Inr (JObject (inserted kvs out)))"
proof (induction items arbitrary: out)
  case Nil
  show ?case by (simp add: fields_of_def map_filter_simps put_all_def)
next
  case (Cons item items)
  have step: "project_object ct obj m (SField f # items) out =
      bindR (field_value ct obj m f) (\<lambda>v. project_object ct obj m items (jmap_insert out (field_alias f) v))" for f
    by (auto simp: field_value_def Let_def split: option.splits json.splits)
  show ?case
  proof (cases item)
    case (SField f)
    then have fields: "fields_of (item # items) = f # fields_of items" by (simp add: fields_of_def map_filter_simps)
    show ?thesis
      unfolding SField step fields [unfolded SField] Cons
      by (cases "field_value ct obj m f") (auto simp: put_all_Cons bindR_def split: sum.splits)
  qed (use Cons in \<open>auto simp: fields_of_def map_filter_simps\<close>)
qed

section \<open>Accepted answers are typed\<close>

lemma jmap_insert_member: "(k, v) \<in> set (jmap_insert m k0 v0) \<Longrightarrow> (k, v) = (k0, v0) \<or> (k, v) \<in> set m"
  by (induction m k0 v0 rule: jmap_insert.induct) (auto split: if_splits)

lemma inserted_member: "(k, v) \<in> set (inserted kvs out) \<Longrightarrow> (k, v) \<in> set kvs \<or> (k, v) \<in> set out"
proof (induction kvs arbitrary: out)
  case (Cons kv kvs)
  then show ?case using jmap_insert_member [of k v out "fst kv" "snd kv"] by (auto simp: put_all_Cons)
qed (simp add: put_all_def)

lemma inserted_keys: "set (map fst (inserted kvs out)) = set (map fst kvs) \<union> set (map fst out)"
  by (induction kvs arbitrary: out) (auto simp: put_all_Cons put_all_def [of _ "[]"] jmap_insert_keys simp del: set_map)

lemma field_value_typed:
  assumes "field_value ct obj m f = Inr w"
    and "\<And>(fd :: custom_type_field) v. jmap_get m (gf_name f) = Some v \<Longrightarrow> validate ct (parse_type (ctf_type fd)) v (gf_selection_set f) = Inr w \<Longrightarrow>
           has_type ct (parse_type (ctf_type fd)) (gf_selection_set f) w"
  shows "has_field_type ct obj f w"
  using assms(1) by (auto simp: field_value_def split: if_splits option.splits intro: has_type_has_field_type.intros field_declared [OF _ _ assms(2)])

lemma validate_typed: "validate ct ty v sel = Inr shaped \<Longrightarrow> has_type ct ty sel shaped"
proof (induction "size v" arbitrary: ty v sel shaped rule: less_induct)
  case less
  consider "v = JNull" | (listed) inner b vs where "ty = TList inner b" "v = JArray vs"
    | (scalar) name b where "ty = TNamed name b" "v \<noteq> JNull" "object_named ct name = None"
    | (object) name b obj m where "ty = TNamed name b" "v = JObject m" "object_named ct name = Some obj"
    using less.prems by (cases ty; cases v) (auto simp: got_def split: option.splits)
  then show ?case
  proof cases
    case 1
    then show ?thesis using less.prems by (auto intro: type_null split: if_splits)
  next
    case listed
    then obtain ws where ws: "traverse (\<lambda>item. validate ct inner item sel) vs = Inr ws" "shaped = JArray ws"
      using less.prems by auto
    have "has_type ct inner sel w" if w: "w \<in> set ws" for w
    proof -
      obtain v' where "v' \<in> set vs" "validate ct inner v' sel = Inr w" using traverse_member [OF ws(1) w] by blast
      then show ?thesis using less.hyps size_json_element listed(2) by blast
    qed
    then show ?thesis using listed ws by (auto intro: type_list)
  next
    case scalar
    then show ?thesis using less.prems
      by (cases v) (auto simp: validate_scalar_def got_def intro!: type_scalar split: if_splits)
  next
    case object
    then obtain kvs where kvs: "traverse (\<lambda>f. bindR (field_value ct obj m f) (\<lambda>v. Inr (field_alias f, v))) (fields_of sel) = Inr kvs"
      "shaped = JObject (inserted kvs [])"
      using less.prems by (auto simp: project_object_eq)
    have all2: "list_all2 (\<lambda>f kv. fst kv = field_alias f \<and> field_value ct obj m f = Inr (snd kv)) (fields_of sel) kvs"
      using kvs(1) unfolding traverse_Inr_iff by (rule list_all2_mono) auto
    have "has_field_type ct obj f w" if "field_value ct obj m f = Inr w" for f w
      using that by (rule field_value_typed) (use less.hyps object(2) size_jmap_get in blast)
    then have "\<exists>f. SField f \<in> set sel \<and> field_alias f = fst kv \<and> has_field_type ct obj f (snd kv)" if "kv \<in> set kvs" for kv
      using all2 that unfolding fields_of_set [symmetric] by (fastforce simp: list_all2_conv_all_nth in_set_conv_nth)
    moreover have "field_alias f \<in> set (map fst kvs)" if "SField f \<in> set sel" for f
      using all2 that unfolding fields_of_set [symmetric] by (force simp: list_all2_conv_all_nth in_set_conv_nth)
    ultimately show ?thesis
      using object kvs(2) inserted_keys [of kvs "[]"] by (fastforce intro!: type_object dest!: inserted_member simp del: set_map)
  qed
qed

section \<open>Exactly the fitting answers are accepted\<close>

lemma validate_accepts: "(\<exists>shaped. validate ct ty v sel = Inr shaped) \<longleftrightarrow> fits ct ty sel v"
proof (induction "size v" arbitrary: ty v sel rule: less_induct)
  case less
  show ?case
  proof (cases "v = JNull")
    case True
    then show ?thesis by (auto intro: fits_null elim: fits_nullE)
  next
    case False
    show ?thesis
    proof (cases ty)
      case (TList inner b)
      have "(\<exists>ws. traverse (\<lambda>item. validate ct inner item sel) vs = Inr ws) \<longleftrightarrow> (\<forall>w \<in> set vs. fits ct inner sel w)"
        if "v = JArray vs" for vs
        unfolding traverse_succeeds using less.hyps size_json_element that by blast
      then show ?thesis using False TList by (cases v) (auto intro: fits_list elim: fits_listE)
    next
      case (TNamed name b)
      show ?thesis
      proof (cases "object_named ct name")
        case None
        then show ?thesis using False TNamed
          by (cases v) (auto simp: validate_scalar_def got_def intro: fits_scalar elim!: fits_namedE split: if_splits)
      next
        case (Some obj)
        have field: "(\<exists>w. field_value ct obj m f = Inr w) \<longleftrightarrow>
            gf_name f = ''__typename'' \<or> (\<forall>fd. declared_field obj (gf_name f) = Some fd \<longrightarrow>
              (case jmap_get m (gf_name f) of None \<Rightarrow> \<not> non_null (parse_type (ctf_type fd))
               | Some w \<Rightarrow> fits ct (parse_type (ctf_type fd)) (gf_selection_set f) w))" if "v = JObject m" for m f
          using less.hyps [OF size_jmap_get [of m "gf_name f", folded that]]
          by (auto simp: field_value_def split: option.splits intro: fits_null elim: fits_nullE)
        show ?thesis
        proof (cases v)
          case (JObject m)
          have "(\<exists>shaped. validate ct ty v sel = Inr shaped) \<longleftrightarrow> (\<forall>f. SField f \<in> set sel \<longrightarrow> (\<exists>w. field_value ct obj m f = Inr w))"
            using TNamed Some JObject traverse_succeeds [of "\<lambda>f. bindR (field_value ct obj m f) (\<lambda>v. Inr (field_alias f, v))" "fields_of sel"]
            by (auto simp: project_object_eq fields_of_set)
          then show ?thesis
            unfolding field [OF JObject] using TNamed Some JObject
            by (fastforce intro!: fits_object elim!: fits_namedE split: option.splits)
        qed (use False TNamed Some in \<open>auto simp: got_def elim!: fits_namedE\<close>)
      qed
    qed
  qed
qed

section \<open>Calls\<close>

definition action_request :: "server \<Rightarrow> session \<Rightarrow> action_entry \<Rightarrow> gql_field \<Rightarrow> jmap \<Rightarrow> headers \<Rightarrow> request" where
  "action_request sv session action field vars hs =
     Post (resolve_url_template (sl_env (sv_lib sv)) (act_handler (ae_definition action)))
       (action_payload session action field vars) (action_headers action hs)"

abbreviation output_type :: "action_entry \<Rightarrow> type_ref" where
  "output_type action \<equiv> parse_type (act_output_type (ae_definition action))"

text \<open>
  C14. The answer of an action's webhook is checked against the declared output
  type: it is accepted exactly when it fits the type under the selection, what
  goes on to the client then has the type (exactly the selected keys, declared
  fields of their types, no null where the type forbids it), and an answer
  that does not fit is reported as an error with nothing else requested.
\<close>

theorem action_output_typed:
  assumes "w_http (sv_world sv) (h @ [action_request sv session action field vars hs]) = HttpReply status body"
    and "200 \<le> status" "status < 300"
  shows "if fits ct (output_type action) (gf_selection_set field) body
     then \<exists>shaped. has_type ct (output_type action) (gf_selection_set field) shaped
       \<and> call_action sv session action field vars hs ct h
         = fill_relationships sv session ct (output_type action) shaped body (gf_selection_set field)
             (h @ [action_request sv session action field vars hs])
     else \<exists>message. call_action sv session action field vars hs ct h
         = (Inl (Reply 200 (error_at ''$'' ''unexpected'' message)), h @ [action_request sv session action field vars hs])"
proof -
  let ?v = "validate ct (output_type action) body (gf_selection_set field)"
  have call: "call_action sv session action field vars hs ct h =
      (case ?v of Inl m \<Rightarrow> fail_at ''$'' ''unexpected'' m
       | Inr shaped \<Rightarrow> fill_relationships sv session ct (output_type action) shaped body (gf_selection_set field))
      (h @ [action_request sv session action field vars hs])"
    using assms by (auto simp: call_action_def action_request_def bindIO_def ask_def Let_def)
  show ?thesis
  proof (cases ?v)
    case (Inl m)
    then have "\<not> fits ct (output_type action) (gf_selection_set field) body" unfolding validate_accepts [symmetric] by simp
    then show ?thesis using call Inl by (auto simp: fail_at_def failIO_def)
  next
    case (Inr shaped)
    then have "fits ct (output_type action) (gf_selection_set field) body" unfolding validate_accepts [symmetric] by blast
    then show ?thesis using call Inr validate_typed [OF Inr] by auto
  qed
qed

definition sample_types :: custom_types where
  "sample_types = no_custom_types\<lparr>ct_objects := [\<lparr>ot_name = ''User'',
     ot_fields = [\<lparr>ctf_name = ''id'', ctf_type = ''Int!''\<rparr>, \<lparr>ctf_name = ''names'', ctf_type = ''[String!]''\<rparr>], ot_relationships = []\<rparr>]\<rparr>"

definition sample_action :: action_entry where
  "sample_action = \<lparr>ae_name = ''getUser'', ae_definition = \<lparr>act_kind = None, act_type = None, act_arguments = [],
     act_output_type = ''User!'', act_handler = ''http://hook'', act_forward_client_headers = False, act_headers = [], act_timeout = None\<rparr>,
     ae_permissions = [''user'']\<rparr>"

definition action_world :: "json \<Rightarrow> world" where
  "action_world body = \<lparr>w_http = (\<lambda>_. HttpReply 200 body), w_query = (\<lambda>_. Inl (ClientError ''closed'')), w_control = (\<lambda>_. None),
     w_pool = (\<lambda>_. Inl None)\<rparr>"

definition action_server :: "json \<Rightarrow> server" where
  "action_server body = \<lparr>sv_extern = sample_extern,
     sv_lib = \<lparr>sl_parse_query = (\<lambda>_. Inl []), sl_parse_schema = (\<lambda>_. None), sl_doc_display = (\<lambda>_. []), sl_selection_display = (\<lambda>_. []),
       sl_env = (\<lambda>_. None), sl_decode_error = (\<lambda>_. [])\<rparr>,
     sv_world = action_world body, sv_perm_eq = sample_perm_eq, sv_gql_display = (\<lambda>_. []), sv_fuel = 9,
     sv_metadata = sample_metadata\<lparr>md_actions := [sample_action], md_custom_types := sample_types\<rparr>, sv_catalogs = [],
     sv_stringify_numerics = False, sv_infer_function_permissions = True, sv_allowlist_enabled = False\<rparr>"

definition sample_answer :: json where
  "sample_answer = JObject [(''id'', JNumber (PosInt 7)), (''names'', JArray [JString ''a'']), (''password'', JString ''x'')]"

text \<open>A field that was not selected is not passed on; a null for a non-null field is refused.\<close>

theorem action_output_typed_witness:
  "(\<exists>shaped. has_type sample_types (TNamed ''User'' True) (map leaf_field [''id'', ''names'']) shaped
      \<and> fst (call_action (action_server sample_answer) (sample_session ''user'') sample_action
          (sample_field ''getUser'' [] [''id'', ''names'']) [] [] sample_types []) = Inr shaped
      \<and> json_get shaped ''password'' = None)
   \<and> (\<exists>message. fst (call_action (action_server (JObject [(''id'', JNull)])) (sample_session ''user'') sample_action
          (sample_field ''getUser'' [] [''id'']) [] [] sample_types []) = Inl (Reply 200 (error_at ''$'' ''unexpected'' message)))"
proof
  let ?call = "\<lambda>b ns. call_action (action_server b) (sample_session ''user'') sample_action (sample_field ''getUser'' [] ns) [] [] sample_types []"
  have ty: "output_type sample_action = TNamed ''User'' True" by code_simp
  have sel: "gf_selection_set (sample_field ''getUser'' [] ns) = map leaf_field ns" for ns by (simp add: sample_field_def)
  have reply: "w_http (sv_world (action_server b)) k = HttpReply 200 b" for b k by (simp add: action_server_def action_world_def)
  have shaped: "validate sample_types (TNamed ''User'' True) sample_answer (map leaf_field [''id'', ''names''])
      = Inr (JObject [(''id'', JNumber (PosInt 7)), (''names'', JArray [JString ''a''])])" by code_simp
  have "(case fst (?call sample_answer [''id'', ''names'']) of
      Inr w \<Rightarrow> w = JObject [(''id'', JNumber (PosInt 7)), (''names'', JArray [JString ''a''])] | Inl _ \<Rightarrow> False) = True"
    by code_simp
  then have answer: "fst (?call sample_answer [''id'', ''names'']) = Inr (JObject [(''id'', JNumber (PosInt 7)), (''names'', JArray [JString ''a''])])"
    by (auto split: sum.splits)
  show "\<exists>shaped. has_type sample_types (TNamed ''User'' True) (map leaf_field [''id'', ''names'']) shaped
      \<and> fst (?call sample_answer [''id'', ''names'']) = Inr shaped \<and> json_get shaped ''password'' = None"
    using validate_typed [OF shaped] answer by auto
  have "\<not> fits sample_types (TNamed ''User'' True) (map leaf_field [''id'']) (JObject [(''id'', JNull)])"
  proof -
    have "(case validate sample_types (TNamed ''User'' True) (JObject [(''id'', JNull)]) (map leaf_field [''id'']) of Inl _ \<Rightarrow> True | Inr _ \<Rightarrow> False) = True"
      by code_simp
    then show ?thesis unfolding validate_accepts [symmetric] by auto
  qed
  then show "\<exists>message. fst (?call (JObject [(''id'', JNull)]) [''id'']) = Inl (Reply 200 (error_at ''$'' ''unexpected'' message))"
    using action_output_typed [of "action_server (JObject [(''id'', JNull)])" "[]" "sample_session ''user''" sample_action
        "sample_field ''getUser'' [] [''id'']" "[]" "[]" 200 "JObject [(''id'', JNull)]" sample_types] reply
    by (auto simp: ty sel)
qed

end
