(* ===== verification/Remote_Properties.thy ===== *)
theory Remote_Properties
  imports Remote Samples
begin

text \<open>
  What may be sent to a remote schema for a role: the fields and arguments of
  the role's SDL, with the preset arguments it declares.
\<close>

section \<open>The specification\<close>

fun fragment_free :: "selection \<Rightarrow> bool" where
  "fragment_free (SField (GqlField alias name args ds sel)) = list_all fragment_free sel"
| "fragment_free _ = False"

text \<open>A field of the role's schema, with arguments the role sees, and so on below.\<close>

fun field_allowed :: "types \<Rightarrow> string \<Rightarrow> bool \<Rightarrow> gql_field \<Rightarrow> bool"
and selection_allowed :: "types \<Rightarrow> string \<Rightarrow> bool \<Rightarrow> selection \<Rightarrow> bool" where
  "field_allowed types parent internal (GqlField alias name args ds sel) =
     (case field_on_type types parent name of
        None \<Rightarrow> False
      | Some fdef \<Rightarrow> list_all (\<lambda>a. visible_argument fdef internal (fst a)) args
          \<and> list_all (selection_allowed types (unwrap_type (sdf_type fdef)) internal) sel)"
| "selection_allowed types parent internal (SField f) = (gf_name f = ''__typename'' \<or> field_allowed types parent internal f)"
| "selection_allowed types parent internal _ = False"

text \<open>The preset of an argument; an argument whose type has presets of its own is merged with them.\<close>

definition arg_preset :: "sdl_input_value \<Rightarrow> gql_value option" where
  "arg_preset arg = (case List.map_filter preset_value (siv_directives arg) of [] \<Rightarrow> None | raw # _ \<Rightarrow> Some raw)"

definition plain_arg :: "types \<Rightarrow> sdl_input_value \<Rightarrow> bool" where
  "plain_arg types arg \<longleftrightarrow> input_presets types (unwrap_type (siv_type arg)) = []"

definition presets_set :: "extern \<Rightarrow> types \<Rightarrow> session \<Rightarrow> sdl_field \<Rightarrow> (string \<times> gql_value) list \<Rightarrow> bool" where
  "presets_set x types session fdef args \<longleftrightarrow>
     list_all (\<lambda>arg. case arg_preset arg of
        Some raw \<Rightarrow> \<not> plain_arg types arg \<or> (\<exists>v. resolve_preset_arg x session arg raw = Inr v \<and> map_of args (siv_name arg) = Some v)
      | None \<Rightarrow> True) (sdf_arguments fdef)"

fun field_preset :: "extern \<Rightarrow> types \<Rightarrow> session \<Rightarrow> string \<Rightarrow> gql_field \<Rightarrow> bool"
and selection_preset :: "extern \<Rightarrow> types \<Rightarrow> session \<Rightarrow> string \<Rightarrow> selection \<Rightarrow> bool" where
  "field_preset x types session parent (GqlField alias name args ds sel) =
     (case field_on_type types parent name of
        None \<Rightarrow> False
      | Some fdef \<Rightarrow> presets_set x types session fdef args
          \<and> list_all (selection_preset x types session (unwrap_type (sdf_type fdef))) sel)"
| "selection_preset x types session parent (SField f) = (gf_name f = ''__typename'' \<or> field_preset x types session parent f)"
| "selection_preset x types session parent _ = False"

text \<open>In a schema, the arguments of a field have different names.\<close>

fun type_fields :: "type_definition \<Rightarrow> sdl_field list" where
  "type_fields (TDObject _ fs) = fs"
| "type_fields (TDInterface _ fs) = fs"
| "type_fields _ = []"

definition arguments_distinct :: "types \<Rightarrow> bool" where
  "arguments_distinct types \<longleftrightarrow> list_all (\<lambda>td. list_all (\<lambda>f. distinct (map siv_name (sdf_arguments f))) (type_fields (snd td))) types"

lemma field_on_type_distinct:
  assumes "arguments_distinct types" "field_on_type types parent name = Some fdef"
  shows "distinct (map siv_name (sdf_arguments fdef))"
proof -
  obtain td where "map_of types parent = Some td" "fdef \<in> set (type_fields td)"
    using assms(2) by (auto simp: field_on_type_def dest: find_Some_in split: option.splits type_definition.splits)
  then show ?thesis using assms(1) map_of_SomeD [of types parent td] by (fastforce simp: arguments_distinct_def list_all_iff)
qed

section \<open>Validation\<close>

lemma validate_arguments_Inr: "validate_arguments fdef internal f path = Inr u \<longleftrightarrow>
    list_all (\<lambda>a. visible_argument fdef internal (fst a)) (gf_arguments f)"
  by (auto simp: validate_arguments_def gql_fail_def find_None_iff list_all_iff dest: find_Some_in split: option.splits)

lemma validate_sound:
  "validate_field types parent f path internal = Inr u \<Longrightarrow> fragment_free (SField f) \<Longrightarrow> field_allowed types parent internal f"
  "validate_selection types parent item path internal = Inr u \<Longrightarrow> fragment_free item \<Longrightarrow> selection_allowed types parent internal item"
proof (induction types parent f path internal and types parent item path internal arbitrary: u and u rule: validate_field_validate_selection.induct)
  case (1 types parent_type al name args ds sel path internal)
  then obtain fdef us where fdef: "field_on_type types parent_type name = Some fdef"
    and args: "list_all (\<lambda>a. visible_argument fdef internal (fst a)) args"
    and us: "traverse (\<lambda>item. validate_selection types (unwrap_type (sdf_type fdef)) item path internal) sel = Inr us"
    by (auto simp: gql_fail_def validate_arguments_Inr split: option.splits)
  have "selection_allowed types (unwrap_type (sdf_type fdef)) internal item" if item: "item \<in> set sel" for item
    using 1(1) [OF fdef _ item] traverse_all [OF us item] 1(3) item args by (auto simp: validate_arguments_Inr list_all_iff)
  then show ?case using fdef args by (simp add: list_all_iff)
next
  case (2 types inner sub path internal)
  then show ?case by (cases "gf_name sub = ''__typename''") (simp_all del: append.simps)
qed simp_all

section \<open>Presets\<close>

lemma list_ex_key: "list_ex (\<lambda>a. fst a = k) args \<longleftrightarrow> map_of args k \<noteq> None"
  by (induction args) auto

lemma add_preset_step:
  assumes "add_preset x session arg (args, ch) d = Inr r"
  shows "preset_value d = None \<and> r = (args, ch) \<or>
    (\<exists>raw v. preset_value d = Some raw \<and> resolve_preset_arg x session arg raw = Inr v
       \<and> r = (if map_of args (siv_name arg) \<noteq> None then (args, ch) else (args @ [(siv_name arg, v)], True)))"
  using assms by (auto simp: add_preset_def list_ex_key split: option.splits if_splits)

text \<open>The presets of one argument: the first one is appended, unless the argument is there.\<close>

lemma foldR_add_preset:
  assumes "foldR (add_preset x session arg) (args, ch) ds = Inr (args', ch')"
  shows "if map_of args (siv_name arg) \<noteq> None then args' = args
    else case List.map_filter preset_value ds of
      [] \<Rightarrow> args' = args
    | raw # _ \<Rightarrow> \<exists>v. resolve_preset_arg x session arg raw = Inr v \<and> args' = args @ [(siv_name arg, v)]"
  using assms
proof (induction ds arbitrary: args ch)
  case Nil
  then show ?case by (auto simp: map_filter_simps)
next
  case (Cons d ds)
  then obtain r where add: "add_preset x session arg (args, ch) d = Inr r" and rest: "foldR (add_preset x session arg) r ds = Inr (args', ch')"
    by auto
  from add_preset_step [OF add] consider "preset_value d = None" "r = (args, ch)"
    | raw v where "preset_value d = Some raw" "resolve_preset_arg x session arg raw = Inr v"
        "r = (if map_of args (siv_name arg) \<noteq> None then (args, ch) else (args @ [(siv_name arg, v)], True))"
    by metis
  then show ?case
  proof cases
    case 1
    then show ?thesis using Cons.IH [of args ch] rest by (simp add: map_filter_simps)
  next
    case 2
    then show ?thesis using Cons.IH [of "fst r" "snd r"] rest by (auto simp: map_filter_simps split: if_splits)
  qed
qed

lemma preset_arguments_set:
  assumes "foldR (\<lambda>acc arg. foldR (add_preset x session arg) acc (siv_directives arg)) (args, ch) as = Inr (args', ch')"
  shows "(\<exists>new. args' = args @ new)
    \<and> (\<forall>arg \<in> set as. \<forall>raw. distinct (map siv_name as) \<longrightarrow> arg_preset arg = Some raw \<longrightarrow> map_of args (siv_name arg) = None \<longrightarrow>
         (\<exists>v. resolve_preset_arg x session arg raw = Inr v \<and> map_of args' (siv_name arg) = Some v))"
  using assms
proof (induction as arbitrary: args ch)
  case (Cons a as)
  then obtain args1 ch1 where one: "foldR (add_preset x session a) (args, ch) (siv_directives a) = Inr (args1, ch1)"
    and rest: "foldR (\<lambda>acc arg. foldR (add_preset x session arg) acc (siv_directives arg)) (args1, ch1) as = Inr (args', ch')"
    by auto
  have a: "args1 = args \<or> (\<exists>v. args1 = args @ [(siv_name a, v)])"
    using foldR_add_preset [OF one] by (auto split: if_splits list.splits)
  obtain new where new: "args' = args1 @ new" using Cons.IH [OF rest] by blast
  have "\<exists>v. resolve_preset_arg x session a raw = Inr v \<and> map_of args' (siv_name a) = Some v"
    if raw: "arg_preset a = Some raw" "map_of args (siv_name a) = None" for raw
  proof -
    obtain v where "resolve_preset_arg x session a raw = Inr v" "args1 = args @ [(siv_name a, v)]"
      using foldR_add_preset [OF one] raw unfolding arg_preset_def by (cases "List.map_filter preset_value (siv_directives a)") auto
    then show ?thesis using new raw(2) by (simp add: map_add_def)
  qed
  moreover have "\<exists>v. resolve_preset_arg x session arg raw = Inr v \<and> map_of args' (siv_name arg) = Some v"
    if arg: "arg \<in> set as" "distinct (map siv_name (a # as))" "arg_preset arg = Some raw" "map_of args (siv_name arg) = None" for arg raw
  proof -
    have "siv_name arg \<noteq> siv_name a" using arg(1,2) by (metis distinct.simps(2) image_eqI list.set_map list.simps(9))
    then have "map_of args1 (siv_name arg) = None" using a arg(4) by (auto simp: map_add_def)
    then show ?thesis using Cons.IH [OF rest] arg by auto
  qed
  moreover have "\<exists>new. args' = args @ new" using a new by auto
  ultimately show ?case by auto
qed simp

lemma map_of_map_first: "map_of (map_first_arg k v args) k' = (if k' = k \<and> map_of args k \<noteq> None then Some v else map_of args k')"
  by (induction k v args rule: map_first_arg.induct) auto

lemma merge_input_other:
  "siv_name arg \<noteq> k \<or> plain_arg types arg \<Longrightarrow> map_of (fst (merge_input types st arg)) k = map_of (fst st) k"
  by (cases st) (auto simp: merge_input_def plain_arg_def Let_def map_of_map_first map_add_def
      split: option.splits gql_value.splits json.splits)

lemma merge_inputs_other:
  "(\<And>arg. arg \<in> set as \<Longrightarrow> siv_name arg \<noteq> k \<or> plain_arg types arg) \<Longrightarrow>
     map_of (fst (foldl (merge_input types) st as)) k = map_of (fst st) k"
  by (induction as arbitrary: st) (auto simp: merge_input_other)

lemma client_args_not_preset:
  assumes "list_all (\<lambda>a. visible_argument fdef False (fst a)) args" "distinct (map siv_name (sdf_arguments fdef))"
    and "arg \<in> set (sdf_arguments fdef)" "arg_preset arg = Some raw"
  shows "map_of args (siv_name arg) = None"
proof (rule ccontr)
  assume "map_of args (siv_name arg) \<noteq> None"
  then obtain w where "(siv_name arg, w) \<in> set args" using map_of_SomeD by fastforce
  then obtain b where b: "b \<in> set (sdf_arguments fdef)" "siv_name b = siv_name arg" "\<not> has_preset (siv_directives b)"
    using assms(1) by (auto simp: list_all_iff visible_argument_def list_ex_iff)
  then have "b = arg" using assms(2,3) by (meson distinct_map inj_onD)
  moreover have "has_preset (siv_directives arg)"
    using assms(4) by (auto simp: arg_preset_def has_preset_def list_ex_iff preset_value_def map_filter_def split: list.splits if_splits dest!: filter_eq_ConsD)
  ultimately show False using b(3) by simp
qed

lemma field_presets_set:
  assumes "field_presets x types session fdef args st = Inr (args', st')"
    and "list_all (\<lambda>a. visible_argument fdef False (fst a)) args" "distinct (map siv_name (sdf_arguments fdef))"
  shows "presets_set x types session fdef args'"
proof -
  obtain args1 ch1 where one: "foldR (\<lambda>acc arg. foldR (add_preset x session arg) acc (siv_directives arg)) (args, fst st) (sdf_arguments fdef)
      = Inr (args1, ch1)" and merged: "(args', st') = foldl (merge_input types) (args1, ch1, snd st) (sdf_arguments fdef)"
    using assms(1) by (auto simp: field_presets_def preset_arguments_def)
  have "\<exists>v. resolve_preset_arg x session arg raw = Inr v \<and> map_of args' (siv_name arg) = Some v"
    if arg: "arg \<in> set (sdf_arguments fdef)" "arg_preset arg = Some raw" "plain_arg types arg" for arg raw
  proof -
    have "\<exists>v. resolve_preset_arg x session arg raw = Inr v \<and> map_of args1 (siv_name arg) = Some v"
      using preset_arguments_set [OF one] arg assms(3) client_args_not_preset [OF assms(2,3) arg(1,2)] by blast
    moreover have "siv_name b \<noteq> siv_name arg \<or> plain_arg types b" if "b \<in> set (sdf_arguments fdef)" for b
      using assms(3) arg that by (auto simp: distinct_map dest: inj_onD)
    ultimately show ?thesis
      using merge_inputs_other [of "sdf_arguments fdef" "siv_name arg" types "(args1, ch1, snd st)"] merged by (metis fst_conv)
  qed
  then show ?thesis by (auto simp: presets_set_def list_all_iff split: option.splits)
qed

section \<open>The walk\<close>

lemma preset_field_name: "preset_field x types parent session f st = Inr (f', st') \<Longrightarrow> gf_name f' = gf_name f"
  by (cases f) (auto split: option.splits prod.splits)

text \<open>Fields are walked one by one; fragments stay as they are.\<close>

definition walked :: "extern \<Rightarrow> types \<Rightarrow> string \<Rightarrow> session \<Rightarrow> selection \<Rightarrow> selection \<Rightarrow> bool" where
  "walked x types parent session i i' \<longleftrightarrow>
     (case i of SField f \<Rightarrow> \<exists>f' s s'. i' = SField f' \<and> preset_field x types parent session f s = Inr (f', s') | _ \<Rightarrow> i' = i)"

lemma walked_field: "walked x types parent session i (SField f') \<Longrightarrow> \<exists>f s s'. i = SField f \<and> preset_field x types parent session f s = Inr (f', s')"
  by (cases i) (auto simp: walked_def simp del: split_paired_Ex)

lemma preset_selections_items:
  "preset_selections x types parent session items st = Inr (items', st') \<Longrightarrow> list_all2 (walked x types parent session) items items'"
proof (induction items arbitrary: st items')
  case (Cons item items)
  show ?case
  proof (cases item)
    case (SField f)
    then obtain f' s1 rest where "preset_field x types parent session f st = Inr (f', s1)"
      and rest: "preset_selections x types parent session items s1 = Inr (rest, st')" and "items' = SField f' # rest"
      using Cons.prems by (auto split: prod.splits)
    then show ?thesis using SField Cons.IH [OF rest] by (auto simp: walked_def simp del: split_paired_Ex)
  next
    case (SFragmentSpread n ds)
    then obtain rest where rest: "preset_selections x types parent session items st = Inr (rest, st')" and "items' = item # rest"
      using Cons.prems by (auto split: prod.splits)
    then show ?thesis using SFragmentSpread Cons.IH [OF rest] by (auto simp: walked_def)
  next
    case (SInlineFragment t ds sel)
    then obtain rest where rest: "preset_selections x types parent session items st = Inr (rest, st')" and "items' = item # rest"
      using Cons.prems by (auto split: prod.splits)
    then show ?thesis using SInlineFragment Cons.IH [OF rest] by (auto simp: walked_def)
  qed
qed auto

lemma walked_member:
  assumes "preset_selections x types parent session items st = Inr (items', st')" "i' \<in> set items'"
  shows "\<exists>i \<in> set items. walked x types parent session i i'"
proof -
  obtain n where "n < length items'" "i' = items' ! n" using assms(2) by (auto simp: in_set_conv_nth)
  then show ?thesis using preset_selections_items [OF assms(1)] by (auto simp: list_all2_conv_all_nth intro!: bexI [of _ "items ! n"])
qed

lemma preset_field_sound:
  assumes "arguments_distinct types"
  shows "preset_field x types parent session f st = Inr (f', st') \<Longrightarrow> field_allowed types parent False f \<Longrightarrow>
    field_preset x types session parent f'"
proof (induction "size f" arbitrary: parent f st f' st' rule: less_induct)
  case less
  obtain al name args ds sel where f: "f = GqlField al name args ds sel" by (cases f)
  obtain fdef where fdef: "field_on_type types parent name = Some fdef"
    and args: "list_all (\<lambda>a. visible_argument fdef False (fst a)) args"
    and sel: "list_all (selection_allowed types (unwrap_type (sdf_type fdef)) False) sel"
    using less.prems(2) f by (auto split: option.splits)
  obtain args' st1 sel' where presets: "field_presets x types session fdef args st = Inr (args', st1)"
    and walk: "preset_selections x types (unwrap_type (sdf_type fdef)) session sel st1 = Inr (sel', st')"
    and f': "f' = GqlField al name args' ds sel'"
    using less.prems(1) f fdef by (auto split: prod.splits)
  have "selection_preset x types session (unwrap_type (sdf_type fdef)) i'" if i': "i' \<in> set sel'" for i'
  proof -
    obtain i where i: "i \<in> set sel" "walked x types (unwrap_type (sdf_type fdef)) session i i'"
      using walked_member [OF walk i'] by blast
    have allowed: "selection_allowed types (unwrap_type (sdf_type fdef)) False i" using sel i(1) by (simp add: list_all_iff)
    then obtain g where "i = SField g" by (metis selection.exhaust selection_allowed.simps(2,3))
    then obtain g' s s' where g: "i = SField g" "i' = SField g'"
        "preset_field x types (unwrap_type (sdf_type fdef)) session g s = Inr (g', s')"
      using i(2) by (auto simp: walked_def simp del: split_paired_Ex)
    have "size i < size f" using i(1) f by (auto simp: less_Suc_eq_le dest: size_list_estimation' [where f = size, OF _ order_refl])
    then show ?thesis using less.hyps [OF _ g(3)] preset_field_name [OF g(3)] allowed g by auto
  qed
  then show ?case
    using f' fdef field_presets_set [OF presets args field_on_type_distinct [OF assms fdef]] by (simp add: list_all_iff)
qed

section \<open>What changes\<close>

text \<open>The flag is raised by every change, to the fields or to the variables.\<close>

definition flagged :: "preset_state \<Rightarrow> preset_state \<Rightarrow> 'a \<Rightarrow> 'a \<Rightarrow> bool" where
  "flagged st st' a a' \<longleftrightarrow> (fst st \<longrightarrow> fst st') \<and> (\<not> fst st' \<longrightarrow> a' = a \<and> snd st' = snd st)"

lemma add_preset_flag:
  "foldR (add_preset x session arg) acc ds = Inr acc' \<Longrightarrow> (snd acc \<longrightarrow> snd acc') \<and> (\<not> snd acc' \<longrightarrow> fst acc' = fst acc)"
proof (induction ds arbitrary: acc)
  case (Cons d ds)
  then obtain r where add: "add_preset x session arg (fst acc, snd acc) d = Inr r" and "foldR (add_preset x session arg) r ds = Inr acc'" by auto
  then show ?case using Cons.IH [of r] add_preset_step [OF add] by (auto split: if_splits)
qed simp

lemma preset_arguments_flag:
  "foldR (\<lambda>acc arg. foldR (add_preset x session arg) acc (siv_directives arg)) acc as = Inr acc' \<Longrightarrow>
     (snd acc \<longrightarrow> snd acc') \<and> (\<not> snd acc' \<longrightarrow> fst acc' = fst acc)"
proof (induction as arbitrary: acc)
  case (Cons a as)
  then obtain r where add: "foldR (add_preset x session a) acc (siv_directives a) = Inr r"
    and "foldR (\<lambda>acc arg. foldR (add_preset x session arg) acc (siv_directives arg)) r as = Inr acc'" by auto
  then show ?case using Cons.IH [of r] add_preset_flag [OF add] by auto
qed simp

lemma merge_input_flag: "flagged (snd st) (snd (merge_input types st arg)) (fst st) (fst (merge_input types st arg))"
  by (cases st) (auto simp: flagged_def merge_input_def Let_def split: option.splits gql_value.splits json.splits)

lemma flagged_trans: "flagged s s1 a a1 \<Longrightarrow> flagged s1 s2 a1 a2 \<Longrightarrow> flagged s s2 a a2"
  by (auto simp: flagged_def)

lemma merge_inputs_flag: "flagged (snd st) (snd (foldl (merge_input types) st as)) (fst st) (fst (foldl (merge_input types) st as))"
proof (induction as arbitrary: st)
  case (Cons a as)
  show ?case using flagged_trans [OF merge_input_flag Cons.IH] by simp
qed (simp add: flagged_def)

lemma field_presets_flag:
  assumes "field_presets x types session fdef args st = Inr (args', st')"
  shows "flagged st st' args args'"
proof -
  obtain args1 ch1 where one: "foldR (\<lambda>acc arg. foldR (add_preset x session arg) acc (siv_directives arg)) (args, fst st) (sdf_arguments fdef)
      = Inr (args1, ch1)" and merged: "(args', st') = foldl (merge_input types) (args1, ch1, snd st) (sdf_arguments fdef)"
    using assms by (auto simp: field_presets_def preset_arguments_def)
  have "flagged st (ch1, snd st) args args1" using preset_arguments_flag [OF one] by (auto simp: flagged_def)
  moreover have "flagged (ch1, snd st) st' args1 args'"
    using merge_inputs_flag [of "(args1, ch1, snd st)" types "sdf_arguments fdef"] by (simp flip: merged)
  ultimately show ?thesis by (rule flagged_trans)
qed

lemma preset_flag:
  "preset_field x types parent session f st = Inr (f', st') \<Longrightarrow> flagged st st' f f'"
  "preset_selections x types parent session items st = Inr (items', st') \<Longrightarrow> flagged st st' items items'"
proof (induction x types parent session f st and x types parent session items st arbitrary: f' st' and items' st' rule: preset_field_preset_selections.induct)
  case (1 x types parent session al name args ds sel st)
  show ?case
  proof (cases "field_on_type types parent name")
    case None
    then show ?thesis using 1 by (auto simp: flagged_def)
  next
    case (Some fdef)
    then obtain args' st1 sel' where presets: "field_presets x types session fdef args st = Inr (args', st1)"
      and walk: "preset_selections x types (unwrap_type (sdf_type fdef)) session sel st1 = Inr (sel', st')"
      and f': "f' = GqlField al name args' ds sel'"
      using 1(2) by (auto split: prod.splits)
    have "flagged st1 st' sel sel'" using 1(1) [OF Some presets _ walk] by simp
    then show ?thesis using field_presets_flag [OF presets] f' by (auto simp: flagged_def)
  qed
next
  case (2 x types parent session st)
  then show ?case by (simp add: flagged_def)
next
  case (3 x types parent session f items st)
  then obtain g s1 rest where g: "preset_field x types parent session f st = Inr (g, s1)"
    and rest: "preset_selections x types parent session items s1 = Inr (rest, st')" and items': "items' = SField g # rest"
    by (auto split: prod.splits)
  have "flagged st s1 f g" "flagged s1 st' items rest" using 3(1) [OF g] 3(2) [OF g _ rest] by auto
  then show ?case using items' by (auto simp: flagged_def)
qed (fastforce simp: flagged_def split: prod.splits)+

section \<open>Documents\<close>

fun def_selection :: "gql_definition \<Rightarrow> selection list" where
  "def_selection (DefOperation (OpQuery _ _ sel)) = sel"
| "def_selection (DefOperation (OpSelectionSet sel)) = sel"
| "def_selection _ = []"

definition fragment_free_doc :: "gql_document \<Rightarrow> bool" where
  "fragment_free_doc doc = list_all (\<lambda>d. list_all fragment_free (def_selection d)) doc"

lemma data_roots_iff: "f \<in> set (data_roots doc) \<longleftrightarrow> \<not> is_intro (gf_name f) \<and> (\<exists>d \<in> set doc. SField f \<in> set (def_selection d))"
  by (induction doc rule: data_roots.induct) (auto simp: fields_of_set)

lemma data_roots_stripped: "set (data_roots (strip_introspection_roots doc)) = set (data_roots doc)"
proof -
  have "SField f \<in> set (def_selection (map_roots (filter (\<lambda>i. \<not> is_intro_selection i)) d)) \<longleftrightarrow> SField f \<in> set (def_selection d)"
    if "\<not> is_intro (gf_name f)" for f d
    using that by (cases d rule: def_selection.cases) auto
  then have "f \<in> set (data_roots (strip_introspection_roots doc)) \<longleftrightarrow> f \<in> set (data_roots doc)" for f
    unfolding data_roots_iff strip_introspection_roots_def set_map by blast
  then show ?thesis by blast
qed

text \<open>Definitions are walked one by one.\<close>

definition def_walked :: "extern \<Rightarrow> types \<Rightarrow> string \<Rightarrow> session \<Rightarrow> gql_definition \<Rightarrow> gql_definition \<Rightarrow> bool" where
  "def_walked x types query_type session d d' \<longleftrightarrow>
     (\<exists>sel' s s'. preset_selections x types query_type session (def_selection d) s = Inr (sel', s') \<and> d' = map_roots (\<lambda>_. sel') d)"

lemma preset_definition_walked:
  assumes "preset_definition x types query_type session (pre, st) d = Inr r"
  shows "\<exists>d'. fst r = pre @ [d'] \<and> def_walked x types query_type session d d' \<and> flagged st (snd r) d d'"
proof -
  obtain sel' st' where sel': "preset_selections x types query_type session (def_selection d) st = Inr (sel', st')"
    and r: "r = (pre @ [map_roots (\<lambda>_. sel') d], st')"
    using assms by (cases d rule: def_selection.cases) (auto simp: preset_definition_def)
  have "flagged st st' d (map_roots (\<lambda>_. sel') d)"
    using preset_flag(2) [OF sel'] by (cases d rule: def_selection.cases) (auto simp: flagged_def)
  then show ?thesis using sel' r by (auto simp: def_walked_def simp del: split_paired_Ex)
qed

lemma apply_presets_walked:
  "foldR (preset_definition x types query_type session) (pre, st) ds = Inr (out, st') \<Longrightarrow>
     \<exists>ds'. out = pre @ ds' \<and> list_all2 (def_walked x types query_type session) ds ds' \<and> flagged st st' ds ds'"
proof (induction ds arbitrary: pre st)
  case Nil
  then show ?case by (auto simp: flagged_def)
next
  case (Cons d ds)
  then obtain r where r: "preset_definition x types query_type session (pre, st) d = Inr r"
    and rest: "foldR (preset_definition x types query_type session) (fst r, snd r) ds = Inr (out, st')" by auto
  obtain d' where d': "fst r = pre @ [d']" "def_walked x types query_type session d d'" "flagged st (snd r) d d'"
    using preset_definition_walked [OF r] by blast
  obtain ds' where "out = fst r @ ds'" "list_all2 (def_walked x types query_type session) ds ds'" "flagged (snd r) st' ds ds'"
    using Cons.IH [OF rest] by blast
  then show ?case using d' by (auto simp: flagged_def intro!: exI [of _ "d' # ds'"])
qed

lemma apply_presets_sound:
  assumes "apply_presets x doc types query_type session vars = Inr (rewritten, changed, vars')"
    and "list_all (field_allowed types query_type False) (data_roots doc)" "arguments_distinct types"
  shows "list_all (field_preset x types session query_type) (data_roots rewritten)"
  unfolding list_all_iff
proof
  fix f' assume "f' \<in> set (data_roots rewritten)"
  then obtain d' where f': "\<not> is_intro (gf_name f')" "d' \<in> set rewritten" "SField f' \<in> set (def_selection d')"
    by (auto simp: data_roots_iff)
  have "list_all2 (def_walked x types query_type session) doc rewritten"
    using assms(1) apply_presets_walked unfolding apply_presets_def by (metis append_Nil)
  then obtain d where d: "d \<in> set doc" "def_walked x types query_type session d d'"
    using f'(2) by (auto simp: list_all2_conv_all_nth in_set_conv_nth) metis
  then obtain sel' s s' where sel': "preset_selections x types query_type session (def_selection d) s = Inr (sel', s')" "d' = map_roots (\<lambda>_. sel') d"
    unfolding def_walked_def by blast
  then have "SField f' \<in> set sel'" using f'(3) by (cases d rule: def_selection.cases) auto
  then obtain i where i: "i \<in> set (def_selection d)" "walked x types query_type session i (SField f')" using walked_member [OF sel'(1)] by blast
  obtain f s1 s2 where f: "i = SField f" "preset_field x types query_type session f s1 = Inr (f', s2)"
    using walked_field [OF i(2)] by blast
  then have "field_allowed types query_type False f"
    using assms(2) f'(1) d(1) i(1) preset_field_name [OF f(2)] by (auto simp: list_all_iff data_roots_iff)
  then show "field_preset x types session query_type f'" using preset_field_sound [OF assms(3) f(2)] by blast
qed

section \<open>Properties\<close>


text \<open>A schema of users, selected by the session's user id or by name.\<close>

definition preset_id :: sdl_input_value where
  "preset_id = \<lparr>siv_name = ''id'', siv_type = NamedType ''Int'',
     siv_directives = [\<lparr>gd_name = ''preset'', gd_arguments = [(''value'', GString ''x-hasura-user-id'')]\<rparr>]\<rparr>"

definition plain_input :: "string \<Rightarrow> sdl_input_value" where
  "plain_input n = \<lparr>siv_name = n, siv_type = NamedType ''String'', siv_directives = []\<rparr>"

definition plain_output :: "string \<Rightarrow> sdl_field" where
  "plain_output n = \<lparr>sdf_name = n, sdf_arguments = [], sdf_type = NamedType ''String''\<rparr>"

definition sample_sdl :: sdl_document where
  "sample_sdl = [TypeDef (TDObject ''Query'' [\<lparr>sdf_name = ''user'', sdf_arguments = [preset_id, plain_input ''name''], sdf_type = NamedType ''User''\<rparr>]),
     TypeDef (TDObject ''User'' [plain_output ''id'', plain_output ''name''])]"

definition sample_remote_lib :: "(gql_document \<Rightarrow> string) \<Rightarrow> server_lib" where
  "sample_remote_lib display = \<lparr>sl_parse_query = (\<lambda>_. Inl []), sl_parse_schema = (\<lambda>s. if s = ''sdl'' then Some sample_sdl else None),
     sl_doc_display = display, sl_selection_display = (\<lambda>_. []), sl_env = (\<lambda>_. None), sl_decode_error = (\<lambda>_. [])\<rparr>"

definition sample_remote :: "remote_schema_customization option \<Rightarrow> string \<Rightarrow> remote_schema" where
  "sample_remote c sdl = \<lparr>rs_name = ''users'', rs_definition = \<lparr>rsd_url = Some ''http://users'', rsd_url_from_env = None,
     rsd_forward_client_headers = False, rsd_timeout_seconds = None, rsd_customization = c\<rparr>,
     rs_permissions = [\<lparr>rsp_role = ''user'', rsp_schema = sdl\<rparr>]\<rparr>"

definition users_doc :: "selection list \<Rightarrow> gql_document" where
  "users_doc others = [DefOperation (OpQuery None [] (nested_field ''user'' [(''name'', GString ''a'')] [leaf_field ''name''] # others))]"


lemmas remote_defs = match_remote_def match_remote_with_def try_remote_schema_def upstream_doc_def storage_after_def users_doc_def nested_field_def
  leaf_field_def sample_remote_def sample_remote_lib_def sample_session_def sample_sdl_def type_map_def root_type_name_def
  field_on_type_def preset_id_def plain_input_def plain_output_def validate_roots_def validate_arguments_def visible_argument_def
  has_preset_def is_intro_def fields_of_def apply_presets_def preset_definition_def field_presets_def preset_arguments_def add_preset_def
  preset_value_def resolve_preset_arg_def is_session_ref_def char_boundary_def session_var_def coerce_preset_def parse_i32_def merge_input_def
  input_presets_def remote_url_def Let_def map_filter_simps to_ascii_lowercase_def eq_ignore_ascii_case_def gql_fail_def ascii_lower_def is_digit_def

text \<open>
  C24. What a client selects through a fragment is not validated: with any
  selection in an inline fragment next to a permitted field, the operation is
  accepted, and the document that is sent contains the selection as it came.
\<close>

theorem remote_fragments_unvalidated:
  "\<exists>target f. match_remote sample_extern (sample_remote_lib display) (sample_metadata\<lparr>md_remote_schemas := [sample_remote None ''sdl'']\<rparr>)
      (sample_session ''user'') (users_doc [SInlineFragment None [] sel]) [] = Some (Inr (target, []))
    \<and> rt_rewritten_query target = Some (display [DefOperation (OpQuery None [] [SField f, SInlineFragment None [] sel])])"
  by (auto simp: remote_defs)

end
