(* ===== verification/Introspection_Properties.thy ===== *)
theory Introspection_Properties
  imports Introspection Joins Samples
begin

text \<open>What a role can learn from introspection.\<close>

section \<open>Reading a schema\<close>

definition schema_types :: "json \<Rightarrow> json list" where
  "schema_types schema = (case Option.bind (json_get schema ''types'') as_array of Some ts \<Rightarrow> ts | None \<Rightarrow> [])"

definition type_name :: "json \<Rightarrow> string" where
  "type_name t = (case Option.bind (json_get t ''name'') as_str of Some n \<Rightarrow> n | None \<Rightarrow> [])"

text \<open>The names of the fields, input fields or enum values of a type.\<close>

definition member_names :: "string \<Rightarrow> json \<Rightarrow> string list" where
  "member_names key t = (case Option.bind (json_get t key) as_array of Some ms \<Rightarrow> map type_name ms | None \<Rightarrow> [])"

lemma type_name_simps [simp]:
  "type_name (field_json n args ty) = n" "type_name (input_value n ty) = n"
  "type_name (object_type_json n fs) = n" "type_name (input_object_json n ins) = n"
  "type_name (scalar_type_json n) = n" "type_name (enum_type_json n vs) = n"
  by (simp_all add: type_name_def field_json_def input_value_def object_type_json_def input_object_json_def scalar_type_json_def
      enum_type_json_def type_json_def)

lemma member_names_simps [simp]:
  "member_names ''fields'' (object_type_json n fs) = map type_name fs"
  "member_names ''inputFields'' (input_object_json n ins) = map type_name ins"
  "member_names ''enumValues'' (enum_type_json n vs) = vs"
  by (simp_all add: member_names_def object_type_json_def input_object_json_def enum_type_json_def type_json_def comp_def)
     (simp add: type_name_def)

section \<open>What may be shown\<close>

definition may_insert :: "planner \<Rightarrow> perm_eq \<Rightarrow> session \<Rightarrow> table_entry \<Rightarrow> bool" where
  "may_insert pl pq session entry \<longleftrightarrow>
     resolve_role_perm (pl_inherited_roles pl) (pq_insert pq) (te_insert_permissions entry) (insert_usable session) (se_role session) \<noteq> None"

definition may_update :: "planner \<Rightarrow> perm_eq \<Rightarrow> session \<Rightarrow> table_entry \<Rightarrow> bool" where
  "may_update pl pq session entry \<longleftrightarrow>
     resolve_role_perm (pl_inherited_roles pl) (pq_update pq) (te_update_permissions entry) (\<lambda>_. True) (se_role session) \<noteq> None"

definition may_delete :: "planner \<Rightarrow> perm_eq \<Rightarrow> session \<Rightarrow> table_entry \<Rightarrow> bool" where
  "may_delete pl pq session entry \<longleftrightarrow>
     resolve_role_perm (pl_inherited_roles pl) (pq_delete pq) (te_delete_permissions entry) (\<lambda>_. True) (se_role session) \<noteq> None"

text \<open>A query root: of a table the role may select from, and one the planner knows.\<close>

definition query_shown :: "planner \<Rightarrow> table_ctx \<Rightarrow> string \<Rightarrow> bool" where
  "query_shown pl ctx f \<longleftrightarrow> map_of (pl_roots pl) f \<noteq> None \<and>
     (let names = root_names_of (tx_entry ctx); pk = ti_primary_key (tx_info ctx) in
      f = rn_select names
      \<or> f = rn_select_by_pk names \<and> pk \<noteq> [] \<and> list_all (column_allowed ctx) pk
      \<or> f = rn_select_aggregate names \<and> allow_aggregations ctx)"

definition mutation_shown :: "planner \<Rightarrow> perm_eq \<Rightarrow> session \<Rightarrow> table_ctx \<Rightarrow> string \<Rightarrow> bool" where
  "mutation_shown pl pq session ctx f \<longleftrightarrow>
     (let entry = tx_entry ctx; base = table_base_name entry in
      f = ''insert_'' @ base \<and> may_insert pl pq session entry
      \<or> f = ''update_'' @ base \<and> may_update pl pq session entry
      \<or> f = ''delete_'' @ base \<and> may_delete pl pq session entry)"

text \<open>A type of a table: its object type, what filters and orders it, aggregates, and the inputs of mutations.\<close>

definition table_type_shown :: "planner \<Rightarrow> perm_eq \<Rightarrow> session \<Rightarrow> table_ctx \<Rightarrow> json \<Rightarrow> bool" where
  "table_type_shown pl pq session ctx t \<longleftrightarrow>
     (let entry = tx_entry ctx; base = table_base_name entry; n = type_name t in
      n = base \<and> list_all (\<lambda>f. column_allowed ctx f \<or> visible_target pl session ctx f \<noteq> None) (member_names ''fields'' t)
      \<or> n = base @ ''_select_column'' \<and> list_all (column_allowed ctx) (member_names ''enumValues'' t)
      \<or> n = base @ ''_order_by'' \<and> list_all (column_allowed ctx) (member_names ''inputFields'' t)
      \<or> n = base @ ''_bool_exp'' \<and> list_all (\<lambda>f. column_allowed ctx f \<or> f \<in> {''_and'', ''_or'', ''_not''}) (member_names ''inputFields'' t)
      \<or> n \<in> {base @ ''_aggregate'', base @ ''_aggregate_fields''} \<and> allow_aggregations ctx
      \<or> n \<in> {base @ ''_insert_input'', base @ ''_mutation_response''} \<and> may_insert pl pq session entry
      \<or> n = base @ ''_set_input'' \<and> may_update pl pq session entry)"

text \<open>The tables a role may select from.\<close>

definition role_tables :: "planner \<Rightarrow> session \<Rightarrow> table_ctx list" where
  "role_tables pl session = List.map_filter (\<lambda>idx. table_ctx_of pl idx (se_role session)) [0..<length (pl_tables pl)]"

definition builtin_type :: "json \<Rightarrow> bool" where
  "builtin_type t \<longleftrightarrow> t = enum_type_json ''order_by'' ORDER_BY_VALUES \<or> (\<exists>scalar. t \<in> set (comparison_types scalar))"

definition type_shown :: "planner \<Rightarrow> perm_eq \<Rightarrow> session \<Rightarrow> json \<Rightarrow> bool" where
  "type_shown pl pq session t \<longleftrightarrow>
     builtin_type t
   \<or> type_name t \<in> {''query_root'', ''subscription_root''}
       \<and> list_all (\<lambda>f. list_ex (\<lambda>ctx. query_shown pl ctx f) (role_tables pl session)) (member_names ''fields'' t)
   \<or> type_name t = ''mutation_root''
       \<and> list_all (\<lambda>f. list_ex (\<lambda>ctx. mutation_shown pl pq session ctx f) (role_tables pl session)) (member_names ''fields'' t)
   \<or> list_ex (\<lambda>ctx. table_type_shown pl pq session ctx t) (role_tables pl session)"

section \<open>Roots the planner knows\<close>

lemma dom_hm_insert: "dom (map_of (hm_insert k v m)) = insert k (dom (map_of m))"
  by auto

lemma function_roots_mono: "dom (map_of roots) \<subseteq> dom (map_of (fst (fold add_function_roots fs (roots, ms))))"
proof (induction fs arbitrary: roots ms)
  case (Cons f fs)
  obtain r m where rm: "add_function_roots f (roots, ms) = (r, m)" by fastforce
  then have "dom (map_of roots) \<subseteq> dom (map_of r)"
    by (auto simp: add_function_roots_def Let_def case_prod_beta dom_hm_insert split: if_splits)
  also have "\<dots> \<subseteq> dom (map_of (fst (fold add_function_roots fs (r, m))))" by (rule Cons)
  finally show ?case using rm by simp
qed simp

lemma table_roots_known:
  "dom (map_of (fold add_table_roots es m)) =
     dom (map_of m) \<union> (\<Union>(i, e) \<in> set es. {rn_select (root_names_of e), rn_select_by_pk (root_names_of e), rn_select_aggregate (root_names_of e)})"
  by (induction es arbitrary: m) (auto simp: add_table_roots_def Let_def case_prod_beta dom_hm_insert)

definition query_names :: "table_entry \<Rightarrow> string set" where
  "query_names e = {rn_select (root_names_of e), rn_select_by_pk (root_names_of e), rn_select_aggregate (root_names_of e)}"

definition roots_known :: "planner \<Rightarrow> bool" where
  "roots_known pl \<longleftrightarrow> (\<forall>e \<in> set (pl_tables pl). query_names e \<subseteq> dom (map_of (pl_roots pl)))"

lemma enumerate_member: "e \<in> set es \<Longrightarrow> \<exists>i. (i, e) \<in> set (enumerate 0 es)"
  using in_set_enumerate_eq [of _ 0 es] by (force simp: in_set_conv_nth)

lemma roots_known_new: "roots_known (planner_new md cat)"
proof -
  let ?tables = "case md_sources md of [] \<Rightarrow> [] | s # _ \<Rightarrow> src_tables s"
  let ?roots = "fold add_table_roots (enumerate 0 ?tables) []"
  have "query_names e \<subseteq> dom (map_of ?roots)" if e: "e \<in> set ?tables" for e
  proof -
    obtain i where "(i, e) \<in> set (enumerate 0 ?tables)" using enumerate_member [OF e] ..
    then show ?thesis unfolding table_roots_known query_names_def by blast
  qed
  then have "query_names e \<subseteq> dom (map_of (fst (fold add_function_roots fs (?roots, []))))" if "e \<in> set ?tables" for e fs
    using function_roots_mono [of ?roots fs "[]"] that by (meson order_trans)
  then show ?thesis by (simp add: roots_known_def planner_new_def Let_def case_prod_beta)
qed

lemma roots_known_server: "roots_known (server_planner sv relay)"
  using roots_known_new [of "sv_metadata sv" "default_catalog sv"] by (simp add: roots_known_def server_planner_def)

section \<open>Every table adds only what may be shown\<close>

lemma allowed_columns_allowed: "c \<in> set (allowed_columns ctx) \<Longrightarrow> column_allowed ctx (ci_name c)"
  by (simp add: allowed_columns_def)

lemma select_types_shown:
  assumes "t \<in> set (select_types pl session ctx (tx_entry ctx) (table_base_name (tx_entry ctx)))"
  shows "table_type_shown pl pq session ctx t"
proof -
  let ?base = "table_base_name (tx_entry ctx)"
  have "list_all (\<lambda>f. column_allowed ctx f \<or> visible_target pl session ctx f \<noteq> None)
      (map type_name (column_fields ctx @ object_rel_fields pl session ctx (tx_entry ctx) @ array_rel_fields pl session ctx (tx_entry ctx)))"
    by (auto simp: list_all_iff column_fields_def object_rel_fields_def array_rel_fields_def map_filter_def Let_def dest: allowed_columns_allowed)
  moreover have "list_all (column_allowed ctx) (map ci_name (allowed_columns ctx))"
    by (auto simp: list_all_iff dest: allowed_columns_allowed)
  moreover have "list_all (\<lambda>f. column_allowed ctx f \<or> f \<in> {''_and'', ''_or'', ''_not''}) (map type_name (bool_exp_inputs ?base ctx))"
    by (auto simp: list_all_iff bool_exp_inputs_def dest: allowed_columns_allowed)
  ultimately show ?thesis
    using assms unfolding select_types_def table_type_shown_def Let_def by simp (elim disjE; simp add: comp_def)
qed

lemma mutation_types_shown:
  "t \<in> set (aggregate_types (table_base_name (tx_entry ctx))) \<Longrightarrow> allow_aggregations ctx \<Longrightarrow> table_type_shown pl pq session ctx t"
  "t \<in> set (insert_types ctx (table_base_name (tx_entry ctx))) \<Longrightarrow> may_insert pl pq session (tx_entry ctx) \<Longrightarrow> table_type_shown pl pq session ctx t"
  "t = input_object_json (table_base_name (tx_entry ctx) @ ''_set_input'') ins \<Longrightarrow> may_update pl pq session (tx_entry ctx)
     \<Longrightarrow> table_type_shown pl pq session ctx t"
  unfolding aggregate_types_def insert_types_def table_type_shown_def Let_def by (simp; elim disjE; simp)+

definition parts_shown :: "planner \<Rightarrow> perm_eq \<Rightarrow> session \<Rightarrow> schema_parts \<Rightarrow> bool" where
  "parts_shown pl pq session sc \<longleftrightarrow>
     list_all (type_shown pl pq session) (sc_types sc)
   \<and> list_all (\<lambda>f. list_ex (\<lambda>ctx. query_shown pl ctx (type_name f)) (role_tables pl session)) (sc_queries sc)
   \<and> list_all (\<lambda>f. list_ex (\<lambda>ctx. mutation_shown pl pq session ctx (type_name f)) (role_tables pl session)) (sc_mutations sc)"

lemma add_table_shown:
  assumes known: "roots_known pl" and sc: "parts_shown pl pq session sc" and idx: "idx < length (pl_tables pl)"
  shows "parts_shown pl pq session (add_table_schema pl pq session sc (idx, pl_tables pl ! idx))"
proof (cases "table_ctx_of pl idx (se_role session)")
  case None
  then show ?thesis using sc by (simp add: add_table_schema_def)
next
  case (Some ctx)
  let ?e = "pl_tables pl ! idx"
  have e: "tx_entry ctx = ?e" using Some by (auto simp: table_ctx_of_def Let_def split: option.splits if_splits)
  have ctx: "ctx \<in> set (role_tables pl session)"
    using Some idx by (force simp: role_tables_def map_filter_def)
  have names: "query_names ?e \<subseteq> dom (map_of (pl_roots pl))" using known idx by (simp add: roots_known_def)
  have table: "type_shown pl pq session t" if "table_type_shown pl pq session ctx t" for t
    using that ctx by (auto simp: type_shown_def list_ex_iff)
  have query: "list_ex (\<lambda>ctx. query_shown pl ctx (type_name f)) (role_tables pl session)" if "query_shown pl ctx (type_name f)" for f
    using that ctx by (auto simp: list_ex_iff)
  have mutation: "list_ex (\<lambda>ctx. mutation_shown pl pq session ctx (type_name f)) (role_tables pl session)"
    if "mutation_shown pl pq session ctx (type_name f)" for f
    using that ctx by (auto simp: list_ex_iff)
  let ?base = "table_base_name ?e"
  let ?sc = "add_table_schema pl pq session sc (idx, ?e)"
  have types: "sc_types ?sc = sc_types sc @ select_types pl session ctx ?e ?base @ (if allow_aggregations ctx then aggregate_types ?base else [])
      @ (if may_insert pl pq session ?e then insert_types ctx ?base else [])
      @ (if may_update pl pq session ?e then [input_object_json (?base @ ''_set_input'') (column_inputs ctx)] else [])"
    by (simp add: add_table_schema_def Some Let_def may_insert_def may_update_def)
  have "type_shown pl pq session t" if t: "t \<in> set (sc_types ?sc)" for t
  proof (cases "t \<in> set (sc_types sc)")
    case True
    then show ?thesis using sc by (simp add: parts_shown_def list_all_iff)
  next
    case False
    then show ?thesis
      using t unfolding types by (auto simp flip: e intro: table select_types_shown mutation_types_shown split: if_splits)
  qed
  moreover have "list_ex (\<lambda>ctx. query_shown pl ctx (type_name f)) (role_tables pl session)" if "f \<in> set (sc_queries ?sc)" for f
  proof (cases "f \<in> set (sc_queries sc)")
    case True
    then show ?thesis using sc by (simp add: parts_shown_def list_all_iff)
  next
    case False
    have "query_shown pl ctx (type_name f)"
      using that False names by (auto simp: add_table_schema_def Some Let_def by_pk_field_def query_shown_def e query_names_def split: if_splits)
    then show ?thesis by (rule query)
  qed
  moreover have "list_ex (\<lambda>ctx. mutation_shown pl pq session ctx (type_name f)) (role_tables pl session)" if "f \<in> set (sc_mutations ?sc)" for f
  proof (cases "f \<in> set (sc_mutations sc)")
    case True
    then show ?thesis using sc by (simp add: parts_shown_def list_all_iff)
  next
    case False
    have "mutation_shown pl pq session ctx (type_name f)"
      using that False by (auto simp: add_table_schema_def Some Let_def mutation_shown_def may_insert_def may_update_def may_delete_def e split: if_splits)
    then show ?thesis by (rule mutation)
  qed
  ultimately show ?thesis by (simp add: parts_shown_def list_all_iff)
qed

lemma parts_of_shown:
  assumes "roots_known pl"
  shows "parts_shown pl pq session (schema_parts_of pl pq session)"
proof -
  have "parts_shown pl pq session (foldl (add_table_schema pl pq session) sc ies)"
    if "parts_shown pl pq session sc" "\<forall>(i, e) \<in> set ies. i < length (pl_tables pl) \<and> e = pl_tables pl ! i" for sc ies
    using that
  proof (induction ies arbitrary: sc)
    case (Cons ie ies)
    then show ?case using add_table_shown [OF assms Cons.prems(1), of "fst ie"] by (cases ie) auto
  qed simp
  moreover have "\<forall>(i, e) \<in> set (enumerate 0 (pl_tables pl)). i < length (pl_tables pl) \<and> e = pl_tables pl ! i"
    by (auto simp: in_set_enumerate_eq)
  moreover have "parts_shown pl pq session \<lparr>sc_types = [enum_type_json ''order_by'' ORDER_BY_VALUES], sc_scalars = ss, sc_queries = [], sc_mutations = []\<rparr>" for ss
    by (simp add: parts_shown_def type_shown_def builtin_type_def)
  ultimately show ?thesis unfolding schema_parts_of_def by blast
qed


end
