(* ===== verification/Ws.thy ===== *)
theory Ws
  imports Execute
begin

text \<open>
  Websocket connections, \<open>crates/server/src/ws.rs\<close>: the loop over the
  client's messages, one polling task per subscription, and the task that
  closes the connection when the token expires. Each step of the machine runs
  one of them from one suspension point to the next.
\<close>

section \<open>State\<close>

text \<open>Where a polling task is suspended: before it executes, before it sends, asleep.\<close>

datatype ws_phase = Polling | Sending json | Sleeping

record ws_task =
  tk_id :: json
  tk_session :: session
  tk_payload :: json
  tk_last :: "json option"
  tk_phase :: ws_phase

text \<open>
  \<open>wc_tasks\<close> are the tasks that run, by their handle;
  \<open>wc_subscriptions\<close> the handles the loop keeps, by the client's id.
  \<open>wc_closed\<close> says that nothing can be sent any more; \<open>wc_crashed\<close> that
  the loop ended in a panic.
\<close>

record ws_conn =
  wc_headers :: headers
  wc_subscriptions :: "(string \<times> nat) list"
  wc_tasks :: "(nat \<times> ws_task) list"
  wc_next :: nat
  wc_expiry :: "nat option"
  wc_running :: bool
  wc_crashed :: bool
  wc_closed :: bool
  wc_frames :: "json list"
  wc_history :: "request list"
  wc_clock :: nat

text \<open>
  \<open>we_auth\<close> is \<open>gql::resolve_session\<close>, \<open>we_jwt_expiry\<close> the
  expiry of a token in JWT mode; \<open>we_header_name\<close> and \<open>we_header_value\<close>
  are the conversions of the \<open>http\<close> crate.
\<close>

record ws_env =
  we_server :: server
  we_relay :: bool
  we_auth :: "headers \<Rightarrow> (nat \<times> json) + session"
  we_jwt_expiry :: "(string \<Rightarrow> u64 option) option"
  we_header_name :: "string \<Rightarrow> string option"
  we_header_value :: "string \<Rightarrow> string option option"

definition ws_open :: "request list \<Rightarrow> nat \<Rightarrow> ws_conn" where
  "ws_open h now = \<lparr>wc_headers = [], wc_subscriptions = [], wc_tasks = [], wc_next = 0, wc_expiry = None,
     wc_running = True, wc_crashed = False, wc_closed = False, wc_frames = [], wc_history = h, wc_clock = now\<rparr>"

section \<open>Sending\<close>

definition send_frame :: "ws_conn \<Rightarrow> json \<Rightarrow> ws_conn" where
  "send_frame c frame = (if wc_closed c then c else c\<lparr>wc_frames := wc_frames c @ [frame]\<rparr>)"

definition frame_type :: "string \<Rightarrow> json" where
  "frame_type t = JObject [(''type'', JString t)]"

definition data_frame :: "json \<Rightarrow> json \<Rightarrow> json" where
  "data_frame i payload = JObject [(''type'', JString ''data''), (''id'', i), (''payload'', payload)]"

definition complete_frame :: "json \<Rightarrow> json" where
  "complete_frame i = JObject [(''type'', JString ''complete''), (''id'', i)]"

definition error_frame :: "string \<Rightarrow> json" where
  "error_frame message = JObject [(''type'', JString ''connection_error''), (''payload'', JString message)]"

section \<open>The end of the loop\<close>

definition abort_task :: "nat \<Rightarrow> ws_conn \<Rightarrow> ws_conn" where
  "abort_task n c = c\<lparr>wc_tasks := filter (\<lambda>t. fst t \<noteq> n) (wc_tasks c)\<rparr>"

text \<open>Leaving the loop aborts every kept task; a panic drops the handles without aborting.\<close>

definition ws_finish :: "ws_conn \<Rightarrow> ws_conn" where
  "ws_finish c =
     (fold abort_task (map snd (wc_subscriptions c)) c)\<lparr>wc_subscriptions := [], wc_expiry := None, wc_running := False\<rparr>"

definition ws_crash :: "ws_conn \<Rightarrow> ws_conn" where
  "ws_crash c = c\<lparr>wc_subscriptions := [], wc_running := False, wc_crashed := True\<rparr>"

section \<open>Messages\<close>

definition add_header :: "ws_env \<Rightarrow> string \<times> json \<Rightarrow> headers \<Rightarrow> headers" where
  "add_header env kv hs =
     (case (we_header_name env (to_ascii_lowercase (fst kv)), Option.bind (as_str (snd kv)) (we_header_value env)) of
        (Some name, Some value) \<Rightarrow> hm_insert name value hs
      | _ \<Rightarrow> hs)"

definition bearer_token :: "headers \<Rightarrow> string option" where
  "bearer_token hs = Option.bind (header_get hs ''authorization'') (strip_prefix ''Bearer '')"

text \<open>The expiry task sleeps \<open>exp.saturating_sub(now)\<close> seconds.\<close>

definition schedule_expiry :: "ws_env \<Rightarrow> ws_conn \<Rightarrow> ws_conn" where
  "schedule_expiry env c =
     (case we_jwt_expiry env of
        None \<Rightarrow> c
      | Some expiry \<Rightarrow>
          (case Option.bind (bearer_token (wc_headers c)) expiry of
             None \<Rightarrow> c
           | Some exp \<Rightarrow> c\<lparr>wc_expiry := Some (wc_clock c + (unat exp - wc_clock c))\<rparr>))"

definition init_headers :: "json \<Rightarrow> jmap" where
  "init_headers frame = object_or_empty (json_pointer frame ''/payload/headers'')"

definition handle_init :: "ws_env \<Rightarrow> ws_conn \<Rightarrow> json \<Rightarrow> ws_conn" where
  "handle_init env c frame =
     (let c1 = c\<lparr>wc_headers := fold (add_header env) (init_headers frame) (wc_headers c)\<rparr> in
      if wc_closed c1 then ws_finish c1
      else schedule_expiry env (send_frame (send_frame c1 (frame_type ''connection_ack'')) (frame_type ''ka'')))"

fun is_subscription_definition :: "gql_definition \<Rightarrow> bool" where
  "is_subscription_definition (DefOperation (OpSubscription _ _ _)) = True"
| "is_subscription_definition _ = False"

definition is_subscription :: "server_lib \<Rightarrow> json \<Rightarrow> bool" where
  "is_subscription lib payload =
     (case Option.bind (json_get payload ''query'') as_str of
        None \<Rightarrow> False
      | Some query \<Rightarrow>
          if query_too_deep query then False
          else case sl_parse_query lib query of
            Inl _ \<Rightarrow> False
          | Inr doc \<Rightarrow> list_ex is_subscription_definition doc)"

definition id_key :: "json \<Rightarrow> string" where
  "id_key i = (case as_str i of Some s \<Rightarrow> s | None \<Rightarrow> [])"

definition abort_old :: "nat option \<Rightarrow> ws_conn \<Rightarrow> ws_conn" where
  "abort_old old c = (case old of None \<Rightarrow> c | Some n \<Rightarrow> abort_task n c)"

definition subscribe :: "ws_conn \<Rightarrow> json \<Rightarrow> session \<Rightarrow> json \<Rightarrow> ws_conn" where
  "subscribe c i session payload =
     (let n = wc_next c; key = id_key i;
          task = \<lparr>tk_id = i, tk_session = session, tk_payload = payload, tk_last = None, tk_phase = Polling\<rparr>
      in abort_old (map_of (wc_subscriptions c) key)
           (c\<lparr>wc_tasks := wc_tasks c @ [(n, task)], wc_next := Suc n,
              wc_subscriptions := hm_insert key n (wc_subscriptions c)\<rparr>))"

definition answer_once :: "ws_env \<Rightarrow> ws_conn \<Rightarrow> json \<Rightarrow> session \<Rightarrow> json \<Rightarrow> ws_conn" where
  "answer_once env c i session payload =
     (let (r, h) = execute_with (we_server env) session payload (we_relay env) (wc_history c);
          c1 = c\<lparr>wc_history := h\<rparr>
      in case answer_of r of
           None \<Rightarrow> ws_crash c1
         | Some (_, response) \<Rightarrow>
             if wc_closed c1 then ws_finish c1
             else send_frame (send_frame c1 (data_frame i response)) (complete_frame i))"

definition frame_get :: "json \<Rightarrow> string \<Rightarrow> json" where
  "frame_get frame k = (case json_get frame k of Some v \<Rightarrow> v | None \<Rightarrow> JNull)"

definition handle_start :: "ws_env \<Rightarrow> ws_conn \<Rightarrow> json \<Rightarrow> ws_conn" where
  "handle_start env c frame =
     (let i = frame_get frame ''id''; payload = frame_get frame ''payload'' in
      case we_auth env (wc_headers c) of
        Inl (_, errors) \<Rightarrow> send_frame (send_frame c (data_frame i errors)) (complete_frame i)
      | Inr session \<Rightarrow>
          if is_subscription (sv_lib (we_server env)) payload then subscribe c i session payload
          else answer_once env c i session payload)"

definition hm_remove :: "string \<Rightarrow> (string \<times> 'v) list \<Rightarrow> (string \<times> 'v) list" where
  "hm_remove k m = filter (\<lambda>e. fst e \<noteq> k) m"

definition handle_stop :: "ws_conn \<Rightarrow> json \<Rightarrow> ws_conn" where
  "handle_stop c frame =
     (case Option.bind (json_get frame ''id'') as_str of
        Some i \<Rightarrow>
          abort_old (map_of (wc_subscriptions c) i) (c\<lparr>wc_subscriptions := hm_remove i (wc_subscriptions c)\<rparr>)
      | None \<Rightarrow> send_frame c (error_frame (''Message missing '' @ quoted ''id'' @ '' field'')))"

definition handle_frame :: "ws_env \<Rightarrow> ws_conn \<Rightarrow> json \<Rightarrow> ws_conn" where
  "handle_frame env c frame =
     (case Option.bind (json_get frame ''type'') as_str of
        None \<Rightarrow> send_frame c (error_frame ''unexpected message type: <none>'')
      | Some t \<Rightarrow>
          if t = ''connection_init'' then handle_init env c frame
          else if t = ''start'' then handle_start env c frame
          else if t = ''stop'' then handle_stop c frame
          else if t = ''connection_terminate'' then ws_finish c
          else send_frame c (error_frame (''unexpected message type: '' @ t)))"

definition handle_message :: "ws_env \<Rightarrow> ws_conn \<Rightarrow> string \<Rightarrow> ws_conn" where
  "handle_message env c text =
     (case json_parse (sv_extern (we_server env)) text of None \<Rightarrow> c | Some frame \<Rightarrow> handle_frame env c frame)"

section \<open>Polling\<close>

text \<open>A response is pushed when it differs from the last one.\<close>

definition observe :: "ws_task \<Rightarrow> json \<Rightarrow> ws_task" where
  "observe t response =
     (if tk_last t = Some response then t\<lparr>tk_phase := Sleeping\<rparr>
      else t\<lparr>tk_last := Some response, tk_phase := Sending response\<rparr>)"

definition set_task :: "nat \<Rightarrow> ws_task \<Rightarrow> ws_conn \<Rightarrow> ws_conn" where
  "set_task n t c = c\<lparr>wc_tasks := map (\<lambda>(k, old). (k, if k = n then t else old)) (wc_tasks c)\<rparr>"

definition poll_task :: "ws_env \<Rightarrow> ws_conn \<Rightarrow> nat \<Rightarrow> ws_task \<Rightarrow> ws_conn" where
  "poll_task env c n t =
     (let (r, h) = execute_with (we_server env) (tk_session t) (tk_payload t) (we_relay env) (wc_history c);
          c1 = c\<lparr>wc_history := h\<rparr>
      in case answer_of r of
           None \<Rightarrow> abort_task n c1
         | Some (_, response) \<Rightarrow> set_task n (observe t response) c1)"

definition deliver :: "ws_conn \<Rightarrow> nat \<Rightarrow> ws_task \<Rightarrow> json \<Rightarrow> ws_conn" where
  "deliver c n t response =
     (if wc_closed c then abort_task n c
      else set_task n (t\<lparr>tk_phase := Sleeping\<rparr>) (send_frame c (data_frame (tk_id t) response)))"

section \<open>Steps\<close>

datatype ws_event = Message string | CloseFrame | Poll nat | Deliver nat | Wake nat | Expire | Tick | Disconnect

inductive ws_step :: "ws_env \<Rightarrow> ws_conn \<Rightarrow> ws_event \<Rightarrow> ws_conn \<Rightarrow> bool" for env where
  message: "wc_running c \<Longrightarrow> ws_step env c (Message text) (handle_message env c text)"
| close_frame: "wc_running c \<Longrightarrow> ws_step env c CloseFrame (ws_finish c)"
| poll: "map_of (wc_tasks c) n = Some t \<Longrightarrow> tk_phase t = Polling \<Longrightarrow> ws_step env c (Poll n) (poll_task env c n t)"
| deliver: "map_of (wc_tasks c) n = Some t \<Longrightarrow> tk_phase t = Sending response \<Longrightarrow> ws_step env c (Deliver n) (deliver c n t response)"
| wake: "map_of (wc_tasks c) n = Some t \<Longrightarrow> tk_phase t = Sleeping \<Longrightarrow> ws_step env c (Wake n) (set_task n (t\<lparr>tk_phase := Polling\<rparr>) c)"
| expire: "wc_expiry c = Some due \<Longrightarrow> due \<le> wc_clock c \<Longrightarrow> ws_step env c Expire (c\<lparr>wc_closed := True, wc_expiry := None\<rparr>)"
| tick: "ws_step env c Tick (c\<lparr>wc_clock := Suc (wc_clock c)\<rparr>)"
| disconnect: "ws_step env c Disconnect (c\<lparr>wc_closed := True\<rparr>)"

inductive_cases ws_stepE: "ws_step env c e c'"

inductive ws_reach :: "ws_env \<Rightarrow> ws_conn \<Rightarrow> bool" for env where
  opened: "ws_reach env (ws_open h now)"
| step: "ws_reach env c \<Longrightarrow> ws_step env c e c' \<Longrightarrow> ws_reach env c'"

end
