(* ===== verification/Ws_Properties.thy ===== *)
theory Ws_Properties
  imports Ws Request_Properties "HOL-Library.Sublist"
begin

text \<open>
  What holds in every state of a websocket connection, whatever the order of
  messages, polls, deliveries and the expiry of the token.
\<close>

section \<open>Invariants\<close>

text \<open>An invariant holds when the connection opens and every step keeps it.\<close>

locale ws_invariant =
  fixes env :: ws_env
    and inv :: "ws_conn \<Rightarrow> bool"
  assumes inv_open: "inv (ws_open h now)"
    and inv_step: "inv c \<Longrightarrow> ws_step env c e c' \<Longrightarrow> inv c'"
begin

lemma reached: "ws_reach env c \<Longrightarrow> inv c"
  by (induction rule: ws_reach.induct) (auto intro: inv_open inv_step)

end

section \<open>Tasks\<close>

lemmas ws_defs = handle_message_def handle_frame_def handle_init_def handle_start_def handle_stop_def answer_once_def subscribe_def
  send_frame_def schedule_expiry_def ws_crash_def abort_old_def Let_def case_prod_beta

lemma abort_all_tasks: "wc_tasks (fold abort_task ns c) = filter (\<lambda>t. fst t \<notin> set ns) (wc_tasks c)"
  by (induction ns arbitrary: c) (auto simp: abort_task_def intro!: filter_cong)

lemma abort_all_keeps:
  "wc_subscriptions (fold abort_task ns c) = wc_subscriptions c" "wc_next (fold abort_task ns c) = wc_next c"
  "wc_frames (fold abort_task ns c) = wc_frames c" "wc_crashed (fold abort_task ns c) = wc_crashed c"
  "wc_closed (fold abort_task ns c) = wc_closed c"
  by (induction ns arbitrary: c) (simp_all add: abort_task_def)

lemma finish_simps [simp]:
  "wc_tasks (ws_finish c) = filter (\<lambda>t. fst t \<notin> snd ` set (wc_subscriptions c)) (wc_tasks c)"
  "wc_subscriptions (ws_finish c) = []" "wc_next (ws_finish c) = wc_next c" "wc_frames (ws_finish c) = wc_frames c"
  "wc_crashed (ws_finish c) = wc_crashed c" "wc_closed (ws_finish c) = wc_closed c" "\<not> wc_running (ws_finish c)"
  by (simp_all add: ws_finish_def abort_all_tasks abort_all_keeps)

definition task_ok :: "ws_env \<Rightarrow> ws_task \<Rightarrow> bool" where
  "task_ok env t \<longleftrightarrow> is_subscription (sv_lib (we_server env)) (tk_payload t) \<and> (\<exists>hs. we_auth env hs = Inr (tk_session t))"

definition owned :: "ws_env \<Rightarrow> ws_conn \<Rightarrow> bool" where
  "owned env c \<longleftrightarrow>
     distinct (map fst (wc_tasks c)) \<and> (\<forall>(n, t) \<in> set (wc_tasks c). n < wc_next c \<and> task_ok env t)
   \<and> distinct (map fst (wc_subscriptions c)) \<and> (\<forall>(k, n) \<in> set (wc_subscriptions c). n < wc_next c)
   \<and> (wc_crashed c \<or> (\<forall>(n, t) \<in> set (wc_tasks c). (id_key (tk_id t), n) \<in> set (wc_subscriptions c)))
   \<and> (wc_running c \<or> wc_subscriptions c = [])"


lemma ownedI:
  assumes "distinct (map fst (wc_tasks c))" "distinct (map fst (wc_subscriptions c))"
    and "\<And>n t. (n, t) \<in> set (wc_tasks c) \<Longrightarrow> n < wc_next c \<and> task_ok env t"
    and "\<And>k n. (k, n) \<in> set (wc_subscriptions c) \<Longrightarrow> n < wc_next c"
    and "\<And>n t. \<not> wc_crashed c \<Longrightarrow> (n, t) \<in> set (wc_tasks c) \<Longrightarrow> (id_key (tk_id t), n) \<in> set (wc_subscriptions c)"
    and "\<not> wc_running c \<Longrightarrow> wc_subscriptions c = []"
  shows "owned env c"
  using assms unfolding owned_def by fast

lemma ownedD:
  assumes "owned env c"
  shows "distinct (map fst (wc_tasks c))" "distinct (map fst (wc_subscriptions c))"
    and "(n, t) \<in> set (wc_tasks c) \<Longrightarrow> n < wc_next c" "(n, t) \<in> set (wc_tasks c) \<Longrightarrow> task_ok env t"
    and "(k, n) \<in> set (wc_subscriptions c) \<Longrightarrow> n < wc_next c"
    and "\<not> wc_crashed c \<Longrightarrow> (n, t) \<in> set (wc_tasks c) \<Longrightarrow> (id_key (tk_id t), n) \<in> set (wc_subscriptions c)"
    and "\<not> wc_running c \<Longrightarrow> wc_subscriptions c = []"
  using assms unfolding owned_def by fast+

lemma owned_cong:
  "wc_tasks c' = wc_tasks c \<Longrightarrow> wc_subscriptions c' = wc_subscriptions c \<Longrightarrow> wc_next c' = wc_next c
    \<Longrightarrow> wc_crashed c' = wc_crashed c \<Longrightarrow> wc_running c' = wc_running c \<Longrightarrow> owned env c' \<longleftrightarrow> owned env c"
  by (simp add: owned_def)

lemma owned_other [simp]:
  "owned env (c\<lparr>wc_history := h\<rparr>) \<longleftrightarrow> owned env c" "owned env (c\<lparr>wc_frames := fs\<rparr>) \<longleftrightarrow> owned env c"
  "owned env (c\<lparr>wc_closed := b\<rparr>) \<longleftrightarrow> owned env c" "owned env (c\<lparr>wc_clock := n\<rparr>) \<longleftrightarrow> owned env c"
  "owned env (c\<lparr>wc_expiry := due\<rparr>) \<longleftrightarrow> owned env c" "owned env (c\<lparr>wc_closed := b, wc_expiry := due\<rparr>) \<longleftrightarrow> owned env c"
  "owned env (c\<lparr>wc_headers := hs\<rparr>) \<longleftrightarrow> owned env c"
  by (simp_all add: owned_def)

lemma send_keeps [simp]: "owned env (send_frame c f) \<longleftrightarrow> owned env c"
  by (rule owned_cong) (simp_all add: send_frame_def)

text \<open>Fewer tasks and handles: what stays registered is what still runs.\<close>

lemma owned_shrink:
  assumes "owned env c" and less: "set (wc_tasks c') \<subseteq> set (wc_tasks c)" "set (wc_subscriptions c') \<subseteq> set (wc_subscriptions c)"
    and dist: "distinct (map fst (wc_tasks c'))" "distinct (map fst (wc_subscriptions c'))"
    and "wc_next c' = wc_next c" "wc_crashed c \<Longrightarrow> wc_crashed c'"
    and kept: "\<And>n t. \<not> wc_crashed c' \<Longrightarrow> (n, t) \<in> set (wc_tasks c') \<Longrightarrow> (id_key (tk_id t), n) \<in> set (wc_subscriptions c)
        \<Longrightarrow> (id_key (tk_id t), n) \<in> set (wc_subscriptions c')"
    and "\<not> wc_running c' \<Longrightarrow> wc_subscriptions c' = []"
  shows "owned env c'"
proof (rule ownedI)
  fix n t
  assume t: "(n, t) \<in> set (wc_tasks c')"
  then have t0: "(n, t) \<in> set (wc_tasks c)" using less(1) by blast
  show "n < wc_next c' \<and> task_ok env t" using ownedD(3,4) [OF assms(1) t0] assms(6) by simp
  assume "\<not> wc_crashed c'"
  then show "(id_key (tk_id t), n) \<in> set (wc_subscriptions c')" using kept t ownedD(6) [OF assms(1) _ t0] assms(7) by blast
next
  fix k n
  assume "(k, n) \<in> set (wc_subscriptions c')"
  then show "n < wc_next c'" using less(2) ownedD(5) [OF assms(1), of k n] assms(6) by auto
qed (use dist assms(9) in auto)

lemma owned_finish: "owned env c \<Longrightarrow> owned env (ws_finish c)"
  by (rule owned_shrink) (force intro: distinct_map_filter dest: ownedD(1))+

lemma owned_crash: "owned env c \<Longrightarrow> owned env (ws_crash c)"
  by (rule owned_shrink) (auto simp: ws_crash_def dest: ownedD(1))

lemma owned_abort: "owned env c \<Longrightarrow> owned env (abort_task n c)"
  by (rule owned_shrink) (auto simp: abort_task_def intro: distinct_map_filter dest: ownedD)

lemma owned_set_task:
  assumes "owned env c" "map_of (wc_tasks c) n = Some t" "tk_id t' = tk_id t" "task_ok env t'"
  shows "owned env (set_task n t' c)"
proof (rule ownedI)
  have n: "(n, t) \<in> set (wc_tasks c)" using assms(2) by (rule map_of_SomeD)
  show "distinct (map fst (wc_tasks (set_task n t' c)))"
    using ownedD(1) [OF assms(1)] by (simp add: set_task_def comp_def case_prod_beta)
  fix k s
  assume "(k, s) \<in> set (wc_tasks (set_task n t' c))"
  then obtain old where old: "(k, old) \<in> set (wc_tasks c)" "s = (if k = n then t' else old)" by (auto simp: set_task_def)
  have "old = t" if "k = n" using old n ownedD(1) [OF assms(1)] that by (metis eq_key_imp_eq_value)
  then have "tk_id s = tk_id old" using assms(3) old(2) by auto
  then show "\<not> wc_crashed (set_task n t' c) \<Longrightarrow> (id_key (tk_id s), k) \<in> set (wc_subscriptions (set_task n t' c))"
    using ownedD(6) [OF assms(1) _ old(1)] by (simp add: set_task_def)
  show "k < wc_next (set_task n t' c) \<and> task_ok env s"
    using ownedD(3,4) [OF assms(1) old(1)] old(2) assms(4) by (simp add: set_task_def)
qed (use ownedD(2,5,7) [OF assms(1)] in \<open>auto simp: set_task_def\<close>)

lemma abort_old_simps [simp]:
  "wc_tasks (abort_old old c) = filter (\<lambda>t. Some (fst t) \<noteq> old) (wc_tasks c)"
  "wc_subscriptions (abort_old old c) = wc_subscriptions c" "wc_next (abort_old old c) = wc_next c"
  "wc_crashed (abort_old old c) = wc_crashed c" "wc_running (abort_old old c) = wc_running c"
  "wc_frames (abort_old old c) = wc_frames c" "wc_closed (abort_old old c) = wc_closed c"
  by (auto simp: abort_old_def abort_task_def split: option.splits)

lemma owned_stop:
  assumes "owned env c"
  shows "owned env (abort_old (map_of (wc_subscriptions c) i) (c\<lparr>wc_subscriptions := hm_remove i (wc_subscriptions c)\<rparr>))"
  by (rule owned_shrink [OF assms])
     (use ownedD(1,2,7) [OF assms] in \<open>auto simp: hm_remove_def intro: distinct_map_filter\<close>)

lemma owned_fresh:
  assumes "owned env c" "task_ok env t" "tk_id t = i" "wc_running c"
  shows "owned env (abort_old (map_of (wc_subscriptions c) (id_key i))
           (c\<lparr>wc_tasks := wc_tasks c @ [(wc_next c, t)], wc_next := Suc (wc_next c),
              wc_subscriptions := hm_insert (id_key i) (wc_next c) (wc_subscriptions c)\<rparr>))"
  (is "owned env ?c")
proof (rule ownedI)
  note d = ownedD [OF assms(1)]
  have fresh: "wc_next c \<notin> fst ` set (wc_tasks c)" "Some (wc_next c) \<noteq> map_of (wc_subscriptions c) k" for k
    using d(3) d(5) [of k "wc_next c"] by (force dest: map_of_SomeD simp: eq_commute [of "Some _"])+
  show "distinct (map fst (wc_tasks ?c))" using d(1) fresh(1) by (auto intro: distinct_map_filter)
  show "distinct (map fst (wc_subscriptions ?c))" using d(2) by (auto simp: hm_insert_def intro: distinct_map_filter)
  show "n < wc_next ?c" if "(k, n) \<in> set (wc_subscriptions ?c)" for k n
    using that d(5) by (auto simp: hm_insert_def less_Suc_eq)
  fix n s
  assume s: "(n, s) \<in> set (wc_tasks ?c)"
  then show "n < wc_next ?c \<and> task_ok env s" using d(3,4) [of n s] assms(2) by (auto simp: less_Suc_eq split: if_splits)
  assume "\<not> wc_crashed ?c"
  then show "(id_key (tk_id s), n) \<in> set (wc_subscriptions ?c)"
    using s d(6) [of n s] d(2) assms(3) by (auto simp: hm_insert_def split: if_splits)
qed (use assms(4) in simp)

lemma expiry_keeps [simp]: "owned env' (schedule_expiry env c) \<longleftrightarrow> owned env' c"
  by (rule owned_cong) (simp_all add: schedule_expiry_def split: option.splits)

lemma owned_init: "owned env c \<Longrightarrow> owned env (handle_init env c frame)"
  by (auto simp: handle_init_def Let_def intro: owned_finish)

lemma owned_answer: "owned env c \<Longrightarrow> owned env (answer_once env c i session payload)"
  by (auto simp: answer_once_def Let_def case_prod_beta intro: owned_finish owned_crash split: option.splits)

lemma owned_start: "owned env c \<Longrightarrow> wc_running c \<Longrightarrow> owned env (handle_start env c frame)"
  unfolding handle_start_def Let_def subscribe_def
  by (auto intro!: owned_answer owned_fresh split: sum.splits) (auto simp: task_ok_def)

lemma owned_message: "owned env c \<Longrightarrow> wc_running c \<Longrightarrow> owned env (handle_message env c text)"
  by (simp add: handle_message_def handle_frame_def handle_stop_def owned_init owned_start owned_finish owned_stop split: option.split)

lemma owned_poll:
  assumes "owned env c" "map_of (wc_tasks c) n = Some t"
  shows "owned env (poll_task env c n t)"
proof -
  have "task_ok env (observe t r)" "tk_id (observe t r) = tk_id t" for r
    using ownedD(4) [OF assms(1) map_of_SomeD [OF assms(2)]] by (auto simp: observe_def task_ok_def)
  then show ?thesis
    using owned_set_task [of env "c\<lparr>wc_history := _\<rparr>"] assms
    by (auto simp: poll_task_def case_prod_beta Let_def intro: owned_abort split: option.splits)
qed

lemma owned_phase:
  assumes "owned env c" "map_of (wc_tasks c) n = Some t"
  shows "owned env (set_task n (t\<lparr>tk_phase := p\<rparr>) c)"
  using owned_set_task [OF assms] ownedD(4) [OF assms(1) map_of_SomeD [OF assms(2)]] by (simp add: task_ok_def)

lemma owned_deliver: "owned env c \<Longrightarrow> map_of (wc_tasks c) n = Some t \<Longrightarrow> owned env (deliver c n t response)"
  using owned_phase [of env "send_frame c (data_frame (tk_id t) response)"]
  by (auto simp: deliver_def intro: owned_abort) (simp add: send_frame_def)

lemma owned_step: "ws_step env c e c' \<Longrightarrow> owned env c \<Longrightarrow> owned env c'"
  by (induction rule: ws_step.induct) (simp_all add: owned_message owned_finish owned_poll owned_deliver owned_phase)

lemma owned_open: "owned env (ws_open h now)"
  by (simp add: owned_def ws_open_def)

interpretation tasks: ws_invariant env "owned env" for env
  by unfold_locales (auto intro: owned_open owned_step)

text \<open>
  C15. In every state a connection can reach, each polling task runs a
  subscription for a session that authentication gave, at most one task runs
  per id, and while the loop has not panicked each is the task registered for
  its id, so that \<open>stop\<close> and the end of the loop abort it: when the loop
  has ended no task runs.
\<close>

theorem ws_tasks_owned:
  assumes "ws_reach env c"
  shows "distinct (map fst (wc_tasks c))
    \<and> list_all (\<lambda>(n, t). is_subscription (sv_lib (we_server env)) (tk_payload t) \<and> (\<exists>hs. we_auth env hs = Inr (tk_session t))) (wc_tasks c)
    \<and> (wc_crashed c \<or> list_all (\<lambda>(n, t). map_of (wc_subscriptions c) (id_key (tk_id t)) = Some n) (wc_tasks c))
    \<and> (wc_crashed c \<or> wc_running c \<or> wc_tasks c = [])"
proof -
  note d = ownedD [OF tasks.reached [OF assms]]
  have registered: "wc_crashed c \<or> list_all (\<lambda>(n, t). map_of (wc_subscriptions c) (id_key (tk_id t)) = Some n) (wc_tasks c)"
    using d(2,6) by (auto simp: list_all_iff)
  then have "wc_crashed c \<or> wc_running c \<or> wc_tasks c = []" using d(7) by (cases "wc_tasks c") auto
  then show ?thesis using registered d(1,4) by (auto simp: list_all_iff task_ok_def)
qed

section \<open>Live queries\<close>

text \<open>The answer a poll gets, and what a delivery sends.\<close>

definition poll_response :: "ws_env \<Rightarrow> ws_conn \<Rightarrow> ws_task \<Rightarrow> json option" where
  "poll_response env c t =
     map_option snd (answer_of (fst (execute_with (we_server env) (tk_session t) (tk_payload t) (we_relay env) (wc_history c))))"

definition polled :: "ws_env \<Rightarrow> nat \<Rightarrow> ws_conn \<Rightarrow> ws_event \<Rightarrow> json list" where
  "polled env n c e = (if e = Poll n then opt_list (Option.bind (map_of (wc_tasks c) n) (poll_response env c)) else [])"

definition pushed :: "nat \<Rightarrow> ws_conn \<Rightarrow> ws_event \<Rightarrow> json list" where
  "pushed n c e =
     (if e = Deliver n \<and> \<not> wc_closed c then
        (case map_of (wc_tasks c) n of Some t \<Rightarrow> (case tk_phase t of Sending r \<Rightarrow> [r] | _ \<Rightarrow> []) | None \<Rightarrow> [])
      else [])"

text \<open>A run of the connection, with what task \<open>n\<close> got and sent in it.\<close>

inductive ws_run :: "ws_env \<Rightarrow> nat \<Rightarrow> ws_conn \<Rightarrow> json list \<Rightarrow> json list \<Rightarrow> ws_conn \<Rightarrow> bool" for env n c0 where
  start: "ws_run env n c0 [] [] c0"
| more: "ws_run env n c0 rs ps c \<Longrightarrow> ws_step env c e c' \<Longrightarrow> ws_run env n c0 (rs @ polled env n c e) (ps @ pushed n c e) c'"

definition pending :: "ws_task \<Rightarrow> json list" where
  "pending t = (case tk_phase t of Sending r \<Rightarrow> [r] | _ \<Rightarrow> [])"

text \<open>Steps of other tasks and of the loop leave a task as it is, or abort it.\<close>

lemma filter_task:
  assumes "\<And>k t t'. P (k, t) = P (k, t')"
  shows "map_of (filter P ts) n = map_of ts n \<or> map_of (filter P ts) n = None"
proof (induction ts)
  case (Cons kt ts)
  obtain k t where "kt = (k, t)" by fastforce
  moreover have "map_of (filter P ts) k = None" if "\<not> P (k, t)" using that assms [of k t] by (auto simp: map_of_eq_None_iff)
  ultimately show ?case using Cons by auto
qed simp

lemma set_task_lookup: "map_of (wc_tasks (set_task k t c)) n = (if n = k then map_option (\<lambda>_. t) (map_of (wc_tasks c) n) else map_of (wc_tasks c) n)"
proof -
  have "map_of (map (\<lambda>(j, old). (j, if j = k then t else old)) ts) n = (if n = k then map_option (\<lambda>_. t) (map_of ts n) else map_of ts n)" for ts
    by (induction ts) auto
  then show ?thesis by (simp add: set_task_def)
qed

definition keeps :: "nat \<Rightarrow> ws_conn \<Rightarrow> ws_conn \<Rightarrow> bool" where
  "keeps n c c' \<longleftrightarrow> map_of (wc_tasks c') n \<in> {map_of (wc_tasks c) n, None} \<and> wc_next c \<le> wc_next c' \<and> prefix (wc_frames c) (wc_frames c')"

lemma keeps_refl: "keeps n c c"
  by (simp add: keeps_def)

lemma keeps_field [simp]:
  "keeps n c0 (c\<lparr>wc_headers := hs\<rparr>) \<longleftrightarrow> keeps n c0 c" "keeps n c0 (c\<lparr>wc_history := h\<rparr>) \<longleftrightarrow> keeps n c0 c"
  "keeps n c0 (c\<lparr>wc_subscriptions := s\<rparr>) \<longleftrightarrow> keeps n c0 c" "keeps n c0 (c\<lparr>wc_expiry := due\<rparr>) \<longleftrightarrow> keeps n c0 c"
  "keeps n c0 (c\<lparr>wc_closed := b\<rparr>) \<longleftrightarrow> keeps n c0 c" "keeps n c0 (c\<lparr>wc_clock := now\<rparr>) \<longleftrightarrow> keeps n c0 c"
  by (simp_all add: keeps_def)

lemma keeps_filter:
  assumes "keeps n c0 c" "\<And>k t t'. P (k, t) = P (k, t')" "wc_tasks c' = filter P (wc_tasks c)" "wc_next c' = wc_next c" "wc_frames c' = wc_frames c"
  shows "keeps n c0 c'"
  using assms(1,3-5) filter_task [of P "wc_tasks c" n, OF assms(2)] by (auto simp: keeps_def)

lemma keeps_send: "keeps n c0 c \<Longrightarrow> keeps n c0 (send_frame c f)"
  by (auto simp: keeps_def send_frame_def intro: prefix_order.trans)

lemma keeps_expiry: "keeps n c0 c \<Longrightarrow> keeps n c0 (schedule_expiry env c)"
  by (simp add: schedule_expiry_def split: option.split)

lemma keeps_finish: "keeps n c0 c \<Longrightarrow> keeps n c0 (ws_finish c)"
  by (erule keeps_filter [where P = "\<lambda>t. fst t \<notin> snd ` set (wc_subscriptions c)"]) simp_all

lemma keeps_crash: "keeps n c0 c \<Longrightarrow> keeps n c0 (ws_crash c)"
  by (simp add: keeps_def ws_crash_def)

lemma keeps_abort: "keeps n c0 c \<Longrightarrow> keeps n c0 (abort_task k c)"
  by (erule keeps_filter [where P = "\<lambda>t. fst t \<noteq> k"]) (simp_all add: abort_task_def)

lemma keeps_abort_old: "keeps n c0 c \<Longrightarrow> keeps n c0 (abort_old old c)"
  by (simp add: abort_old_def keeps_abort split: option.split)

lemmas keeps_intros = keeps_refl keeps_send keeps_expiry keeps_finish keeps_crash keeps_abort keeps_abort_old

lemma keeps_spawn:
  "n < wc_next c \<Longrightarrow> keeps n c (c\<lparr>wc_tasks := wc_tasks c @ [(wc_next c, t)], wc_next := Suc (wc_next c)\<rparr>)"
  by (auto simp: keeps_def map_add_def split: option.splits)

lemma keeps_subscribe: "n < wc_next c \<Longrightarrow> keeps n c (subscribe c i session payload)"
  by (simp add: subscribe_def Let_def keeps_intros keeps_spawn)

lemma keeps_answer: "keeps n c (answer_once env c i session payload)"
  by (simp add: answer_once_def Let_def case_prod_beta keeps_intros split: option.split)

lemma keeps_start: "n < wc_next c \<Longrightarrow> keeps n c (handle_start env c frame)"
  by (simp add: handle_start_def Let_def keeps_subscribe keeps_answer keeps_intros split: sum.split)

lemma keeps_message: "n < wc_next c \<Longrightarrow> keeps n c (handle_message env c text)"
  by (simp add: handle_message_def handle_frame_def handle_init_def handle_stop_def Let_def keeps_start keeps_intros split: option.split)

lemma keeps_set_task: "n \<noteq> k \<Longrightarrow> keeps n c0 c \<Longrightarrow> keeps n c0 (set_task k t c)"
  using set_task_lookup [of k t c n] by (simp add: keeps_def set_task_def)

text \<open>A step of anything but task \<open>n\<close>.\<close>

lemma keeps_poll: "n \<noteq> k \<Longrightarrow> keeps n c (poll_task env c k t)"
  by (simp add: poll_task_def Let_def case_prod_beta keeps_set_task keeps_intros split: option.split)

lemma keeps_deliver: "n \<noteq> k \<Longrightarrow> keeps n c (deliver c k t r)"
  by (simp add: deliver_def keeps_set_task keeps_intros)

lemma keeps_step: "ws_step env c e c' \<Longrightarrow> n < wc_next c \<Longrightarrow> e \<notin> {Poll n, Deliver n, Wake n} \<Longrightarrow> keeps n c c'"
  by (induction rule: ws_step.induct) (simp_all add: keeps_message keeps_poll keeps_deliver keeps_set_task keeps_intros)

text \<open>
  The state of a live query: what its task has got so far, without
  repetitions, is what it has sent and is about to send.
\<close>

definition live :: "ws_task \<Rightarrow> ws_conn \<Rightarrow> nat \<Rightarrow> json list \<Rightarrow> json list \<Rightarrow> ws_conn \<Rightarrow> bool" where
  "live t0 c0 n rs ps c \<longleftrightarrow> n < wc_next c \<and> prefix (wc_frames c0) (wc_frames c)
     \<and> subseq (map (data_frame (tk_id t0)) ps) (drop (length (wc_frames c0)) (wc_frames c))
     \<and> prefix ps (remdups_adj rs)
     \<and> (case map_of (wc_tasks c) n of
          None \<Rightarrow> True
        | Some t \<Rightarrow> tk_id t = tk_id t0 \<and> tk_session t = tk_session t0 \<and> tk_payload t = tk_payload t0
            \<and> tk_last t = (if rs = [] then None else Some (last rs)) \<and> ps @ pending t = remdups_adj rs)"

lemma subseq_prefix: "subseq xs ys \<Longrightarrow> prefix ys zs \<Longrightarrow> subseq xs zs"
  using prefix_imp_subseq subseq_order.trans by blast

lemma live_kept:
  assumes "live t0 c0 n rs ps c" "keeps n c c'"
  shows "live t0 c0 n rs ps c'"
proof -
  have "prefix (drop k (wc_frames c)) (drop k (wc_frames c'))" for k
    using assms(2) by (auto simp: keeps_def prefix_def)
  then show ?thesis
    using assms by (auto simp: live_def keeps_def intro: prefix_order.trans subseq_prefix split: option.splits)
qed

lemma remdups_adj_snoc: "remdups_adj (xs @ [y]) = (if xs = [] \<or> last xs \<noteq> y then remdups_adj xs @ [y] else remdups_adj xs)"
  by (induction xs rule: remdups_adj.induct) auto

lemma live_poll:
  assumes "live t0 c0 n rs ps c" "map_of (wc_tasks c) n = Some t" "tk_phase t = Polling"
  shows "live t0 c0 n (rs @ polled env n c (Poll n)) ps (poll_task env c n t)"
proof (cases "poll_response env c t")
  case None
  then have "poll_task env c n t = abort_task n (c\<lparr>wc_history := snd (execute_with (we_server env) (tk_session t) (tk_payload t) (we_relay env) (wc_history c))\<rparr>)"
    by (simp add: poll_task_def poll_response_def Let_def case_prod_beta)
  moreover have "polled env n c (Poll n) = []" using None assms(2) by (simp add: polled_def opt_list_def)
  ultimately show ?thesis using live_kept [OF assms(1)] by (simp add: keeps_abort keeps_refl)
next
  case (Some r)
  have ps: "ps = remdups_adj rs" "tk_last t = (if rs = [] then None else Some (last rs))"
    using assms by (simp_all add: live_def pending_def)
  have "map_of (wc_tasks (poll_task env c n t)) n = Some (observe t r)" "wc_frames (poll_task env c n t) = wc_frames c"
    "wc_next (poll_task env c n t) = wc_next c"
    using Some assms(2) by (auto simp: poll_task_def poll_response_def Let_def case_prod_beta set_task_lookup) (auto simp: set_task_def)
  moreover have "ps @ pending (observe t r) = remdups_adj (rs @ [r])" "prefix ps (remdups_adj (rs @ [r]))" "tk_last (observe t r) = Some r"
    using ps by (auto simp: observe_def pending_def remdups_adj_snoc split: if_splits)
  moreover have "polled env n c (Poll n) = [r]" using Some assms(2) by (simp add: polled_def opt_list_def)
  ultimately show ?thesis using assms(1,2) by (simp add: live_def observe_def)
qed

lemma live_deliver:
  assumes "live t0 c0 n rs ps c" "map_of (wc_tasks c) n = Some t" "tk_phase t = Sending r"
  shows "live t0 c0 n rs (ps @ pushed n c (Deliver n)) (deliver c n t r)"
proof (cases "wc_closed c")
  case True
  then show ?thesis using assms(1) by (auto simp: deliver_def pushed_def intro: live_kept keeps_abort keeps_refl)
next
  case False
  have t: "ps @ [r] = remdups_adj rs" "tk_id t = tk_id t0" using assms by (simp_all add: live_def pending_def)
  have "map_of (wc_tasks (deliver c n t r)) n = Some (t\<lparr>tk_phase := Sleeping\<rparr>)" "wc_frames (deliver c n t r) = wc_frames c @ [data_frame (tk_id t) r]"
    "wc_next (deliver c n t r) = wc_next c"
    using False assms(2) by (simp_all add: deliver_def set_task_lookup send_frame_def) (simp_all add: set_task_def)
  moreover have "pushed n c (Deliver n) = [r]" using False assms(2,3) by (simp add: pushed_def)
  moreover have "subseq (map (data_frame (tk_id t0)) (ps @ [r])) (drop (length (wc_frames c0)) (wc_frames c) @ [data_frame (tk_id t) r])"
    using assms(1) t(2) by (auto simp: live_def intro: list_emb_append_mono)
  ultimately show ?thesis using assms(1,2) t(1) unfolding live_def by (auto simp: pending_def prefix_length_le)
qed

lemma live_wake:
  assumes "live t0 c0 n rs ps c" "map_of (wc_tasks c) n = Some t" "tk_phase t = Sleeping"
  shows "live t0 c0 n rs ps (set_task n (t\<lparr>tk_phase := Polling\<rparr>) c)"
  using assms by (auto simp: live_def set_task_lookup pending_def) (auto simp: set_task_def)

lemma live_step:
  assumes "live t0 c0 n rs ps c" "ws_step env c e c'"
  shows "live t0 c0 n (rs @ polled env n c e) (ps @ pushed n c e) c'"
proof (cases "e \<in> {Poll n, Deliver n, Wake n}")
  case True
  have wake: "polled env n c (Wake n) = []" "polled env n c (Deliver n) = []" "pushed n c (Wake n) = []" "pushed n c (Poll n) = []"
    by (simp_all add: polled_def pushed_def)
  show ?thesis using assms(2) True
    by (elim ws_stepE) (use assms(1) in \<open>auto simp: wake live_poll live_deliver live_wake\<close>)
next
  case False
  then have "polled env n c e = []" "pushed n c e = []" by (auto simp: polled_def pushed_def)
  then show ?thesis using live_kept [OF assms(1) keeps_step [OF assms(2)]] False assms(1) by (simp add: live_def)
qed

lemma live_run: "ws_run env n c0 rs ps c \<Longrightarrow> live t0 c0 n [] [] c0 \<Longrightarrow> live t0 c0 n rs ps c"
  by (induction rule: ws_run.induct) (auto intro: live_step)

text \<open>
  C10. A live query tells its client exactly the changes: in any run of a
  connection, however its steps interleave with messages and other tasks, the
  payloads a new task has sent are the responses its polls got, in order,
  without the ones equal to their predecessor, except for one that may still
  wait to be sent. Each was sent as a \<open>data\<close> frame with the id of the
  subscription.
\<close>

theorem live_query_pushes_changes:
  assumes "ws_reach env c0" "map_of (wc_tasks c0) n = Some t0" "tk_last t0 = None" "tk_phase t0 = Polling"
    and "ws_run env n c0 rs ps c"
  shows "prefix ps (remdups_adj rs)
    \<and> subseq (map (data_frame (tk_id t0)) ps) (drop (length (wc_frames c0)) (wc_frames c))
    \<and> (case map_of (wc_tasks c) n of None \<Rightarrow> True | Some t \<Rightarrow> ps @ pending t = remdups_adj rs)"
proof -
  have "n < wc_next c0" using ownedD(3) [OF tasks.reached [OF assms(1)] map_of_SomeD [OF assms(2)]] .
  then have "live t0 c0 n [] [] c0" using assms(2-4) by (simp add: live_def pending_def)
  then have "live t0 c0 n rs ps c" by (rule live_run [OF assms(5)])
  then show ?thesis by (auto simp: live_def split: option.splits)
qed

text \<open>A connection with one live query.\<close>

definition live_payload :: json where
  "live_payload = JObject [(''query'', JString ''live'')]"

definition live_doc :: gql_document where
  "live_doc = [DefOperation (OpSubscription None [] [nested_field ''article'' [] [leaf_field ''id'']])]"

definition live_server :: server where
  "live_server = sample_server\<lparr>
     sv_extern := sample_extern\<lparr>json_parse := (\<lambda>_. Some (JObject [(''type'', JString ''start''), (''id'', JString ''1''), (''payload'', live_payload)]))\<rparr>,
     sv_lib := sample_server_lib\<lparr>sl_parse_query := (\<lambda>_. Inr live_doc)\<rparr>\<rparr>"

definition live_env :: ws_env where
  "live_env = \<lparr>we_server = live_server, we_relay = False, we_auth = (\<lambda>_. Inr (sample_session ''user'')), we_jwt_expiry = None,
     we_header_name = Some, we_header_value = (\<lambda>v. Some (Some v))\<rparr>"

definition live_conn :: ws_conn where
  "live_conn = handle_message live_env (ws_open [] 0) []"

definition live_task :: ws_task where
  "live_task = \<lparr>tk_id = JString ''1'', tk_session = sample_session ''user'', tk_payload = live_payload, tk_last = None, tk_phase = Polling\<rparr>"

lemma live_conn_reached: "ws_reach live_env live_conn"
  unfolding live_conn_def by (rule ws_reach.step [OF ws_reach.opened ws_step.message]) (simp add: ws_open_def)

lemma live_conn_eq: "live_conn = (ws_open [] 0)\<lparr>wc_tasks := [(0, live_task)], wc_next := 1, wc_subscriptions := [(''1'', 0)]\<rparr>"
  by code_simp

theorem ws_tasks_owned_witness:
  "list_all (\<lambda>(n, t). map_of (wc_subscriptions live_conn) (id_key (tk_id t)) = Some n) [(0, live_task)]
   \<and> is_subscription (sv_lib live_server) (tk_payload live_task)"
  using ws_tasks_owned [OF live_conn_reached] by (simp add: live_conn_eq ws_open_def live_env_def)

definition live_answer :: json where
  "live_answer = JObject [(''data'', JObject [])]"

definition live_polled :: ws_conn where
  "live_polled = poll_task live_env live_conn 0 live_task"

definition live_sent :: ws_conn where
  "live_sent = deliver live_polled 0 (observe live_task live_answer) live_answer"

theorem live_query_pushes_changes_witness:
  "ws_run live_env 0 live_conn [live_answer] [live_answer] live_sent
   \<and> subseq [data_frame (JString ''1'') live_answer] (drop (length (wc_frames live_conn)) (wc_frames live_sent))"
proof -
  have executed: "answer_of (fst (execute_with live_server (sample_session ''user'') live_payload False [])) = Some (200, live_answer)" by code_simp
  have fields: "we_server live_env = live_server" "we_relay live_env = False" "tk_session live_task = sample_session ''user''"
    "tk_payload live_task = live_payload" "wc_history live_conn = []" "wc_tasks live_conn = [(0, live_task)]" "\<not> wc_closed live_conn"
    by (simp_all add: live_env_def live_task_def live_conn_eq ws_open_def)
  have answer: "polled live_env 0 live_conn (Poll 0) = [live_answer]"
    by (simp add: polled_def poll_response_def fields executed opt_list_def)
  have "wc_tasks live_polled = [(0, observe live_task live_answer)] \<and> \<not> wc_closed live_polled"
    by (simp add: live_polled_def poll_task_def Let_def case_prod_beta fields executed) (simp add: set_task_def fields)
  then have sending: "map_of (wc_tasks live_polled) 0 = Some (observe live_task live_answer)" "\<not> wc_closed live_polled" by simp_all
  have phase: "tk_phase (observe live_task live_answer) = Sending live_answer" by (simp add: observe_def live_task_def)
  have task: "map_of (wc_tasks live_conn) 0 = Some live_task" "tk_last live_task = None" "tk_phase live_task = Polling"
    by (simp_all add: fields) (simp_all add: live_task_def)
  have "ws_run live_env 0 live_conn ([] @ polled live_env 0 live_conn (Poll 0)) ([] @ pushed 0 live_conn (Poll 0)) live_polled"
    unfolding live_polled_def by (rule ws_run.more [OF ws_run.start ws_step.poll]) (simp_all add: task)
  then have "ws_run live_env 0 live_conn [live_answer] [] live_polled" by (simp add: answer pushed_def)
  from ws_run.more [OF this ws_step.deliver [OF sending(1) phase]]
  have run: "ws_run live_env 0 live_conn [live_answer] [live_answer] live_sent"
    by (simp add: polled_def pushed_def sending phase live_sent_def)
  then show ?thesis
    using live_query_pushes_changes [OF live_conn_reached task run] by (simp add: live_task_def)
qed

end
