(* ===== verification/Loader.thy ===== *)
theory Loader
  imports Metadata Json
begin

text \<open>
  The loader of metadata directories, \<open>crates/metadata/src/loader.rs\<close>. The
  file system and the YAML parser are parameters; paths are
  \<open>std::path::Path\<close> as a list of components.
\<close>

section \<open>Paths\<close>

record path =
  pa_absolute :: bool
  pa_components :: "string list"

definition path_of :: "string \<Rightarrow> path" where
  "path_of s =
     (let parts = filter (\<lambda>p. p \<noteq> []) (split_char CHR ''/'' s); rooted = starts_with s ''/'' in
      \<lparr>pa_absolute = rooted,
       pa_components = (case parts of
          [] \<Rightarrow> []
        | p # ps \<Rightarrow> (if p = ''.'' \<and> rooted then [] else [p]) @ filter (\<lambda>q. q \<noteq> ''.'') ps)\<rparr>)"

text \<open>\<open>Path::join\<close>: an absolute path replaces the base; a leading \<open>.\<close> counts only at the start.\<close>

definition path_join :: "path \<Rightarrow> string \<Rightarrow> path" where
  "path_join base s =
     (let rel = path_of s in
      if pa_absolute rel then rel
      else base\<lparr>pa_components := pa_components base @
        (if pa_absolute base \<or> pa_components base \<noteq> [] then filter (\<lambda>q. q \<noteq> ''.'') (pa_components rel) else pa_components rel)\<rparr>)"

definition path_parent :: "path \<Rightarrow> path option" where
  "path_parent p = (if pa_components p = [] then None else Some (p\<lparr>pa_components := butlast (pa_components p)\<rparr>))"

section \<open>YAML and the file system\<close>

text \<open>\<open>serde_yaml::Value\<close>; a mapping has distinct keys, in order.\<close>

datatype yaml =
    YNull
  | YBool bool
  | YNumber jnum
  | YString string
  | YSequence "yaml list"
  | YMapping "(yaml \<times> yaml) list"
  | YTagged string yaml

text \<open>
  The operations of \<open>std::fs\<close> and \<open>serde_yaml\<close>; \<open>yl_version\<close> to
  \<open>yl_actions\<close> deserialise the sections.
\<close>

record yaml_lib =
  yl_read :: "path \<Rightarrow> string + string"
  yl_exists :: "path \<Rightarrow> bool"
  yl_canonicalize :: "path \<Rightarrow> path option"
  yl_parse :: "string \<Rightarrow> string + yaml"
  yl_version :: "string \<Rightarrow> string + 32 word"
  yl_sources :: "yaml \<Rightarrow> string + source list"
  yl_inherited_roles :: "yaml \<Rightarrow> string + inherited_role list"
  yl_query_collections :: "yaml \<Rightarrow> string + query_collection list"
  yl_allowlist :: "yaml \<Rightarrow> string + string list"
  yl_remote_schemas :: "yaml \<Rightarrow> string + remote_schema list"
  yl_actions :: "yaml \<Rightarrow> string + action_entry list \<times> custom_types"

text \<open>\<open>StackExhausted\<close> stands for a recursion deeper than the fuel.\<close>

datatype load_error =
    LoadIo path string
  | LoadYaml path string
  | BadInclude path
  | IncludeCycle path
  | UnsupportedVersion "32 word"
  | StackExhausted

definition map_err :: "('e \<Rightarrow> 'f) \<Rightarrow> 'e + 'a \<Rightarrow> 'f + 'a" where
  "map_err f r = (case r of Inl e \<Rightarrow> Inl (f e) | Inr v \<Rightarrow> Inr v)"

definition parse_file :: "yaml_lib \<Rightarrow> (string \<Rightarrow> string + 'a) \<Rightarrow> path \<Rightarrow> load_error + 'a" where
  "parse_file lib parse p = bindR (map_err (LoadIo p) (yl_read lib p)) (\<lambda>text. map_err (LoadYaml p) (parse text))"

section \<open>Includes\<close>

definition is_include_tag :: "string \<Rightarrow> bool" where
  "is_include_tag tag \<longleftrightarrow> dropWhile (\<lambda>c. c = CHR ''!'') tag = ''include''"

definition ymap_insert :: "yaml \<Rightarrow> yaml \<Rightarrow> (yaml \<times> yaml) list \<Rightarrow> (yaml \<times> yaml) list" where
  "ymap_insert k v m = (if k \<in> fst ` set m then map (\<lambda>(k', v'). (k', if k' = k then v else v')) m else m @ [(k, v)])"

fun include_string :: "string \<Rightarrow> string option" where
  "include_string s = map_option trim (strip_prefix ''!include '' s)"

lemma size_yaml_value: "kv \<in> set m \<Longrightarrow> size (snd kv) < size (YMapping m)"
  by (induction m) (auto simp: less_Suc_eq_le trans_le_add1 trans_le_add2)

lemma size_yaml_item: "v \<in> set vs \<Longrightarrow> size v < size (YSequence vs)"
  by (induction vs) (auto simp: less_Suc_eq_le trans_le_add1 trans_le_add2)

text \<open>
  \<open>resolve_includes\<close>, over the function that loads an included file. Values
  of mappings are resolved in order, keys and other tagged values are kept.
\<close>

function (sequential) resolve_includes :: "(path \<Rightarrow> load_error + yaml) \<Rightarrow> path \<Rightarrow> path \<Rightarrow> yaml \<Rightarrow> load_error + yaml" where
  "resolve_includes load base file (YString s) =
     (case include_string s of
        Some rel \<Rightarrow> load (path_join base rel)
      | None \<Rightarrow> Inr (YString s))"
| "resolve_includes load base file (YTagged tag v) =
     (if is_include_tag tag then
        (case v of YString rel \<Rightarrow> load (path_join base rel) | _ \<Rightarrow> Inl (BadInclude file))
      else Inr (YTagged tag v))"
| "resolve_includes load base file (YMapping m) =
     bindR (traverse (\<lambda>kv. bindR (resolve_includes load base file (snd kv)) (\<lambda>v. Inr (fst kv, v))) m) (\<lambda>kvs.
       Inr (YMapping (foldl (\<lambda>acc kv. ymap_insert (fst kv) (snd kv) acc) [] kvs)))"
| "resolve_includes load base file (YSequence vs) =
     bindR (traverse (resolve_includes load base file) vs) (\<lambda>ws. Inr (YSequence ws))"
| "resolve_includes load base file other = Inr other"
  by pat_completeness auto
termination
  by (relation "measure (\<lambda>(load, base, file, v). size v)") (auto simp: size_yaml_value size_yaml_item simp del: yaml.size)

definition path_key :: "yaml_lib \<Rightarrow> path \<Rightarrow> path" where
  "path_key lib p = (case yl_canonicalize lib p of Some c \<Rightarrow> c | None \<Rightarrow> p)"

text \<open>
  \<open>seen\<close> is the chain of files being resolved. Every call that returns a
  value leaves it as it was, and an error ends the whole load.
\<close>

fun load_yaml_tracked :: "nat \<Rightarrow> yaml_lib \<Rightarrow> path \<Rightarrow> path list \<Rightarrow> load_error + yaml" where
  "load_yaml_tracked 0 lib p seen = Inl StackExhausted"
| "load_yaml_tracked (Suc fuel) lib p seen =
     (let key = path_key lib p in
      if key \<in> set seen then Inl (IncludeCycle p)
      else bindR (parse_file lib (yl_parse lib) p) (\<lambda>v.
        resolve_includes (\<lambda>q. load_yaml_tracked fuel lib q (key # seen))
          (case path_parent p of Some d \<Rightarrow> d | None \<Rightarrow> path_of ''.'') p v))"

definition load_yaml_resolved :: "nat \<Rightarrow> yaml_lib \<Rightarrow> path \<Rightarrow> load_error + yaml" where
  "load_yaml_resolved fuel lib p = load_yaml_tracked fuel lib p []"

section \<open>The directory\<close>

definition load_section :: "nat \<Rightarrow> yaml_lib \<Rightarrow> path \<Rightarrow> string \<Rightarrow> (yaml \<Rightarrow> string + 'a) \<Rightarrow> 'a \<Rightarrow> load_error + 'a" where
  "load_section fuel lib dir file parse dflt =
     (let p = path_join dir file in
      if \<not> yl_exists lib p then Inr dflt
      else bindR (load_yaml_resolved fuel lib p) (\<lambda>v.
        if v = YNull then Inr dflt else map_err (LoadYaml p) (parse v)))"

definition load_actions :: "nat \<Rightarrow> yaml_lib \<Rightarrow> path \<Rightarrow> load_error + action_entry list \<times> custom_types" where
  "load_actions fuel lib dir = load_section fuel lib dir ''actions.yaml'' (yl_actions lib) ([], no_custom_types)"

definition load_metadata_dir :: "nat \<Rightarrow> yaml_lib \<Rightarrow> path \<Rightarrow> load_error + metadata" where
  "load_metadata_dir fuel lib dir =
     bindR (parse_file lib (yl_version lib) (path_join dir ''version.yaml'')) (\<lambda>version.
     if version \<noteq> 3 then Inl (UnsupportedVersion version)
     else
       (let databases_path = path_join (path_join dir ''databases'') ''databases.yaml'' in
        bindR (load_yaml_resolved fuel lib databases_path) (\<lambda>sources_value.
        bindR (map_err (LoadYaml databases_path) (yl_sources lib sources_value)) (\<lambda>sources.
        bindR (load_actions fuel lib dir) (\<lambda>(actions, types).
        bindR (load_section fuel lib dir ''inherited_roles.yaml'' (yl_inherited_roles lib) []) (\<lambda>roles.
        bindR (load_section fuel lib dir ''query_collections.yaml'' (yl_query_collections lib) []) (\<lambda>collections.
        bindR (load_section fuel lib dir ''allow_list.yaml'' (yl_allowlist lib) []) (\<lambda>allowlist.
        bindR (load_section fuel lib dir ''remote_schemas.yaml'' (yl_remote_schemas lib) []) (\<lambda>remotes.
          Inr \<lparr>md_version = unat version, md_sources = sources, md_inherited_roles = roles, md_query_collections = collections,
            md_allowlist = allowlist, md_remote_schemas = remotes, md_actions = actions, md_custom_types = types\<rparr>)))))))))"

end
