(* ===== verification/Loader_Properties.thy ===== *)
theory Loader_Properties
  imports Loader
begin

text \<open>The include mechanism of the loader: it ends, and what it gives has every include spliced.\<close>

section \<open>What loading means\<close>

abbreviation ymap_of :: "(yaml \<times> yaml) list \<Rightarrow> (yaml \<times> yaml) list" where
  "ymap_of kvs \<equiv> foldl (\<lambda>acc kv. ymap_insert (fst kv) (snd kv) acc) [] kvs"

definition path_dir :: "path \<Rightarrow> path" where
  "path_dir p = (case path_parent p of Some d \<Rightarrow> d | None \<Rightarrow> path_of ''.'')"

text \<open>The file an include names, relative to the directory of the file it is in.\<close>

fun include_target :: "path \<Rightarrow> yaml \<Rightarrow> path option" where
  "include_target p (YString s) = map_option (path_join (path_dir p)) (include_string s)"
| "include_target p (YTagged tag (YString rel)) = (if is_include_tag tag then Some (path_join (path_dir p) rel) else None)"
| "include_target p _ = None"

fun is_leaf :: "yaml \<Rightarrow> bool" where
  "is_leaf (YSequence _) = False"
| "is_leaf (YMapping _) = False"
| "is_leaf (YString s) = (include_string s = None)"
| "is_leaf (YTagged tag _) = (\<not> is_include_tag tag)"
| "is_leaf _ = True"

inductive loads :: "yaml_lib \<Rightarrow> path \<Rightarrow> yaml \<Rightarrow> bool"
  and spliced :: "yaml_lib \<Rightarrow> path \<Rightarrow> yaml \<Rightarrow> yaml \<Rightarrow> bool" for lib where
  read_file: "yl_read lib p = Inr text \<Longrightarrow> yl_parse lib text = Inr v \<Longrightarrow> spliced lib p v w \<Longrightarrow> loads lib p w"
| included: "include_target p v = Some q \<Longrightarrow> loads lib q w \<Longrightarrow> spliced lib p v w"
| sequence: "list_all2 (spliced lib p) vs ws \<Longrightarrow> spliced lib p (YSequence vs) (YSequence ws)"
| mapping: "map fst kvs = map fst kws \<Longrightarrow> list_all2 (spliced lib p) (map snd kvs) (map snd kws)
    \<Longrightarrow> spliced lib p (YMapping kvs) (YMapping (ymap_of kws))"
| leaf: "is_leaf v \<Longrightarrow> spliced lib p v v"

fun include_free :: "yaml \<Rightarrow> bool" where
  "include_free (YString s) = (include_string s = None)"
| "include_free (YTagged tag _) = (\<not> is_include_tag tag)"
| "include_free (YSequence vs) = list_all include_free vs"
| "include_free (YMapping m) = list_all include_free (map snd m)"
| "include_free _ = True"

section \<open>Splicing\<close>

lemma traverse_values:
  assumes "traverse (\<lambda>kv. bindR (f (snd kv)) (\<lambda>v. Inr (fst kv, v))) m = Inr kws"
  shows "map fst m = map fst kws \<and> list_all2 (\<lambda>kv kw. f (snd kv) = Inr (snd kw)) m kws"
proof -
  have "list_all2 (\<lambda>kv kw. fst kv = fst kw \<and> f (snd kv) = Inr (snd kw)) m kws"
    using assms unfolding traverse_Inr_iff by (rule list_all2_mono) auto
  then show ?thesis by (induction rule: list_all2_induct) auto
qed

lemma resolve_spliced:
  assumes load: "\<And>q w. load q = Inr w \<Longrightarrow> loads lib q w"
  shows "resolve_includes load (path_dir p) p v = Inr w \<Longrightarrow> spliced lib p v w"
proof (induction v arbitrary: w rule: measure_induct_rule [of size])
  case (less v)
  show ?case
  proof (cases v)
    case (YString s)
    then show ?thesis using less.prems load by (auto intro: included leaf simp del: include_string.simps split: option.splits)
  next
    case (YTagged tag u)
    then show ?thesis using less.prems load by (auto intro: included leaf split: if_splits yaml.splits)
  next
    case (YSequence vs)
    obtain ws where w: "w = YSequence ws" "traverse (resolve_includes load (path_dir p) p) vs = Inr ws"
      using less.prems YSequence by auto
    then have "list_all2 (spliced lib p) vs ws"
      unfolding traverse_Inr_iff using less.IH YSequence size_yaml_item by (auto elim!: list.rel_mono_strong)
    then show ?thesis using w YSequence by (simp add: sequence)
  next
    case (YMapping m)
    obtain kws where w: "w = YMapping (ymap_of kws)"
      "traverse (\<lambda>kv. bindR (resolve_includes load (path_dir p) p (snd kv)) (\<lambda>v. Inr (fst kv, v))) m = Inr kws"
      using less.prems YMapping by auto
    have kws: "map fst m = map fst kws" "list_all2 (\<lambda>kv kw. resolve_includes load (path_dir p) p (snd kv) = Inr (snd kw)) m kws"
      using traverse_values [OF w(2)] by auto
    have "list_all2 (\<lambda>kv kw. spliced lib p (snd kv) (snd kw)) m kws"
      using kws(2) less.IH YMapping size_yaml_value by (auto elim!: list.rel_mono_strong)
    then show ?thesis using w kws(1) YMapping by (simp add: mapping list_all2_map1 list_all2_map2)
  qed (use less.prems in \<open>auto intro: leaf\<close>)
qed

lemma load_loads: "load_yaml_tracked fuel lib p seen = Inr w \<Longrightarrow> loads lib p w"
proof (induction fuel arbitrary: p seen w)
  case (Suc fuel)
  then obtain v where v: "parse_file lib (yl_parse lib) p = Inr v"
      "resolve_includes (\<lambda>q. load_yaml_tracked fuel lib q (path_key lib p # seen)) (path_dir p) p v = Inr w"
    by (auto simp: Let_def path_dir_def split: if_splits)
  obtain content where "yl_read lib p = Inr content" "yl_parse lib content = Inr v"
    using v(1) by (auto simp: parse_file_def map_err_def split: sum.splits)
  then show ?case using resolve_spliced [OF Suc.IH v(2)] by (rule read_file)
qed simp

section \<open>No include is left\<close>

lemma ymap_insert_values: "w \<in> set (map snd (ymap_insert k v m)) \<Longrightarrow> w = v \<or> w \<in> set (map snd m)"
  by (auto simp: ymap_insert_def split: if_splits)

lemma ymap_of_values: "set (map snd (foldl (\<lambda>acc kv. ymap_insert (fst kv) (snd kv) acc) m kvs)) \<subseteq> set (map snd m) \<union> set (map snd kvs)"
proof (induction kvs arbitrary: m)
  case (Cons kv kvs)
  have "set (map snd (ymap_insert (fst kv) (snd kv) m)) \<subseteq> insert (snd kv) (set (map snd m))" using ymap_insert_values by blast
  then show ?case using Cons [of "ymap_insert (fst kv) (snd kv) m"] unfolding foldl_Cons list.map list.set by blast
qed simp

lemma spliced_free: "loads lib p w \<Longrightarrow> include_free w" "spliced lib p v w \<Longrightarrow> include_free w"
proof (induction rule: loads_spliced.inducts)
  case (sequence p vs ws)
  then show ?case by (auto simp: list_all_iff list_all2_conv_all_nth in_set_conv_nth)
next
  case (mapping kvs kws p)
  then have "list_all include_free (map snd kws)" by (auto simp: list_all_length list_all2_conv_all_nth)
  moreover have "set (map snd (ymap_of kws)) \<subseteq> set (map snd kws)" using ymap_of_values [of "[]" kws] by simp
  ultimately show ?case unfolding include_free.simps list_all_iff by blast
next
  case (leaf v p)
  then show ?case by (cases v) auto
qed auto

text \<open>
  C20. The loader splices includes as specified: what it gives for a file is
  the file's value with every include replaced by what its target, relative
  to the directory of the including file, loads to; and no include is left in
  any list or value of a mapping.
\<close>

theorem includes_resolved:
  "load_yaml_resolved fuel lib p = Inr v \<Longrightarrow> loads lib p v \<and> include_free v"
  unfolding load_yaml_resolved_def using load_loads spliced_free(1) by blast

section \<open>Termination\<close>

lemma traverse_Inl: "traverse f xs = Inl e \<Longrightarrow> \<exists>x \<in> set xs. f x = Inl e"
  by (induction xs) (auto simp: bindR_def split: sum.splits)

lemma resolve_not_exhausted:
  assumes load: "\<And>q. load q \<noteq> Inl StackExhausted"
  shows "resolve_includes load base p v \<noteq> Inl StackExhausted"
proof (induction v rule: measure_induct_rule [of size])
  case (less v)
  show ?case
  proof (cases v)
    case (YSequence vs)
    then show ?thesis using less size_yaml_item by (auto simp: bindR_def dest!: traverse_Inl split: sum.splits)
  next
    case (YMapping m)
    then show ?thesis using less size_yaml_value by (fastforce simp: bindR_def dest!: traverse_Inl split: sum.splits)
  qed (use load in \<open>auto split: option.splits yaml.splits\<close>)
qed

text \<open>
  Files are identified by their canonical path. When the readable ones have
  finitely many, a chain of includes cannot be longer.
\<close>

definition readable_within :: "yaml_lib \<Rightarrow> path set \<Rightarrow> bool" where
  "readable_within lib F \<longleftrightarrow> finite F \<and> (\<forall>p content. yl_read lib p = Inr content \<longrightarrow> path_key lib p \<in> F)"

lemma load_enough:
  assumes F: "readable_within lib F"
  shows "card (F - set seen) < fuel \<Longrightarrow> card (F - set seen) < fuel'
    \<Longrightarrow> load_yaml_tracked fuel lib p seen = load_yaml_tracked fuel' lib p seen \<and> load_yaml_tracked fuel lib p seen \<noteq> Inl StackExhausted"
proof (induction fuel arbitrary: fuel' p seen)
  case (Suc fuel)
  then obtain fuel'' where f': "fuel' = Suc fuel''" by (cases fuel') auto
  show ?case
  proof (cases "path_key lib p \<in> set seen \<or> (\<exists>e. parse_file lib (yl_parse lib) p = Inl e)")
    case True
    then show ?thesis by (auto simp: f' Let_def parse_file_def map_err_def split: sum.splits)
  next
    case False
    then obtain v where v: "parse_file lib (yl_parse lib) p = Inr v" by (meson sum.exhaust_sel)
    then have "path_key lib p \<in> F" using F by (auto simp: readable_within_def parse_file_def map_err_def split: sum.splits)
    then have "card (F - set (path_key lib p # seen)) < card (F - set seen)"
      using F False by (intro psubset_card_mono) (auto simp: readable_within_def)
    then have less: "card (F - set (path_key lib p # seen)) < fuel" "card (F - set (path_key lib p # seen)) < fuel''"
      using Suc.prems f' by simp_all
    have same: "(\<lambda>q. load_yaml_tracked fuel lib q (path_key lib p # seen)) = (\<lambda>q. load_yaml_tracked fuel'' lib q (path_key lib p # seen))"
      using Suc.IH [OF less] by blast
    have "load_yaml_tracked fuel lib q (path_key lib p # seen) \<noteq> Inl StackExhausted" for q using Suc.IH [OF less] by blast
    then show ?thesis
      using False v unfolding f' load_yaml_tracked.simps Let_def same [symmetric] by (simp add: resolve_not_exhausted)
  qed
qed simp

lemma section_enough:
  assumes F: "readable_within lib F" and fuel: "card F < fuel" "card F < fuel'"
  shows "load_section fuel lib dir f parse dflt = load_section fuel' lib dir f parse dflt"
    and "load_section fuel lib dir f parse dflt \<noteq> Inl StackExhausted"
  using load_enough [OF F, of "[]" fuel fuel' "path_join dir f"] fuel
  by (auto simp: load_section_def load_yaml_resolved_def Let_def bindR_def map_err_def split: sum.splits)

lemma bind_not_exhausted:
  "m \<noteq> Inl StackExhausted \<Longrightarrow> (\<And>v. f v \<noteq> Inl StackExhausted) \<Longrightarrow> bindR m f \<noteq> Inl StackExhausted"
  by (auto simp: bindR_def split: sum.splits)

lemma parse_not_exhausted: "map_err (LoadYaml p) r \<noteq> Inl StackExhausted" "parse_file lib parse p \<noteq> Inl StackExhausted"
  by (auto simp: parse_file_def map_err_def bindR_def split: sum.splits)

text \<open>
  C19. Loading always ends, cyclic includes or not: with finitely many files
  that can be read, any stack deeper than their number gives the same result,
  and it is not an exhausted stack.
\<close>

theorem load_terminates:
  assumes F: "readable_within lib F"
  shows "\<exists>r. r \<noteq> Inl StackExhausted \<and> (\<forall>fuel > card F. load_metadata_dir fuel lib dir = r)"
proof -
  have tracked: "load_yaml_tracked fuel lib p [] = load_yaml_tracked (Suc (card F)) lib p []"
      "load_yaml_tracked (Suc (card F)) lib p [] \<noteq> Inl StackExhausted" if "card F < fuel" for fuel p
    using load_enough [OF F, of "[]" fuel "Suc (card F)" p] that unfolding list.set Diff_empty by (metis lessI)+
  have "load_metadata_dir fuel lib dir = load_metadata_dir (Suc (card F)) lib dir" if "card F < fuel" for fuel
    unfolding load_metadata_dir_def load_actions_def load_yaml_resolved_def section_enough(1) [OF F that lessI] tracked(1) [OF that] ..
  moreover have "load_metadata_dir (Suc (card F)) lib dir \<noteq> Inl StackExhausted"
    unfolding load_metadata_dir_def load_actions_def load_yaml_resolved_def Let_def
    by (simp add: bind_not_exhausted parse_not_exhausted section_enough(2) [OF F lessI lessI] tracked(2) [OF lessI] case_prod_beta
        del: load_yaml_tracked.simps)
  ultimately show ?thesis by blast
qed

text \<open>A directory with one included list, and one with a cycle.\<close>

definition yaml_of :: "string \<Rightarrow> yaml" where
  "yaml_of content =
     (if content = ''list'' then YSequence [YString (''!include b.yaml''), YBool True]
      else if content = ''cycle'' then YString ''!include a.yaml''
      else YNumber (PosInt 7))"

definition sample_files :: "string \<Rightarrow> yaml_lib" where
  "sample_files a = \<lparr>yl_read = (\<lambda>p. if p = path_of ''m/a.yaml'' then Inr a else if p = path_of ''m/b.yaml'' then Inr ''leaf'' else Inl ''not found''),
     yl_exists = (\<lambda>_. False), yl_canonicalize = (\<lambda>_. None), yl_parse = (\<lambda>t. Inr (yaml_of t)), yl_version = (\<lambda>_. Inr 3),
     yl_sources = (\<lambda>_. Inr []), yl_inherited_roles = (\<lambda>_. Inr []), yl_query_collections = (\<lambda>_. Inr []), yl_allowlist = (\<lambda>_. Inr []),
     yl_remote_schemas = (\<lambda>_. Inr []), yl_actions = (\<lambda>_. Inr ([], no_custom_types))\<rparr>"

lemma cycle_reported: "load_yaml_resolved 9 (sample_files ''cycle'') (path_of ''m/a.yaml'') = Inl (IncludeCycle (path_of ''m/a.yaml''))"
  by code_simp

theorem includes_resolved_witness:
  "loads (sample_files ''list'') (path_of ''m/a.yaml'') (YSequence [YNumber (PosInt 7), YBool True])
   \<and> include_free (YSequence [YNumber (PosInt 7), YBool True])"
proof -
  have "load_yaml_resolved 9 (sample_files ''list'') (path_of ''m/a.yaml'') = Inr (YSequence [YNumber (PosInt 7), YBool True])" by code_simp
  then show ?thesis by (rule includes_resolved)
qed

theorem load_terminates_witness:
  "\<exists>r. r \<noteq> Inl StackExhausted \<and> load_metadata_dir 3 (sample_files ''cycle'') (path_of ''m'') = r"
proof -
  have "readable_within (sample_files ''cycle'') {path_of ''m/a.yaml'', path_of ''m/b.yaml''}"
    by (auto simp: readable_within_def sample_files_def path_key_def split: if_splits)
  moreover have "card {path_of ''m/a.yaml'', path_of ''m/b.yaml''} < 3" by (simp add: card_insert_if)
  ultimately show ?thesis using load_terminates [of "sample_files ''cycle''" _ "path_of ''m''"] by blast
qed

end
