(* ===== verification/Snapshot.thy ===== *)
theory Snapshot
  imports Dict Catalog
begin

text \<open>
  \<open>introspect\<close> of \<open>crates/catalog/src/lib.rs\<close>: the catalog built from
  the rows of four queries. The queries themselves run on Postgres: their
  results are the parameter \<open>pg_rows\<close>, typed as the code reads them.
\<close>

record column_row =
  cr_schema :: string
  cr_table :: string
  cr_column :: column_info

record key_row =
  kr_schema :: string
  kr_table :: string
  kr_column :: string

record fk_row =
  fr_constraint :: string
  fr_schema :: string
  fr_table :: string
  fr_ref_schema :: string
  fr_ref_table :: string
  fr_column :: string
  fr_ref_column :: string

record function_row =
  fnr_schema :: string
  fnr_name :: string
  fnr_returns_set :: bool
  fnr_nargs :: "32 word"
  fnr_ndefaults :: "32 word"
  fnr_ret_type :: string
  fnr_ret_rel_schema :: "string option"
  fnr_ret_rel_name :: "string option"
  fnr_arg_names :: "string list"
  fnr_arg_types :: "string list"
  fnr_arg_composites :: "string list"

record pg_rows =
  pg_columns :: "string + column_row list"
  pg_primary_keys :: "string + key_row list"
  pg_foreign_keys :: "string + fk_row list"
  pg_functions :: "string + function_row list"

section \<open>Tables\<close>

definition new_table :: "string \<Rightarrow> string \<Rightarrow> table_info" where
  "new_table schema name = \<lparr>ti_schema = schema, ti_name = name, ti_columns = [], ti_primary_key = [], ti_foreign_keys = []\<rparr>"

type_synonym table_map = "(string \<times> table_info) list"

definition add_column :: "table_map \<Rightarrow> column_row \<Rightarrow> table_map" where
  "add_column m r =
     (let key = qualified_key (cr_schema r) (cr_table r);
          entry = (case map_of m key of Some t \<Rightarrow> t | None \<Rightarrow> new_table (cr_schema r) (cr_table r))
      in btree_insert key (entry\<lparr>ti_columns := ti_columns entry @ [cr_column r]\<rparr>) m)"

text \<open>\<open>get_mut\<close>: a table that is not there is passed over.\<close>

definition table_modify :: "string \<Rightarrow> (table_info \<Rightarrow> table_info) \<Rightarrow> table_map \<Rightarrow> table_map" where
  "table_modify key f m = (case map_of m key of None \<Rightarrow> m | Some t \<Rightarrow> btree_insert key (f t) m)"

definition add_primary_key :: "table_map \<Rightarrow> key_row \<Rightarrow> table_map" where
  "add_primary_key m r =
     table_modify (qualified_key (kr_schema r) (kr_table r)) (\<lambda>t. t\<lparr>ti_primary_key := ti_primary_key t @ [kr_column r]\<rparr>) m"

definition map_column :: "fk_row \<Rightarrow> foreign_key \<Rightarrow> foreign_key" where
  "map_column r fk = fk\<lparr>fk_column_mapping := btree_insert (fr_column r) (fr_ref_column r) (fk_column_mapping fk)\<rparr>"

definition new_fk :: "fk_row \<Rightarrow> foreign_key" where
  "new_fk r = \<lparr>fk_constraint_name = fr_constraint r, fk_column_mapping = [], fk_referenced_schema = fr_ref_schema r,
     fk_referenced_table = fr_ref_table r\<rparr>"

text \<open>The first constraint of that name, or a new one at the end.\<close>

fun add_fk_row :: "fk_row \<Rightarrow> foreign_key list \<Rightarrow> foreign_key list" where
  "add_fk_row r [] = [map_column r (new_fk r)]"
| "add_fk_row r (fk # fks) = (if fk_constraint_name fk = fr_constraint r then map_column r fk # fks else fk # add_fk_row r fks)"

definition add_foreign_key :: "table_map \<Rightarrow> fk_row \<Rightarrow> table_map" where
  "add_foreign_key m r =
     table_modify (qualified_key (fr_schema r) (fr_table r)) (\<lambda>t. t\<lparr>ti_foreign_keys := add_fk_row r (ti_foreign_keys t)\<rparr>) m"

section \<open>Functions\<close>

definition zip_option :: "'a option \<Rightarrow> 'b option \<Rightarrow> ('a \<times> 'b) option" where
  "zip_option a b = (case (a, b) of (Some u, Some v) \<Rightarrow> Some (u, v) | _ \<Rightarrow> None)"

definition list_get :: "'a list \<Rightarrow> nat \<Rightarrow> 'a option" where
  "list_get xs i = (if i < length xs then Some (xs ! i) else None)"

text \<open>\<open>.get(i).filter(|s| !s.is_empty())\<close>\<close>

definition non_empty_at :: "string list \<Rightarrow> nat \<Rightarrow> string option" where
  "non_empty_at xs i = Option.bind (list_get xs i) (\<lambda>s. if s = [] then None else Some s)"

definition first_default :: "function_row \<Rightarrow> nat" where
  "first_default r = nat (max (sint (fnr_nargs r - fnr_ndefaults r)) 0)"

definition function_arg_of :: "function_row \<Rightarrow> nat \<times> string \<Rightarrow> function_arg" where
  "function_arg_of r = (\<lambda>(i, pg_type).
     \<lparr>fa_name = non_empty_at (fnr_arg_names r) i, fa_has_default = (first_default r \<le> i), fa_pg_type = pg_type,
      fa_composite_of = Option.bind (non_empty_at (fnr_arg_composites r) i) (split_once CHR ''.'')\<rparr>)"

definition function_of :: "function_row \<Rightarrow> function_info" where
  "function_of r =
     (let returns_table = zip_option (fnr_ret_rel_schema r) (fnr_ret_rel_name r) in
      \<lparr>fi_schema = fnr_schema r, fi_name = fnr_name r, fi_args = map (function_arg_of r) (enumerate 0 (fnr_arg_types r)),
       fi_returns_table = returns_table, fi_returns_set = fnr_returns_set r,
       fi_returns_scalar = (if returns_table = None then Some (fnr_ret_type r) else None)\<rparr>)"

definition add_function :: "(string \<times> function_info) list \<Rightarrow> function_row \<Rightarrow> (string \<times> function_info) list" where
  "add_function m r = btree_insert (qualified_key (fnr_schema r) (fnr_name r)) (function_of r) m"

section \<open>The snapshot\<close>

definition introspect :: "pg_rows \<Rightarrow> string + catalog" where
  "introspect pg =
     bindR (pg_columns pg) (\<lambda>cols.
     bindR (pg_primary_keys pg) (\<lambda>pks.
     bindR (pg_foreign_keys pg) (\<lambda>fks.
     bindR (pg_functions pg) (\<lambda>fns.
       let columns = foldl add_column [] cols;
           keys = foldl add_primary_key columns pks
       in Inr \<lparr>cat_tables = foldl add_foreign_key keys fks, cat_functions = foldl add_function [] fns\<rparr>))))"

end
