(* ===== verification/Snapshot_Properties.thy ===== *)
theory Snapshot_Properties
  imports Snapshot
begin

text \<open>The catalog has exactly the tables, columns and keys of the rows it was built from.\<close>

section \<open>Keys\<close>

lemma qualified_key_inj:
  assumes "CHR ''.'' \<notin> set s" "CHR ''.'' \<notin> set s'"
  shows "qualified_key s n = qualified_key s' n' \<longleftrightarrow> s = s' \<and> n = n'"
proof -
  have split: "takeWhile (\<lambda>c. c \<noteq> CHR ''.'') (qualified_key u m) = u" if "CHR ''.'' \<notin> set u" for u m
    using that by (induction u) (auto simp: qualified_key_def)
  show ?thesis using split [OF assms(1), of n] split [OF assms(2), of n'] by (auto simp: qualified_key_def)
qed

section \<open>One loop at a time\<close>

abbreviation column_key :: "column_row \<Rightarrow> string" where
  "column_key r \<equiv> qualified_key (cr_schema r) (cr_table r)"

lemma columns_lookup:
  "map_of (foldl add_column [] cols) k =
     (case filter (\<lambda>r. column_key r = k) cols of
        [] \<Rightarrow> None
      | r # rs \<Rightarrow> Some ((new_table (cr_schema r) (cr_table r))\<lparr>ti_columns := map cr_column (r # rs)\<rparr>))"
proof (induction cols rule: rev_induct)
  case (snoc r cols)
  then show ?case
    by (auto simp: add_column_def Let_def btree.get_put new_table_def split: list.splits option.splits)
qed simp

lemma modify_lookup: "map_of (table_modify key f m) k = (if k = key then map_option f (map_of m k) else map_of m k)"
  by (auto simp: table_modify_def btree.get_put split: option.splits)

lemma primary_keys_lookup:
  "map_of (foldl add_primary_key m pks) k = map_option (\<lambda>t. t\<lparr>ti_primary_key := ti_primary_key t
     @ map kr_column (filter (\<lambda>r. qualified_key (kr_schema r) (kr_table r) = k) pks)\<rparr>) (map_of m k)"
  by (induction pks rule: rev_induct) (auto simp: add_primary_key_def modify_lookup option.map_comp comp_def option.map_ident)

lemma foreign_keys_lookup:
  "map_of (foldl add_foreign_key m fks) k = map_option (\<lambda>t. t\<lparr>ti_foreign_keys :=
     foldl (\<lambda>a r. add_fk_row r a) (ti_foreign_keys t) (filter (\<lambda>r. qualified_key (fr_schema r) (fr_table r) = k) fks)\<rparr>) (map_of m k)"
  by (induction fks rule: rev_induct) (auto simp: add_foreign_key_def modify_lookup option.map_comp comp_def option.map_ident)

lemma insert_in_order: "in_order (map fst m) \<Longrightarrow> in_order (map fst (btree_insert k v m))"
  by (simp add: btree_insert_keys bset_insert_order)

lemma tables_in_order:
  "in_order (map fst m) \<Longrightarrow> in_order (map fst (foldl add_column m cols))"
  "in_order (map fst m) \<Longrightarrow> in_order (map fst (foldl add_primary_key m pks))"
  "in_order (map fst m) \<Longrightarrow> in_order (map fst (foldl add_foreign_key m fks))"
  subgoal by (induction cols arbitrary: m) (simp_all add: add_column_def Let_def insert_in_order)
  subgoal by (induction pks arbitrary: m) (simp_all add: add_primary_key_def table_modify_def insert_in_order split: option.split)
  subgoal by (induction fks arbitrary: m) (simp_all add: add_foreign_key_def table_modify_def insert_in_order split: option.split)
  done

section \<open>Foreign keys\<close>

text \<open>The rows of one constraint become one key: its columns are those of the rows.\<close>

lemma fk_row_names: "map fk_constraint_name (add_fk_row r fks) =
    (if fr_constraint r \<in> fk_constraint_name ` set fks then map fk_constraint_name fks else map fk_constraint_name fks @ [fr_constraint r])"
  by (induction fks) (auto simp: map_column_def new_fk_def)

lemma fk_row_set: "fk_constraint_name ` set (add_fk_row r fks) = insert (fr_constraint r) (fk_constraint_name ` set fks)"
  by (induction fks) (auto simp: map_column_def new_fk_def)

lemma fk_row_members:
  assumes "distinct (map fk_constraint_name fks)" "fk \<in> set (add_fk_row r fks)"
  shows "fk \<in> set fks \<and> fk_constraint_name fk \<noteq> fr_constraint r
     \<or> fk_constraint_name fk = fr_constraint r \<and> ((\<exists>old \<in> set fks. fk_constraint_name old = fr_constraint r \<and> fk = map_column r old)
         \<or> fr_constraint r \<notin> fk_constraint_name ` set fks \<and> fk = map_column r (new_fk r))"
  using assms by (induction fks) (auto simp: map_column_def new_fk_def split: if_splits, metis imageI)

lemma fk_rows:
  assumes "fks = foldl (\<lambda>a r. add_fk_row r a) [] rows"
  shows "distinct (map fk_constraint_name fks)"
    and "set (map fk_constraint_name fks) = fr_constraint ` set rows"
    and "fk \<in> set fks \<Longrightarrow> map_of (fk_column_mapping fk) c =
       map_option fr_ref_column (find (\<lambda>r. fr_column r = c) (rev (filter (\<lambda>r. fr_constraint r = fk_constraint_name fk) rows)))"
proof -
  let ?f = "foldl (\<lambda>a r. add_fk_row r a) []"
  have dist: "distinct (map fk_constraint_name (?f rows))" for rows
    by (induction rows rule: rev_induct) (auto simp: fk_row_names)
  have names: "set (map fk_constraint_name (?f rows)) = fr_constraint ` set rows" for rows
    by (induction rows rule: rev_induct) (auto simp: fk_row_set)
  show "distinct (map fk_constraint_name fks)" "set (map fk_constraint_name fks) = fr_constraint ` set rows"
    using dist names assms by simp_all
  have "map_of (fk_column_mapping fk) c =
       map_option fr_ref_column (find (\<lambda>r. fr_column r = c) (rev (filter (\<lambda>r. fr_constraint r = fk_constraint_name fk) rows)))"
    if "fk \<in> set (?f rows)" for fk
    using that
  proof (induction rows arbitrary: fk rule: rev_induct)
    case (snoc r rows)
    consider "fk \<in> set (?f rows)" "fk_constraint_name fk \<noteq> fr_constraint r"
      | old where "old \<in> set (?f rows)" "fk_constraint_name old = fr_constraint r" "fk = map_column r old"
      | "fr_constraint r \<notin> fk_constraint_name ` set (?f rows)" "fk = map_column r (new_fk r)"
      using fk_row_members [OF dist, of fk r rows] snoc.prems by auto
    then show ?case
    proof cases
      case 1
      then show ?thesis using snoc.IH by simp
    next
      case 2
      then show ?thesis using snoc.IH [of old] by (auto simp: map_column_def btree.get_put)
    next
      case 3
      then have "filter (\<lambda>q. fr_constraint q = fr_constraint r) rows = []" unfolding filter_empty_conv using names [of rows] by (metis imageI set_map)
      then show ?thesis using 3 by (auto simp: map_column_def new_fk_def)
    qed
  qed simp
  then show "fk \<in> set fks \<Longrightarrow> map_of (fk_column_mapping fk) c =
       map_option fr_ref_column (find (\<lambda>r. fr_column r = c) (rev (filter (\<lambda>r. fr_constraint r = fk_constraint_name fk) rows)))"
    using assms by simp
qed

section \<open>The snapshot\<close>

definition dot_free :: "string \<Rightarrow> bool" where
  "dot_free s \<longleftrightarrow> CHR ''.'' \<notin> set s"

text \<open>
  The foreign keys of a table, from its rows: one per constraint, and each
  column mapped as the last row for it says.
\<close>

definition keys_of_rows :: "fk_row list \<Rightarrow> foreign_key list \<Rightarrow> bool" where
  "keys_of_rows rows fks \<longleftrightarrow>
     distinct (map fk_constraint_name fks) \<and> set (map fk_constraint_name fks) = fr_constraint ` set rows
   \<and> list_all (\<lambda>fk. map_of (fk_column_mapping fk) = (\<lambda>c. map_option fr_ref_column
        (find (\<lambda>r. fr_column r = c) (rev (filter (\<lambda>r. fr_constraint r = fk_constraint_name fk) rows))))) fks"

lemma fold_keys_of_rows: "keys_of_rows rows (foldl (\<lambda>a r. add_fk_row r a) [] rows)"
  using fk_rows [OF refl] unfolding keys_of_rows_def list_all_iff by blast

lemma table_lookup:
  assumes "introspect pg = Inr cat" and "pg_columns pg = Inr cols" "pg_primary_keys pg = Inr pks" "pg_foreign_keys pg = Inr fks"
  shows "in_order (map fst (cat_tables cat))"
    and "map_of (cat_tables cat) k =
      (case filter (\<lambda>r. column_key r = k) cols of
         [] \<Rightarrow> None
       | r # rs \<Rightarrow> Some \<lparr>ti_schema = cr_schema r, ti_name = cr_table r, ti_columns = map cr_column (r # rs),
           ti_primary_key = map kr_column (filter (\<lambda>r. qualified_key (kr_schema r) (kr_table r) = k) pks),
           ti_foreign_keys = foldl (\<lambda>a r. add_fk_row r a) [] (filter (\<lambda>r. qualified_key (fr_schema r) (fr_table r) = k) fks)\<rparr>)"
proof -
  have cat: "cat_tables cat = foldl add_foreign_key (foldl add_primary_key (foldl add_column [] cols) pks) fks"
    using assms by (auto simp: introspect_def Let_def)
  show "in_order (map fst (cat_tables cat))" unfolding cat by (intro tables_in_order) simp
  show "map_of (cat_tables cat) k =
      (case filter (\<lambda>r. column_key r = k) cols of
         [] \<Rightarrow> None
       | r # rs \<Rightarrow> Some \<lparr>ti_schema = cr_schema r, ti_name = cr_table r, ti_columns = map cr_column (r # rs),
           ti_primary_key = map kr_column (filter (\<lambda>r. qualified_key (kr_schema r) (kr_table r) = k) pks),
           ti_foreign_keys = foldl (\<lambda>a r. add_fk_row r a) [] (filter (\<lambda>r. qualified_key (fr_schema r) (fr_table r) = k) fks)\<rparr>)"
    by (simp add: cat foreign_keys_lookup primary_keys_lookup columns_lookup new_table_def split: list.split)
qed


definition sample_rows :: pg_rows where
  "sample_rows = \<lparr>pg_columns = Inr [\<lparr>cr_schema = ''public'', cr_table = ''author'', cr_column = \<lparr>ci_name = ''id'', ci_pg_type = ''int4'', ci_nullable = False, ci_has_default = True\<rparr>\<rparr>],
     pg_primary_keys = Inr [\<lparr>kr_schema = ''public'', kr_table = ''author'', kr_column = ''id''\<rparr>],
     pg_foreign_keys = Inr [], pg_functions = Inr []\<rparr>"


text \<open>With dots, two tables can share one key: their columns are merged.\<close>

lemma dotted_schemas_merged:
  assumes "pg_columns pg = Inr [\<lparr>cr_schema = ''a.b'', cr_table = ''c'', cr_column = x\<rparr>, \<lparr>cr_schema = ''a'', cr_table = ''b.c'', cr_column = y\<rparr>]"
    and "introspect pg = Inr cat"
  shows "\<exists>t. catalog_table cat ''a'' ''b.c'' = Some t \<and> ti_columns t = [x, y]"
  using assms by (auto simp: introspect_def Let_def catalog_table_def foreign_keys_lookup primary_keys_lookup qualified_key_def
      add_column_def new_table_def)

end
