(* ===== verification/Boot.thy ===== *)
theory Boot
  imports Joins Loader Snapshot Jwt
begin

text \<open>
  From the command line to a serving process: \<open>crates/server/src/state.rs\<close>
  (sources and their catalogs), \<open>migrate.rs\<close> (the deploy commands) and the
  \<open>main\<close> function of \<open>main.rs\<close>. Databases, the environment, the command
  line parser and the migration runner are parameters.
\<close>

section \<open>State\<close>

text \<open>A connection pool is known by its URL.\<close>

record 'k app_state =
  as_pools :: "(string \<times> string) list"
  as_metadata :: metadata
  as_catalogs :: "(string \<times> catalog) list"
  as_default_url :: string
  as_admin_secret :: "string option"
  as_unauthorized_role :: "string option"
  as_stringify_numerics :: bool
  as_infer_function_permissions :: bool
  as_jwt :: "'k jwt_config option"
  as_auth_hook :: "(string \<times> string) option"
  as_allowlist_enabled :: bool

text \<open>What one round of synchronisation meets: errors of the pool, of a connection, of the helper, and the rows.\<close>

record db_access =
  da_make_pool :: "string \<Rightarrow> string option"
  da_connect :: "string \<Rightarrow> string option"
  da_helper :: "string \<Rightarrow> string option"
  da_rows :: "string \<Rightarrow> pg_rows"

text \<open>\<open>values().next()\<close> of the hash map is the parameter \<open>pick\<close>.\<close>

definition default_pool :: "(string list \<Rightarrow> string option) \<Rightarrow> 'k app_state \<Rightarrow> string option" where
  "default_pool pick st =
     (case map_of (as_pools st) ''default'' of Some u \<Rightarrow> Some u | None \<Rightarrow> pick (map snd (as_pools st)))"

definition resolve_source_url :: "(string \<Rightarrow> string option) \<Rightarrow> string \<Rightarrow> source \<Rightarrow> string" where
  "resolve_source_url env default_url s =
     (case src_database_url s of
        Url u \<Rightarrow> u
      | FromEnv v \<Rightarrow> (case env v of Some u \<Rightarrow> u | None \<Rightarrow> default_url))"

section \<open>Synchronisation\<close>

fun put_source :: "string \<Rightarrow> string \<Rightarrow> (string \<times> string) list \<Rightarrow> (string \<times> string) list" where
  "put_source n u [] = [(n, u)]"
| "put_source n u ((n', u') # rest) = (if n' = n then (n', u) # rest else (n', u') # put_source n u rest)"

definition resolved_sources :: "(string \<Rightarrow> string option) \<Rightarrow> string \<Rightarrow> source list \<Rightarrow> (string \<times> string) list" where
  "resolved_sources env default_url sources =
     foldl (\<lambda>acc s. put_source (src_name s) (resolve_source_url env default_url s) acc) [] sources"

text \<open>One source after the other; a pool stays even when a later step fails.\<close>

fun sync_each ::
  "db_access \<Rightarrow> (string \<times> string) list \<Rightarrow> (string \<times> string) list \<Rightarrow> (string \<times> catalog) list
     \<Rightarrow> (string + (string \<times> catalog) list) \<times> (string \<times> string) list" where
  "sync_each db [] pools catalogs = (Inr catalogs, pools)"
| "sync_each db ((name, url) # rest) pools catalogs =
     (let existing = (map_of pools name = Some url) in
      case (if existing then None else da_make_pool db url) of
        Some e \<Rightarrow> (Inl e, pools)
      | None \<Rightarrow>
          (let pools' = (if existing then pools else hm_insert name url pools) in
           case da_connect db url of
             Some e \<Rightarrow> (Inl e, pools')
           | None \<Rightarrow>
               (case da_helper db url of
                  Some e \<Rightarrow> (Inl e, pools')
                | None \<Rightarrow>
                    (case introspect (da_rows db url) of
                       Inl e \<Rightarrow> (Inl e, pools')
                     | Inr catalog \<Rightarrow> sync_each db rest pools' (hm_insert name catalog catalogs)))))"

definition has_table :: "catalog \<Rightarrow> qualified_table \<Rightarrow> bool" where
  "has_table cat t \<longleftrightarrow> catalog_table cat (qt_schema t) (qt_name t) \<noteq> None"

definition has_function :: "catalog \<Rightarrow> qualified_table \<Rightarrow> bool" where
  "has_function cat f \<longleftrightarrow> catalog_function cat (qt_schema f) (qt_name f) \<noteq> None"

definition prune_table :: "catalog \<Rightarrow> table_entry \<Rightarrow> table_entry" where
  "prune_table cat t =
     t\<lparr>te_computed_fields := filter (\<lambda>cf. has_function cat (cfd_function (cf_definition cf))) (te_computed_fields t)\<rparr>"

definition prune_source :: "(string \<times> catalog) list \<Rightarrow> source \<Rightarrow> source" where
  "prune_source catalogs s =
     (case map_of catalogs (src_name s) of
        None \<Rightarrow> s
      | Some cat \<Rightarrow>
          s\<lparr>src_tables := map (prune_table cat) (filter (\<lambda>t. has_table cat (te_table t)) (src_tables s)),
            src_functions := filter (\<lambda>f. has_function cat (fe_function f)) (src_functions s)\<rparr>)"

definition sync_sources :: "(string \<Rightarrow> string option) \<Rightarrow> db_access \<Rightarrow> 'k app_state \<Rightarrow> (string + unit) \<times> 'k app_state" where
  "sync_sources env db st =
     (case sync_each db (resolved_sources env (as_default_url st) (md_sources (as_metadata st))) (as_pools st) [] of
        (Inl e, pools) \<Rightarrow> (Inl e, st\<lparr>as_pools := pools\<rparr>)
      | (Inr catalogs, pools) \<Rightarrow>
          (Inr (), st\<lparr>as_pools := pools,
            as_metadata := (as_metadata st)\<lparr>md_sources := map (prune_source catalogs) (md_sources (as_metadata st))\<rparr>,
            as_catalogs := catalogs\<rparr>))"

definition ensure_default_source :: "metadata \<Rightarrow> metadata" where
  "ensure_default_source md =
     (if md_sources md = [] then
        md\<lparr>md_sources := [\<lparr>src_name = ''default'', src_database_url = FromEnv ''DIST_API_DATABASE_URL'', src_tables = [], src_functions = []\<rparr>]\<rparr>
      else md)"

section \<open>Deploy commands\<close>

text \<open>The migration runner: what \<open>load_sql_migrations\<close>, connecting and \<open>run_async\<close> give.\<close>

record migrations =
  mi_load :: "path \<Rightarrow> string + string list"
  mi_connect :: "string \<Rightarrow> string option"
  mi_run :: "string \<Rightarrow> string list \<Rightarrow> string + string list"

definition run_migrate :: "migrations \<Rightarrow> string \<Rightarrow> path \<Rightarrow> string + string list" where
  "run_migrate mi url dir =
     bindR (mi_load mi dir) (\<lambda>ms.
       if ms = [] then Inr []
       else case mi_connect mi url of Some e \<Rightarrow> Inl e | None \<Rightarrow> mi_run mi url ms)"

definition computed_problems :: "catalog \<Rightarrow> string \<Rightarrow> computed_field list \<Rightarrow> string list" where
  "computed_problems cat table cfs =
     List.map_filter (\<lambda>cf.
       let f = cfd_function (cf_definition cf) in
       if has_function cat f then None
       else Some (''computed field '' @ dquoted (cf_name cf) @ '' on '' @ dquoted table @ '' references missing function ''
              @ dquoted (qualified_key (qt_schema f) (qt_name f)))) cfs"

definition table_problems :: "catalog \<Rightarrow> table_entry \<Rightarrow> string list" where
  "table_problems cat entry =
     (let table = qualified_key (qt_schema (te_table entry)) (qt_name (te_table entry)) in
      if \<not> has_table cat (te_table entry) then [''tracked table '' @ dquoted table @ '' does not exist in the database'']
      else computed_problems cat table (te_computed_fields entry))"

definition consistency_problems :: "perm_eq \<Rightarrow> metadata \<Rightarrow> catalog \<Rightarrow> string list" where
  "consistency_problems pq md cat =
     concat (map (\<lambda>s. concat (map (table_problems cat) (src_tables s))) (md_sources md))
     @ map (\<lambda>(role, table, kind).
         ''inherited role '' @ dquoted role @ '': conflicting '' @ kind @ '' permission on table '' @ dquoted table)
         (mutation_permission_conflicts (planner_new md cat) (pq_insert pq) (pq_update pq) (pq_delete pq))"

text \<open>Errors keep their kind only; \<open>Inr\<close> has the problems.\<close>

datatype boot_error = LoadFailed load_error | Failed string

definition check_consistency :: "nat \<Rightarrow> yaml_lib \<Rightarrow> perm_eq \<Rightarrow> (string \<Rightarrow> string option) \<Rightarrow> (string \<Rightarrow> pg_rows) \<Rightarrow> string \<Rightarrow> path
    \<Rightarrow> boot_error + string list" where
  "check_consistency fuel lib pq connect rows url dir =
     bindR (map_err LoadFailed (load_metadata_dir fuel lib dir)) (\<lambda>md.
     case connect url of
       Some e \<Rightarrow> Inl (Failed e)
     | None \<Rightarrow> bindR (map_err Failed (introspect (rows url))) (\<lambda>cat. Inr (consistency_problems pq md cat)))"

section \<open>The command line\<close>

record serve_args =
  sa_server_port :: "16 word option"
  sa_stringify_numeric_types :: bool
  sa_admin_secret :: "string option"

datatype command = Serve serve_args | Migrate path | Validate "path option"

record cli_args =
  ca_metadata_dir :: "path option"
  ca_database_url :: "string option"
  ca_metadata_database_url :: "string option"
  ca_port :: "16 word"
  ca_admin_secret :: "string option"
  ca_command :: "command option"

text \<open>Everything \<open>main\<close> finds outside; \<open>bo_db\<close> is the database at each attempt.\<close>

record 'k outside =
  bo_extern :: extern
  bo_jwt_lib :: "'k jwt_lib"
  bo_env :: "string \<Rightarrow> string option"
  bo_yaml :: yaml_lib
  bo_fuel :: nat
  bo_perm_eq :: perm_eq
  bo_db :: "nat \<Rightarrow> db_access"
  bo_migrations :: migrations

fun or_else :: "'a option \<Rightarrow> 'a option \<Rightarrow> 'a option" where
  "or_else (Some v) _ = Some v"
| "or_else None w = w"

definition serve_args_of :: "cli_args \<Rightarrow> serve_args option" where
  "serve_args_of args = (case ca_command args of Some (Serve sa) \<Rightarrow> Some sa | _ \<Rightarrow> None)"

definition database_url_of :: "'k outside \<Rightarrow> cli_args \<Rightarrow> boot_error + string" where
  "database_url_of bo args =
     (case or_else (ca_database_url args) (or_else (ca_metadata_database_url args) (bo_env bo ''HASURA_GRAPHQL_DATABASE_URL'')) of
        Some u \<Rightarrow> Inr u
      | None \<Rightarrow> Inl (Failed ''--database-url or --metadata-database-url is required''))"

definition empty_metadata :: metadata where
  "empty_metadata = \<lparr>md_version = 3, md_sources = [], md_inherited_roles = [], md_query_collections = [], md_allowlist = [],
     md_remote_schemas = [], md_actions = [], md_custom_types = no_custom_types\<rparr>"

definition boot_metadata :: "'k outside \<Rightarrow> cli_args \<Rightarrow> boot_error + metadata" where
  "boot_metadata bo args =
     bindR (case ca_metadata_dir args of
        Some dir \<Rightarrow>
          if yl_exists (bo_yaml bo) dir then map_err LoadFailed (load_metadata_dir (bo_fuel bo) (bo_yaml bo) dir)
          else Inr empty_metadata
      | None \<Rightarrow> Inr empty_metadata) (\<lambda>md. Inr (ensure_default_source md))"

definition initial_state :: "'k outside \<Rightarrow> cli_args \<Rightarrow> string \<Rightarrow> metadata \<Rightarrow> 'k app_state" where
  "initial_state bo args url md =
     (let env = bo_env bo; serve = serve_args_of args in
      \<lparr>as_pools = [], as_metadata = md, as_catalogs = [], as_default_url = url,
       as_admin_secret = or_else (Option.bind serve sa_admin_secret) (ca_admin_secret args),
       as_unauthorized_role = env ''HASURA_GRAPHQL_UNAUTHORIZED_ROLE'',
       as_stringify_numerics = (case serve of Some sa \<Rightarrow> sa_stringify_numeric_types sa | None \<Rightarrow> False),
       as_infer_function_permissions =
         (case env ''HASURA_GRAPHQL_INFER_FUNCTION_PERMISSIONS'' of Some v \<Rightarrow> \<not> eq_ignore_ascii_case v ''false'' | None \<Rightarrow> True),
       as_jwt = Option.bind (env ''HASURA_GRAPHQL_JWT_SECRET'') (from_env_value (bo_extern bo) (bo_jwt_lib bo)),
       as_auth_hook = map_option (\<lambda>u. (u, case env ''HASURA_GRAPHQL_AUTH_HOOK_MODE'' of Some m \<Rightarrow> m | None \<Rightarrow> ''GET''))
         (env ''HASURA_GRAPHQL_AUTH_HOOK''),
       as_allowlist_enabled =
         (case env ''HASURA_GRAPHQL_ENABLE_ALLOWLIST'' of Some v \<Rightarrow> eq_ignore_ascii_case v ''true'' | None \<Rightarrow> False)\<rparr>)"

text \<open>The first synchronisation is tried again up to thirty times.\<close>

function sync_loop :: "'k outside \<Rightarrow> nat \<Rightarrow> 'k app_state \<Rightarrow> boot_error + 'k app_state" where
  "sync_loop bo attempt st =
     (case sync_sources (bo_env bo) (bo_db bo attempt) st of
        (Inr _, st') \<Rightarrow> Inr st'
      | (Inl e, st') \<Rightarrow>
          if attempt < 30 then sync_loop bo (Suc attempt) st'
          else Inl (Failed (''cannot initialize sources: '' @ e)))"
  by pat_completeness auto
termination
  by (relation "measure (\<lambda>(bo, attempt, st). 30 - attempt)") auto

declare sync_loop.simps [simp del]

section \<open>The process\<close>

datatype 'k outcome = Exited | Serving "16 word" "'k app_state"

definition validate_command :: "'k outside \<Rightarrow> cli_args \<Rightarrow> string \<Rightarrow> path option \<Rightarrow> boot_error + 'k outcome" where
  "validate_command bo args url dir =
     (case or_else dir (ca_metadata_dir args) of
        None \<Rightarrow> Inl (Failed ''validate needs --metadata-dir'')
      | Some d \<Rightarrow>
          bindR (check_consistency (bo_fuel bo) (bo_yaml bo) (bo_perm_eq bo) (da_connect (bo_db bo 0)) (da_rows (bo_db bo 0)) url d) (\<lambda>problems.
            if problems = [] then Inr Exited
            else Inl (Failed (''metadata validation failed: '' @ nat_str (length problems) @ '' inconsistency(ies)''))))"

definition serve_command :: "'k outside \<Rightarrow> cli_args \<Rightarrow> string \<Rightarrow> boot_error + 'k outcome" where
  "serve_command bo args url =
     bindR (boot_metadata bo args) (\<lambda>md.
     bindR (sync_loop bo 0 (initial_state bo args url md)) (\<lambda>st.
       Inr (Serving (case Option.bind (serve_args_of args) sa_server_port of Some p \<Rightarrow> p | None \<Rightarrow> ca_port args) st)))"

definition main_process :: "'k outside \<Rightarrow> cli_args \<Rightarrow> boot_error + 'k outcome" where
  "main_process bo args =
     bindR (database_url_of bo args) (\<lambda>url.
       case ca_command args of
         Some (Migrate dir) \<Rightarrow> bindR (map_err Failed (run_migrate (bo_migrations bo) url dir)) (\<lambda>_. Inr Exited)
       | Some (Validate dir) \<Rightarrow> validate_command bo args url dir
       | _ \<Rightarrow> serve_command bo args url)"

text \<open>The routes: path, what GET does and what POST does.\<close>

datatype endpoint = Healthz | Version | Graphql | GraphqlLegacy | Relay | Upgrade | UpgradeRelay

definition routes :: "(string \<times> endpoint option \<times> endpoint option) list" where
  "routes = [(''/healthz'', Some Healthz, None), (''/v1/version'', Some Version, None),
     (''/v1/graphql'', Some Upgrade, Some Graphql), (''/v1alpha1/graphql'', Some Upgrade, Some GraphqlLegacy),
     (''/v1/relay'', Some UpgradeRelay, Some Relay), (''/v1beta1/relay'', Some UpgradeRelay, Some Relay)]"

end
