(* ===== verification/Boot_Properties.thy ===== *)
theory Boot_Properties
  imports Boot Snapshot_Properties Auth_Properties
begin

text \<open>What a serving process starts from: metadata that agrees with its databases.\<close>

section \<open>The sources\<close>

lemma put_source_lookup: "map_of (put_source n u m) k = (if k = n then Some u else map_of m k)"
  by (induction n u m rule: put_source.induct) auto

interpretation sources: dictionary "\<lambda>m. map_of m" put_source
  by unfold_locales (rule put_source_lookup)

definition source_urls :: "(string \<Rightarrow> string option) \<Rightarrow> string \<Rightarrow> source list \<Rightarrow> (string \<times> string) list" where
  "source_urls env default_url ss = map (\<lambda>s. (src_name s, resolve_source_url env default_url s)) ss"

text \<open>Of several sources with one name the last one gives the URL.\<close>

lemma resolved_lookup: "map_of (resolved_sources env d ss) n = map_of (rev (source_urls env d ss)) n"
proof -
  have "resolved_sources env d ss = put_all put_source (source_urls env d ss) []"
    by (simp add: resolved_sources_def source_urls_def put_all_def foldl_map)
  then show ?thesis by (simp add: sources.get_put_all split: option.split)
qed

lemma put_source_distinct: "distinct (map fst m) \<Longrightarrow> distinct (map fst (put_source n u m))"
proof -
  have keys: "fst ` set (put_source n u m) = insert n (fst ` set m)" for n u m
    by (induction n u m rule: put_source.induct) auto
  show "distinct (map fst m) \<Longrightarrow> ?thesis" by (induction n u m rule: put_source.induct) (simp_all add: keys, auto)
qed

lemma resolved_distinct: "distinct (map fst (resolved_sources env d ss))"
  unfolding resolved_sources_def by (induction ss rule: rev_induct) (simp_all add: put_source_distinct)

section \<open>A round of synchronisation\<close>

lemma sync_each_step:
  assumes "sync_each db ((name, url) # rest) pools cats = (Inr cats', pools')"
  obtains cat pools1 where "introspect (da_rows db url) = Inr cat"
    and "map_of pools1 = (map_of pools)(name \<mapsto> url)"
    and "sync_each db rest pools1 (hm_insert name cat cats) = (Inr cats', pools')"
proof -
  let ?existing = "map_of pools name = Some url"
  let ?pools = "if ?existing then pools else hm_insert name url pools"
  obtain cat where "introspect (da_rows db url) = Inr cat" "sync_each db rest ?pools (hm_insert name cat cats) = (Inr cats', pools')"
    using assms by (auto simp: Let_def split: option.splits sum.splits if_splits)
  moreover have "map_of ?pools = (map_of pools)(name \<mapsto> url)" by auto
  ultimately show ?thesis using that by blast
qed

lemma sync_each_catalogs:
  assumes "sync_each db ss pools cats = (Inr cats', pools')" "distinct (map fst ss)"
  shows "(case map_of ss n of
            None \<Rightarrow> map_of cats' n = map_of cats n \<and> map_of pools' n = map_of pools n
          | Some u \<Rightarrow> map_of pools' n = Some u \<and> (\<exists>cat. introspect (da_rows db u) = Inr cat \<and> map_of cats' n = Some cat))"
  using assms
proof (induction ss arbitrary: pools cats)
  case (Cons s ss)
  obtain name url where s: "s = (name, url)" by fastforce
  obtain cat pools1 where step: "introspect (da_rows db url) = Inr cat" "map_of pools1 = (map_of pools)(name \<mapsto> url)"
    "sync_each db ss pools1 (hm_insert name cat cats) = (Inr cats', pools')"
    using sync_each_step Cons.prems(1) s by blast
  have "map_of ss name = None" using Cons.prems(2) s by (simp add: map_of_eq_None_iff)
  then show ?case using Cons.IH [OF step(3)] Cons.prems(2) s step(1,2) by (cases "n = name"; cases "map_of ss n") simp_all
qed simp

section \<open>Metadata that agrees with the databases\<close>

definition source_agrees :: "catalog \<Rightarrow> source \<Rightarrow> bool" where
  "source_agrees cat s \<longleftrightarrow>
     list_all (\<lambda>t. has_table cat (te_table t) \<and> list_all (\<lambda>cf. has_function cat (cfd_function (cf_definition cf))) (te_computed_fields t)) (src_tables s)
   \<and> list_all (\<lambda>f. has_function cat (fe_function f)) (src_functions s)"

lemma pruned_agrees: "map_of cats (src_name s) = Some cat \<Longrightarrow> source_agrees cat (prune_source cats s)"
  by (auto simp: source_agrees_def prune_source_def prune_table_def list_all_iff)

lemma prune_agreeing: "map_of cats (src_name s) = Some cat \<Longrightarrow> source_agrees cat s \<Longrightarrow> prune_source cats s = s"
  by (simp add: source_agrees_def prune_source_def prune_table_def list_all_iff map_idI)

lemma prune_name [simp]: "src_name (prune_source cats s) = src_name s" "src_database_url (prune_source cats s) = src_database_url s"
  by (simp_all add: prune_source_def split: option.split)

text \<open>Every source has the catalog of its database, and everything it tracks is in it.\<close>

definition engine_agrees :: "(string \<Rightarrow> string option) \<Rightarrow> db_access \<Rightarrow> 'k app_state \<Rightarrow> bool" where
  "engine_agrees env db st \<longleftrightarrow>
     list_all (\<lambda>s. \<exists>u cat. map_of (rev (source_urls env (as_default_url st) (md_sources (as_metadata st)))) (src_name s) = Some u
        \<and> introspect (da_rows db u) = Inr cat \<and> map_of (as_catalogs st) (src_name s) = Some cat
        \<and> map_of (as_pools st) (src_name s) = Some u \<and> source_agrees cat s) (md_sources (as_metadata st))"

lemma urls_pruned: "source_urls env d (map (prune_source cats) ss) = source_urls env d ss"
  by (simp add: source_urls_def resolve_source_url_def)

lemma sync_agrees:
  assumes "sync_sources env db st = (Inr u, st')"
  shows "engine_agrees env db st'"
proof -
  let ?ss = "resolved_sources env (as_default_url st) (md_sources (as_metadata st))"
  obtain cats pools where sync: "sync_each db ?ss (as_pools st) [] = (Inr cats, pools)"
    and st': "st' = st\<lparr>as_pools := pools, as_metadata := (as_metadata st)\<lparr>md_sources := map (prune_source cats) (md_sources (as_metadata st))\<rparr>,
        as_catalogs := cats\<rparr>"
    using assms by (auto simp: sync_sources_def split: sum.splits prod.splits)
  have "\<exists>u cat. map_of (rev (source_urls env (as_default_url st) (md_sources (as_metadata st)))) (src_name s) = Some u
      \<and> introspect (da_rows db u) = Inr cat \<and> map_of cats (src_name s) = Some cat \<and> map_of pools (src_name s) = Some u"
    if "s \<in> set (md_sources (as_metadata st))" for s
  proof -
    have "map_of (rev (source_urls env (as_default_url st) (md_sources (as_metadata st)))) (src_name s) \<noteq> None"
      unfolding source_urls_def map_of_eq_None_iff using that by (simp add: image_image)
    then show ?thesis using sync_each_catalogs [OF sync resolved_distinct, of "src_name s"] by (auto simp: resolved_lookup)
  qed
  then show ?thesis
    unfolding engine_agrees_def st' list_all_iff using pruned_agrees by (fastforce simp: urls_pruned)
qed

lemma sync_failed:
  assumes "sync_sources env db st = (Inl e, st')"
  shows "as_metadata st' = as_metadata st \<and> as_catalogs st' = as_catalogs st \<and> as_default_url st' = as_default_url st"
  using assms by (auto simp: sync_sources_def split: sum.splits prod.splits)

lemma sync_keeps_url:
  assumes "sync_sources env db st = (r, st')"
  shows "as_default_url st' = as_default_url st"
    and "map src_name (md_sources (as_metadata st')) = map src_name (md_sources (as_metadata st))"
  using assms by (auto simp: sync_sources_def split: sum.splits prod.splits)

lemma sync_again:
  assumes "engine_agrees env db st" "sync_sources env db st = (Inr u, st')"
  shows "as_metadata st' = as_metadata st"
proof -
  obtain cats pools where sync: "sync_each db (resolved_sources env (as_default_url st) (md_sources (as_metadata st))) (as_pools st) [] = (Inr cats, pools)"
    and st': "as_metadata st' = (as_metadata st)\<lparr>md_sources := map (prune_source cats) (md_sources (as_metadata st))\<rparr>"
    using assms(2) by (auto simp: sync_sources_def split: sum.splits prod.splits)
  have "prune_source cats s = s" if s: "s \<in> set (md_sources (as_metadata st))" for s
  proof -
    obtain u cat where "map_of (rev (source_urls env (as_default_url st) (md_sources (as_metadata st)))) (src_name s) = Some u"
      "introspect (da_rows db u) = Inr cat" "source_agrees cat s"
      using assms(1) s unfolding engine_agrees_def list_all_iff by blast
    then show ?thesis
      using sync_each_catalogs [OF sync resolved_distinct, of "src_name s"] by (auto simp: resolved_lookup intro: prune_agreeing)
  qed
  then show ?thesis using st' by (simp add: map_idI)
qed

text \<open>
  C17. A round of synchronisation makes the engine agree with its databases or
  leaves it as it was: on success every source, by the last URL its name is
  given, has a pool for that URL and the catalog read from it, and its tables,
  functions and computed fields all exist there; on an error metadata and
  catalogs are unchanged. Synchronising again with the same databases changes
  no metadata.
\<close>

theorem sync_sources_consistent:
  "case sync_sources env db st of
     (Inl e, st') \<Rightarrow> as_metadata st' = as_metadata st \<and> as_catalogs st' = as_catalogs st
   | (Inr _, st') \<Rightarrow> engine_agrees env db st'
       \<and> (case sync_sources env db st' of (Inl _, _) \<Rightarrow> True | (Inr _, again) \<Rightarrow> as_metadata again = as_metadata st')"
  by (auto split: prod.split sum.split dest: sync_failed sync_agrees sync_again)

section \<open>Boot\<close>

lemma sync_loop_agrees:
  "sync_loop bo attempt st = Inr st' \<Longrightarrow> attempt \<le> 30
    \<Longrightarrow> (\<exists>k. attempt \<le> k \<and> k \<le> 30 \<and> engine_agrees (bo_env bo) (bo_db bo k) st')
      \<and> map src_name (md_sources (as_metadata st')) = map src_name (md_sources (as_metadata st))"
proof (induction bo attempt st rule: sync_loop.induct)
  case (1 bo attempt st)
  obtain r st1 where r: "sync_sources (bo_env bo) (bo_db bo attempt) st = (r, st1)" by fastforce
  show ?case
  proof (cases r)
    case (Inl e)
    then have "attempt < 30" "sync_loop bo (Suc attempt) st1 = Inr st'"
      using "1.prems"(1) r by (auto simp: sync_loop.simps [of bo attempt] split: if_splits)
    then show ?thesis using "1.IH" [OF r [symmetric] Inl] sync_keeps_url(2) [OF r] by (auto dest: Suc_leD)
  next
    case (Inr u)
    then have "st' = st1" using "1.prems"(1) r by (simp add: sync_loop.simps [of bo attempt])
    then show ?thesis using sync_agrees [of "bo_env bo" "bo_db bo attempt" st u] sync_keeps_url(2) [OF r] r Inr "1.prems"(2) by auto
  qed
qed

text \<open>The server that handles requests, over the state of the process.\<close>

definition server_of :: "server \<Rightarrow> 'k app_state \<Rightarrow> server" where
  "server_of sv st = sv\<lparr>sv_metadata := as_metadata st, sv_catalogs := as_catalogs st, sv_stringify_numerics := as_stringify_numerics st,
     sv_infer_function_permissions := as_infer_function_permissions st, sv_allowlist_enabled := as_allowlist_enabled st\<rparr>"

text \<open>The planner takes the tables of the first source, the catalog is the one named \<open>default\<close> before that of the first source.\<close>

definition default_first :: "'k app_state \<Rightarrow> bool" where
  "default_first st \<longleftrightarrow>
     (let names = map src_name (md_sources (as_metadata st)) in names \<noteq> [] \<and> (hd names = ''default'' \<or> map_of (as_catalogs st) ''default'' = None))"

lemma agreeing_tables_known:
  assumes "engine_agrees env db st" "default_first st"
  shows "list_all (\<lambda>e. has_table (pl_catalog (server_planner (server_of sv st) relay)) (te_table e)) (pl_tables (server_planner (server_of sv st) relay))"
proof -
  obtain s ss where ss: "md_sources (as_metadata st) = s # ss"
    using assms(2) by (auto simp: default_first_def Let_def neq_Nil_conv)
  then obtain cat where cat: "map_of (as_catalogs st) (src_name s) = Some cat" "source_agrees cat s"
    using assms(1) by (auto simp: engine_agrees_def)
  have "default_catalog (server_of sv st) = cat"
    using cat(1) ss assms(2) by (auto simp: default_catalog_def server_of_def default_first_def Let_def split: option.splits)
  then show ?thesis
    using cat(2) ss by (simp add: server_planner_def planner_new_def Let_def case_prod_beta server_of_def source_agrees_def list_all_iff)
qed

text \<open>
  C18. A process serves only from an engine that agrees with its databases as
  they were at one of at most thirty-one attempts, and it has a source; the
  planner of its requests has a catalog entry for every table it knows when
  the first source is the default one; the commands \<open>migrate\<close> and
  \<open>validate\<close> never serve.
\<close>

theorem boot_serves_consistent:
  assumes "main_process bo args = Inr (Serving port st)"
  shows "(\<exists>k \<le> 30. engine_agrees (bo_env bo) (bo_db bo k) st) \<and> md_sources (as_metadata st) \<noteq> []
    \<and> (default_first st \<longrightarrow> list_all (\<lambda>e. has_table (pl_catalog (server_planner (server_of sv st) relay)) (te_table e))
          (pl_tables (server_planner (server_of sv st) relay)))
    \<and> (case ca_command args of Some (Migrate _) \<Rightarrow> False | Some (Validate _) \<Rightarrow> False | _ \<Rightarrow> True)"
proof -
  obtain url where serve: "serve_command bo args url = Inr (Serving port st)"
    and command: "case ca_command args of Some (Migrate _) \<Rightarrow> False | Some (Validate _) \<Rightarrow> False | _ \<Rightarrow> True"
    using assms by (auto simp: main_process_def validate_command_def split: option.splits command.splits if_splits)
  then obtain md where md: "boot_metadata bo args = Inr md" and loop: "sync_loop bo 0 (initial_state bo args url md) = Inr st"
    by (auto simp: serve_command_def)
  have "md_sources md \<noteq> []" using md by (auto simp: boot_metadata_def ensure_default_source_def split: if_splits)
  then have sources: "md_sources (as_metadata st) \<noteq> []" using sync_loop_agrees [OF loop] by (auto simp: initial_state_def Let_def)
  obtain k where "k \<le> 30" "engine_agrees (bo_env bo) (bo_db bo k) st" using sync_loop_agrees [OF loop] by auto
  then show ?thesis using sources command agreeing_tables_known [of "bo_env bo" "bo_db bo k" st] by blast
qed

text \<open>A process whose directory tracks one table.\<close>

definition boot_files :: yaml_lib where
  "boot_files = \<lparr>yl_read = (\<lambda>_. Inr []), yl_exists = (\<lambda>p. p = path_of ''m''), yl_canonicalize = (\<lambda>_. None), yl_parse = (\<lambda>_. Inr YNull),
     yl_version = (\<lambda>_. Inr 3), yl_sources = (\<lambda>_. Inr [\<lparr>src_name = ''default'', src_database_url = FromEnv ''DB'', src_tables = [author_entry], src_functions = []\<rparr>]),
     yl_inherited_roles = (\<lambda>_. Inr []), yl_query_collections = (\<lambda>_. Inr []), yl_allowlist = (\<lambda>_. Inr []),
     yl_remote_schemas = (\<lambda>_. Inr []), yl_actions = (\<lambda>_. Inr ([], no_custom_types))\<rparr>"

definition sample_db :: db_access where
  "sample_db = \<lparr>da_make_pool = (\<lambda>_. None), da_connect = (\<lambda>_. None), da_helper = (\<lambda>_. None), da_rows = (\<lambda>_. sample_rows)\<rparr>"

definition sample_outside :: "string outside" where
  "sample_outside = \<lparr>bo_extern = sample_extern, bo_jwt_lib = sample_lib, bo_env = (\<lambda>_. None), bo_yaml = boot_files, bo_fuel = 9,
     bo_perm_eq = sample_perm_eq, bo_db = (\<lambda>_. sample_db),
     bo_migrations = \<lparr>mi_load = (\<lambda>_. Inr []), mi_connect = (\<lambda>_. None), mi_run = (\<lambda>_ _. Inr [])\<rparr>\<rparr>"

definition sample_args :: cli_args where
  "sample_args = \<lparr>ca_metadata_dir = Some (path_of ''m''), ca_database_url = Some ''pg'', ca_metadata_database_url = None, ca_port = 8080,
     ca_admin_secret = None, ca_command = None\<rparr>"

theorem boot_serves_consistent_witness:
  "\<exists>st. main_process sample_outside sample_args = Inr (Serving 8080 st) \<and> (\<exists>k \<le> 30. engine_agrees (bo_env sample_outside) (bo_db sample_outside k) st)
     \<and> map (map te_table \<circ> src_tables) (md_sources (as_metadata st)) = [[Name ''author'']]"
proof -
  have "(case main_process sample_outside sample_args of
      Inr (Serving p st) \<Rightarrow> p = 8080 \<and> map (map te_table \<circ> src_tables) (md_sources (as_metadata st)) = [[Name ''author'']] | _ \<Rightarrow> False) = True"
    by code_simp
  then obtain st where st: "main_process sample_outside sample_args = Inr (Serving 8080 st)"
    "map (map te_table \<circ> src_tables) (md_sources (as_metadata st)) = [[Name ''author'']]"
    by (auto split: sum.splits outcome.splits)
  then show ?thesis using boot_serves_consistent [OF st(1)] by auto
qed

section \<open>Validation\<close>

lemma problems_tables:
  assumes "consistency_problems pq md cat = []" "s \<in> set (md_sources md)" "t \<in> set (src_tables s)"
  shows "has_table cat (te_table t)" "list_all (\<lambda>cf. has_function cat (cfd_function (cf_definition cf))) (te_computed_fields t)"
proof -
  have none: "table_problems cat t = []" using assms by (auto simp: consistency_problems_def)
  then show table: "has_table cat (te_table t)" by (auto simp: table_problems_def Let_def split: if_splits)
  have "List.map_filter (\<lambda>cf. if has_function cat (cfd_function (cf_definition cf)) then None else Some (g cf)) cfs = []
      \<Longrightarrow> list_all (\<lambda>cf. has_function cat (cfd_function (cf_definition cf))) cfs" for cfs :: "computed_field list" and g :: "computed_field \<Rightarrow> string"
    by (induction cfs) (auto simp: map_filter_simps split: if_splits)
  then show "list_all (\<lambda>cf. has_function cat (cfd_function (cf_definition cf))) (te_computed_fields t)"
    using none table by (simp add: table_problems_def computed_problems_def Let_def)
qed

text \<open>
  C22. What \<open>validate\<close> accepts is served: when the metadata of a directory
  has no problem with a database, all its sources resolve to that database
  and it still has the same rows, then synchronising removes no table and no
  computed field.
\<close>

theorem validated_tables_served:
  assumes "check_consistency fuel lib pq connect rows url dir = Inr []" and "load_metadata_dir fuel lib dir = Inr md"
    and "list_all (\<lambda>s. resolve_source_url env url s = url) (md_sources md)"
    and "as_metadata st = md" "as_default_url st = url" "da_rows db url = rows url"
    and "sync_sources env db st = (Inr u, st')"
  shows "map src_tables (md_sources (as_metadata st')) = map src_tables (md_sources md)"
proof -
  obtain cat where cat: "introspect (rows url) = Inr cat" "consistency_problems pq md cat = []"
    using assms(1,2) by (auto simp: check_consistency_def map_err_def split: option.splits sum.splits)
  obtain cats pools where sync: "sync_each db (resolved_sources env url (md_sources md)) (as_pools st) [] = (Inr cats, pools)"
    and st': "as_metadata st' = md\<lparr>md_sources := map (prune_source cats) (md_sources md)\<rparr>"
    using assms(4,5,7) by (auto simp: sync_sources_def split: sum.splits prod.splits)
  have "src_tables (prune_source cats s) = src_tables s" if s: "s \<in> set (md_sources md)" for s
  proof -
    obtain u' where u': "map_of (rev (source_urls env url (md_sources md))) (src_name s) = Some u'"
      using s by (cases "map_of (rev (source_urls env url (md_sources md))) (src_name s)") (auto simp: map_of_eq_None_iff source_urls_def image_image)
    then have "u' = url" using assms(3) by (auto simp: source_urls_def list_all_iff dest!: map_of_SomeD)
    then have "map_of cats (src_name s) = Some cat"
      using sync_each_catalogs [OF sync resolved_distinct, of "src_name s"] u' cat(1) assms(6) by (auto simp: resolved_lookup)
    then show ?thesis
      using problems_tables [OF cat(2) s] by (simp add: prune_source_def prune_table_def map_idI list_all_iff)
  qed
  then show ?thesis using st' by simp
qed

theorem validated_tables_served_witness:
  "\<exists>(st' :: string app_state) md. load_metadata_dir 9 boot_files (path_of ''m'') = Inr md
     \<and> sync_sources (\<lambda>_. None) sample_db (initial_state sample_outside sample_args ''pg'' md) = (Inr (), st')
     \<and> map src_tables (md_sources (as_metadata st')) = map src_tables (md_sources md)
     \<and> map src_tables (md_sources md) = [[author_entry]]"
proof -
  have "(case load_metadata_dir 9 boot_files (path_of ''m'') of
      Inr md \<Rightarrow> map src_tables (md_sources md) = [[author_entry]] \<and> list_all (\<lambda>s. resolve_source_url (\<lambda>_. None) ''pg'' s = ''pg'') (md_sources md)
        \<and> (case sync_sources (\<lambda>_. None) sample_db (initial_state sample_outside sample_args ''pg'' md) of (Inr _, _) \<Rightarrow> True | _ \<Rightarrow> False)
    | _ \<Rightarrow> False) = True"
    by code_simp
  then obtain md st' where md: "load_metadata_dir 9 boot_files (path_of ''m'') = Inr md" "map src_tables (md_sources md) = [[author_entry]]"
      "list_all (\<lambda>s. resolve_source_url (\<lambda>_. None) ''pg'' s = ''pg'') (md_sources md)"
    and sync: "sync_sources (\<lambda>_. None) sample_db (initial_state sample_outside sample_args ''pg'' md) = (Inr (), st')"
    by (auto split: sum.splits prod.splits)
  have "check_consistency 9 boot_files sample_perm_eq (\<lambda>_. None) (\<lambda>_. sample_rows) ''pg'' (path_of ''m'') = Inr []" by code_simp
  then have "map src_tables (md_sources (as_metadata st')) = map src_tables (md_sources md)"
    by (rule validated_tables_served [OF _ md(1,3) _ _ _ sync]) (simp_all add: initial_state_def Let_def sample_db_def)
  then show ?thesis using md sync by (intro exI [of _ st'] exI [of _ md] conjI)
qed

text \<open>Tracked functions are no part of the validation.\<close>

lemma functions_not_validated:
  "consistency_problems pq (md\<lparr>md_sources := map (\<lambda>s. s\<lparr>src_functions := fs s\<rparr>) (md_sources md)\<rparr>) cat = consistency_problems pq md cat"
proof -
  have "pl_tables (planner_new (md\<lparr>md_sources := map (\<lambda>s. s\<lparr>src_functions := fs s\<rparr>) (md_sources md)\<rparr>) cat) = pl_tables (planner_new md cat)"
    by (simp add: planner_new_def Let_def case_prod_beta split: list.split)
  then show ?thesis
    by (simp add: consistency_problems_def mutation_permission_conflicts_def comp_def) (simp add: planner_new_def Let_def case_prod_beta)
qed

end
