(* ===== verification/Oracle.thy ===== *)
theory Oracle
  imports Loader Plan
begin

text \<open>
  The oracle of the conformance harness, \<open>crates/conformance/src/lib.rs\<close>: how a
  fixture file becomes JSON, which selection tree a query gives, and when an
  actual response matches the expected one.
\<close>

section \<open>Fixtures\<close>

text \<open>\<open>serde_yaml::to_string\<close>, used here on keys, next to the operations of the loader.\<close>

record fixture_lib = yaml_lib +
  fl_yaml_string :: "yaml \<Rightarrow> string + string"

text \<open>
  The errors of \<open>anyhow::Result\<close>, by where they come from;
  \<open>FixtureStack\<close> is a recursion deeper than the fuel, since nothing guards
  fixtures against cyclic includes.
\<close>

datatype fixture_error =
    FixtureRead path string
  | FixtureParse path string
  | FixtureKey string
  | IncludeNoString
  | FixtureStack

text \<open>An integer keeps its value; an infinity or a NaN has no JSON number.\<close>

fun yaml_number :: "jnum \<Rightarrow> json" where
  "yaml_number (Float w) = json_of_f64 w"
| "yaml_number n = JNumber n"

text \<open>\<open>serde_yaml::Value::as_str\<close> looks through tags.\<close>

fun yaml_as_str :: "yaml \<Rightarrow> string option" where
  "yaml_as_str (YString s) = Some s"
| "yaml_as_str (YTagged _ v) = yaml_as_str v"
| "yaml_as_str _ = None"

definition yaml_key :: "fixture_lib \<Rightarrow> yaml \<Rightarrow> fixture_error + string" where
  "yaml_key lib k = (case k of YString s \<Rightarrow> Inr s | other \<Rightarrow> bindR (map_err FixtureKey (fl_yaml_string lib other)) (\<lambda>s. Inr (trim s)))"

function (sequential) yaml_to_json :: "fixture_lib \<Rightarrow> (path \<Rightarrow> fixture_error + json) \<Rightarrow> path \<Rightarrow> yaml \<Rightarrow> fixture_error + json" where
  "yaml_to_json lib load dir YNull = Inr JNull"
| "yaml_to_json lib load dir (YBool b) = Inr (JBool b)"
| "yaml_to_json lib load dir (YNumber n) = Inr (yaml_number n)"
| "yaml_to_json lib load dir (YString s) =
     (case include_string s of
        Some rel \<Rightarrow> load (path_join dir rel)
      | None \<Rightarrow> Inr (JString s))"
| "yaml_to_json lib load dir (YSequence xs) =
     bindR (traverse (yaml_to_json lib load dir) xs) (\<lambda>vs. Inr (JArray vs))"
| "yaml_to_json lib load dir (YMapping m) =
     bindR (traverse (\<lambda>kv. bindR (yaml_key lib (fst kv)) (\<lambda>key.
       bindR (yaml_to_json lib load dir (snd kv)) (\<lambda>v. Inr (key, v)))) m) (\<lambda>kvs.
       Inr (JObject (obj_insert_all kvs)))"
| "yaml_to_json lib load dir (YTagged tag v) =
     (if is_include_tag tag then
        (case yaml_as_str v of
           Some f \<Rightarrow> load (path_join dir f)
         | None \<Rightarrow> Inl IncludeNoString)
      else yaml_to_json lib load dir v)"
  by pat_completeness auto
termination
  by (relation "measure (\<lambda>(lib, load, dir, v). size v)") (auto simp: size_yaml_value size_yaml_item simp del: yaml.size(12, 13))

fun load_fixture :: "nat \<Rightarrow> fixture_lib \<Rightarrow> path \<Rightarrow> fixture_error + json" where
  "load_fixture 0 lib p = Inl FixtureStack"
| "load_fixture (Suc fuel) lib p =
     bindR (map_err (FixtureRead p) (yl_read lib p)) (\<lambda>content.
     bindR (map_err (FixtureParse p) (yl_parse lib content)) (\<lambda>v.
       yaml_to_json lib (load_fixture fuel lib)
         (case path_parent p of Some d \<Rightarrow> d | None \<Rightarrow> path_of ''.'') v))"

section \<open>Selection trees\<close>

datatype sel_map = SelMap (sel_entries: "(string \<times> sel_map option) list")

definition sel_contains :: "sel_map \<Rightarrow> string \<Rightarrow> bool" where
  "sel_contains t k \<longleftrightarrow> map_of (sel_entries t) k \<noteq> None"

text \<open>\<open>HashMap::extend\<close>\<close>

definition sel_extend :: "(string \<times> sel_map option) list \<Rightarrow> (string \<times> sel_map option) list \<Rightarrow> (string \<times> sel_map option) list" where
  "sel_extend inner out = fold (\<lambda>(k, v) m. hm_insert k v m) inner out"

lemma size_field_selections [termination_simp]: "size_list size (gf_selection_set f) < size f"
  by (cases f) simp

text \<open>\<open>None\<close> is a stack exhausted by nested spreads; the last argument is the tree built so far.\<close>

fun build_tree :: "nat \<Rightarrow> selection list \<Rightarrow> fragments \<Rightarrow> (string \<times> sel_map option) list \<Rightarrow> (string \<times> sel_map option) list option" where
  "build_tree fuel [] frs out = Some out"
| "build_tree fuel (SField f # rest) frs out =
     (if gf_selection_set f = [] then build_tree fuel rest frs (hm_insert (field_alias f) None out)
      else case build_tree fuel (gf_selection_set f) frs [] of
        None \<Rightarrow> None
      | Some child \<Rightarrow> build_tree fuel rest frs (hm_insert (field_alias f) (Some (SelMap child)) out))"
| "build_tree fuel (SFragmentSpread name ds # rest) frs out =
     (case map_of frs name of
        None \<Rightarrow> build_tree fuel rest frs out
      | Some fr \<Rightarrow>
          (case fuel of
             0 \<Rightarrow> None
           | Suc k \<Rightarrow>
               (case build_tree k (fr_selection_set fr) frs [] of
                  None \<Rightarrow> None
                | Some inner \<Rightarrow> build_tree fuel rest frs (sel_extend inner out))))"
| "build_tree fuel (SInlineFragment on ds items # rest) frs out =
     (case build_tree fuel items frs [] of
        None \<Rightarrow> None
      | Some inner \<Rightarrow> build_tree fuel rest frs (sel_extend inner out))"

fun op_selections :: "gql_operation \<Rightarrow> selection list" where
  "op_selections (OpQuery _ _ sel) = sel"
| "op_selections (OpMutation _ _ sel) = sel"
| "op_selections (OpSubscription _ _ sel) = sel"
| "op_selections (OpSelectionSet sel) = sel"

text \<open>The tree of the first operation. The outer \<open>None\<close> is an exhausted stack, the inner one no tree.\<close>

definition sel_tree_from_query :: "nat \<Rightarrow> (string \<Rightarrow> gql_document option) \<Rightarrow> string \<Rightarrow> sel_map option option" where
  "sel_tree_from_query fuel parse query =
     (case parse query of
        None \<Rightarrow> Some None
      | Some doc \<Rightarrow>
          (case operations_of doc of
             [] \<Rightarrow> Some None
           | op # _ \<Rightarrow> map_option (\<lambda>t. Some (SelMap t)) (build_tree fuel (op_selections op) (fragments_of doc) [])))"

section \<open>Numbers\<close>

text \<open>
  \<open>Number::as_f64\<close>, as the value times \<open>2 ^ 1074\<close>: every finite double is a
  multiple of the smallest subnormal. An integer is rounded to 53 significant
  bits, ties to even.
\<close>

fun shift53 :: "nat \<Rightarrow> nat" where
  "shift53 n = (if n < 2 ^ 53 then 0 else Suc (shift53 (n div 2)))"

declare shift53.simps [simp del]

definition round53 :: "nat \<Rightarrow> nat" where
  "round53 n =
     (let k = shift53 n; q = n div 2 ^ k; r = n mod 2 ^ k in
      (if 2 * r > 2 ^ k \<or> (2 * r = 2 ^ k \<and> odd q) then q + 1 else q) * 2 ^ k)"

definition f64_scaled :: "u64 \<Rightarrow> int" where
  "f64_scaled w =
     (let e = (unat w div 2 ^ 52) mod 2 ^ 11; m = unat w mod 2 ^ 52;
          mag = int (if e = 0 then m else (m + 2 ^ 52) * 2 ^ (e - 1)) in
      if unat w div 2 ^ 63 = 1 then - mag else mag)"

fun num_f64 :: "jnum \<Rightarrow> int" where
  "num_f64 (PosInt n) = int (round53 (unat n)) * 2 ^ 1074"
| "num_f64 (NegInt i) = - int (round53 (nat (- i))) * 2 ^ 1074"
| "num_f64 (Float w) = f64_scaled w"

text \<open>\<open>PartialEq\<close> of \<open>serde_json::Number\<close>: two doubles compare by value.\<close>

fun num_same :: "jnum \<Rightarrow> jnum \<Rightarrow> bool" where
  "num_same (PosInt m) (PosInt n) = (m = n)"
| "num_same (NegInt i) (NegInt j) = (i = j)"
| "num_same (Float v) (Float w) = (f64_scaled v = f64_scaled w)"
| "num_same _ _ = False"

section \<open>Comparison\<close>

definition sel_child :: "sel_map option \<Rightarrow> string \<Rightarrow> sel_map option" where
  "sel_child sel k = Option.bind (Option.bind sel (\<lambda>t. map_of (sel_entries t) k)) id"

definition keys_agree :: "jmap \<Rightarrow> jmap \<Rightarrow> bool" where
  "keys_agree e a \<longleftrightarrow> length e = length a \<and> list_all (\<lambda>(k, _). jmap_get a k \<noteq> None) e"

definition selected_keys :: "sel_map \<Rightarrow> jmap \<Rightarrow> string list" where
  "selected_keys t m = filter (sel_contains t) (map fst m)"

lemma size_json_zip: "(x, y) \<in> set (zip e a) \<Longrightarrow> size x < size (JArray e)"
  by (drule set_zip_leftD) (rule size_json_element)

function (sequential) json_matches :: "json \<Rightarrow> json \<Rightarrow> sel_map option \<Rightarrow> bool" where
  "json_matches (JObject e) (JObject a) sel =
     (if \<not> keys_agree e a then False
      else if (case sel of Some tree \<Rightarrow> selected_keys tree e \<noteq> selected_keys tree a | None \<Rightarrow> False) then False
      else list_all (\<lambda>kv. case jmap_get a (fst kv) of
             Some va \<Rightarrow> json_matches (snd kv) va (sel_child sel (fst kv))
           | None \<Rightarrow> False) e)"
| "json_matches (JArray e) (JArray a) sel =
     (length e = length a \<and> list_all (\<lambda>xy. json_matches (fst xy) (snd xy) sel) (zip e a))"
| "json_matches (JNumber e) (JNumber a) sel = (num_same e a \<or> num_f64 e = num_f64 a)"
| "json_matches e a sel = (e = a)"
  by pat_completeness auto
termination
  by (relation "measure (\<lambda>(e, a, sel). size e)")
    (auto dest: size_json_member size_json_zip simp del: json.size)

text \<open>The comparison of a response, given the tree of the query.\<close>

definition response_matches_tree :: "json \<Rightarrow> json \<Rightarrow> sel_map option \<Rightarrow> bool" where
  "response_matches_tree e a tree =
     (case (e, a) of
        (JObject e, JObject a) \<Rightarrow>
          if \<not> keys_agree e a then False
          else list_all (\<lambda>kv. case jmap_get a (fst kv) of
                 Some va \<Rightarrow> json_matches (snd kv) va (if fst kv = ''data'' then tree else None)
               | None \<Rightarrow> False) e
      | _ \<Rightarrow> json_matches e a None)"

definition query_tree :: "nat \<Rightarrow> (string \<Rightarrow> gql_document option) \<Rightarrow> string option \<Rightarrow> sel_map option option" where
  "query_tree fuel parse query_text = (case query_text of None \<Rightarrow> Some None | Some q \<Rightarrow> sel_tree_from_query fuel parse q)"

definition response_matches :: "nat \<Rightarrow> (string \<Rightarrow> gql_document option) \<Rightarrow> json \<Rightarrow> json \<Rightarrow> string option \<Rightarrow> bool option" where
  "response_matches fuel parse e a query_text = map_option (response_matches_tree e a) (query_tree fuel parse query_text)"

end
