(* ===== verification/Oracle_Properties.thy ===== *)
theory Oracle_Properties
  imports Oracle
begin

text \<open>
  What the oracle compares: two responses match exactly when they have the
  same canonical form, in which objects are maps that remember the order of the
  selected keys only and numbers are doubles.
\<close>

section \<open>Canonical forms\<close>

datatype canon =
    CLeaf json
  | CNumber int
  | CArray "canon list"
  | CObject "string list" "string \<Rightarrow> canon option"

definition kept_order :: "sel_map option \<Rightarrow> jmap \<Rightarrow> string list" where
  "kept_order sel m = (case sel of None \<Rightarrow> [] | Some t \<Rightarrow> filter (sel_contains t) (map fst m))"

lemma map_option_cong_in [fundef_cong]:
  "x = y \<Longrightarrow> (\<And>v. y = Some v \<Longrightarrow> f v = g v) \<Longrightarrow> map_option f x = map_option g y"
  by (cases y) auto

function (sequential) canonical :: "sel_map option \<Rightarrow> json \<Rightarrow> canon" where
  "canonical sel (JObject m) = CObject (kept_order sel m) (\<lambda>k. map_option (canonical (sel_child sel k)) (jmap_get m k))"
| "canonical sel (JArray vs) = CArray (map (canonical sel) vs)"
| "canonical sel (JNumber n) = CNumber (num_f64 n)"
| "canonical sel v = CLeaf v"
  by pat_completeness auto
termination
  by (relation "measure (\<lambda>(sel, v). size v)")
    (auto simp: jmap_get_map_of dest!: map_of_SomeD dest: size_json_member size_json_element simp del: json.size)

text \<open>At the top only \<open>data\<close> is governed by the query's selection.\<close>

fun canonical_response :: "sel_map option \<Rightarrow> json \<Rightarrow> canon" where
  "canonical_response tree (JObject m) =
     CObject [] (\<lambda>k. map_option (canonical (if k = ''data'' then tree else None)) (jmap_get m k))"
| "canonical_response tree v = canonical None v"

text \<open>Objects of \<open>serde_json\<close> have distinct keys.\<close>

function (sequential) keys_distinct :: "json \<Rightarrow> bool" where
  "keys_distinct (JObject m) = (distinct (map fst m) \<and> list_all (\<lambda>kv. keys_distinct (snd kv)) m)"
| "keys_distinct (JArray vs) = list_all keys_distinct vs"
| "keys_distinct _ = True"
  by pat_completeness auto
termination
  by (relation "measure size") (auto dest: size_json_member size_json_element simp del: json.size)

section \<open>Objects\<close>

lemma jmap_get_dom: "jmap_get m k \<noteq> None \<longleftrightarrow> k \<in> set (map fst m)"
  by (induction m) auto

lemma keys_agree_set:
  assumes "distinct (map fst e)" "distinct (map fst a)"
  shows "keys_agree e a \<longleftrightarrow> set (map fst e) = set (map fst a)"
proof
  assume agree: "keys_agree e a"
  then have "set (map fst e) \<subseteq> set (map fst a)"
    using jmap_get_dom [of a] by (fastforce simp: keys_agree_def list_all_iff)
  moreover have "card (set (map fst a)) = card (set (map fst e))"
    using agree assms by (simp add: keys_agree_def distinct_card del: set_map)
  ultimately show "set (map fst e) = set (map fst a)" by (intro card_subset_eq) auto
next
  assume same: "set (map fst e) = set (map fst a)"
  then have "length e = length a" using assms by (metis distinct_card length_map)
  moreover have "jmap_get a k \<noteq> None" if "(k, v) \<in> set e" for k v
    unfolding jmap_get_dom same [symmetric] using that by (force)
  ultimately show "keys_agree e a" by (auto simp: keys_agree_def list_all_iff)
qed

lemma member_get: "distinct (map fst m) \<Longrightarrow> (k, v) \<in> set m \<Longrightarrow> jmap_get m k = Some v"
  by (simp add: jmap_get_map_of)

lemma same_maps:
  assumes "distinct (map fst e)" "distinct (map fst a)"
  shows "(\<lambda>k. map_option (c k) (jmap_get e k)) = (\<lambda>k. map_option (c k) (jmap_get a k)) \<longleftrightarrow>
    keys_agree e a \<and> (\<forall>(k, v) \<in> set e. \<forall>va. jmap_get a k = Some va \<longrightarrow> c k v = c k va)"
    (is "?maps \<longleftrightarrow> ?keys \<and> ?values")
proof
  assume maps: ?maps
  have at: "map_option (c k) (jmap_get e k) = map_option (c k) (jmap_get a k)" for k using maps by (rule fun_cong)
  have "k \<in> set (map fst e) \<longleftrightarrow> k \<in> set (map fst a)" for k
    unfolding jmap_get_dom [symmetric] using at [of k] by (cases "jmap_get e k"; cases "jmap_get a k") auto
  then have ?keys using keys_agree_set [OF assms] by blast
  moreover have "c k v = c k va" if "(k, v) \<in> set e" "jmap_get a k = Some va" for k v va
    using at [of k] member_get [OF assms(1) that(1)] that(2) by simp
  ultimately show "?keys \<and> ?values" by auto
next
  assume both: "?keys \<and> ?values"
  then have keys: "set (map fst e) = set (map fst a)" using keys_agree_set [OF assms] by blast
  have "map_option (c k) (jmap_get e k) = map_option (c k) (jmap_get a k)" for k
  proof (cases "jmap_get e k")
    case None
    then have "jmap_get a k = None" using jmap_get_dom [of e k] jmap_get_dom [of a k] keys by auto
    then show ?thesis using None by simp
  next
    case (Some v)
    then obtain va where va: "jmap_get a k = Some va" using jmap_get_dom [of e k] jmap_get_dom [of a k] keys by auto
    have "(k, v) \<in> set e" using Some by (simp add: jmap_get_map_of map_of_SomeD)
    then show ?thesis using both va Some by auto
  qed
  then show ?maps by (rule ext)
qed

lemma num_same_f64: "num_same m n \<Longrightarrow> num_f64 m = num_f64 n"
  by (cases "(m, n)" rule: num_same.cases) auto

lemma members_match:
  assumes agree: "keys_agree e a"
    and match: "\<And>k v va. (k, v) \<in> set e \<Longrightarrow> jmap_get a k = Some va \<Longrightarrow> f v va k \<longleftrightarrow> c k v = c k va"
  shows "list_all (\<lambda>kv. case jmap_get a (fst kv) of Some va \<Rightarrow> f (snd kv) va (fst kv) | None \<Rightarrow> False) e \<longleftrightarrow>
    (\<forall>(k, v) \<in> set e. \<forall>va. jmap_get a k = Some va \<longrightarrow> c k v = c k va)"
proof -
  have "(case jmap_get a k of Some va \<Rightarrow> f v va k | None \<Rightarrow> False) \<longleftrightarrow> (\<forall>va. jmap_get a k = Some va \<longrightarrow> c k v = c k va)"
    if "(k, v) \<in> set e" for k v
  proof -
    obtain va where "jmap_get a k = Some va" using agree \<open>(k, v) \<in> set e\<close> by (fastforce simp: keys_agree_def list_all_iff)
    then show ?thesis using match [OF that] by simp
  qed
  then show ?thesis unfolding list_all_iff by (intro ball_cong refl) (simp add: case_prod_beta)
qed

lemma distinct_value:
  "keys_distinct (JObject m) \<Longrightarrow> jmap_get m k = Some v \<Longrightarrow> keys_distinct v"
  by (auto simp: jmap_get_map_of list_all_iff dest!: map_of_SomeD)

lemma canonical_leaf: "canonical sel v = CLeaf l \<longleftrightarrow> v = l \<and> l \<in> {JNull} \<union> range JBool \<union> range JString"
  "CLeaf l = canonical sel v \<longleftrightarrow> v = l \<and> l \<in> {JNull} \<union> range JBool \<union> range JString"
  by (cases v; auto)+

lemma json_matches_canonical:
  "keys_distinct e \<Longrightarrow> keys_distinct a \<Longrightarrow> json_matches e a sel \<longleftrightarrow> canonical sel e = canonical sel a"
proof (induction e a sel rule: json_matches.induct)
  case (1 e a sel)
  show ?case
  proof (cases "keys_agree e a")
    case True
    have "list_all (\<lambda>kv. case jmap_get a (fst kv) of Some va \<Rightarrow> json_matches (snd kv) va (sel_child sel (fst kv)) | None \<Rightarrow> False) e
      \<longleftrightarrow> (\<forall>(k, v) \<in> set e. \<forall>va. jmap_get a k = Some va \<longrightarrow> canonical (sel_child sel k) v = canonical (sel_child sel k) va)"
      if order: "\<not> (case sel of Some tree \<Rightarrow> selected_keys tree e \<noteq> selected_keys tree a | None \<Rightarrow> False)"
    proof (rule members_match [OF True])
      fix k v va
      assume mem: "(k, v) \<in> set e" "jmap_get a k = Some va"
      then show "json_matches v va (sel_child sel k) \<longleftrightarrow> canonical (sel_child sel k) v = canonical (sel_child sel k) va"
        using "1.IH" [of "(k, v)" va] True order "1.prems" distinct_value [of a k va] by (auto simp: list_all_iff)
    qed
    then show ?thesis
      using "1.prems" True same_maps [of e a "\<lambda>k. canonical (sel_child sel k)"]
      by (cases sel) (auto simp: kept_order_def selected_keys_def)
  next
    case False
    then show ?thesis using "1.prems" same_maps [of e a "\<lambda>k. canonical (sel_child sel k)"] by auto
  qed
next
  case (2 e a sel)
  have "json_matches x y sel \<longleftrightarrow> canonical sel x = canonical sel y" if "length e = length a" "(x, y) \<in> set (zip e a)" for x y
    using "2.IH" [of "(x, y)"] that "2.prems" set_zip_leftD set_zip_rightD by (fastforce simp: list_all_iff)
  then show ?case by (auto simp: list_all_iff list_eq_iff_zip_eq zip_map_map)
next
  case (3 e a sel)
  then show ?case using num_same_f64 by auto
qed (auto simp: canonical_leaf)

lemma response_matches_canonical:
  assumes "keys_distinct e" "keys_distinct a"
  shows "response_matches_tree e a tree \<longleftrightarrow> canonical_response tree e = canonical_response tree a"
proof (cases "\<exists>me ma. e = JObject me \<and> a = JObject ma")
  case True
  then obtain me ma where objs: "e = JObject me" "a = JObject ma" by blast
  let ?c = "\<lambda>k. canonical (if k = ''data'' then tree else None)"
  have maps: "canonical_response tree e = canonical_response tree a \<longleftrightarrow>
      keys_agree me ma \<and> (\<forall>(k, v) \<in> set me. \<forall>va. jmap_get ma k = Some va \<longrightarrow> ?c k v = ?c k va)"
    using assms same_maps [of me ma ?c] by (simp add: objs)
  have "list_all (\<lambda>kv. case jmap_get ma (fst kv) of Some va \<Rightarrow> json_matches (snd kv) va (if fst kv = ''data'' then tree else None) | None \<Rightarrow> False) me
    \<longleftrightarrow> (\<forall>(k, v) \<in> set me. \<forall>va. jmap_get ma k = Some va \<longrightarrow> ?c k v = ?c k va)" if "keys_agree me ma"
  proof (rule members_match [OF that])
    fix k v va
    assume mem: "(k, v) \<in> set me" "jmap_get ma k = Some va"
    then have "keys_distinct v" "keys_distinct va"
      using assms distinct_value [of ma k va] by (auto simp: objs list_all_iff)
    then show "json_matches v va (if k = ''data'' then tree else None) \<longleftrightarrow> ?c k v = ?c k va"
      by (rule json_matches_canonical)
  qed
  then show ?thesis unfolding maps by (auto simp: response_matches_tree_def objs)
next
  case False
  then have "response_matches_tree e a tree \<longleftrightarrow> json_matches e a None"
    by (auto simp: response_matches_tree_def split: json.splits)
  also have "\<dots> \<longleftrightarrow> canonical None e = canonical None a" by (rule json_matches_canonical [OF assms])
  also have "\<dots> \<longleftrightarrow> canonical_response tree e = canonical_response tree a"
    using False by (cases e; cases a) auto
  finally show ?thesis .
qed

section \<open>Trees of queries\<close>

fun deep_spreads :: "selection list \<Rightarrow> string list" where
  "deep_spreads [] = []"
| "deep_spreads (SField f # rest) = deep_spreads (gf_selection_set f) @ deep_spreads rest"
| "deep_spreads (SFragmentSpread name ds # rest) = name # deep_spreads rest"
| "deep_spreads (SInlineFragment on ds items # rest) = deep_spreads items @ deep_spreads rest"

text \<open>Fragments without a cycle: each can be given a rank above those it spreads, below \<open>n\<close>.\<close>

definition fragments_nest :: "nat \<Rightarrow> fragments \<Rightarrow> bool" where
  "fragments_nest n frs \<longleftrightarrow> (\<exists>rank. (\<forall>name. rank name < n) \<and>
     (\<forall>(name, fr) \<in> set frs. \<forall>m \<in> set (deep_spreads (fr_selection_set fr)). rank m < (rank name :: nat)))"

lemma build_tree_total:
  assumes ranked: "\<forall>(name, fr) \<in> set frs. \<forall>m \<in> set (deep_spreads (fr_selection_set fr)). rank m < (rank name :: nat)"
  shows "\<forall>m \<in> set (deep_spreads sel). rank m < k \<Longrightarrow> build_tree k sel frs out \<noteq> None"
  using ranked
proof (induction k sel frs out rule: build_tree.induct)
  case (2 fuel f rest frs out)
  then show ?case by (cases "gf_selection_set f = []") (auto split: option.splits)
next
  case (3 fuel name ds rest frs out)
  show ?case
  proof (cases "map_of frs name")
    case (Some fr)
    then have mem: "(name, fr) \<in> set frs" by (rule map_of_SomeD)
    obtain k where fuel: "fuel = Suc k" using "3.prems"(1) by (cases fuel) auto
    have "\<forall>m \<in> set (deep_spreads (fr_selection_set fr)). rank m < k"
      using mem "3.prems" fuel by fastforce
    then have "build_tree k (fr_selection_set fr) frs [] \<noteq> None" using "3.IH"(2) [of fr k] "3.prems"(2) Some fuel by simp
    then obtain inner where inner: "build_tree k (fr_selection_set fr) frs [] = Some inner" by auto
    then have "build_tree fuel rest frs (sel_extend inner out) \<noteq> None" using "3.IH"(3) [of fr k inner] "3.prems" Some fuel by simp
    then show ?thesis using Some fuel inner by simp
  qed (use 3 in auto)
qed (auto split: option.splits)


text \<open>Integers that round to the same double are not told apart.\<close>

lemma large_integers_confused: "json_matches (JNumber (PosInt 9007199254740992)) (JNumber (PosInt 9007199254740993)) None"
  by (simp add: round53_def shift53.simps)

text \<open>A query that selects \<open>a\<close> through a fragment and then \<open>b\<close>: the oracle enforces their order.\<close>

definition leaf_field :: "string \<Rightarrow> selection" where
  "leaf_field name = SField (GqlField None name [] [] [])"

definition ordered_query :: gql_document where
  "ordered_query = [DefOperation (OpSelectionSet [SFragmentSpread ''F'' [], leaf_field ''b'']),
     DefFragment \<lparr>fr_name = ''F'', fr_type_condition = ''query_root'', fr_selection_set = [leaf_field ''a'']\<rparr>]"

definition data_of :: "(string \<times> json) list \<Rightarrow> json" where
  "data_of m = JObject [(''data'', JObject m)]"


end
