(* ===== verification/Applier.thy ===== *)
theory Applier
  imports Metadata
begin

text \<open>
  The applier of the conformance harness, \<open>crates/conformance/src/lib.rs\<close>:
  setup operations on the metadata that the harness accumulates before it
  starts the engine. Operations on the suite's database are in \<open>Harness\<close>.
  A panic is an error value; \<open>serde_json::from_value\<close> into the metadata
  structs is a parameter.
\<close>

section \<open>Arguments\<close>

datatype panic =
    NoOpType
  | BulkNotList
  | NoSql
  | SqlFailed string
  | NoObjects
  | ObjectNotMap
  | NoQualifiedName
  | BadQualified
  | BadValue string string
  | MissingArg string
  | NoDefaultSource
  | NotTracked qualified_table
  | NotAdded string
  | UnsupportedOp string
  | FixtureUnreadable
  | NoMetadataDir string
  | Unhealthy
  | RequestFailed
  | NoUrl
  | WrongStatus
  | Mismatch
  | NoResponse
  | NotGraphql
  | WsClosed
  | WsTimeout
  | WsBadFrame
  | WsRefused
  | OracleStack

record deser =
  de_select :: "json \<Rightarrow> string + select_permission"
  de_insert :: "json \<Rightarrow> string + insert_permission"
  de_update :: "json \<Rightarrow> string + update_permission"
  de_delete :: "json \<Rightarrow> string + delete_permission"
  de_object_rel :: "json \<Rightarrow> string + object_relationship"
  de_array_rel :: "json \<Rightarrow> string + array_relationship"
  de_computed_field :: "json \<Rightarrow> string + computed_field"
  de_remote_rel :: "json \<Rightarrow> string + remote_relationship"
  de_function_configuration :: "json \<Rightarrow> string + function_configuration"
  de_inherited_role :: "json \<Rightarrow> string + inherited_role"
  de_remote_schema :: "json \<Rightarrow> string + remote_schema"
  de_remote_permission :: "json \<Rightarrow> string + string"
  de_collection :: "json \<Rightarrow> string + query_collection"
  de_allowlist :: "json \<Rightarrow> string + string"
  de_custom_types :: "json \<Rightarrow> string + custom_types"
  de_action :: "json \<Rightarrow> string + action_entry"

definition from_value :: "string \<Rightarrow> (json \<Rightarrow> string + 'a) \<Rightarrow> json \<Rightarrow> panic + 'a" where
  "from_value what de v = (case de v of Inl e \<Rightarrow> Inl (BadValue what e) | Inr x \<Rightarrow> Inr x)"

text \<open>Indexing a JSON value by a key it does not have gives null.\<close>

definition jindex :: "json \<Rightarrow> string \<Rightarrow> json" where
  "jindex v k = (case json_get v k of Some w \<Rightarrow> w | None \<Rightarrow> JNull)"

text \<open>\<open>args[k].as_str().expect(k)\<close>\<close>

definition arg_str :: "json \<Rightarrow> string \<Rightarrow> panic + string" where
  "arg_str args k = ok_or (as_str (jindex args k)) (MissingArg k)"

definition qualified_from :: "json \<Rightarrow> panic + qualified_table" where
  "qualified_from v =
     (case v of
        JString s \<Rightarrow> Inr (Name s)
      | JObject m \<Rightarrow>
          (case Option.bind (jmap_get m ''name'') as_str of
             None \<Rightarrow> Inl NoQualifiedName
           | Some name \<Rightarrow>
               (case Option.bind (jmap_get m ''schema'') as_str of
                  Some schema \<Rightarrow> Inr (Qualified schema name)
                | None \<Rightarrow> Inr (Name name)))
      | _ \<Rightarrow> Inl BadQualified)"

text \<open>The argument \<open>k\<close> when there is one, else the arguments themselves.\<close>

definition qualified_arg :: "json \<Rightarrow> string \<Rightarrow> panic + qualified_table" where
  "qualified_arg args k = (if json_get args k \<noteq> None then qualified_from (jindex args k) else qualified_from args)"

definition same_object :: "qualified_table \<Rightarrow> qualified_table \<Rightarrow> bool" where
  "same_object a b \<longleftrightarrow> qt_schema a = qt_schema b \<and> qt_name a = qt_name b"

section \<open>The accumulated metadata\<close>

definition empty_metadata :: metadata where
  "empty_metadata = \<lparr>md_version = 3,
     md_sources = [\<lparr>src_name = ''default'', src_database_url = FromEnv ''DIST_API_DATABASE_URL'', src_tables = [], src_functions = []\<rparr>],
     md_inherited_roles = [], md_query_collections = [], md_allowlist = [], md_remote_schemas = [], md_actions = [],
     md_custom_types = no_custom_types\<rparr>"

text \<open>\<open>iter_mut().find(p)\<close> and an update through the reference.\<close>

fun update_first :: "('a \<Rightarrow> bool) \<Rightarrow> ('a \<Rightarrow> 'a) \<Rightarrow> 'a list \<Rightarrow> 'a list" where
  "update_first P f [] = []"
| "update_first P f (x # xs) = (if P x then f x # xs else x # update_first P f xs)"

definition with_default :: "(source \<Rightarrow> panic + source) \<Rightarrow> metadata \<Rightarrow> panic + metadata" where
  "with_default f md =
     (case find (\<lambda>s. src_name s = ''default'') (md_sources md) of
        None \<Rightarrow> Inl NoDefaultSource
      | Some s \<Rightarrow> bindR (f s) (\<lambda>s'. Inr (md\<lparr>md_sources := update_first (\<lambda>s. src_name s = ''default'') (\<lambda>_. s') (md_sources md)\<rparr>)))"

definition new_table_entry :: "qualified_table \<Rightarrow> table_entry" where
  "new_table_entry table = \<lparr>te_table = table, te_configuration = None, te_is_enum = False, te_object_relationships = [],
     te_array_relationships = [], te_computed_fields = [], te_remote_relationships = [], te_insert_permissions = [],
     te_select_permissions = [], te_update_permissions = [], te_delete_permissions = []\<rparr>"

definition add_table_entry :: "qualified_table \<Rightarrow> table_entry list \<Rightarrow> table_entry list" where
  "add_table_entry table ts =
     (if list_ex (\<lambda>t. same_object (te_table t) table) ts then ts else ts @ [new_table_entry table])"

definition with_table :: "qualified_table \<Rightarrow> (table_entry \<Rightarrow> table_entry) \<Rightarrow> metadata \<Rightarrow> panic + metadata" where
  "with_table table f = with_default (\<lambda>s.
     Inr (s\<lparr>src_tables := update_first (\<lambda>t. same_object (te_table t) table) f (add_table_entry table (src_tables s))\<rparr>))"

section \<open>Operations on tables\<close>

text \<open>
  One group of operations each; \<open>None\<close> when the operation is not one of the
  group, so that the groups compose to the \<open>match\<close> of \<open>apply_op\<close>.
\<close>

type_synonym op_result = "(panic + metadata) option"

definition perm_op :: "string \<Rightarrow> (json \<Rightarrow> string + 'p) \<Rightarrow> ('p permission_entry \<Rightarrow> table_entry \<Rightarrow> table_entry) \<Rightarrow> json \<Rightarrow> metadata \<Rightarrow> panic + metadata" where
  "perm_op what de push args md =
     bindR (qualified_from (jindex args ''table'')) (\<lambda>table.
     bindR (arg_str args ''role'') (\<lambda>role.
     bindR (from_value what de (jindex args ''permission'')) (\<lambda>permission.
       with_table table (push \<lparr>pe_role = role, pe_permission = permission\<rparr>) md)))"

definition create_permission :: "deser \<Rightarrow> string \<Rightarrow> json \<Rightarrow> metadata \<Rightarrow> op_result" where
  "create_permission de kind args md =
     (if kind = ''create_select_permission'' then
        Some (perm_op ''select permission'' (de_select de) (\<lambda>p t. t\<lparr>te_select_permissions := te_select_permissions t @ [p]\<rparr>) args md)
      else if kind = ''create_insert_permission'' then
        Some (perm_op ''insert permission'' (de_insert de) (\<lambda>p t. t\<lparr>te_insert_permissions := te_insert_permissions t @ [p]\<rparr>) args md)
      else if kind = ''create_update_permission'' then
        Some (perm_op ''update permission'' (de_update de) (\<lambda>p t. t\<lparr>te_update_permissions := te_update_permissions t @ [p]\<rparr>) args md)
      else if kind = ''create_delete_permission'' then
        Some (perm_op ''delete permission'' (de_delete de) (\<lambda>p t. t\<lparr>te_delete_permissions := te_delete_permissions t @ [p]\<rparr>) args md)
      else None)"

definition table_add :: "string \<Rightarrow> (json \<Rightarrow> string + 'a) \<Rightarrow> ('a \<Rightarrow> table_entry \<Rightarrow> table_entry) \<Rightarrow> json \<Rightarrow> metadata \<Rightarrow> panic + metadata" where
  "table_add what de push args md =
     bindR (qualified_from (jindex args ''table'')) (\<lambda>table.
     bindR (from_value what de args) (\<lambda>x. with_table table (push x) md))"

definition create_relationship :: "deser \<Rightarrow> string \<Rightarrow> json \<Rightarrow> metadata \<Rightarrow> op_result" where
  "create_relationship de kind args md =
     (if kind = ''create_object_relationship'' then
        Some (table_add ''object relationship'' (de_object_rel de) (\<lambda>r t. t\<lparr>te_object_relationships := te_object_relationships t @ [r]\<rparr>) args md)
      else if kind = ''create_array_relationship'' then
        Some (table_add ''array relationship'' (de_array_rel de) (\<lambda>r t. t\<lparr>te_array_relationships := te_array_relationships t @ [r]\<rparr>) args md)
      else if kind = ''add_computed_field'' then
        Some (table_add ''computed field'' (de_computed_field de) (\<lambda>c t. t\<lparr>te_computed_fields := te_computed_fields t @ [c]\<rparr>) args md)
      else if kind = ''create_remote_relationship'' then
        Some (table_add ''remote relationship'' (de_remote_rel de) (\<lambda>r t. t\<lparr>te_remote_relationships := te_remote_relationships t @ [r]\<rparr>) args md)
      else None)"

definition drop_named :: "string \<Rightarrow> (string \<Rightarrow> table_entry \<Rightarrow> table_entry) \<Rightarrow> json \<Rightarrow> metadata \<Rightarrow> panic + metadata" where
  "drop_named k retain args md =
     bindR (qualified_from (jindex args ''table'')) (\<lambda>table.
     bindR (arg_str args k) (\<lambda>name. with_table table (retain name) md))"

definition drop_relationship :: "string \<Rightarrow> json \<Rightarrow> metadata \<Rightarrow> op_result" where
  "drop_relationship kind args md =
     (if kind = ''drop_relationship'' then
        Some (drop_named ''relationship'' (\<lambda>n t. t\<lparr>te_object_relationships := filter (\<lambda>r. or_name r \<noteq> n) (te_object_relationships t),
          te_array_relationships := filter (\<lambda>r. ar_name r \<noteq> n) (te_array_relationships t)\<rparr>) args md)
      else if kind = ''drop_computed_field'' then
        Some (drop_named ''name'' (\<lambda>n t. t\<lparr>te_computed_fields := filter (\<lambda>c. cf_name c \<noteq> n) (te_computed_fields t)\<rparr>) args md)
      else if kind = ''drop_remote_relationship'' then
        Some (drop_named ''name'' (\<lambda>n t. t\<lparr>te_remote_relationships := filter (\<lambda>r. rr_name r \<noteq> n) (te_remote_relationships t)\<rparr>) args md)
      else None)"

definition drop_permission :: "string \<Rightarrow> json \<Rightarrow> metadata \<Rightarrow> op_result" where
  "drop_permission kind args md =
     (if kind = ''drop_select_permission'' then
        Some (drop_named ''role'' (\<lambda>r t. t\<lparr>te_select_permissions := filter (\<lambda>p. pe_role p \<noteq> r) (te_select_permissions t)\<rparr>) args md)
      else if kind = ''drop_insert_permission'' then
        Some (drop_named ''role'' (\<lambda>r t. t\<lparr>te_insert_permissions := filter (\<lambda>p. pe_role p \<noteq> r) (te_insert_permissions t)\<rparr>) args md)
      else if kind = ''drop_update_permission'' then
        Some (drop_named ''role'' (\<lambda>r t. t\<lparr>te_update_permissions := filter (\<lambda>p. pe_role p \<noteq> r) (te_update_permissions t)\<rparr>) args md)
      else if kind = ''drop_delete_permission'' then
        Some (drop_named ''role'' (\<lambda>r t. t\<lparr>te_delete_permissions := filter (\<lambda>p. pe_role p \<noteq> r) (te_delete_permissions t)\<rparr>) args md)
      else None)"

definition track_table :: "json \<Rightarrow> metadata \<Rightarrow> panic + metadata" where
  "track_table args md = bindR (qualified_arg args ''table'') (\<lambda>table. with_table table id md)"

definition untrack_table :: "json \<Rightarrow> metadata \<Rightarrow> panic + metadata" where
  "untrack_table args md =
     bindR (qualified_arg args ''table'') (\<lambda>table.
     with_default (\<lambda>s. Inr (s\<lparr>src_tables := filter (\<lambda>t. \<not> same_object (te_table t) table) (src_tables s)\<rparr>)) md)"

definition track_op :: "string \<Rightarrow> json \<Rightarrow> metadata \<Rightarrow> op_result" where
  "track_op kind args md =
     (if kind = ''track_table'' then Some (track_table args md)
      else if kind = ''untrack_table'' then Some (untrack_table args md)
      else None)"

section \<open>Functions\<close>

definition track_function :: "deser \<Rightarrow> json \<Rightarrow> metadata \<Rightarrow> panic + metadata" where
  "track_function de args md =
     bindR (qualified_arg args ''function'') (\<lambda>function.
     with_default (\<lambda>s.
       if list_ex (\<lambda>f. same_object (fe_function f) function) (src_functions s) then Inr s
       else
         bindR (case json_get args ''configuration'' of
              Some c \<Rightarrow> if is_null c then Inr None
                else bindR (from_value ''function configuration'' (de_function_configuration de) c) (\<lambda>x. Inr (Some x))
            | None \<Rightarrow> Inr None) (\<lambda>conf.
         Inr (s\<lparr>src_functions := src_functions s @ [\<lparr>fe_function = function, fe_configuration = conf, fe_permissions = []\<rparr>]\<rparr>))) md)"

definition create_function_permission :: "json \<Rightarrow> metadata \<Rightarrow> panic + metadata" where
  "create_function_permission args md =
     bindR (qualified_from (jindex args ''function'')) (\<lambda>function.
     bindR (arg_str args ''role'') (\<lambda>role.
     with_default (\<lambda>s.
       if list_ex (\<lambda>f. same_object (fe_function f) function) (src_functions s)
       then Inr (s\<lparr>src_functions := update_first (\<lambda>f. same_object (fe_function f) function)
              (\<lambda>f. f\<lparr>fe_permissions := fe_permissions f @ [\<lparr>fp_role = role\<rparr>]\<rparr>) (src_functions s)\<rparr>)
       else Inl (NotTracked function)) md))"

definition drop_function_permission :: "json \<Rightarrow> metadata \<Rightarrow> panic + metadata" where
  "drop_function_permission args md =
     bindR (qualified_arg args ''function'') (\<lambda>function.
     bindR (arg_str args ''role'') (\<lambda>role.
     with_default (\<lambda>s. Inr (s\<lparr>src_functions := update_first (\<lambda>f. same_object (fe_function f) function)
       (\<lambda>f. f\<lparr>fe_permissions := filter (\<lambda>p. fp_role p \<noteq> role) (fe_permissions f)\<rparr>) (src_functions s)\<rparr>)) md))"

definition untrack_function :: "json \<Rightarrow> metadata \<Rightarrow> panic + metadata" where
  "untrack_function args md =
     bindR (qualified_arg args ''function'') (\<lambda>function.
     with_default (\<lambda>s. Inr (s\<lparr>src_functions := filter (\<lambda>f. \<not> same_object (fe_function f) function) (src_functions s)\<rparr>)) md)"

definition function_op :: "deser \<Rightarrow> string \<Rightarrow> json \<Rightarrow> metadata \<Rightarrow> op_result" where
  "function_op de kind args md =
     (if kind = ''track_function'' then Some (track_function de args md)
      else if kind \<in> {''create_function_permission'', ''add_function_permission''} then Some (create_function_permission args md)
      else if kind = ''untrack_function'' then Some (untrack_function args md)
      else if kind = ''drop_function_permission'' then Some (drop_function_permission args md)
      else None)"

section \<open>Roles, remote schemas, collections\<close>

definition role_op :: "deser \<Rightarrow> string \<Rightarrow> json \<Rightarrow> metadata \<Rightarrow> op_result" where
  "role_op de kind args md =
     (if kind = ''add_inherited_role'' then
        Some (bindR (from_value ''inherited role'' (de_inherited_role de) args) (\<lambda>r.
          Inr (md\<lparr>md_inherited_roles := md_inherited_roles md @ [r]\<rparr>)))
      else if kind = ''drop_inherited_role'' then
        Some (bindR (arg_str args ''role_name'') (\<lambda>n.
          Inr (md\<lparr>md_inherited_roles := filter (\<lambda>r. ir_role_name r \<noteq> n) (md_inherited_roles md)\<rparr>)))
      else None)"

definition update_remote_schema :: "remote_schema \<Rightarrow> remote_schema list \<Rightarrow> remote_schema list" where
  "update_remote_schema schema rs =
     (if list_ex (\<lambda>r. rs_name r = rs_name schema) rs
      then update_first (\<lambda>r. rs_name r = rs_name schema) (\<lambda>r. schema\<lparr>rs_permissions := rs_permissions r\<rparr>) rs
      else rs @ [schema])"

definition add_remote_permission :: "deser \<Rightarrow> json \<Rightarrow> metadata \<Rightarrow> panic + metadata" where
  "add_remote_permission de args md =
     bindR (arg_str args ''remote_schema'') (\<lambda>name.
     bindR (arg_str args ''role'') (\<lambda>role.
     bindR (from_value ''remote schema permission'' (de_remote_permission de) (jindex args ''definition'')) (\<lambda>schema.
       if list_ex (\<lambda>r. rs_name r = name) (md_remote_schemas md)
       then Inr (md\<lparr>md_remote_schemas := update_first (\<lambda>r. rs_name r = name)
              (\<lambda>r. r\<lparr>rs_permissions := rs_permissions r @ [\<lparr>rsp_role = role, rsp_schema = schema\<rparr>]\<rparr>) (md_remote_schemas md)\<rparr>)
       else Inl (NotAdded name))))"

definition remote_op :: "deser \<Rightarrow> string \<Rightarrow> json \<Rightarrow> metadata \<Rightarrow> op_result" where
  "remote_op de kind args md =
     (if kind = ''add_remote_schema'' then
        Some (bindR (from_value ''remote schema'' (de_remote_schema de) args) (\<lambda>r.
          Inr (md\<lparr>md_remote_schemas := md_remote_schemas md @ [r]\<rparr>)))
      else if kind \<in> {''remove_remote_schema'', ''drop_remote_schema''} then
        Some (bindR (arg_str args ''name'') (\<lambda>n.
          Inr (md\<lparr>md_remote_schemas := filter (\<lambda>r. rs_name r \<noteq> n) (md_remote_schemas md)\<rparr>)))
      else if kind = ''update_remote_schema'' then
        Some (bindR (from_value ''remote schema'' (de_remote_schema de) args) (\<lambda>r.
          Inr (md\<lparr>md_remote_schemas := update_remote_schema r (md_remote_schemas md)\<rparr>)))
      else if kind = ''add_remote_schema_permissions'' then Some (add_remote_permission de args md)
      else if kind = ''drop_remote_schema_permissions'' then
        Some (bindR (arg_str args ''remote_schema'') (\<lambda>name.
          bindR (arg_str args ''role'') (\<lambda>role.
          Inr (md\<lparr>md_remote_schemas := update_first (\<lambda>r. rs_name r = name)
            (\<lambda>r. r\<lparr>rs_permissions := filter (\<lambda>p. rsp_role p \<noteq> role) (rs_permissions r)\<rparr>) (md_remote_schemas md)\<rparr>))))
      else None)"

definition add_query :: "json \<Rightarrow> metadata \<Rightarrow> panic + metadata" where
  "add_query args md =
     bindR (arg_str args ''collection_name'') (\<lambda>coll.
     bindR (arg_str args ''query_name'') (\<lambda>name.
     bindR (arg_str args ''query'') (\<lambda>query.
       if list_ex (\<lambda>c. qc_name c = coll) (md_query_collections md)
       then Inr (md\<lparr>md_query_collections := update_first (\<lambda>c. qc_name c = coll)
              (\<lambda>c. c\<lparr>qc_queries := qc_queries c @ [\<lparr>cq_name = name, cq_query = query\<rparr>]\<rparr>) (md_query_collections md)\<rparr>)
       else Inl (NotAdded coll))))"

definition collection_op :: "deser \<Rightarrow> string \<Rightarrow> json \<Rightarrow> metadata \<Rightarrow> op_result" where
  "collection_op de kind args md =
     (if kind = ''create_query_collection'' then
        Some (bindR (from_value ''query collection'' (de_collection de) args) (\<lambda>c.
          Inr (md\<lparr>md_query_collections := md_query_collections md @ [c]\<rparr>)))
      else if kind = ''drop_query_collection'' then
        Some (bindR (case as_str (jindex args ''collection'') of
             Some n \<Rightarrow> Inr n
           | None \<Rightarrow> ok_or (as_str (jindex args ''name'')) (MissingArg ''collection name'')) (\<lambda>n.
          Inr (md\<lparr>md_query_collections := filter (\<lambda>c. qc_name c \<noteq> n) (md_query_collections md)\<rparr>)))
      else if kind = ''add_query_to_collection'' then Some (add_query args md)
      else if kind = ''drop_query_from_collection'' then
        Some (bindR (arg_str args ''collection_name'') (\<lambda>coll.
          bindR (arg_str args ''query_name'') (\<lambda>name.
          Inr (md\<lparr>md_query_collections := update_first (\<lambda>c. qc_name c = coll)
            (\<lambda>c. c\<lparr>qc_queries := filter (\<lambda>q. cq_name q \<noteq> name) (qc_queries c)\<rparr>) (md_query_collections md)\<rparr>))))
      else if kind = ''add_collection_to_allowlist'' then
        Some (bindR (from_value ''allowlist entry'' (de_allowlist de) args) (\<lambda>a.
          Inr (md\<lparr>md_allowlist := md_allowlist md @ [a]\<rparr>)))
      else if kind = ''drop_collection_from_allowlist'' then
        Some (bindR (arg_str args ''collection'') (\<lambda>coll.
          Inr (md\<lparr>md_allowlist := filter (\<lambda>a. a \<noteq> coll) (md_allowlist md)\<rparr>)))
      else None)"

section \<open>Actions\<close>

definition update_action :: "action_entry \<Rightarrow> action_entry list \<Rightarrow> action_entry list" where
  "update_action entry acts =
     (let permissions = (case find (\<lambda>a. ae_name a = ae_name entry) acts of Some a \<Rightarrow> ae_permissions a | None \<Rightarrow> []) in
      filter (\<lambda>a. ae_name a \<noteq> ae_name entry) acts @ [entry\<lparr>ae_permissions := permissions\<rparr>])"

definition action_roles :: "string \<Rightarrow> string \<Rightarrow> string list \<Rightarrow> string list" where
  "action_roles kind role roles =
     (if kind = ''drop_action_permission'' then filter (\<lambda>r. r \<noteq> role) roles
      else if role \<in> set roles then roles
      else roles @ [role])"

definition action_permission_op :: "string \<Rightarrow> json \<Rightarrow> metadata \<Rightarrow> op_result" where
  "action_permission_op kind args md =
     (if kind \<in> {''create_action_permission'', ''drop_action_permission''} then
        Some (bindR (arg_str args ''action'') (\<lambda>action.
          bindR (arg_str args ''role'') (\<lambda>role.
          Inr (md\<lparr>md_actions := update_first (\<lambda>a. ae_name a = action)
            (\<lambda>a. a\<lparr>ae_permissions := action_roles kind role (ae_permissions a)\<rparr>) (md_actions md)\<rparr>))))
      else None)"

definition action_op :: "deser \<Rightarrow> string \<Rightarrow> json \<Rightarrow> metadata \<Rightarrow> op_result" where
  "action_op de kind args md =
     (if kind = ''set_custom_types'' then
        Some (bindR (from_value kind (de_custom_types de) args) (\<lambda>t. Inr (md\<lparr>md_custom_types := t\<rparr>)))
      else if kind = ''create_action'' then
        Some (bindR (from_value kind (de_action de) args) (\<lambda>entry.
          Inr (md\<lparr>md_actions := filter (\<lambda>a. ae_name a \<noteq> ae_name entry) (md_actions md) @ [entry]\<rparr>)))
      else if kind = ''update_action'' then
        Some (bindR (from_value kind (de_action de) args) (\<lambda>entry.
          Inr (md\<lparr>md_actions := update_action entry (md_actions md)\<rparr>)))
      else if kind = ''drop_action'' then
        Some (bindR (arg_str args ''name'') (\<lambda>n.
          Inr (md\<lparr>md_actions := filter (\<lambda>a. ae_name a \<noteq> n) (md_actions md)\<rparr>)))
      else if kind = ''clear_metadata'' then Some (Inr empty_metadata)
      else action_permission_op kind args md)"

section \<open>All operations on metadata\<close>

definition first_op :: "op_result list \<Rightarrow> op_result" where
  "first_op rs = Option.bind (find (\<lambda>r. r \<noteq> None) rs) id"

definition metadata_op :: "deser \<Rightarrow> string \<Rightarrow> json \<Rightarrow> metadata \<Rightarrow> op_result" where
  "metadata_op de kind args md =
     first_op [track_op kind args md, create_permission de kind args md, create_relationship de kind args md,
       function_op de kind args md, role_op de kind args md, remote_op de kind args md, collection_op de kind args md,
       drop_relationship kind args md, drop_permission kind args md, action_op de kind args md]"

end
