(* ===== verification/Harness.thy ===== *)
theory Harness
  imports Applier Oracle
begin

text \<open>
  The runner of the conformance harness, \<open>crates/conformance/src/lib.rs\<close>:
  building a suite, seeding its database, writing the metadata directory,
  starting the engine on the first request, and checking fixture cases over
  HTTP and the websocket. Postgres, the spawned process and the network are
  parameters that answer given everything sent before; what was sent is part
  of the state.
\<close>

section \<open>The world outside\<close>

datatype harness_request =
    HttpGet string "(string \<times> string) list"
  | HttpPost string json "(string \<times> string) list"
  | WsConnect string
  | WsSend json

datatype ws_message = WsText string | WsOther

text \<open>
  \<open>he_execute\<close> is \<open>batch_execute\<close> on the suite's database (the error, if
  any), \<open>he_admin\<close> the same on the admin connection, \<open>he_postgis\<close> the
  attempts to create the extension, \<open>he_answer\<close> the
  status and body of a request that got a response, \<open>he_frames\<close> what the
  websocket delivers after a message was sent: each entry says whether the deadline
  had passed when it was waited for. \<open>he_health\<close> are the polls of
  \<open>/healthz\<close>: whether it was healthy, and whether the deadline had passed.
  The \<open>he_yaml\<close> functions are \<open>serde_yaml::to_string\<close>.
\<close>

record harness_env =
  he_fixtures :: fixture_lib
  he_fixture_root :: path
  he_deser :: deser
  he_parse_query :: "string \<Rightarrow> gql_document option"
  he_json_parse :: "string \<Rightarrow> json option"
  he_json_display :: "json \<Rightarrow> string"
  he_num_display :: "jnum \<Rightarrow> string"
  he_execute :: "string list \<Rightarrow> string \<Rightarrow> string option"
  he_admin_url :: string
  he_admin :: "string \<Rightarrow> string option"
  he_postgis :: "nat \<Rightarrow> string option"
  he_answer :: "harness_request list \<Rightarrow> (16 word \<times> string) option"
  he_frames :: "harness_request list \<Rightarrow> (bool \<times> ws_message) list"
  he_health :: "(bool \<times> bool) list"
  he_port :: "16 word"
  he_metadata_dir :: string
  he_yaml_sources :: "source list \<Rightarrow> string + string"
  he_yaml_roles :: "inherited_role list \<Rightarrow> string + string"
  he_yaml_collections :: "query_collection list \<Rightarrow> string + string"
  he_yaml_allowlist :: "string list \<Rightarrow> string + string"
  he_yaml_remotes :: "remote_schema list \<Rightarrow> string + string"
  he_yaml_actions :: "action_entry list \<Rightarrow> custom_types \<Rightarrow> string + string"

section \<open>Suites\<close>

text \<open>
  The address of a running engine, published to the action webhook stub
  (\<open>EngineInfo\<close>); a suite may have such a stub, and the stub may not know the
  engine yet.
\<close>

record engine_info =
  ei_base_url :: string
  ei_admin_secret :: "string option"

record suite =
  su_name :: string
  su_env :: "(string \<times> string) list"
  su_args :: "string list"
  su_admin_secret :: "string option"
  su_webhook :: "engine_info option option"

definition new_suite :: "string \<Rightarrow> suite" where
  "new_suite name = \<lparr>su_name = name, su_env = [], su_args = [], su_admin_secret = None, su_webhook = None\<rparr>"

definition suite_env :: "string \<Rightarrow> string \<Rightarrow> suite \<Rightarrow> suite" where
  "suite_env k v s = s\<lparr>su_env := su_env s @ [(k, v)]\<rparr>"

text \<open>\<open>base\<close> is the URL of the stub's listener.\<close>

definition with_action_webhook :: "string \<Rightarrow> suite \<Rightarrow> suite" where
  "with_action_webhook base s = (suite_env ''ACTION_WEBHOOK_HANDLER'' base s)\<lparr>su_webhook := Some None\<rparr>"

definition with_remote_graphql :: "string \<Rightarrow> string \<Rightarrow> suite \<Rightarrow> suite" where
  "with_remote_graphql env_var base s = suite_env env_var base s"

definition suite_arg :: "string \<Rightarrow> suite \<Rightarrow> suite" where
  "suite_arg a s = s\<lparr>su_args := su_args s @ [a]\<rparr>"

definition suite_admin_secret :: "string \<Rightarrow> suite \<Rightarrow> suite" where
  "suite_admin_secret secret s = suite_env ''HASURA_GRAPHQL_ADMIN_SECRET'' secret (s\<lparr>su_admin_secret := Some secret\<rparr>)"

text \<open>\<open>rsplit_once('/')\<close> finds the last slash.\<close>

definition with_db :: "string \<Rightarrow> string \<Rightarrow> string option" where
  "with_db admin_url db = map_option (\<lambda>(_, rest). rev rest @ ''/'' @ db) (split_once CHR ''/'' (rev admin_url))"

text \<open>The process serving a suite: its endpoints, and what it was started with.\<close>

record engine_proc =
  ep_base_url :: string
  ep_ws_base :: string
  ep_files :: "(string list \<times> string) list"
  ep_args :: "string list"
  ep_env :: "(string \<times> string) list"

record running =
  ru_name :: string
  ru_env :: "(string \<times> string) list"
  ru_args :: "string list"
  ru_admin_secret :: "string option"
  ru_webhook :: "engine_info option option"
  ru_db_url :: string
  ru_metadata :: metadata
  ru_engine :: "engine_proc option"
  ru_statements :: "string list"
  ru_requests :: "harness_request list"

definition create_suite_db :: "harness_env \<Rightarrow> string \<Rightarrow> panic + string" where
  "create_suite_db env name =
     (case he_admin env (''DROP DATABASE IF EXISTS '' @ name @ '' WITH (FORCE)'') of
        Some e \<Rightarrow> Inl (SqlFailed e)
      | None \<Rightarrow>
          (case he_admin env (''CREATE DATABASE '' @ name) of
             Some e \<Rightarrow> Inl (SqlFailed e)
           | None \<Rightarrow> ok_or (with_db (he_admin_url env) name) (MissingArg ''PG_URL'')))"

text \<open>\<open>start\<close>: up to ten attempts to create the extension.\<close>

definition start_suite :: "harness_env \<Rightarrow> suite \<Rightarrow> panic + running" where
  "start_suite env s =
     bindR (create_suite_db env (''conf_'' @ su_name s)) (\<lambda>db_url.
     if list_ex (\<lambda>i. he_postgis env i = None) [0..<10] then
       Inr \<lparr>ru_name = su_name s, ru_env = su_env s, ru_args = su_args s, ru_admin_secret = su_admin_secret s,
         ru_webhook = su_webhook s, ru_db_url = db_url, ru_metadata = empty_metadata, ru_engine = None,
         ru_statements = [], ru_requests = []\<rparr>
     else Inl (SqlFailed ''postgis''))"

section \<open>Seeding the database\<close>

definition sql_literal :: "harness_env \<Rightarrow> json \<Rightarrow> string" where
  "sql_literal env v =
     (case v of
        JNull \<Rightarrow> ''NULL''
      | JBool b \<Rightarrow> (if b then ''true'' else ''false'')
      | JNumber n \<Rightarrow> he_num_display env n
      | JString s \<Rightarrow> [CHR 0x27] @ replace_char CHR 0x27 [CHR 0x27, CHR 0x27] s @ [CHR 0x27]
      | other \<Rightarrow> [CHR 0x27] @ replace_char CHR 0x27 [CHR 0x27, CHR 0x27] (he_json_display env other) @ [CHR 0x27])"

definition dquote :: "string \<Rightarrow> string" where
  "dquote s = [CHR 0x22] @ s @ [CHR 0x22]"

definition insert_sql :: "harness_env \<Rightarrow> qualified_table \<Rightarrow> jmap \<Rightarrow> string" where
  "insert_sql env table row =
     ''INSERT INTO '' @ dquote (qt_schema table) @ ''.'' @ dquote (qt_name table)
     @ '' ('' @ join_with '', '' (map (\<lambda>kv. dquote (fst kv)) row)
     @ '') VALUES ('' @ join_with '', '' (map (\<lambda>kv. sql_literal env (snd kv)) row) @ '')''"

definition execute_sql :: "harness_env \<Rightarrow> string \<Rightarrow> running \<Rightarrow> panic + running" where
  "execute_sql env sql r =
     (case he_execute env (ru_statements r) sql of
        Some e \<Rightarrow> Inl (SqlFailed e)
      | None \<Rightarrow> Inr (r\<lparr>ru_statements := ru_statements r @ [sql]\<rparr>))"

fun insert_objects :: "harness_env \<Rightarrow> qualified_table \<Rightarrow> json list \<Rightarrow> running \<Rightarrow> panic + running" where
  "insert_objects env table [] r = Inr r"
| "insert_objects env table (v # vs) r =
     (case v of
        JObject row \<Rightarrow> bindR (execute_sql env (insert_sql env table row) r) (insert_objects env table vs)
      | _ \<Rightarrow> Inl ObjectNotMap)"

definition insert_op :: "harness_env \<Rightarrow> json \<Rightarrow> running \<Rightarrow> panic + running" where
  "insert_op env args r =
     bindR (qualified_from (jindex args ''table'')) (\<lambda>table.
     bindR (ok_or (as_array (jindex args ''objects'')) NoObjects) (\<lambda>objects.
       insert_objects env table objects r))"

section \<open>Applying operations\<close>

definition op_kind :: "string \<Rightarrow> string" where
  "op_kind raw = (case strip_prefix ''pg_'' raw of Some k \<Rightarrow> k | None \<Rightarrow> raw)"

definition op_args :: "json \<Rightarrow> json" where
  "op_args op = jindex op ''args''"

definition run_metadata_op :: "harness_env \<Rightarrow> string \<Rightarrow> json \<Rightarrow> running \<Rightarrow> panic + running" where
  "run_metadata_op env kind args r =
     (case metadata_op (he_deser env) kind args (ru_metadata r) of
        Some (Inr md) \<Rightarrow> Inr (r\<lparr>ru_metadata := md\<rparr>)
      | Some (Inl e) \<Rightarrow> Inl e
      | None \<Rightarrow> Inl (UnsupportedOp kind))"

fun foldP :: "('a \<Rightarrow> 's \<Rightarrow> 'e + 's) \<Rightarrow> 'a list \<Rightarrow> 's \<Rightarrow> 'e + 's" where
  "foldP f [] s = Inr s"
| "foldP f (x # xs) s = bindR (f x s) (foldP f xs)"

lemma foldP_cong [fundef_cong]:
  "xs = ys \<Longrightarrow> s = t \<Longrightarrow> (\<And>x u. x \<in> set ys \<Longrightarrow> f x u = g x u) \<Longrightarrow> foldP f xs s = foldP g ys t"
proof (induction ys arbitrary: xs s t)
  case (Cons y ys)
  have "foldP f ys = foldP g ys" using Cons.IH Cons.prems(3) by (intro ext) simp
  then show ?case using Cons.prems by simp
qed simp

lemma size_op_args: "op_args op = JArray ops \<Longrightarrow> v \<in> set ops \<Longrightarrow> size v < size op"
proof -
  assume args: "op_args op = JArray ops" and v: "v \<in> set ops"
  then have "json_get op ''args'' = Some (JArray ops)" by (auto simp: op_args_def jindex_def split: option.splits)
  then show ?thesis using size_json_get size_json_element [OF v] by fastforce
qed

function apply_op :: "harness_env \<Rightarrow> json \<Rightarrow> running \<Rightarrow> panic + running" where
  "apply_op env op r =
     (case Option.bind (json_get op ''type'') as_str of
        None \<Rightarrow> Inl NoOpType
      | Some raw \<Rightarrow>
          if starts_with raw ''mssql_'' then Inr r
          else
            (let kind = op_kind raw; args = op_args op in
             if kind = ''bulk'' then
               (case args of JArray ops \<Rightarrow> foldP (apply_op env) ops r | _ \<Rightarrow> Inl BulkNotList)
             else if kind = ''run_sql'' then
               bindR (ok_or (as_str (jindex args ''sql'')) NoSql) (\<lambda>sql. execute_sql env sql r)
             else if kind = ''insert'' then insert_op env args r
             else run_metadata_op env kind args r))"
  by pat_completeness auto
termination
  by (relation "measure (\<lambda>(env, op, r). size op)") (auto dest: size_op_args [OF sym])

declare apply_op.simps [simp del]

definition apply_doc :: "harness_env \<Rightarrow> json \<Rightarrow> running \<Rightarrow> panic + running" where
  "apply_doc env doc r = (case doc of JArray ops \<Rightarrow> foldP (apply_op env) ops r | op \<Rightarrow> apply_op env op r)"

section \<open>The metadata directory\<close>

text \<open>The files written into the fresh directory, by their path below it.\<close>

definition yaml_file :: "string list \<Rightarrow> string + string \<Rightarrow> panic + (string list \<times> string) list" where
  "yaml_file name content = (case content of Inl e \<Rightarrow> Inl (NoMetadataDir e) | Inr c \<Rightarrow> Inr [(name, c)])"

definition opt_file :: "bool \<Rightarrow> string list \<Rightarrow> string + string \<Rightarrow> panic + (string list \<times> string) list" where
  "opt_file written name content = (if written then yaml_file name content else Inr [])"

definition write_metadata_dir :: "harness_env \<Rightarrow> metadata \<Rightarrow> panic + (string list \<times> string) list" where
  "write_metadata_dir env md =
     bindR (yaml_file [''databases'', ''databases.yaml''] (he_yaml_sources env (md_sources md))) (\<lambda>dbs.
     bindR (opt_file (md_inherited_roles md \<noteq> []) [''inherited_roles.yaml''] (he_yaml_roles env (md_inherited_roles md))) (\<lambda>roles.
     bindR (opt_file (md_query_collections md \<noteq> []) [''query_collections.yaml''] (he_yaml_collections env (md_query_collections md))) (\<lambda>colls.
     bindR (opt_file (md_allowlist md \<noteq> []) [''allow_list.yaml''] (he_yaml_allowlist env (md_allowlist md))) (\<lambda>allows.
     bindR (opt_file (md_remote_schemas md \<noteq> []) [''remote_schemas.yaml''] (he_yaml_remotes env (md_remote_schemas md))) (\<lambda>remotes.
     bindR (opt_file (md_actions md \<noteq> [] \<or> \<not> custom_types_empty (md_custom_types md)) [''actions.yaml'']
       (he_yaml_actions env (md_actions md) (md_custom_types md))) (\<lambda>acts.
       Inr ((([''version.yaml''], ''version: 3'' @ [CHR 0x0A]) # dbs) @ roles @ colls @ allows @ remotes @ acts)))))))"

section \<open>The engine\<close>

text \<open>The loop that waits for the engine; \<open>None\<close> is a loop that is still waiting.\<close>

fun wait_healthy :: "(bool \<times> bool) list \<Rightarrow> bool option" where
  "wait_healthy [] = None"
| "wait_healthy ((healthy, late) # polls) = (if healthy then Some True else if late then Some False else wait_healthy polls)"

definition spawn_engine :: "harness_env \<Rightarrow> running \<Rightarrow> (string list \<times> string) list \<Rightarrow> engine_proc" where
  "spawn_engine env r files =
     (let port = nat_str (unat (he_port env)) in
      \<lparr>ep_base_url = ''http://127.0.0.1:'' @ port, ep_ws_base = ''ws://127.0.0.1:'' @ port, ep_files = files,
       ep_args = [''--port'', port, ''--metadata-dir'', he_metadata_dir env] @ ru_args r,
       ep_env = (''DIST_API_DATABASE_URL'', ru_db_url r) # ru_env r\<rparr>)"

definition ensure_engine :: "harness_env \<Rightarrow> running \<Rightarrow> panic + running" where
  "ensure_engine env r =
     (if ru_engine r \<noteq> None then Inr r
      else bindR (write_metadata_dir env (ru_metadata r)) (\<lambda>files.
        if wait_healthy (he_health env) = Some True
        then
          (let p = spawn_engine env r files in
           Inr (r\<lparr>ru_engine := Some p,
             ru_webhook := map_option (\<lambda>_. Some \<lparr>ei_base_url = ep_base_url p, ei_admin_secret = ru_admin_secret r\<rparr>) (ru_webhook r)\<rparr>))
        else Inl Unhealthy))"

definition base_url :: "running \<Rightarrow> string" where
  "base_url r = (case ru_engine r of Some p \<Rightarrow> ep_base_url p | None \<Rightarrow> [])"

definition ws_base :: "running \<Rightarrow> string" where
  "ws_base r = (case ru_engine r of Some p \<Rightarrow> ep_ws_base p | None \<Rightarrow> [])"

text \<open>Sends a request and reads the body as JSON, or as a string where it is none.\<close>

definition send_request :: "harness_env \<Rightarrow> harness_request \<Rightarrow> running \<Rightarrow> panic + ((16 word \<times> json) \<times> running)" where
  "send_request env q r =
     (let sent = ru_requests r @ [q] in
      case he_answer env sent of
        None \<Rightarrow> Inl RequestFailed
      | Some (code, body) \<Rightarrow>
          Inr ((code, case he_json_parse env body of Some v \<Rightarrow> v | None \<Rightarrow> JString body), r\<lparr>ru_requests := sent\<rparr>))"

definition admin_paths :: "string list" where
  "admin_paths = [''/v1/query'', ''/v2/query'', ''/v1/metadata'']"

definition post :: "harness_env \<Rightarrow> string \<Rightarrow> json \<Rightarrow> (string \<times> string) list \<Rightarrow> running \<Rightarrow> panic + ((16 word \<times> json) \<times> running)" where
  "post env p body headers r =
     (if p \<in> set admin_paths then
        bindR (apply_doc env body r) (\<lambda>r. Inr ((200, JObject [(''message'', JString ''success'')]), r))
      else
        bindR (ensure_engine env r) (\<lambda>r. send_request env (HttpPost (base_url r @ p) body headers) r))"

section \<open>Cases\<close>

definition auth_headers :: "running \<Rightarrow> (string \<times> string) list \<Rightarrow> (string \<times> string) list" where
  "auth_headers r headers =
     (case ru_admin_secret r of Some secret \<Rightarrow> headers @ [(''X-Hasura-Admin-Secret'', secret)] | None \<Rightarrow> headers)"

definition conf_headers :: "harness_env \<Rightarrow> json \<Rightarrow> (string \<times> string) list" where
  "conf_headers env conf =
     (case Option.bind (json_get conf ''headers'') as_object of
        None \<Rightarrow> []
      | Some h \<Rightarrow> map (\<lambda>(k, v). (k, case v of JString s \<Rightarrow> s | other \<Rightarrow> he_json_display env other)) h)"

definition conf_query_text :: "json \<Rightarrow> string option" where
  "conf_query_text conf = Option.bind (Option.bind (json_get conf ''query'') (\<lambda>q. json_get q ''query'')) as_str"

text \<open>Asserts that the responses match; \<open>fuel\<close> bounds the nesting of fragments in the case's query.\<close>

definition assert_response :: "nat \<Rightarrow> harness_env \<Rightarrow> json \<Rightarrow> json \<Rightarrow> string option \<Rightarrow> panic + unit" where
  "assert_response fuel env e a query_text =
     (case response_matches fuel (he_parse_query env) e a query_text of
        None \<Rightarrow> Inl OracleStack
      | Some ok \<Rightarrow> if ok then Inr () else Inl Mismatch)"

fun any_matches :: "nat \<Rightarrow> harness_env \<Rightarrow> json list \<Rightarrow> json \<Rightarrow> string option \<Rightarrow> panic + bool" where
  "any_matches fuel env [] a query_text = Inr False"
| "any_matches fuel env (x # xs) a query_text =
     (case json_get x ''response'' of
        None \<Rightarrow> any_matches fuel env xs a query_text
      | Some e \<Rightarrow>
          (case response_matches fuel (he_parse_query env) e a query_text of
             None \<Rightarrow> Inl OracleStack
           | Some ok \<Rightarrow> if ok then Inr True else any_matches fuel env xs a query_text))"

definition check_http :: "nat \<Rightarrow> harness_env \<Rightarrow> json \<Rightarrow> 16 word \<Rightarrow> json \<Rightarrow> panic + unit" where
  "check_http fuel env conf code resp =
     (let exp_status = (case Option.bind (json_get conf ''status'') as_u64 of Some n \<Rightarrow> ucast n | None \<Rightarrow> 200) in
      if code \<noteq> exp_status then Inl WrongStatus
      else case Option.bind (json_get conf ''allowed_responses'') as_array of
        Some allowed \<Rightarrow>
          bindR (any_matches fuel env allowed resp (conf_query_text conf)) (\<lambda>ok. if ok then Inr () else Inl Mismatch)
      | None \<Rightarrow>
          (case json_get conf ''response'' of
             Some e \<Rightarrow> assert_response fuel env e resp (conf_query_text conf)
           | None \<Rightarrow> Inr ()))"

definition http_exchange :: "harness_env \<Rightarrow> json \<Rightarrow> string \<Rightarrow> running \<Rightarrow> panic + ((16 word \<times> json) \<times> running)" where
  "http_exchange env conf url r =
     (let headers = auth_headers r (conf_headers env conf) in
      if Option.bind (json_get conf ''method'') as_str = Some ''GET''
      then bindR (ensure_engine env r) (\<lambda>r. send_request env (HttpGet (base_url r @ url) headers) r)
      else post env url (case json_get conf ''query'' of Some q \<Rightarrow> q | None \<Rightarrow> jindex conf ''body'') headers r)"

definition http_case :: "nat \<Rightarrow> harness_env \<Rightarrow> json \<Rightarrow> running \<Rightarrow> panic + running" where
  "http_case fuel env conf r =
     bindR (ok_or (as_str (jindex conf ''url'')) NoUrl) (\<lambda>url.
     bindR (http_exchange env conf url r) (\<lambda>((code, resp), r).
     bindR (check_http fuel env conf code resp) (\<lambda>_. Inr r)))"

text \<open>
  Reads frames until one is wanted or an error; the rest stays unread. The end
  of the list is a connection without a further message.
\<close>

fun next_frame :: "(string \<Rightarrow> json option) \<Rightarrow> string list \<Rightarrow> (bool \<times> ws_message) list \<Rightarrow> panic + (json \<times> (bool \<times> ws_message) list)" where
  "next_frame parse wanted [] = Inl WsClosed"
| "next_frame parse wanted ((late, msg) # rest) =
     (if late then Inl WsTimeout
      else case msg of
        WsOther \<Rightarrow> next_frame parse wanted rest
      | WsText body \<Rightarrow>
          (case parse body of
             None \<Rightarrow> Inl WsBadFrame
           | Some v \<Rightarrow>
               (let t = (case as_str (jindex v ''type'') of Some t \<Rightarrow> t | None \<Rightarrow> []) in
                if t = ''ka'' then next_frame parse wanted rest
                else if t \<in> set wanted \<or> t = ''error'' \<or> t = ''connection_error'' then Inr (v, rest)
                else next_frame parse wanted rest)))"

definition ws_init :: "(string \<times> string) list \<Rightarrow> json" where
  "ws_init headers = JObject [(''type'', JString ''connection_init''),
     (''payload'', JObject (if headers = [] then [] else [(''headers'', JObject (obj_insert_all (map (\<lambda>(k, v). (k, JString v)) headers)))]))]"

definition ws_start :: "json \<Rightarrow> json" where
  "ws_start query = JObject [(''id'', JString ''hge_test''), (''type'', JString ''start''), (''payload'', query)]"

definition ws_payload :: "json \<Rightarrow> json" where
  "ws_payload frame =
     (if jindex frame ''type'' = JString ''error'' then JObject [(''errors'', JArray [jindex frame ''payload''])]
      else jindex frame ''payload'')"

definition ws_send :: "json \<Rightarrow> running \<Rightarrow> running" where
  "ws_send v r = r\<lparr>ru_requests := ru_requests r @ [WsSend v]\<rparr>"

definition ws_case :: "nat \<Rightarrow> harness_env \<Rightarrow> json \<Rightarrow> running \<Rightarrow> panic + running" where
  "ws_case fuel env conf r =
     bindR (ok_or (as_str (jindex conf ''url'')) NoUrl) (\<lambda>url.
     bindR (ok_or (json_get conf ''response'') NoResponse) (\<lambda>e.
     let headers = auth_headers r (conf_headers env conf) in
     bindR (ensure_engine env r) (\<lambda>r.
     let r = ws_send (ws_init headers) (r\<lparr>ru_requests := ru_requests r @ [WsConnect (ws_base r @ url)]\<rparr>) in
     bindR (next_frame (he_json_parse env) [''connection_ack'', ''connection_error''] (he_frames env (ru_requests r))) (\<lambda>(ack, _).
     if jindex ack ''type'' \<noteq> JString ''connection_ack'' then Inl WsRefused
     else
       let r = ws_send (ws_start (jindex conf ''query'')) r in
       bindR (next_frame (he_json_parse env) [''data'', ''error''] (he_frames env (ru_requests r))) (\<lambda>(frame, rest).
       bindR (assert_response fuel env e (ws_payload frame) (conf_query_text conf)) (\<lambda>_.
       if json_get e ''errors'' \<noteq> None \<or> json_get e ''error'' \<noteq> None then Inr r
       else bindR (next_frame (he_json_parse env) [''complete''] rest) (\<lambda>(last_frame, _).
         if jindex last_frame ''type'' = JString ''complete'' then Inr r else Inl WsRefused)))))))"

datatype transport = Http | WsOnly | Both

definition is_gql_url :: "string \<Rightarrow> bool" where
  "is_gql_url url \<longleftrightarrow> strip_suffix ''/graphql'' url \<noteq> None \<or> strip_suffix ''/relay'' url \<noteq> None"

definition run_conf :: "nat \<Rightarrow> harness_env \<Rightarrow> transport \<Rightarrow> json \<Rightarrow> running \<Rightarrow> panic + running" where
  "run_conf fuel env transport conf r =
     bindR (ok_or (as_str (jindex conf ''url'')) NoUrl) (\<lambda>url.
     case transport of
       Http \<Rightarrow> http_case fuel env conf r
     | WsOnly \<Rightarrow> (if is_gql_url url then ws_case fuel env conf r else Inl NotGraphql)
     | Both \<Rightarrow> bindR (http_case fuel env conf r) (\<lambda>r. if is_gql_url url then ws_case fuel env conf r else Inr r))"

section \<open>Fixture files\<close>

definition read_fixture :: "nat \<Rightarrow> harness_env \<Rightarrow> string \<Rightarrow> fixture_error + json" where
  "read_fixture fuel env rel = load_fixture fuel (he_fixtures env) (path_join (he_fixture_root env) rel)"

definition apply_fixture :: "nat \<Rightarrow> harness_env \<Rightarrow> string \<Rightarrow> running \<Rightarrow> panic + running" where
  "apply_fixture fuel env rel r =
     (case read_fixture fuel env rel of Inl _ \<Rightarrow> Inl FixtureUnreadable | Inr body \<Rightarrow> apply_doc env body r)"

definition apply_if_exists :: "nat \<Rightarrow> harness_env \<Rightarrow> string \<Rightarrow> running \<Rightarrow> panic + (bool \<times> running)" where
  "apply_if_exists fuel env rel r =
     (if yl_exists (he_fixtures env) (path_join (he_fixture_root env) rel)
      then bindR (apply_fixture fuel env rel r) (\<lambda>r. Inr (True, r))
      else Inr (False, r))"

definition teardown_v1q :: "nat \<Rightarrow> harness_env \<Rightarrow> string \<Rightarrow> running \<Rightarrow> panic + running" where
  "teardown_v1q fuel env rel r =
     (case read_fixture fuel env rel of Inl _ \<Rightarrow> Inr r | Inr body \<Rightarrow> apply_doc env body r)"

definition check_query_f :: "nat \<Rightarrow> harness_env \<Rightarrow> string \<Rightarrow> transport \<Rightarrow> running \<Rightarrow> panic + running" where
  "check_query_f fuel env rel transport r =
     bindR (ensure_engine env r) (\<lambda>r.
     case read_fixture fuel env rel of
       Inl _ \<Rightarrow> Inl FixtureUnreadable
     | Inr (JArray steps) \<Rightarrow> foldP (run_conf fuel env transport) steps r
     | Inr conf \<Rightarrow> run_conf fuel env transport conf r)"

end
