(* ===== verification/Harness_Properties.thy ===== *)
theory Harness_Properties
  imports Harness Loader_Properties
begin

text \<open>
  The state of a suite while it runs: the accumulated metadata is well-formed,
  the runtime admin API of the engine is never posted to, and the engine
  that is started loads exactly the accumulated metadata.
\<close>

section \<open>Well-formed metadata\<close>

definition object_key :: "qualified_table \<Rightarrow> string \<times> string" where
  "object_key t = (qt_schema t, qt_name t)"

definition source_wf :: "source \<Rightarrow> bool" where
  "source_wf s \<longleftrightarrow> src_name s = ''default'' \<and> src_database_url s = FromEnv ''DIST_API_DATABASE_URL''
     \<and> distinct (map (object_key \<circ> te_table) (src_tables s))
     \<and> distinct (map (object_key \<circ> fe_function) (src_functions s))"

definition metadata_wf :: "metadata \<Rightarrow> bool" where
  "metadata_wf md \<longleftrightarrow> md_version md = 3 \<and> (\<exists>s. md_sources md = [s] \<and> source_wf s) \<and> distinct (map ae_name (md_actions md))"

lemma same_object_key: "same_object a b \<longleftrightarrow> object_key a = object_key b"
  by (simp add: same_object_def object_key_def)

lemma update_first_keys: "(\<And>x. key (f x) = key x) \<Longrightarrow> map key (update_first P f xs) = map key xs"
  by (induction xs) auto

lemma distinct_map_filter_key: "distinct (map key xs) \<Longrightarrow> distinct (map key (filter P xs))"
  by (induction xs) auto

lemma distinct_push:
  assumes "distinct (map (object_key \<circ> g) xs)" "\<not> list_ex (\<lambda>x. same_object (g x) (g y)) xs"
  shows "distinct (map (object_key \<circ> g) (xs @ [y]))"
proof -
  have "object_key (g x) \<noteq> object_key (g y)" if "x \<in> set xs" for x
    using assms(2) that by (auto simp: list_ex_iff same_object_key)
  then have "object_key (g y) \<notin> (object_key \<circ> g) ` set xs" by (metis comp_apply imageE)
  then show ?thesis using assms(1) by simp
qed

lemma wf_with_default:
  assumes wf: "metadata_wf md" and step: "with_default f md = Inr md'"
    and keep: "\<And>s s'. source_wf s \<Longrightarrow> f s = Inr s' \<Longrightarrow> source_wf s'"
  shows "metadata_wf md'"
proof -
  obtain s where s: "md_sources md = [s]" "source_wf s" using wf by (auto simp: metadata_wf_def)
  then have name: "src_name s = ''default''" by (simp add: source_wf_def)
  then obtain s' where "f s = Inr s'" "md' = md\<lparr>md_sources := [s']\<rparr>"
    using step s by (auto simp: with_default_def)
  then show ?thesis using wf s keep by (auto simp: metadata_wf_def)
qed

lemma wf_with_table:
  assumes "metadata_wf md" "with_table table f md = Inr md'" "\<And>t. te_table (f t) = te_table t"
  shows "metadata_wf md'"
proof (rule wf_with_default [OF assms(1) assms(2) [unfolded with_table_def]])
  fix s s'
  let ?P = "\<lambda>t. same_object (te_table t) table"
  assume s: "source_wf s" and s': "Inr (s\<lparr>src_tables := update_first ?P f (add_table_entry table (src_tables s))\<rparr>) = Inr s'"
  have "map (object_key \<circ> te_table) (update_first ?P f ts) = map (object_key \<circ> te_table) ts" for ts
    by (rule update_first_keys) (simp add: assms(3))
  moreover have "distinct (map (object_key \<circ> te_table) (add_table_entry table (src_tables s)))"
    using s distinct_push [of te_table "src_tables s" "new_table_entry table"]
    by (simp add: source_wf_def add_table_entry_def new_table_entry_def)
  ultimately show "source_wf s'" using s s' by (auto simp: source_wf_def)
qed

lemma wf_track_op:
  assumes wf: "metadata_wf md" and op: "track_op kind args md = Some (Inr md')"
  shows "metadata_wf md'"
proof (cases "kind = ''track_table''")
  case True
  then obtain table where "with_table table id md = Inr md'" using op by (auto simp: track_op_def track_table_def)
  then show ?thesis by (rule wf_with_table [OF wf]) simp
next
  case False
  then obtain table where
    "with_default (\<lambda>s. Inr (s\<lparr>src_tables := filter (\<lambda>t. \<not> same_object (te_table t) table) (src_tables s)\<rparr>)) md = Inr md'"
    using op by (auto simp: track_op_def untrack_table_def split: if_splits)
  then show ?thesis by (rule wf_with_default [OF wf]) (auto simp: source_wf_def distinct_map_filter_key)
qed

lemma wf_perm_op:
  "metadata_wf md \<Longrightarrow> perm_op what de push args md = Inr md' \<Longrightarrow> (\<And>p t. te_table (push p t) = te_table t) \<Longrightarrow> metadata_wf md'"
  unfolding perm_op_def by (elim bindR_InrE) (rule wf_with_table)

lemma wf_table_add:
  "metadata_wf md \<Longrightarrow> table_add what de push args md = Inr md' \<Longrightarrow> (\<And>p t. te_table (push p t) = te_table t) \<Longrightarrow> metadata_wf md'"
  unfolding table_add_def by (elim bindR_InrE) (rule wf_with_table)

lemma wf_drop_named:
  "metadata_wf md \<Longrightarrow> drop_named k retain args md = Inr md' \<Longrightarrow> (\<And>n t. te_table (retain n t) = te_table t) \<Longrightarrow> metadata_wf md'"
  unfolding drop_named_def by (elim bindR_InrE) (rule wf_with_table)

lemma some_if: "(if c then Some x else y) = Some z \<Longrightarrow> (c \<Longrightarrow> x = z \<Longrightarrow> P) \<Longrightarrow> (\<not> c \<Longrightarrow> y = Some z \<Longrightarrow> P) \<Longrightarrow> P"
  by (cases c) auto

lemma wf_create_permission: "metadata_wf md \<Longrightarrow> create_permission de kind args md = Some (Inr md') \<Longrightarrow> metadata_wf md'"
  unfolding create_permission_def by (elim some_if) ((erule (1) wf_perm_op; simp) | simp)+

lemma wf_create_relationship: "metadata_wf md \<Longrightarrow> create_relationship de kind args md = Some (Inr md') \<Longrightarrow> metadata_wf md'"
  unfolding create_relationship_def by (elim some_if) ((erule (1) wf_table_add; simp) | simp)+

lemma wf_drop_relationship: "metadata_wf md \<Longrightarrow> drop_relationship kind args md = Some (Inr md') \<Longrightarrow> metadata_wf md'"
  unfolding drop_relationship_def by (elim some_if) ((erule (1) wf_drop_named; simp) | simp)+

lemma wf_drop_permission: "metadata_wf md \<Longrightarrow> drop_permission kind args md = Some (Inr md') \<Longrightarrow> metadata_wf md'"
  unfolding drop_permission_def by (elim some_if) ((erule (1) wf_drop_named; simp) | simp)+

lemmas wf_table_ops = wf_create_permission wf_create_relationship wf_drop_relationship wf_drop_permission

lemma distinct_functions_update:
  "(\<And>x. fe_function (f x) = fe_function x) \<Longrightarrow> source_wf (s\<lparr>src_functions := update_first P f (src_functions s)\<rparr>) \<longleftrightarrow> source_wf s"
  using update_first_keys [of "object_key \<circ> fe_function" f P "src_functions s"] by (simp add: source_wf_def)

lemma wf_functions:
  assumes wf: "metadata_wf md"
  shows "track_function de args md = Inr md' \<Longrightarrow> metadata_wf md'"
    and "create_function_permission args md = Inr md' \<Longrightarrow> metadata_wf md'"
    and "untrack_function args md = Inr md' \<Longrightarrow> metadata_wf md'"
    and "drop_function_permission args md = Inr md' \<Longrightarrow> metadata_wf md'"
proof -
  assume "track_function de args md = Inr md'"
  then show "metadata_wf md'"
    unfolding track_function_def
    by (elim bindR_InrE wf_with_default [OF wf])
      (auto simp: source_wf_def simp del: map_append intro!: distinct_push [where g = fe_function] split: if_splits option.splits)
next
  assume "create_function_permission args md = Inr md'"
  then show "metadata_wf md'"
    unfolding create_function_permission_def
    by (elim bindR_InrE wf_with_default [OF wf]) (auto simp: distinct_functions_update split: if_splits)
next
  assume "untrack_function args md = Inr md'"
  then show "metadata_wf md'"
    unfolding untrack_function_def
    by (elim bindR_InrE wf_with_default [OF wf]) (auto simp: source_wf_def distinct_map_filter_key)
next
  assume "drop_function_permission args md = Inr md'"
  then show "metadata_wf md'"
    unfolding drop_function_permission_def
    by (elim bindR_InrE wf_with_default [OF wf]) (auto simp: distinct_functions_update)
qed

lemma wf_function_op: "metadata_wf md \<Longrightarrow> function_op de kind args md = Some (Inr md') \<Longrightarrow> metadata_wf md'"
  by (auto simp: function_op_def dest: wf_functions split: if_splits)

lemma wf_update:
  assumes "metadata_wf md"
  shows "metadata_wf (md\<lparr>md_inherited_roles := a\<rparr>)" "metadata_wf (md\<lparr>md_remote_schemas := b\<rparr>)"
    "metadata_wf (md\<lparr>md_query_collections := c\<rparr>)" "metadata_wf (md\<lparr>md_allowlist := d\<rparr>)"
    "metadata_wf (md\<lparr>md_custom_types := e\<rparr>)"
  using assms by (simp_all add: metadata_wf_def)

lemma wf_role_op: "metadata_wf md \<Longrightarrow> role_op de kind args md = Some (Inr md') \<Longrightarrow> metadata_wf md'"
  unfolding role_op_def by (elim some_if) (auto simp: wf_update split: if_splits)

lemma wf_remote_op: "metadata_wf md \<Longrightarrow> remote_op de kind args md = Some (Inr md') \<Longrightarrow> metadata_wf md'"
  unfolding remote_op_def add_remote_permission_def by (elim some_if) (auto simp: wf_update split: if_splits)

lemma wf_collection_op: "metadata_wf md \<Longrightarrow> collection_op de kind args md = Some (Inr md') \<Longrightarrow> metadata_wf md'"
  unfolding collection_op_def add_query_def by (elim some_if) (auto simp: wf_update split: if_splits)

lemmas wf_other_ops = wf_role_op wf_remote_op wf_collection_op

lemma wf_actions: "metadata_wf md \<Longrightarrow> distinct (map ae_name acts) \<Longrightarrow> metadata_wf (md\<lparr>md_actions := acts\<rparr>)"
  by (simp add: metadata_wf_def)

lemma distinct_replace:
  "distinct (map ae_name acts) \<Longrightarrow> ae_name a = n \<Longrightarrow> distinct (map ae_name (filter (\<lambda>x. ae_name x \<noteq> n) acts @ [a]))"
  by (auto simp: distinct_map_filter_key)

lemma wf_bind: "bindR m f = Inr y \<Longrightarrow> (\<And>x. f x = Inr y \<Longrightarrow> P y) \<Longrightarrow> P y"
  by (cases m) simp_all

lemma wf_action_permission:
  assumes wf: "metadata_wf md" and op: "action_permission_op kind args md = Some (Inr md')"
  shows "metadata_wf md'"
proof -
  let ?md = "\<lambda>action role. md\<lparr>md_actions := update_first (\<lambda>a. ae_name a = action)
      (\<lambda>a. a\<lparr>ae_permissions := action_roles kind role (ae_permissions a)\<rparr>) (md_actions md)\<rparr>"
  have keep: "metadata_wf (?md action role)" for action role
  proof (rule wf_actions [OF wf])
    have "map ae_name (update_first (\<lambda>a. ae_name a = action) (\<lambda>a. a\<lparr>ae_permissions := action_roles kind role (ae_permissions a)\<rparr>) (md_actions md))
        = map ae_name (md_actions md)" by (rule update_first_keys) simp
    then show "distinct (map ae_name (update_first (\<lambda>a. ae_name a = action)
        (\<lambda>a. a\<lparr>ae_permissions := action_roles kind role (ae_permissions a)\<rparr>) (md_actions md)))"
      using wf by (simp add: metadata_wf_def)
  qed
  have "bindR (arg_str args ''action'') (\<lambda>action. bindR (arg_str args ''role'') (\<lambda>role. Inr (?md action role))) = Inr md'"
    using op unfolding action_permission_op_def by (simp split: if_splits)
  then show ?thesis by (elim wf_bind) (use keep in \<open>auto simp only: sum.inject\<close>)
qed

lemma wf_empty: "metadata_wf empty_metadata"
  by (simp add: metadata_wf_def empty_metadata_def source_wf_def)

lemma wf_action_op:
  assumes wf: "metadata_wf md" and op: "action_op de kind args md = Some (Inr md')"
  shows "metadata_wf md'"
proof -
  have acts: "distinct (map ae_name (md_actions md))" using wf by (simp add: metadata_wf_def)
  show ?thesis
  proof (cases "action_permission_op kind args md = Some (Inr md')")
    case False
    have types: "metadata_wf (md\<lparr>md_custom_types := t\<rparr>)" for t using wf by (simp add: metadata_wf_def)
    show ?thesis
      using op False unfolding action_op_def update_action_def Let_def
      by (auto split: if_splits simp: types wf_empty wf_actions [OF wf] distinct_replace [OF acts] distinct_map_filter_key [OF acts] simp del: map_append)
  qed (rule wf_action_permission [OF wf])
qed

lemma first_op_member: "first_op rs = Some x \<Longrightarrow> Some x \<in> set rs"
  by (auto simp: first_op_def bind_eq_Some_conv dest!: find_Some_in)

lemma wf_metadata_op: "metadata_wf md \<Longrightarrow> metadata_op de kind args md = Some (Inr md') \<Longrightarrow> metadata_wf md'"
  unfolding metadata_op_def
  by (drule first_op_member) (auto dest!: sym [of "Some (Inr md')"] dest: wf_track_op wf_table_ops wf_function_op wf_other_ops wf_action_op)

section \<open>Runs of a suite\<close>

text \<open>What a test does with a suite, in any order.\<close>

inductive suite_run :: "harness_env \<Rightarrow> running \<Rightarrow> bool" for env where
  started: "start_suite env s = Inr r \<Longrightarrow> suite_run env r"
| applied: "suite_run env r \<Longrightarrow> apply_fixture fuel env rel r = Inr r' \<Longrightarrow> suite_run env r'"
| applied_if: "suite_run env r \<Longrightarrow> apply_if_exists fuel env rel r = Inr (b, r') \<Longrightarrow> suite_run env r'"
| torn_down: "suite_run env r \<Longrightarrow> teardown_v1q fuel env rel r = Inr r' \<Longrightarrow> suite_run env r'"
| posted: "suite_run env r \<Longrightarrow> post env p body headers r = Inr (resp, r') \<Longrightarrow> suite_run env r'"
| checked: "suite_run env r \<Longrightarrow> check_query_f fuel env rel transport r = Inr r' \<Longrightarrow> suite_run env r'"

text \<open>
  The invariant: well-formed metadata; an engine started from a directory
  written for well-formed metadata; and every POST sent to the engine's own
  address, at a path that is not one of the admin API.
\<close>

definition post_allowed :: "string \<Rightarrow> harness_request \<Rightarrow> bool" where
  "post_allowed base q \<longleftrightarrow> (case q of HttpPost url _ _ \<Rightarrow> \<exists>p. url = base @ p \<and> p \<notin> set admin_paths | _ \<Rightarrow> True)"

definition running_ok :: "harness_env \<Rightarrow> running \<Rightarrow> bool" where
  "running_ok env r \<longleftrightarrow> metadata_wf (ru_metadata r)
     \<and> (case ru_engine r of
          None \<Rightarrow> ru_requests r = []
        | Some p \<Rightarrow> \<exists>md. metadata_wf md \<and> write_metadata_dir env md = Inr (ep_files p))
     \<and> list_all (post_allowed (base_url r)) (ru_requests r)"

text \<open>Steps keep the engine that was started; setup operations change neither it nor what was sent.\<close>

definition same_engine :: "running \<Rightarrow> running \<Rightarrow> bool" where
  "same_engine r r' \<longleftrightarrow> ru_engine r' = ru_engine r \<and> ru_requests r' = ru_requests r"

lemma foldP_invariant:
  "foldP f xs s = Inr t \<Longrightarrow> I s \<Longrightarrow> (\<And>x s t. x \<in> set xs \<Longrightarrow> I s \<Longrightarrow> f x s = Inr t \<Longrightarrow> I t) \<Longrightarrow> I t"
proof (induction xs arbitrary: s)
  case (Cons x xs)
  obtain u where u: "f x s = Inr u" "foldP f xs u = Inr t" using Cons.prems(1) by auto
  have "I u" using Cons.prems(2,3) u(1) by auto
  then show ?case using Cons.IH [OF u(2)] Cons.prems(3) by auto
qed simp

definition set_up :: "running \<Rightarrow> running \<Rightarrow> bool" where
  "set_up r r' \<longleftrightarrow> (metadata_wf (ru_metadata r) \<longrightarrow> metadata_wf (ru_metadata r')) \<and> same_engine r r'"

lemma set_up_refl: "set_up r r" by (simp add: set_up_def same_engine_def)

lemma set_up_trans: "set_up r s \<Longrightarrow> set_up s t \<Longrightarrow> set_up r t" by (simp add: set_up_def same_engine_def)

lemma execute_set_up: "execute_sql env sql r = Inr r' \<Longrightarrow> set_up r r'"
  by (auto simp: execute_sql_def set_up_def same_engine_def split: option.splits)

lemma insert_set_up: "insert_objects env table vs r = Inr r' \<Longrightarrow> set_up r r'"
  by (induction env table vs r rule: insert_objects.induct)
    (auto simp: set_up_refl split: json.splits dest: execute_set_up intro: set_up_trans)

lemma metadata_set_up: "run_metadata_op env kind args r = Inr r' \<Longrightarrow> set_up r r'"
  by (auto simp: run_metadata_op_def set_up_def same_engine_def dest: wf_metadata_op split: option.splits sum.splits)

lemma apply_op_set_up: "apply_op env op r = Inr r' \<Longrightarrow> set_up r r'"
proof (induction op arbitrary: r r' rule: measure_induct_rule [of size])
  case (less op)
  have bulk: "set_up r r'" if "op_args op = JArray ops" "foldP (apply_op env) ops r = Inr r'" for ops
    using that(2) set_up_refl
  proof (rule foldP_invariant)
    fix x s t
    assume "x \<in> set ops" "set_up r s" "apply_op env x s = Inr t"
    then show "set_up r t" using less.IH [OF size_op_args [OF that(1)]] set_up_trans by blast
  qed
  obtain raw where "Option.bind (json_get op ''type'') as_str = Some raw"
    using less.prems by (auto simp: apply_op.simps [of env op] split: option.splits)
  then show ?case
    using less.prems bulk
    by (auto simp: apply_op.simps [of env op] Let_def set_up_refl insert_op_def
        split: if_splits json.splits dest: execute_set_up insert_set_up metadata_set_up)
qed

lemma apply_doc_set_up: "apply_doc env doc r = Inr r' \<Longrightarrow> set_up r r'"
proof (cases "\<exists>ops. doc = JArray ops")
  case True
  assume "apply_doc env doc r = Inr r'"
  then obtain ops where "foldP (apply_op env) ops r = Inr r'" using True by (auto simp: apply_doc_def)
  then show ?thesis using set_up_refl by (rule foldP_invariant) (blast intro: apply_op_set_up set_up_trans)
next
  case False
  assume "apply_doc env doc r = Inr r'"
  then have "apply_op env doc r = Inr r'" using False by (auto simp: apply_doc_def split: json.splits)
  then show ?thesis by (rule apply_op_set_up)
qed

lemma ok_set_up: "set_up r r' \<Longrightarrow> running_ok env r \<Longrightarrow> running_ok env r'"
  unfolding set_up_def same_engine_def running_ok_def base_url_def by (cases "ru_engine r") simp_all

section \<open>The invariant\<close>

lemma ok_ensure:
  assumes ok: "running_ok env r" and step: "ensure_engine env r = Inr r'"
  shows "running_ok env r' \<and> (\<exists>p. ru_engine r' = Some p)"
proof (cases "ru_engine r")
  case None
  obtain files wh where files: "write_metadata_dir env (ru_metadata r) = Inr files"
      and r': "r' = r\<lparr>ru_engine := Some (spawn_engine env r files), ru_webhook := wh\<rparr>"
    using step None unfolding ensure_engine_def Let_def by (auto split: if_splits)
  have "ru_requests r = []" "metadata_wf (ru_metadata r)" using ok None by (simp_all add: running_ok_def)
  moreover have "ep_files (spawn_engine env r files) = files" by (simp add: spawn_engine_def Let_def)
  ultimately show ?thesis using files unfolding r' running_ok_def by auto
qed (use ok step in \<open>auto simp: ensure_engine_def\<close>)

lemma ok_send:
  assumes ok: "running_ok env r" and engine: "ru_engine r = Some p" and step: "send_request env q r = Inr (resp, r')"
    and q: "post_allowed (base_url r) q"
  shows "running_ok env r' \<and> ru_engine r' = Some p"
proof -
  have r': "r' = r\<lparr>ru_requests := ru_requests r @ [q]\<rparr>" using step by (auto simp: send_request_def Let_def split: option.splits)
  have "base_url r' = base_url r" by (simp add: r' base_url_def)
  then show ?thesis using ok engine q by (auto simp: running_ok_def r')
qed

lemma ok_post:
  assumes ok: "running_ok env r" and step: "post env p body headers r = Inr (resp, r')"
  shows "running_ok env r'"
proof (cases "p \<in> set admin_paths")
  case True
  then have "apply_doc env body r = Inr r'" using step by (auto simp: post_def)
  then show ?thesis using ok_set_up [OF apply_doc_set_up ok] by blast
next
  case False
  then obtain s where s: "ensure_engine env r = Inr s" "send_request env (HttpPost (base_url s @ p) body headers) s = Inr (resp, r')"
    using step by (auto simp: post_def)
  obtain e where e: "running_ok env s" "ru_engine s = Some e" using ok_ensure [OF ok s(1)] by blast
  then show ?thesis using ok_send [OF e s(2)] False by (simp add: post_allowed_def)
qed

lemma ok_get:
  assumes ok: "running_ok env r" and step: "bindR (ensure_engine env r) (\<lambda>r. send_request env (HttpGet (base_url r @ url) headers) r) = Inr (resp, r')"
  shows "running_ok env r'"
proof -
  obtain s where s: "ensure_engine env r = Inr s" "send_request env (HttpGet (base_url s @ url) headers) s = Inr (resp, r')"
    using step by auto
  obtain e where e: "running_ok env s" "ru_engine s = Some e" using ok_ensure [OF ok s(1)] by blast
  then show ?thesis using ok_send [OF e s(2)] by (simp add: post_allowed_def)
qed

lemma ok_exchange:
  assumes ok: "running_ok env r" and step: "http_exchange env conf url r = Inr (resp, r')"
  shows "running_ok env r'"
proof (cases "Option.bind (json_get conf ''method'') as_str = Some ''GET''")
  case True
  then have "bindR (ensure_engine env r) (\<lambda>s. send_request env (HttpGet (base_url s @ url) (auth_headers r (conf_headers env conf))) s) = Inr (resp, r')"
    using step unfolding http_exchange_def Let_def by simp
  then show ?thesis by (rule ok_get [OF ok])
next
  case False
  then obtain body headers where "post env url body headers r = Inr (resp, r')" using step by (simp add: http_exchange_def Let_def)
  then show ?thesis by (rule ok_post [OF ok])
qed

lemma ok_http: "running_ok env r \<Longrightarrow> http_case fuel env conf r = Inr r' \<Longrightarrow> running_ok env r'"
  unfolding http_case_def by clarsimp (rule ok_exchange)

lemma ok_ws_requests:
  "running_ok env r \<Longrightarrow> ru_engine r = Some p \<Longrightarrow> list_all (post_allowed (base_url r)) qs
    \<Longrightarrow> running_ok env (r\<lparr>ru_requests := ru_requests r @ qs\<rparr>)"
  by (simp add: running_ok_def base_url_def)

lemma ok_ws:
  assumes ok: "running_ok env r" and step: "ws_case fuel env conf r = Inr r'"
  shows "running_ok env r'"
proof -
  obtain s qs where s: "ensure_engine env r = Inr s" and qs: "r' = s\<lparr>ru_requests := ru_requests s @ qs\<rparr>"
      "\<forall>q \<in> set qs. \<forall>url body headers. q \<noteq> HttpPost url body headers"
    using step unfolding ws_case_def Let_def ws_send_def by (auto split: if_splits)
  obtain e where e: "running_ok env s" "ru_engine s = Some e" using ok_ensure [OF ok s] by blast
  have "list_all (post_allowed (base_url s)) qs" using qs(2) by (auto simp: list_all_iff post_allowed_def split: harness_request.splits)
  then show ?thesis using ok_ws_requests [OF e] qs(1) by simp
qed

lemma ok_conf: "running_ok env r \<Longrightarrow> run_conf fuel env transport conf r = Inr r' \<Longrightarrow> running_ok env r'"
  unfolding run_conf_def by (cases transport) (clarsimp split: if_splits; metis ok_http ok_ws)+

lemma ok_check: "running_ok env r \<Longrightarrow> check_query_f fuel env rel transport r = Inr r' \<Longrightarrow> running_ok env r'"
proof -
  assume ok: "running_ok env r" and step: "check_query_f fuel env rel transport r = Inr r'"
  then obtain s conf where s: "ensure_engine env r = Inr s" and conf: "read_fixture fuel env rel = Inr conf"
    unfolding check_query_f_def by (auto split: sum.splits)
  have ok': "running_ok env s" using ok_ensure [OF ok s] by blast
  show "running_ok env r'"
  proof (cases "\<exists>steps. conf = JArray steps")
    case True
    then obtain steps where "foldP (run_conf fuel env transport) steps s = Inr r'" using step s conf by (auto simp: check_query_f_def)
    then show ?thesis using ok' by (rule foldP_invariant) (rule ok_conf)
  next
    case False
    then have "run_conf fuel env transport conf s = Inr r'" using step s conf by (auto simp: check_query_f_def split: json.splits)
    then show ?thesis by (rule ok_conf [OF ok'])
  qed
qed

lemma ok_applied: "running_ok env r \<Longrightarrow> apply_fixture fuel env rel r = Inr r' \<Longrightarrow> running_ok env r'"
  unfolding apply_fixture_def by (auto split: sum.splits intro: ok_set_up [OF apply_doc_set_up])

lemma run_ok: "suite_run env r \<Longrightarrow> running_ok env r"
proof (induction rule: suite_run.induct)
  case (started s r)
  then show ?case using wf_empty by (auto simp: start_suite_def running_ok_def split: if_splits)
next
  case (applied_if r fuel rel b r')
  then show ?case by (auto simp: apply_if_exists_def split: if_splits intro: ok_applied)
next
  case (torn_down r fuel rel r')
  then show ?case by (auto simp: teardown_v1q_def split: sum.splits intro: ok_set_up [OF apply_doc_set_up])
qed (auto intro: ok_applied ok_post ok_check)

text \<open>
  C38. Whatever a test does with its suite, in any order: the accumulated
  metadata keeps version 3, its single source reading the suite's database,
  one entry per table and per function however their names are spelled and
  one per action; an engine that runs was started from a directory written for
  such metadata; and the harness never posts to the runtime admin API of
  the engine, every POST goes to another path of the engine's own address.
\<close>

theorem suite_run_invariant:
  assumes "suite_run env r"
  shows "metadata_wf (ru_metadata r)
    \<and> (\<forall>p. ru_engine r = Some p \<longrightarrow> (\<exists>md. metadata_wf md \<and> write_metadata_dir env md = Inr (ep_files p)))
    \<and> (\<forall>url body headers. HttpPost url body headers \<in> set (ru_requests r)
        \<longrightarrow> (\<exists>p. url = base_url r @ p \<and> p \<notin> {''/v1/query'', ''/v2/query'', ''/v1/metadata''}))"
  using run_ok [OF assms] unfolding running_ok_def list_all_iff by (fastforce simp: post_allowed_def admin_paths_def)

section \<open>From the harness to the engine\<close>

text \<open>YAML that includes nothing, with distinct keys.\<close>

function (sequential) plain_yaml :: "yaml \<Rightarrow> bool" where
  "plain_yaml (YString s) = (include_string s = None)"
| "plain_yaml (YTagged tag _) = (\<not> is_include_tag tag)"
| "plain_yaml (YSequence vs) = list_all plain_yaml vs"
| "plain_yaml (YMapping m) = (distinct (map fst m) \<and> list_all (\<lambda>kv. plain_yaml (snd kv)) m)"
| "plain_yaml _ = True"
  by pat_completeness auto
termination
  by (relation "measure size") (auto dest: size_yaml_value size_yaml_item simp del: yaml.size)

lemma ymap_of_distinct:
  assumes "distinct (map fst kvs)"
  shows "ymap_of kvs = kvs"
proof -
  have "foldl (\<lambda>acc kv. ymap_insert (fst kv) (snd kv) acc) acc kvs = acc @ kvs" if "distinct (map fst (acc @ kvs))" for acc
    using that
  proof (induction kvs arbitrary: acc)
    case (Cons kv kvs)
    have "ymap_insert (fst kv) (snd kv) acc = acc @ [kv]" using Cons.prems by (auto simp: ymap_insert_def)
    then show ?case using Cons.IH [of "acc @ [kv]"] Cons.prems by simp
  qed simp
  from this [of "[]"] show ?thesis using assms by simp
qed

lemma traverse_same: "(\<And>x. x \<in> set xs \<Longrightarrow> f x = Inr x) \<Longrightarrow> traverse f xs = Inr xs"
  by (induction xs) auto

lemma resolve_plain: "plain_yaml v \<Longrightarrow> resolve_includes load base p v = Inr v"
proof (induction v rule: measure_induct_rule [of size])
  case (less v)
  show ?case
  proof (cases v)
    case (YSequence vs)
    then have "traverse (resolve_includes load base p) vs = Inr vs"
      using less size_yaml_item by (intro traverse_same) (auto simp: list_all_iff)
    then show ?thesis by (simp add: YSequence)
  next
    case (YMapping m)
    have "bindR (resolve_includes load base p (snd kv)) (\<lambda>v. Inr (fst kv, v)) = Inr kv" if "kv \<in> set m" for kv
    proof -
      have "resolve_includes load base p (snd kv) = Inr (snd kv)"
        using less size_yaml_value [OF that] that by (simp add: YMapping list_all_iff)
      then show ?thesis by simp
    qed
    then have "traverse (\<lambda>kv. bindR (resolve_includes load base p (snd kv)) (\<lambda>v. Inr (fst kv, v))) m = Inr m" by (rule traverse_same)
    moreover have "ymap_of m = m" using less.prems by (intro ymap_of_distinct) (simp add: YMapping)
    ultimately show ?thesis by (simp add: YMapping)
  qed (use less.prems in auto)
qed

text \<open>
  A directory holds, of the files the loader looks for, exactly those that were written below it, and YAML
  that \<open>serde\<close> prints for a value is read back as that value.
\<close>

definition file_below :: "path \<Rightarrow> string list \<Rightarrow> path" where
  "file_below dir name = foldl path_join dir name"

definition metadata_files :: "string list list" where
  "metadata_files = [[''version.yaml''], [''databases'', ''databases.yaml''], [''inherited_roles.yaml''], [''query_collections.yaml''],
     [''allow_list.yaml''], [''remote_schemas.yaml''], [''actions.yaml'']]"

definition holds_files :: "yaml_lib \<Rightarrow> path \<Rightarrow> (string list \<times> string) list \<Rightarrow> bool" where
  "holds_files lib dir files \<longleftrightarrow>
     list_all (\<lambda>name. case map_of files name of
        Some content \<Rightarrow> yl_exists lib (file_below dir name) \<and> yl_read lib (file_below dir name) = Inr content
      | None \<Rightarrow> \<not> yl_exists lib (file_below dir name)) metadata_files"

definition reads_back :: "yaml_lib \<Rightarrow> (yaml \<Rightarrow> string + 'a) \<Rightarrow> string + string \<Rightarrow> 'a \<Rightarrow> bool" where
  "reads_back lib de printed x \<longleftrightarrow>
     (\<forall>content. printed = Inr content \<longrightarrow> (\<exists>v. yl_parse lib content = Inr v \<and> plain_yaml v \<and> v \<noteq> YNull \<and> de v = Inr x))"

definition yaml_faithful :: "harness_env \<Rightarrow> yaml_lib \<Rightarrow> metadata \<Rightarrow> bool" where
  "yaml_faithful env lib md \<longleftrightarrow>
     yl_version lib (''version: 3'' @ [CHR 0x0A]) = Inr 3
     \<and> reads_back lib (yl_sources lib) (he_yaml_sources env (md_sources md)) (md_sources md)
     \<and> reads_back lib (yl_inherited_roles lib) (he_yaml_roles env (md_inherited_roles md)) (md_inherited_roles md)
     \<and> reads_back lib (yl_query_collections lib) (he_yaml_collections env (md_query_collections md)) (md_query_collections md)
     \<and> reads_back lib (yl_allowlist lib) (he_yaml_allowlist env (md_allowlist md)) (md_allowlist md)
     \<and> reads_back lib (yl_remote_schemas lib) (he_yaml_remotes env (md_remote_schemas md)) (md_remote_schemas md)
     \<and> reads_back lib (yl_actions lib) (he_yaml_actions env (md_actions md) (md_custom_types md)) (md_actions md, md_custom_types md)"

lemma read_back:
  assumes "reads_back lib de (Inr content) x" "yl_read lib p = Inr content"
  shows "\<exists>v. load_yaml_resolved (Suc fuel) lib p = Inr v \<and> v \<noteq> YNull \<and> de v = Inr x"
  using assms by (auto simp: reads_back_def load_yaml_resolved_def parse_file_def map_err_def resolve_plain)

lemma held:
  assumes "holds_files lib dir files" "name \<in> set metadata_files"
  shows "case map_of files name of
        Some content \<Rightarrow> yl_exists lib (file_below dir name) \<and> yl_read lib (file_below dir name) = Inr content
      | None \<Rightarrow> \<not> yl_exists lib (file_below dir name)"
  using assms by (simp add: holds_files_def list_all_iff)

text \<open>A section that is written when it has contents is read back, and is absent otherwise.\<close>

lemma section_read_back:
  assumes written: "opt_file written [name] printed = Inr fs" "map_of files [name] = map_of fs [name]"
    and laws: "reads_back lib de printed x" "\<not> written \<Longrightarrow> x = dflt" "holds_files lib dir files" "[name] \<in> set metadata_files"
  shows "load_section (Suc fuel) lib dir name de dflt = Inr x"
proof (cases written)
  case True
  then obtain content where content: "fs = [([name], content)]" "printed = Inr content"
    using written(1) by (auto simp: opt_file_def yaml_file_def split: sum.splits)
  then have "yl_exists lib (path_join dir name)" "yl_read lib (path_join dir name) = Inr content"
    using written(2) held [OF laws(3,4)] by (auto simp: file_below_def)
  moreover obtain v where "load_yaml_resolved (Suc fuel) lib (path_join dir name) = Inr v" "v \<noteq> YNull" "de v = Inr x"
    using read_back [of lib de content x "path_join dir name"] laws(1) content(2) calculation by auto
  ultimately show ?thesis by (simp add: load_section_def Let_def map_err_def)
next
  case False
  then have "\<not> yl_exists lib (path_join dir name)"
    using written held [OF laws(3,4)] by (auto simp: opt_file_def file_below_def)
  then show ?thesis using laws(2) False by (simp add: load_section_def Let_def)
qed

lemma opt_file_other: "opt_file written name printed = Inr fs \<Longrightarrow> n \<noteq> name \<Longrightarrow> map_of fs n = None"
  by (auto simp: opt_file_def yaml_file_def split: if_splits sum.splits)

lemma yaml_file_content: "yaml_file name printed = Inr fs \<Longrightarrow> \<exists>content. fs = [(name, content)] \<and> printed = Inr content"
  by (auto simp: yaml_file_def split: sum.splits)

lemma written_loads:
  assumes md: "metadata_wf md" and files: "write_metadata_dir env md = Inr files"
    and dir: "holds_files lib dir files" and faithful: "yaml_faithful env lib md"
  shows "load_metadata_dir (Suc fuel) lib dir = Inr md"
proof -
  obtain dbs roles colls allows remotes acts where
    parts: "yaml_file [''databases'', ''databases.yaml''] (he_yaml_sources env (md_sources md)) = Inr dbs"
      "opt_file (md_inherited_roles md \<noteq> []) [''inherited_roles.yaml''] (he_yaml_roles env (md_inherited_roles md)) = Inr roles"
      "opt_file (md_query_collections md \<noteq> []) [''query_collections.yaml''] (he_yaml_collections env (md_query_collections md)) = Inr colls"
      "opt_file (md_allowlist md \<noteq> []) [''allow_list.yaml''] (he_yaml_allowlist env (md_allowlist md)) = Inr allows"
      "opt_file (md_remote_schemas md \<noteq> []) [''remote_schemas.yaml''] (he_yaml_remotes env (md_remote_schemas md)) = Inr remotes"
      "opt_file (md_actions md \<noteq> [] \<or> \<not> custom_types_empty (md_custom_types md)) [''actions.yaml'']
        (he_yaml_actions env (md_actions md) (md_custom_types md)) = Inr acts"
    and all: "files = (([''version.yaml''], ''version: 3'' @ [CHR 0x0A]) # dbs) @ roles @ colls @ allows @ remotes @ acts"
    using files unfolding write_metadata_dir_def by (elim bindR_InrE) simp
  obtain content where content: "dbs = [([''databases'', ''databases.yaml''], content)]" "he_yaml_sources env (md_sources md) = Inr content"
    using yaml_file_content [OF parts(1)] by blast
  note other = opt_file_other [OF parts(2)] opt_file_other [OF parts(3)] opt_file_other [OF parts(4)] opt_file_other [OF parts(5)]
    opt_file_other [OF parts(6)]
  note lookup = all content(1) other map_add_def
  note laws = faithful [unfolded yaml_faithful_def]
  have read: "map_of files name = Some c \<Longrightarrow> name \<in> set metadata_files \<Longrightarrow> yl_read lib (file_below dir name) = Inr c" for name c
    using held [OF dir] by fastforce
  have sources: "reads_back lib (yl_sources lib) (Inr content) (md_sources md)" using laws content(2) by simp
  have "yl_read lib (path_join (path_join dir ''databases'') ''databases.yaml'') = Inr content"
    using read [of "[''databases'', ''databases.yaml'']"] by (simp add: file_below_def lookup metadata_files_def)
  then obtain v where v: "load_yaml_resolved (Suc fuel) lib (path_join (path_join dir ''databases'') ''databases.yaml'') = Inr v" "yl_sources lib v = Inr (md_sources md)"
    using read_back [OF sources] by blast
  have "yl_read lib (path_join dir ''version.yaml'') = Inr (''version: 3'' @ [CHR 0x0A])"
    using read [of "[''version.yaml'']"] by (simp add: file_below_def lookup metadata_files_def)
  moreover have "load_section (Suc fuel) lib dir ''inherited_roles.yaml'' (yl_inherited_roles lib) [] = Inr (md_inherited_roles md)"
    using laws by (intro section_read_back [OF parts(2) _ _ _ dir]) (simp_all add: lookup metadata_files_def split: option.split)
  moreover have "load_section (Suc fuel) lib dir ''query_collections.yaml'' (yl_query_collections lib) [] = Inr (md_query_collections md)"
    using laws by (intro section_read_back [OF parts(3) _ _ _ dir]) (simp_all add: lookup metadata_files_def split: option.split)
  moreover have "load_section (Suc fuel) lib dir ''allow_list.yaml'' (yl_allowlist lib) [] = Inr (md_allowlist md)"
    using laws by (intro section_read_back [OF parts(4) _ _ _ dir]) (simp_all add: lookup metadata_files_def split: option.split)
  moreover have "load_section (Suc fuel) lib dir ''remote_schemas.yaml'' (yl_remote_schemas lib) [] = Inr (md_remote_schemas md)"
    using laws by (intro section_read_back [OF parts(5) _ _ _ dir]) (simp_all add: lookup metadata_files_def split: option.split)
  moreover have "load_section (Suc fuel) lib dir ''actions.yaml'' (yl_actions lib) ([], no_custom_types) = Inr (md_actions md, md_custom_types md)"
    using laws by (intro section_read_back [OF parts(6) _ _ _ dir]) (simp_all add: lookup metadata_files_def split: option.split)
  ultimately show ?thesis
    using md laws v by (simp add: load_metadata_dir_def load_actions_def Let_def parse_file_def map_err_def metadata_wf_def)
qed


section \<open>A suite with one table\<close>

text \<open>A fixture that tracks a table under both spellings of its name and lets a role select from it.\<close>

definition ymap :: "(string \<times> yaml) list \<Rightarrow> yaml" where
  "ymap kvs = YMapping (map (\<lambda>(k, v). (YString k, v)) kvs)"

definition setup_yaml :: yaml where
  "setup_yaml = YSequence [
     ymap [(''type'', YString ''pg_track_table''), (''args'', ymap [(''table'', YString ''author'')])],
     ymap [(''type'', YString ''track_table''), (''args'', ymap [(''schema'', YString ''public''), (''name'', YString ''author'')])],
     ymap [(''type'', YString ''create_select_permission''),
       (''args'', ymap [(''table'', YString ''author''), (''role'', YString ''user''), (''permission'', YNull)])],
     ymap [(''type'', YString ''insert''), (''args'', ymap [(''table'', YString ''author''),
       (''objects'', YSequence [ymap [(''name'', YString ''O'')]])])]]"

definition read_only :: select_permission where
  "read_only = \<lparr>sp_columns = Star, sp_filter = JObject [], sp_limit = None, sp_allow_aggregations = False, sp_computed_fields = []\<rparr>"

definition sample_deser :: deser where
  "sample_deser = \<lparr>de_select = (\<lambda>_. Inr read_only), de_insert = (\<lambda>_. Inl []), de_update = (\<lambda>_. Inl []), de_delete = (\<lambda>_. Inl []),
     de_object_rel = (\<lambda>_. Inl []), de_array_rel = (\<lambda>_. Inl []), de_computed_field = (\<lambda>_. Inl []), de_remote_rel = (\<lambda>_. Inl []),
     de_function_configuration = (\<lambda>_. Inl []), de_inherited_role = (\<lambda>_. Inl []), de_remote_schema = (\<lambda>_. Inl []),
     de_remote_permission = (\<lambda>_. Inl []), de_collection = (\<lambda>_. Inl []), de_allowlist = (\<lambda>_. Inl []), de_custom_types = (\<lambda>_. Inl []),
     de_action = (\<lambda>_. Inl [])\<rparr>"

definition served_files :: "path \<Rightarrow> (string list \<times> string) list \<Rightarrow> source list \<Rightarrow> yaml_lib" where
  "served_files dir files sources = \<lparr>
     yl_read = (\<lambda>p. case find (\<lambda>f. file_below dir (fst f) = p) files of Some f \<Rightarrow> Inr (snd f) | None \<Rightarrow> Inl ''not found''),
     yl_exists = (\<lambda>p. list_ex (\<lambda>f. file_below dir (fst f) = p) files), yl_canonicalize = (\<lambda>_. None),
     yl_parse = (\<lambda>c. Inr (if c = ''setup'' then setup_yaml else YString c)), yl_version = (\<lambda>_. Inr 3), yl_sources = (\<lambda>_. Inr sources),
     yl_inherited_roles = (\<lambda>_. Inr []), yl_query_collections = (\<lambda>_. Inr []), yl_allowlist = (\<lambda>_. Inr []),
     yl_remote_schemas = (\<lambda>_. Inr []), yl_actions = (\<lambda>_. Inr ([], no_custom_types))\<rparr>"

definition sample_harness :: harness_env where
  "sample_harness = \<lparr>
     he_fixtures = yaml_lib.extend (served_files (path_of ''fixtures'') [([''setup.yaml''], ''setup'')] []) \<lparr>fl_yaml_string = (\<lambda>_. Inl [])\<rparr>,
     he_fixture_root = path_of ''fixtures'', he_deser = sample_deser, he_parse_query = (\<lambda>_. None), he_json_parse = (\<lambda>_. None),
     he_json_display = (\<lambda>_. []), he_num_display = (\<lambda>_. []), he_execute = (\<lambda>_ _. None), he_admin_url = ''postgres://h/db'',
     he_admin = (\<lambda>_. None), he_postgis = (\<lambda>_. None), he_answer = (\<lambda>_. Some (200, ''ok'')), he_frames = (\<lambda>_. []),
     he_health = [(False, False), (True, False)], he_port = 7, he_metadata_dir = ''md'', he_yaml_sources = (\<lambda>_. Inr ''sources''),
     he_yaml_roles = (\<lambda>_. Inr ''none''), he_yaml_collections = (\<lambda>_. Inr ''none''), he_yaml_allowlist = (\<lambda>_. Inr ''none''),
     he_yaml_remotes = (\<lambda>_. Inr ''none''), he_yaml_actions = (\<lambda>_ _. Inr ''none'')\<rparr>"

definition started_suite :: running where
  "started_suite = projr (start_suite sample_harness (new_suite ''s''))"

definition prepared_suite :: running where
  "prepared_suite = projr (apply_fixture 1 sample_harness ''setup.yaml'' started_suite)"

definition booted_suite :: running where
  "booted_suite = projr (ensure_engine sample_harness prepared_suite)"

lemma prepared_run: "suite_run sample_harness prepared_suite"
proof -
  have "start_suite sample_harness (new_suite ''s'') = Inr started_suite" by code_simp
  moreover have "apply_fixture 1 sample_harness ''setup.yaml'' started_suite = Inr prepared_suite" by code_simp
  ultimately show ?thesis using started applied by metis
qed

lemma prepared_one_table:
  "map te_table (src_tables (hd (md_sources (ru_metadata prepared_suite)))) = [Name ''author'']
   \<and> ru_statements prepared_suite = [''INSERT INTO '' @ dquote ''public'' @ ''.'' @ dquote ''author'' @ '' ('' @ dquote ''name'' @ '') VALUES ('' @ [CHR 0x27] @ ''O'' @ [CHR 0x27] @ '')'']"
  by code_simp

theorem suite_run_invariant_witness:
  "metadata_wf (ru_metadata (snd (projr (post sample_harness ''/v1/graphql'' JNull [] prepared_suite))))
   \<and> (\<exists>p. ''http://127.0.0.1:7/v1/graphql'' = base_url (snd (projr (post sample_harness ''/v1/graphql'' JNull [] prepared_suite))) @ p
        \<and> p \<notin> {''/v1/query'', ''/v2/query'', ''/v1/metadata''})"
proof -
  let ?r = "snd (projr (post sample_harness ''/v1/graphql'' JNull [] prepared_suite))"
  have "post sample_harness ''/v1/graphql'' JNull [] prepared_suite = Inr ((200, JString ''ok''), ?r)" by code_simp
  with prepared_run have run: "suite_run sample_harness ?r" by (rule posted)
  have "HttpPost ''http://127.0.0.1:7/v1/graphql'' JNull [] \<in> set (ru_requests ?r)" by code_simp
  then show ?thesis using suite_run_invariant [OF run] by blast
qed


end
