(* ===== verification/Stubs.thy ===== *)
theory Stubs
  imports Harness Joins
begin

text \<open>
  The two upstream servers the conformance harness runs beside the engine:
  the action webhook, \<open>crates/conformance/src/action_webhook.rs\<close>, and the
  GraphQL service behind remote schemas,
  \<open>crates/conformance/src/remote_graphql.rs\<close>. Both read HTTP requests from
  a raw stream.
\<close>

section \<open>Reading a request\<close>

text \<open>
  A stream is the list of results of its \<open>read\<close> calls: the bytes, none at
  the end of the stream, or \<open>None\<close> for an error; after the list the stream
  has ended.
\<close>

type_synonym stream = "string option list"

definition crlf :: string where
  "crlf = [CHR 0x0D, CHR 0x0A]"

fun find_subslice :: "string \<Rightarrow> string \<Rightarrow> nat option" where
  "find_subslice [] needle = None"
| "find_subslice (x # xs) needle =
     (if starts_with (x # xs) needle then Some 0 else map_option Suc (find_subslice xs needle))"

fun read_head :: "string \<Rightarrow> stream \<Rightarrow> (nat \<times> string \<times> stream) option" where
  "read_head buf [] =
     (case find_subslice buf (crlf @ crlf) of Some pos \<Rightarrow> Some (pos, buf, []) | None \<Rightarrow> None)"
| "read_head buf (chunk # stream) =
     (case find_subslice buf (crlf @ crlf) of
        Some pos \<Rightarrow> Some (pos, buf, chunk # stream)
      | None \<Rightarrow>
          (case chunk of
             None \<Rightarrow> None
           | Some bytes \<Rightarrow> if bytes = [] then None else read_head (buf @ bytes) stream))"

fun read_body :: "string \<Rightarrow> nat \<Rightarrow> stream \<Rightarrow> string option" where
  "read_body body len [] = Some body"
| "read_body body len (chunk # stream) =
     (if length body \<ge> len then Some body
      else case chunk of
        None \<Rightarrow> None
      | Some bytes \<Rightarrow> if bytes = [] then Some body else read_body (body @ bytes) len stream)"

text \<open>The shape both readers share: the head is parsed between the head and the body.\<close>

definition read_message :: "(string \<Rightarrow> ('h \<times> nat) option) \<Rightarrow> stream \<Rightarrow> ('h \<times> string) option" where
  "read_message parse stream =
     Option.bind (read_head [] stream) (\<lambda>(pos, buf, rest).
     Option.bind (parse (take pos buf)) (\<lambda>(h, len).
     Option.bind (read_body (drop (pos + 4) buf) len rest) (\<lambda>body. Some (h, body))))"

text \<open>
  \<open>st_lossy\<close> is \<open>String::from_utf8_lossy\<close>, \<open>st_json\<close> is
  \<open>serde_json::from_slice(..).ok()\<close> and \<open>st_print\<close> \<open>serde_json::to_vec\<close>;
  \<open>st_gql\<close> posts a query to the engine and gives the parsed body, if any;
  \<open>st_parse_error\<close> is the message for a query that does not parse.
\<close>

record stub_env =
  st_lossy :: "string \<Rightarrow> string"
  st_json :: "string \<Rightarrow> json option"
  st_print :: "json \<Rightarrow> string"
  st_gql :: "string \<Rightarrow> json \<Rightarrow> (string \<times> string) list \<Rightarrow> json option"
  st_parse_query :: "string \<Rightarrow> gql_document option"
  st_parse_error :: "string \<Rightarrow> string"

definition json_or_null :: "stub_env \<Rightarrow> string \<Rightarrow> json" where
  "json_or_null env body = (case st_json env body of Some v \<Rightarrow> v | None \<Rightarrow> JNull)"

function split_str :: "string \<Rightarrow> string \<Rightarrow> string list" where
  "split_str p s =
     (if p = [] then [s] else case split_at_str p s of None \<Rightarrow> [s] | Some (a, b) \<Rightarrow> a # split_str p b)"
  by pat_completeness auto
termination
  by (relation "measure (\<lambda>(p, s). length s)") (auto dest!: split_at_str_Some)

declare split_str.simps [simp del]

fun split_whitespace :: "string \<Rightarrow> string \<Rightarrow> string list" where
  "split_whitespace word [] = (if word = [] then [] else [rev word])"
| "split_whitespace word (c # cs) =
     (if is_space c then (if word = [] then [] else [rev word]) @ split_whitespace [] cs
      else split_whitespace (c # word) cs)"

section \<open>The webhook's reader\<close>

definition header_line :: "string \<Rightarrow> (string \<times> string) option" where
  "header_line line = map_option (\<lambda>(k, v). (to_ascii_lowercase (trim k), trim v)) (split_once CHR '':'' line)"

definition length_value :: "string \<Rightarrow> nat" where
  "length_value v = (case parse_u64 v of Some n \<Rightarrow> unat n | None \<Rightarrow> 0)"

text \<open>The last \<open>content-length\<close> header counts.\<close>

definition content_len :: "(string \<times> string) list \<Rightarrow> nat" where
  "content_len headers = fold (\<lambda>(k, v) n. if k = ''content-length'' then length_value v else n) headers 0"

definition parse_head :: "stub_env \<Rightarrow> string \<Rightarrow> ((string \<times> (string \<times> string) list) \<times> nat) option" where
  "parse_head env head =
     (case split_str crlf (st_lossy env head) of
        [] \<Rightarrow> None
      | request_line # ls \<Rightarrow>
          (case split_whitespace [] request_line of
             _ # p # _ \<Rightarrow> (let headers = List.map_filter header_line ls in Some ((p, headers), content_len headers))
           | _ \<Rightarrow> None))"

definition read_request :: "stub_env \<Rightarrow> stream \<Rightarrow> (string \<times> json \<times> (string \<times> string) list) option" where
  "read_request env stream = map_option (\<lambda>((p, headers), body). (p, json_or_null env body, headers)) (read_message (parse_head env) stream)"

definition status_reason :: "16 word \<Rightarrow> string" where
  "status_reason status = (if status = 200 then ''OK'' else if status = 400 then ''Bad Request'' else ''Status'')"

definition write_response :: "stub_env \<Rightarrow> 16 word \<Rightarrow> json \<Rightarrow> string" where
  "write_response env status payload =
     (let body = st_print env payload in
      ''HTTP/1.1 '' @ nat_str (unat status) @ '' '' @ status_reason status @ crlf @ ''Content-Type: application/json'' @ crlf
      @ ''Content-Length: '' @ nat_str (length body) @ crlf @ ''Connection: close'' @ crlf @ crlf @ body)"

section \<open>The webhook's handlers\<close>

definition json_int :: "nat \<Rightarrow> json" where
  "json_int n = JNumber (PosInt (of_nat n))"

definition get_or_null :: "json \<Rightarrow> string \<Rightarrow> json" where
  "get_or_null v k = (case json_get v k of Some w \<Rightarrow> w | None \<Rightarrow> JNull)"

definition str_or_blank :: "json \<Rightarrow> string \<Rightarrow> string" where
  "str_or_blank v k = (case Option.bind (json_get v k) as_str of Some s \<Rightarrow> s | None \<Rightarrow> [])"

definition coded_error :: "string \<Rightarrow> string \<Rightarrow> 16 word \<times> json" where
  "coded_error message code = (400, JObject [(''message'', JString message), (''code'', JString code)])"

definition gql_failed :: "16 word \<times> json" where
  "gql_failed = coded_error ''GraphQL query execution failed'' ''unexpected''"

text \<open>The engine's address comes from the handle, once the harness published it.\<close>

definition engine_gql :: "stub_env \<Rightarrow> engine_info option \<Rightarrow> string \<Rightarrow> json \<Rightarrow> json option" where
  "engine_gql env engine query variables =
     Option.bind engine (\<lambda>info.
       st_gql env (ei_base_url info @ ''/v1/graphql'') (JObject [(''query'', JString query), (''variables'', variables)])
         (case ei_admin_secret info of Some secret \<Rightarrow> [(''X-Hasura-Admin-Secret'', secret)] | None \<Rightarrow> []))"

definition valid_email :: "string \<Rightarrow> bool" where
  "valid_email email =
     (case split_once CHR ''@'' email of
        Some (before_at, domain) \<Rightarrow> before_at \<noteq> [] \<and> CHR ''.'' \<in> set domain \<and> \<not> list_ex is_space email
      | None \<Rightarrow> False)"

definition create_user :: "stub_env \<Rightarrow> engine_info option \<Rightarrow> json \<Rightarrow> 16 word \<times> json" where
  "create_user env engine input =
     (let email = str_or_blank input ''email''; name = str_or_blank input ''name'' in
      if \<not> valid_email email then coded_error ''Given email address is not valid'' ''invalid-email''
      else case engine_gql env engine
          ''mutation ($email: String! $name: String!) { insert_user_one(object: {email: $email, name: $name}){ id } }''
          (JObject [(''email'', JString email), (''name'', JString name)]) of
        None \<Rightarrow> gql_failed
      | Some resp \<Rightarrow>
          (case json_pointer resp ''/data/insert_user_one'' of
             Some user \<Rightarrow> if is_null user then gql_failed else (200, user)
           | None \<Rightarrow> gql_failed))"

definition create_users :: "stub_env \<Rightarrow> engine_info option \<Rightarrow> json \<Rightarrow> 16 word \<times> json" where
  "create_users env engine input =
     (let users = (case Option.bind (json_get input ''users'') as_array of Some us \<Rightarrow> us | None \<Rightarrow> []) in
      case find (\<lambda>u. \<not> valid_email (str_or_blank u ''email'')) users of
        Some u \<Rightarrow> coded_error (''Email address is not valid: '' @ str_or_blank u ''email'') ''invalid-email''
      | None \<Rightarrow>
          (case engine_gql env engine
              ''mutation ($insert_inputs: [user_insert_input!]!){ insert_user(objects: $insert_inputs){ returning { id } } }''
              (JObject [(''insert_inputs'', JArray users)]) of
             None \<Rightarrow> gql_failed
           | Some resp \<Rightarrow>
               (case json_pointer resp ''/data/insert_user/returning'' of
                  Some (JArray returning) \<Rightarrow> (200, JArray returning)
                | _ \<Rightarrow> gql_failed)))"

definition get_users_by_email :: "stub_env \<Rightarrow> engine_info option \<Rightarrow> json \<Rightarrow> bool \<Rightarrow> 16 word \<times> json" where
  "get_users_by_email env engine input single =
     (let email = str_or_blank input ''email'' in
      if \<not> valid_email email then coded_error ''Given email address is not valid'' ''invalid-email''
      else case engine_gql env engine
          ''query get_user($email:String!) { user(where:{email:{_eq:$email}}, order_by: {id: asc}) { id } }''
          (JObject [(''email'', JString email)]) of
        None \<Rightarrow> gql_failed
      | Some resp \<Rightarrow>
          (case Option.bind (json_pointer resp ''/data/user'') as_array of
             None \<Rightarrow> gql_failed
           | Some users \<Rightarrow>
               if single then (case users of u # _ \<Rightarrow> (200, u) | [] \<Rightarrow> gql_failed)
               else (200, JArray users)))"

definition address :: "string \<Rightarrow> string \<Rightarrow> json" where
  "address city country = JObject [(''city'', JString city), (''country'', JString country)]"

definition nest_user :: "json \<Rightarrow> json" where
  "nest_user obj =
     (let i = get_or_null obj ''id'' in
      JObject [(''id'', i), (''user_id'', JObject [(''id'', i)]), (''address'', address ''New York'' ''USA''),
        (''addresses'', JArray [address ''Bangalore'' ''India'', address ''Melbourne'' ''Australia''])])"

definition get_users_by_email_nested :: "stub_env \<Rightarrow> engine_info option \<Rightarrow> json \<Rightarrow> bool \<Rightarrow> 16 word \<times> json" where
  "get_users_by_email_nested env engine input single =
     (let (status, body) = get_users_by_email env engine input single in
      if status \<noteq> 200 then (status, body)
      else if single then (200, nest_user body)
      else (200, JArray (case as_array body of Some us \<Rightarrow> map nest_user us | None \<Rightarrow> [])))"

definition handled_with_engine :: "stub_env \<Rightarrow> string \<Rightarrow> json \<Rightarrow> engine_info option \<Rightarrow> (16 word \<times> json) option" where
  "handled_with_engine env p input engine =
     (if p = ''/create-user'' then Some (create_user env engine input)
      else if p = ''/create-users'' then Some (create_users env engine input)
      else if p = ''/get-user-by-email'' then Some (get_users_by_email env engine input True)
      else if p = ''/get-users-by-email'' then Some (get_users_by_email env engine input False)
      else if p = ''/get-user-by-email-nested'' then Some (get_users_by_email_nested env engine input True)
      else if p = ''/get-users-by-email-nested'' then Some (get_users_by_email_nested env engine input False)
      else None)"

definition id_obj :: "nat \<Rightarrow> (string \<times> json) list \<Rightarrow> json" where
  "id_obj n rest = JObject ((''id'', json_int n) # rest)"

definition recursive_output :: json where
  "recursive_output = JObject [
     (''direct'', id_obj 1 [(''this'', id_obj 2 [(''this'', id_obj 3 [])])]),
     (''list'', id_obj 1 [(''these'', JArray [id_obj 2 [(''these'', JArray [id_obj 3 []])], id_obj 4 []])]),
     (''mutual'', id_obj 1 [(''that'', id_obj 2 [(''other'', id_obj 3 [(''that'', id_obj 4 [])])])])]"

definition dispatch :: "stub_env \<Rightarrow> string \<Rightarrow> json \<Rightarrow> (string \<times> string) list \<Rightarrow> engine_info option \<Rightarrow> 16 word \<times> json" where
  "dispatch env p body headers engine =
     (let input = get_or_null body ''input'' in
      if p = ''/mirror-action'' then (200, get_or_null input ''arg'')
      else if p = ''/mirror-headers'' then
        (200, JObject [(''headers'', JArray (map (\<lambda>(k, v). JObject [(''name'', JString k), (''value'', JString v)]) headers))])
      else if p = ''/intentional-error'' then (400, get_or_null input ''blob'')
      else if p = ''/null-response'' then (200, JNull)
      else if p = ''/omitted-response-field'' then (200, JObject [(''country'', JString ''India'')])
      else if p = ''/scalar-response'' then (200, JString ''some-string'')
      else if p = ''/json-response'' then (200, JObject [(''foo'', JString ''bar'')])
      else if p = ''/custom-scalar-array-response'' then (200, JArray [JObject [(''foo'', JString ''bar'')]])
      else if p = ''/scalar-array-response'' then (200, JArray [JString ''foo'', JString ''bar'', JNull])
      else if p = ''/get-results'' then (200, JObject [(''result_ids'', JArray (map json_int [1, 2, 3, 4]))])
      else if p = ''/typed-nested-null'' then (200, JObject [(''id'', json_int 1), (''child'', JNull)])
      else if p = ''/typed-nested-null-wrong-field'' then (200, JObject [(''id'', JNull), (''child'', JNull)])
      else if p = ''/recursive-output'' then (200, recursive_output)
      else case handled_with_engine env p input engine of Some r \<Rightarrow> r | None \<Rightarrow> (204, JNull))"

text \<open>A connection of the webhook: what is written back, nothing where no request can be read.\<close>

definition serve_webhook :: "stub_env \<Rightarrow> engine_info option \<Rightarrow> stream \<Rightarrow> string option" where
  "serve_webhook env engine stream =
     map_option (\<lambda>(p, body, headers). case dispatch env p body headers engine of (status, payload) \<Rightarrow> write_response env status payload)
       (read_request env stream)"

section \<open>The remote service\<close>

definition all_messages :: "json list" where
  "all_messages = [
     JObject [(''id'', json_int 1), (''name'', JString ''alice''), (''msg'', JString ''You win!'')],
     JObject [(''id'', json_int 2), (''name'', JString ''bob''), (''msg'', JString ''You lose!'')],
     JObject [(''id'', json_int 3), (''name'', JString ''alice''), (''msg'', JString ''Another alice'')]]"

fun as_i64 :: "json \<Rightarrow> int option" where
  "as_i64 (JNumber (PosInt n)) = (if unat n < 2 ^ 63 then Some (int (unat n)) else None)"
| "as_i64 (JNumber (NegInt i)) = Some i"
| "as_i64 _ = None"

definition cmp_int :: "json \<Rightarrow> string \<Rightarrow> json \<Rightarrow> bool" where
  "cmp_int field_value op v =
     (case (as_i64 field_value, as_i64 v) of
        (Some a, Some b) \<Rightarrow>
          (if op = ''eq'' then a = b else if op = ''gt'' then a > b else if op = ''lt'' then a < b else True)
      | _ \<Rightarrow> True)"

definition where_rows :: "json \<Rightarrow> json list \<Rightarrow> json list" where
  "where_rows w rows =
     (let by_id = (case json_get w ''id'' of
            Some (JObject ops) \<Rightarrow> fold (\<lambda>(op, v) rs. filter (\<lambda>m. cmp_int (get_or_null m ''id'') op v) rs) ops rows
          | _ \<Rightarrow> rows) in
      case json_get w ''name'' of
        Some (JObject name) \<Rightarrow>
          (case jmap_get name ''eq'' of Some e \<Rightarrow> filter (\<lambda>m. get_or_null m ''name'' = e) by_id | None \<Rightarrow> by_id)
      | _ \<Rightarrow> by_id)"

definition include_rows :: "json \<Rightarrow> json list \<Rightarrow> json list" where
  "include_rows inc rows =
     (let by_id = (case json_get inc ''id'' of
            Some (JArray ids) \<Rightarrow> filter (\<lambda>m. get_or_null m ''id'' \<in> set ids) rows
          | _ \<Rightarrow> rows) in
      case json_get inc ''name'' of
        Some (JArray names) \<Rightarrow> filter (\<lambda>m. get_or_null m ''name'' \<in> set names) by_id
      | _ \<Rightarrow> by_id)"

text \<open>An argument that is absent or no object filters nothing.\<close>

definition apply_filters :: "json list \<Rightarrow> json option \<Rightarrow> json option \<Rightarrow> json list" where
  "apply_filters rows wanted includes =
     (let kept = (case wanted of Some (JObject w) \<Rightarrow> where_rows (JObject w) rows | _ \<Rightarrow> rows) in
      case includes of Some (JObject inc) \<Rightarrow> include_rows (JObject inc) kept | _ \<Rightarrow> kept)"

definition filter_messages :: "json list \<Rightarrow> jmap \<Rightarrow> json list" where
  "filter_messages rows args = apply_filters rows (jmap_get args ''where'') (jmap_get args ''includes'')"

definition filter_user_messages :: "json list \<Rightarrow> jmap \<Rightarrow> json list" where
  "filter_user_messages rows args = apply_filters rows (jmap_get args ''whered'') (jmap_get args ''includes'')"

fun gql_to_json :: "gql_value \<Rightarrow> jmap \<Rightarrow> json" where
  "gql_to_json (GVariable n) vars = (case jmap_get vars n of Some v \<Rightarrow> v | None \<Rightarrow> JNull)"
| "gql_to_json (GInt n) vars = json_of_i64 n"
| "gql_to_json (GFloat w) vars = json_of_f64 w"
| "gql_to_json (GString s) vars = JString s"
| "gql_to_json (GBoolean b) vars = JBool b"
| "gql_to_json GNull vars = JNull"
| "gql_to_json (GEnum e) vars = JString e"
| "gql_to_json (GList items) vars = JArray (map (\<lambda>v. gql_to_json v vars) items)"
| "gql_to_json (GObject m) vars = JObject (obj_insert_all (map (\<lambda>e. (fst e, gql_to_json (snd e) vars)) m))"

definition arg_map :: "(string \<times> gql_value) list \<Rightarrow> jmap \<Rightarrow> jmap" where
  "arg_map args vars = obj_insert_all (map (\<lambda>(k, v). (k, gql_to_json v vars)) args)"

text \<open>The fields of a selection, in order; fragments are skipped.\<close>

definition stub_fields :: "selection list \<Rightarrow> gql_field list" where
  "stub_fields sel = List.map_filter (\<lambda>s. case s of SField f \<Rightarrow> Some f | _ \<Rightarrow> None) sel"

definition project_with :: "(gql_field \<Rightarrow> json) \<Rightarrow> selection list \<Rightarrow> jmap" where
  "project_with value sel = obj_insert_all (map (\<lambda>f. (field_alias f, value f)) (stub_fields sel))"

definition project_message :: "json \<Rightarrow> selection list \<Rightarrow> json" where
  "project_message row sel =
     JObject (project_with (\<lambda>f. if gf_name f = ''__typename'' then JString ''Message'' else get_or_null row (gf_name f)) sel)"

definition project_passthrough :: "json \<Rightarrow> selection list \<Rightarrow> json" where
  "project_passthrough v sel = (if is_null v then JNull else JObject (project_with (\<lambda>f. get_or_null v (gf_name f)) sel))"

definition user_value :: "json \<Rightarrow> jmap \<Rightarrow> gql_field \<Rightarrow> json" where
  "user_value user_id vars f =
     (if gf_name f = ''user_id'' then user_id
      else if gf_name f = ''__typename'' then JString ''User''
      else if gf_name f = ''gimmeText'' then
        (case jmap_get (arg_map (gf_arguments f) vars) ''text'' of
           Some t \<Rightarrow> if is_null t then JString ''no text'' else t
         | None \<Rightarrow> JString ''no text'')
      else if gf_name f = ''userMessages'' then
        (let rows = filter (\<lambda>m. get_or_null m ''id'' = user_id) all_messages in
         JArray (map (\<lambda>m. project_message m (gf_selection_set f)) (filter_user_messages rows (arg_map (gf_arguments f) vars))))
      else JNull)"

definition project_user :: "json \<Rightarrow> selection list \<Rightarrow> jmap \<Rightarrow> json" where
  "project_user user_id sel vars =
     (if is_null user_id then JNull else JObject (project_with (user_value user_id vars) sel))"

definition resolve_root :: "string \<Rightarrow> jmap \<Rightarrow> selection list \<Rightarrow> jmap \<Rightarrow> json" where
  "resolve_root name args sel vars =
     (let arg = (\<lambda>k. case jmap_get args k of Some v \<Rightarrow> v | None \<Rightarrow> JNull) in
      if name = ''hello'' then JString ''world''
      else if name = ''user'' then project_user (arg ''user_id'') sel vars
      else if name = ''users'' then
        JArray (map (\<lambda>i. project_user i sel vars) (case as_array (arg ''user_ids'') of Some ids \<Rightarrow> ids | None \<Rightarrow> []))
      else if name = ''messages'' then JArray (map (\<lambda>m. project_message m sel) (filter_messages all_messages args))
      else if name = ''communications'' then
        (let rows = (if is_null (arg ''id'') then all_messages else filter (\<lambda>m. get_or_null m ''id'' = arg ''id'') all_messages) in
         JArray (map (\<lambda>m. project_message m sel) rows))
      else if name = ''message'' then
        (case find (\<lambda>m. get_or_null m ''id'' = arg ''id'') all_messages of Some m \<Rightarrow> project_message m sel | None \<Rightarrow> JNull)
      else if name = ''profilePicture'' then project_passthrough (arg ''dimensions'') sel
      else JNull)"

definition gql_error :: "string \<Rightarrow> json" where
  "gql_error message = JObject [(''errors'', JArray [JObject [(''message'', JString message)]])]"

fun operation_selection :: "gql_document \<Rightarrow> selection list option" where
  "operation_selection [] = None"
| "operation_selection (DefOperation (OpQuery _ _ sel) # ds) = Some sel"
| "operation_selection (DefOperation (OpSelectionSet sel) # ds) = Some sel"
| "operation_selection (DefOperation (OpMutation _ _ sel) # ds) = Some sel"
| "operation_selection (d # ds) = operation_selection ds"

definition execute_stub :: "stub_env \<Rightarrow> json \<Rightarrow> json" where
  "execute_stub env body =
     (let query = str_or_blank body ''query'';
          variables = (case Option.bind (json_get body ''variables'') as_object of Some m \<Rightarrow> m | None \<Rightarrow> []) in
      case st_parse_query env query of
        None \<Rightarrow> gql_error (''upstream parse error: '' @ st_parse_error env query)
      | Some doc \<Rightarrow>
          (case operation_selection doc of
             None \<Rightarrow> gql_error ''no operation''
           | Some sel \<Rightarrow>
               JObject [(''data'', JObject (project_with (\<lambda>f.
                 resolve_root (gf_name f) (arg_map (gf_arguments f) variables) (gf_selection_set f) variables) sel))]))"

text \<open>\<open>str::lines\<close> ends lines at a line feed and drops a carriage return before it.\<close>

definition stub_lines :: "string \<Rightarrow> string list" where
  "stub_lines s =
     (let ls = split_char CHR 0x0A s in
      map (\<lambda>l. if l \<noteq> [] \<and> last l = CHR 0x0D then butlast l else l) (butlast ls)
      @ (if last ls = [] then [] else [last ls]))"

text \<open>Here the first \<open>content-length\<close> with a number counts.\<close>

definition first_length :: "string list \<Rightarrow> nat" where
  "first_length ls =
     (case List.map_filter (\<lambda>l. Option.bind (split_once CHR '':'' l) (\<lambda>(k, v).
          if eq_ignore_ascii_case (trim k) ''content-length'' then map_option unat (parse_u64 (trim v)) else None)) ls of
        n # _ \<Rightarrow> n
      | [] \<Rightarrow> 0)"

definition remote_head :: "stub_env \<Rightarrow> string \<Rightarrow> (unit \<times> nat) option" where
  "remote_head env head = Some ((), first_length (stub_lines (st_lossy env head)))"

definition read_remote_request :: "stub_env \<Rightarrow> stream \<Rightarrow> json option" where
  "read_remote_request env stream = map_option (\<lambda>(_, body). json_or_null env body) (read_message (remote_head env) stream)"

definition serve_remote :: "stub_env \<Rightarrow> stream \<Rightarrow> string option" where
  "serve_remote env stream = map_option (\<lambda>body. write_response env 200 (execute_stub env body)) (read_remote_request env stream)"

end
