(* ===== verification/Stubs_Properties.thy ===== *)
theory Stubs_Properties
  imports Stubs
begin

text \<open>How the stub servers read requests: the network's segmentation does not matter.\<close>

section \<open>The head\<close>

lemma starts_with_append: "starts_with xs n \<Longrightarrow> starts_with (xs @ ys) n"
  by (auto simp: starts_with_def strip_prefix_Some_iff)

lemma starts_with_cut: "length n \<le> length xs \<Longrightarrow> starts_with (xs @ ys) n \<Longrightarrow> starts_with xs n"
  by (auto simp: starts_with_def strip_prefix_Some_iff append_eq_append_conv2)

lemma find_subslice_bound: "find_subslice xs n = Some i \<Longrightarrow> i + length n \<le> length xs"
  by (induction xs n arbitrary: i rule: find_subslice.induct)
    (auto simp: starts_with_def strip_prefix_Some_iff split: if_splits dest!: arg_cong [of _ _ length])

lemma find_subslice_append: "find_subslice xs n = Some i \<Longrightarrow> find_subslice (xs @ ys) n = Some i"
proof (induction xs n arbitrary: i rule: find_subslice.induct)
  case (2 x xs n)
  show ?case
  proof (cases "starts_with (x # xs) n")
    case True
    then show ?thesis using 2 starts_with_append [OF True, of ys] by simp
  next
    case False
    then obtain j where j: "find_subslice xs n = Some j" "i = Suc j" using 2 by auto
    then have "length n \<le> length (x # xs)" using find_subslice_bound by fastforce
    then have "\<not> starts_with (x # xs @ ys) n" using False starts_with_cut [of n "x # xs" ys] by auto
    then show ?thesis using 2 False j by simp
  qed
qed simp

text \<open>The bytes of a stream that never fails and ends only at its end.\<close>

definition chunked :: "string list \<Rightarrow> stream" where
  "chunked chunks = map Some chunks"

lemma read_head_chunked:
  assumes "find_subslice whole (crlf @ crlf) = Some pos" "list_all (\<lambda>c. c \<noteq> []) chunks" "buf @ concat chunks = whole"
  shows "\<exists>buf' rest. read_head buf (chunked chunks) = Some (pos, buf', chunked rest) \<and> buf' @ concat rest = whole
    \<and> list_all (\<lambda>c. c \<noteq> []) rest \<and> pos + 4 \<le> length buf'"
  using assms(2,3)
proof (induction chunks arbitrary: buf)
  case Nil
  then show ?case using assms(1) find_subslice_bound [of buf "crlf @ crlf" pos]
    by (auto simp: chunked_def crlf_def intro: exI [of _ "[]"])
next
  case (Cons chunk chunks)
  show ?case
  proof (cases "find_subslice buf (crlf @ crlf)")
    case (Some i)
    then have "i = pos" using find_subslice_append [OF Some, of "concat (chunk # chunks)"] Cons.prems(2) assms(1) by simp
    moreover have "i + 4 \<le> length buf" using find_subslice_bound [OF Some] by (simp add: crlf_def)
    ultimately show ?thesis using Some Cons.prems by (intro exI [of _ buf] exI [of _ "chunk # chunks"]) (simp add: chunked_def)
  next
    case None
    then show ?thesis using Cons.IH [of "buf @ chunk"] Cons.prems by (simp add: chunked_def)
  qed
qed

lemma read_body_chunked:
  "list_all (\<lambda>c. c \<noteq> []) rest \<Longrightarrow> buf @ concat rest = body \<Longrightarrow> read_body buf (length body) (chunked rest) = Some body"
proof (induction rest arbitrary: buf)
  case (Cons chunk rest)
  then have "length buf < length body" by (cases chunk) auto
  then show ?case using Cons.IH [of "buf @ chunk"] Cons.prems by (simp add: chunked_def)
qed (simp add: chunked_def)

lemma read_message_chunked:
  assumes head: "find_subslice (head @ crlf @ crlf) (crlf @ crlf) = Some (length head)"
    and len: "\<And>h n. parse head = Some (h, n) \<Longrightarrow> n = length body"
    and chunks: "list_all (\<lambda>c. c \<noteq> []) chunks" "concat chunks = head @ crlf @ crlf @ body"
  shows "read_message parse (chunked chunks) = map_option (\<lambda>(h, _). (h, body)) (parse head)"
proof -
  have whole: "find_subslice (head @ crlf @ crlf @ body) (crlf @ crlf) = Some (length head)"
    using find_subslice_append [OF head, of body] by simp
  obtain buf rest where r: "read_head [] (chunked chunks) = Some (length head, buf, chunked rest)"
      "buf @ concat rest = head @ crlf @ crlf @ body" "list_all (\<lambda>c. c \<noteq> []) rest" "length head + 4 \<le> length buf"
    using read_head_chunked [OF whole chunks(1), of "[]"] chunks(2) by auto
  have "buf = take (length buf) (head @ crlf @ crlf @ body)" using r(2) by (metis append_eq_conv_conj)
  then have "take (length head) buf = head" using r(4) by (metis add_leD1 append_eq_conv_conj min.absorb1 take_take)
  moreover have "drop (length head + 4) buf @ concat rest = body"
    using arg_cong [OF r(2), of "drop (length head + 4)"] r(4) by (simp add: crlf_def)
  then have "read_body (drop (length head + 4) buf) (length body) (chunked rest) = Some body" by (rule read_body_chunked [OF r(3)])
  ultimately show ?thesis using r(1) len by (cases "parse head") (auto simp: read_message_def)
qed

text \<open>
  C40. However the network cuts a request into reads, the stub servers read the
  same request: for a request whose head ends at its first blank line and
  whose \<open>content-length\<close> is the length of its body, the webhook gives its
  path, headers and parsed body, and the remote service its parsed body, as
  functions of head and body alone.
\<close>

theorem request_read_chunked:
  assumes "find_subslice (head @ crlf @ crlf) (crlf @ crlf) = Some (length head)"
    and "list_all (\<lambda>c. c \<noteq> []) chunks" "concat chunks = head @ crlf @ crlf @ body"
  shows "((\<forall>h n. parse_head env head = Some (h, n) \<longrightarrow> n = length body) \<longrightarrow>
        read_request env (chunked chunks) = map_option (\<lambda>((p, headers), _). (p, json_or_null env body, headers)) (parse_head env head))
    \<and> (first_length (stub_lines (st_lossy env head)) = length body \<longrightarrow>
        read_remote_request env (chunked chunks) = Some (json_or_null env body))"
proof (intro conjI impI)
  assume len: "\<forall>h n. parse_head env head = Some (h, n) \<longrightarrow> n = length body"
  have "read_message (parse_head env) (chunked chunks) = map_option (\<lambda>(h, _). (h, body)) (parse_head env head)"
    by (rule read_message_chunked [OF assms(1) _ assms(2,3)]) (use len in blast)
  then show "read_request env (chunked chunks) = map_option (\<lambda>((p, headers), _). (p, json_or_null env body, headers)) (parse_head env head)"
    unfolding read_request_def by (cases "parse_head env head") auto
next
  assume len: "first_length (stub_lines (st_lossy env head)) = length body"
  have "read_message (remote_head env) (chunked chunks) = map_option (\<lambda>(h, _). (h, body)) (remote_head env head)"
    by (rule read_message_chunked [OF assms(1) _ assms(2,3)]) (use len in \<open>simp add: remote_head_def\<close>)
  then show "read_remote_request env (chunked chunks) = Some (json_or_null env body)"
    by (simp add: read_remote_request_def remote_head_def)
qed

text \<open>A request cut inside the blank line and inside the body.\<close>

definition sample_stub :: stub_env where
  "sample_stub = \<lparr>st_lossy = id, st_json = (\<lambda>b. if b = ''null'' then Some JNull else if b = ''true'' then Some (JBool True) else None),
     st_print = (\<lambda>_. []), st_gql = (\<lambda>_ _ _. None), st_parse_query = (\<lambda>_. None), st_parse_error = (\<lambda>_. [])\<rparr>"

definition sample_head :: string where
  "sample_head = ''POST /hook HTTP/1.1'' @ crlf @ ''Content-Length: 4''"

definition sample_cut :: "string list" where
  "sample_cut = [''POST /hook HT'', ''TP/1.1'' @ crlf @ ''Content-Length: 4'' @ crlf, crlf @ ''t'', ''rue'']"

theorem request_read_chunked_witness:
  "read_request sample_stub (chunked sample_cut) = Some (''/hook'', JBool True, [(''content-length'', ''4'')])
   \<and> read_remote_request sample_stub (chunked sample_cut) = Some (JBool True)"
proof -
  have head: "find_subslice (sample_head @ crlf @ crlf) (crlf @ crlf) = Some (length sample_head)" by code_simp
  have chunks: "list_all (\<lambda>c. c \<noteq> []) sample_cut" "concat sample_cut = sample_head @ crlf @ crlf @ ''true''" by code_simp+
  have four: "parse_u64 ''4'' = Some 4" by (simp add: parse_u64_def starts_with_def is_digit_def Let_def)
  have split: "split_str crlf (st_lossy sample_stub sample_head) = [''POST /hook HTTP/1.1'', ''Content-Length: 4'']"
      "split_whitespace [] ''POST /hook HTTP/1.1'' = [''POST'', ''/hook'', ''HTTP/1.1'']"
      "stub_lines (st_lossy sample_stub sample_head) = [''POST /hook HTTP/1.1'', ''Content-Length: 4'']"
      "header_line ''Content-Length: 4'' = Some (''content-length'', ''4'')" by code_simp+
  have parsed: "parse_head sample_stub sample_head = Some ((''/hook'', [(''content-length'', ''4'')]), 4)"
    by (simp add: parse_head_def split(1,4) four content_len_def length_value_def map_filter_simps is_space_def)
  have keys: "split_once CHR '':'' ''POST /hook HTTP/1.1'' = None" "split_once CHR '':'' ''Content-Length: 4'' = Some (''Content-Length'', '' 4'')"
      "eq_ignore_ascii_case (trim ''Content-Length'') ''content-length''" "trim '' 4'' = ''4''" by code_simp+
  have len: "first_length (stub_lines (st_lossy sample_stub sample_head)) = length ''true''"
    unfolding split first_length_def by (simp only: map_filter_simps keys) (simp add: keys four)
  have body: "json_or_null sample_stub ''true'' = JBool True" by (simp add: json_or_null_def sample_stub_def)
  show ?thesis using request_read_chunked [OF head chunks, of sample_stub] parsed len body by simp
qed

end
