(* ===== verification/Spec2Isabelle.thy ===== *)
theory Spec2Isabelle
  imports Sql_Properties Role_Properties Filter_Properties Plan_Wf Authorization Plan_Injection Mutation_Properties V1_Properties
    Auth_Properties Request_Properties Action_Properties Remote_Properties Introspection_Properties Ws_Properties
    Loader_Properties Snapshot_Properties Boot_Properties Oracle_Properties Harness_Properties Stubs_Properties
begin

text \<open>
  A verification development for \<open>dist-api\<close>, a GraphQL engine over Postgres
  that is configured by metadata in the format of Hasura v2.

  \<^bold>\<open>The program.\<close> A request is authenticated to a session (a role and session
  variables), routed to a remote schema, an action or the engine itself, and
  there planned under the role's permissions into an intermediate
  representation (IR), from which one SQL statement per root is generated and
  run. The engine's configuration is a snapshot of metadata and of the
  catalogs of its databases, taken when the process starts. All sources are
  Rust crates under \<open>src/crates\<close>; each theory names its file.

  \<^bold>\<open>Foundations.\<close> \<open>Prelude\<close> has the vocabulary: Rust strings as byte lists with
  the operations of \<open>str\<close> that the code uses, results as sums with \<open>bindR\<close> for
  the operator \<open>?\<close> and \<open>traverse\<close> for collecting, hash maps as association lists.
  \<open>Json\<close> is \<open>serde_json\<close>; \<open>Dict\<close> states what every map of the program
  promises as the locale \<open>dictionary\<close>, interpreted for hash maps, JSON objects
  and B-trees (and for the table of sources in \<open>Boot_Properties\<close>). Library code
  that is not in the repository is a parameter: the record \<open>extern\<close> for the
  printing and parsing of JSON and numbers, \<open>server_lib\<close> for the GraphQL
  parser and printer, \<open>jwt_lib\<close> for signatures, \<open>yaml_lib\<close> for files and
  YAML, and \<open>world\<close> for HTTP servers and the database, whose answers may
  depend on everything sent before.

  \<^bold>\<open>The compiler.\<close> \<open>Metadata\<close> (\<open>metadata/src/types.rs\<close>), \<open>Catalog\<close>
  (\<open>catalog/src/lib.rs\<close>) and \<open>Ir\<close> (\<open>ir/src/lib.rs\<close>) are the data.
  \<open>Naming\<close>, \<open>Planner\<close>, \<open>Relations\<close>, \<open>Bool_Exps\<close>, \<open>Graphql\<close>,
  \<open>Plan_Args\<close>, \<open>Plan\<close> and \<open>Plan_Mutation\<close> are the crate \<open>schema\<close>
  (\<open>naming.rs\<close>, \<open>predicate.rs\<close>, \<open>plan.rs\<close>, \<open>plan_mutation.rs\<close>), \<open>V1\<close> its
  legacy API (\<open>v1.rs\<close>) and \<open>Introspection\<close> its introspection
  (\<open>introspection.rs\<close>). \<open>Sqlgen\<close> and \<open>Sqlgen_Select\<close> are the crate
  \<open>sqlgen\<close>, with the alias counter threaded and each \<open>panic!\<close> as a value.

  \<^bold>\<open>The server.\<close> \<open>Jwt\<close> (\<open>server/src/jwt.rs\<close>) and \<open>Auth\<close> (\<open>gql.rs\<close>)
  make sessions. \<open>World\<close> is the effect: a computation threads the list of
  requests it sent, so what is sent and in which order is part of each
  result. \<open>Remote\<close> (\<open>remote.rs\<close>), \<open>Action\<close> (\<open>action.rs\<close>), \<open>Joins\<close> and
  \<open>Execute\<close> (\<open>gql.rs\<close> and the handlers of \<open>main.rs\<close>) answer requests;
  \<open>Ws\<close> (\<open>ws.rs\<close>) is a connection as the step relation \<open>ws_step\<close>, one step
  from a suspension point of the loop, of a polling task or of the expiry
  task to the next, in any order.

  \<^bold>\<open>Start-up.\<close> \<open>Loader\<close> (\<open>metadata/src/loader.rs\<close>) reads the directory,
  \<open>Snapshot\<close> (\<open>introspect\<close> of \<open>catalog/src/lib.rs\<close>) builds a catalog from
  rows, \<open>Boot\<close> (\<open>state.rs\<close>, \<open>migrate.rs\<close>, \<open>main\<close>) resolves the command
  line, synchronises sources and ends in a serving state.

  \<^bold>\<open>The conformance crate.\<close> \<open>Oracle\<close> (\<open>conformance/src/lib.rs\<close>) loads fixture
  files and compares expected with actual responses, \<open>Applier\<close> applies setup
  operations to metadata that the harness accumulates, and \<open>Harness\<close> is the
  runner: it seeds the suite's database, writes the metadata directory, starts
  the engine at the first request and checks cases over HTTP and the
  websocket. \<open>Stubs\<close> (\<open>action_webhook.rs\<close>, \<open>remote_graphql.rs\<close>) are the
  servers that actions and remote schemas reach in the tests. What the harness
  deserialises and prints with \<open>serde\<close>, the database, the engine's process and
  the network are the parameters \<open>deser\<close>, \<open>harness_env\<close> and \<open>stub_env\<close>.

  \<^bold>\<open>What is shown.\<close>
  \<^item> Injection. \<open>Sql_Lex\<close> scans SQL into tokens; \<open>Sql_Shape\<close>,
    \<open>Sql_Shape_Select\<close> and \<open>Sql_Shape_Mutation\<close> show that the token skeleton
    of a generated statement does not depend on the contents of strings,
    \<open>Plan_Injection\<close> that the planner passes on only known operators, with
    the one exception it proves. \<open>Sql_Wf\<close>, \<open>Plan_Wf\<close>: no panic of the
    generator is reachable from a request.
  \<^item> Authorization. \<open>Semantics\<close> gives predicates the three-valued logic of
    SQL (locale \<open>row_filter\<close>). \<open>Role_Properties\<close> and \<open>Filter_Properties\<close>
    treat inherited roles and filters; \<open>Plan_Walk\<close> states once, as the
    locale \<open>field_invariant\<close>, what an invariant of output fields must satisfy
    to hold in every plan, and \<open>Authorization\<close>, \<open>Plan_Wf\<close> and
    \<open>Plan_Injection\<close> interpret it; \<open>Mutation_Properties\<close> and
    \<open>V1_Properties\<close> (locale \<open>v1_invariant\<close>) do the same for mutations and the
    legacy API, \<open>Introspection_Properties\<close> for what a role is shown.
  \<^item> Authentication: \<open>Auth_Properties\<close>.
  \<^item> Effects: \<open>Request_Properties\<close> (locale \<open>request_policy\<close>: a policy kept
    by planned SQL, granted actions and permitted remote schemas is kept by
    every request the server sends), \<open>Action_Properties\<close>,
    \<open>Remote_Properties\<close>, \<open>Ws_Properties\<close> (locale \<open>ws_invariant\<close>); this
    theory joins them with authentication.
  \<^item> Start-up: \<open>Loader_Properties\<close>, \<open>Snapshot_Properties\<close>,
    \<open>Boot_Properties\<close>.
  \<^item> The tests: \<open>Oracle_Properties\<close> (the oracle decides equality of
    canonical forms), \<open>Harness_Properties\<close> (runs of a suite as the inductive
    relation \<open>suite_run\<close> with its invariant; the engine's loader reads the
    written directory back as the accumulated metadata) and
    \<open>Stubs_Properties\<close> (requests are read independently of segmentation).

  \<open>Samples\<close> is a small configuration on which hypotheses are discharged.

  \<^bold>\<open>Bounds.\<close> Recursion that the code bounds by the call stack only carries
  fuel, the depth of that stack: fragment spreads in \<open>Graphql\<close> (a fragment
  that spreads itself exhausts any fuel, which is the behaviour of the code;
  every theorem about plans holds for every fuel), role inheritance in
  \<open>Planner\<close> (the number of inherited roles is enough, as
  \<open>Role_Properties\<close> shows by comparing with definitions that carry no fuel),
  and includes in \<open>Loader\<close> (the number of readable files is enough, as
  \<open>Loader_Properties\<close> shows), and, in the conformance crate, fragments of a
  fixture's query (the nesting depth is enough, as \<open>Oracle_Properties\<close> shows)
  and includes of fixtures, which nothing guards against cycles. All other functions are total. Limits and offsets are
  64-bit words, presets and argument counts 32-bit words; request bodies,
  numbers of requests and clocks are natural numbers.

  \<^bold>\<open>Not modelled.\<close> The text of the four catalog queries and the helper
  function installed in the database (they run on Postgres), the parsers of
  GraphQL, YAML, JWT and the command line and the migration runner (libraries),
  logging, the timer of the key refresher, the health and version routes'
  bodies, and of the harness the build of the engine binary, its log files and
  the end of the process. SQL is given a lexical structure and its predicates a meaning; the
  execution of whole statements by Postgres is not part of the model.
\<close>

section \<open>What a connection sends\<close>

definition sends :: "(request \<Rightarrow> bool) \<Rightarrow> ws_conn \<Rightarrow> ws_conn \<Rightarrow> bool" where
  "sends P c c' \<longleftrightarrow> (\<exists>new. wc_history c' = wc_history c @ new \<and> list_all P new)"

lemma sends_same: "wc_history c' = wc_history c \<Longrightarrow> sends P c c'"
  by (simp add: sends_def)

lemma sends_trans: "sends P c c' \<Longrightarrow> sends P c' c'' \<Longrightarrow> sends P c c''"
  by (auto simp: sends_def)

lemma abort_all_history: "wc_history (fold abort_task ns c) = wc_history c"
  by (induction ns arbitrary: c) (simp_all add: abort_task_def)

lemma history_kept [simp]:
  "wc_history (send_frame c f) = wc_history c" "wc_history (ws_finish c) = wc_history c" "wc_history (ws_crash c) = wc_history c"
  "wc_history (schedule_expiry env c) = wc_history c" "wc_history (abort_old old c) = wc_history c" "wc_history (set_task n t c) = wc_history c"
  "wc_history (abort_task n c) = wc_history c"
  by (simp_all add: send_frame_def ws_finish_def abort_all_history ws_crash_def schedule_expiry_def abort_old_def abort_task_def set_task_def split: option.split)

definition authorized :: "ws_env \<Rightarrow> request \<Rightarrow> bool" where
  "authorized env r \<longleftrightarrow> (\<exists>hs s. we_auth env hs = Inr s \<and> allowed_request (we_server env) s r)"

lemma execute_sends:
  assumes "we_auth env hs = Inr session"
  shows "\<exists>new. snd (execute_with (we_server env) session payload relay h) = h @ new \<and> list_all (authorized env) new"
proof -
  have "extends (execute_with (we_server env) session payload relay) (authorized env)"
    unfolding execute_with_def using served.ok_execute_full by (rule extends_mono) (use assms authorized_def in blast)
  then show ?thesis by (simp add: extends_def)
qed

lemma answer_sends: "we_auth env hs = Inr session \<Longrightarrow> sends (authorized env) c (answer_once env c i session payload)"
  by (auto simp: answer_once_def Let_def case_prod_beta sends_def execute_sends split: option.split)

lemma message_sends: "sends (authorized env) c (handle_message env c msg)"
proof -
  have "sends (authorized env) c (handle_start env c frame)" for frame
    by (auto simp: handle_start_def Let_def subscribe_def intro: answer_sends sends_same split: sum.split)
  then show ?thesis
    by (simp add: handle_message_def handle_frame_def handle_init_def handle_stop_def Let_def sends_same split: option.split)
qed

lemma poll_sends:
  assumes "owned env c" "map_of (wc_tasks c) n = Some t"
  shows "sends (authorized env) c (poll_task env c n t)"
proof -
  obtain hs where "we_auth env hs = Inr (tk_session t)"
    using ownedD(4) [OF assms(1) map_of_SomeD [OF assms(2)]] by (auto simp: task_ok_def)
  then show ?thesis
    by (auto simp: poll_task_def Let_def case_prod_beta sends_def execute_sends split: option.split)
qed

lemma step_sends: "ws_step env c e c' \<Longrightarrow> owned env c \<Longrightarrow> sends (authorized env) c c'"
  by (induction rule: ws_step.induct) (auto intro: message_sends poll_sends sends_same simp: deliver_def)

lemma run_sends:
  assumes "ws_run env n (ws_open h now) rs ps c"
  shows "sends (authorized env) (ws_open h now) c"
proof -
  have "owned env c \<and> sends (authorized env) (ws_open h now) c"
    using assms
  proof (induction rule: ws_run.induct)
    case start
    show ?case by (simp add: owned_open sends_same)
  next
    case (more rs ps c e c')
    then show ?case using owned_step step_sends sends_trans by blast
  qed
  then show ?thesis ..
qed


text \<open>A guest's query of the authors over a websocket.\<close>

definition guest_config :: "string auth_config" where
  "guest_config = \<lparr>ac_admin_secret = None, ac_unauthorized_role = Some ''user'', ac_jwt = None, ac_auth_hook = None\<rparr>"

definition guest_server :: server where
  "guest_server = live_server\<lparr>
     sv_lib := sample_server_lib\<lparr>sl_parse_query := (\<lambda>_. Inr [DefOperation (OpQuery None [] [nested_field ''author'' [] [leaf_field ''id'']])])\<rparr>\<rparr>"

definition guest_env :: ws_env where
  "guest_env = live_env\<lparr>we_server := guest_server,
     we_auth := resolve_request_session sample_extern sample_lib (\<lambda>_ _ _. HookFailed []) guest_config\<rparr>"


end
